theory Spec2Isabelle
  imports Main "HOL-Library.Word" "HOL-Library.Monad_Syntax"
begin

unbundle bit_operations_syntax

section \<open>Machine integers and alignment\<close>

type_synonym uint32_t = "32 word"
type_synonym uint64_t = "64 word"

text \<open>Constants of the anonymous namespace of IceTargetLoweringX8632.cpp.\<close>

definition X86_MAX_XMM_ARGS :: nat where "X86_MAX_XMM_ARGS = 4"
definition X86_STACK_ALIGNMENT_BYTES :: uint32_t where "X86_STACK_ALIGNMENT_BYTES = 16"
definition X86_RET_IP_SIZE_BYTES :: uint32_t where "X86_RET_IP_SIZE_BYTES = 4"

text \<open>
  \<^verbatim>\<open>uint32_t applyAlignment(uint32_t Value, uint32_t Alignment)\<close>: the assertion that
  \<open>Alignment\<close> is a power of two (or zero) is the \<open>None\<close> branch; the arithmetic is
  that of 32-bit unsigned integers and wraps.
\<close>

definition applyAlignment :: "uint32_t \<Rightarrow> uint32_t \<Rightarrow> uint32_t option" where
  "applyAlignment Value Alignment =
     (if Alignment AND (Alignment - 1) = 0
      then Some ((Value + Alignment - 1) AND (- Alignment))
      else None)"

definition applyStackAlignment :: "uint32_t \<Rightarrow> uint32_t option" where
  "applyStackAlignment Value = applyAlignment Value X86_STACK_ALIGNMENT_BYTES"

section \<open>IR types\<close>

text \<open>
  The closed set of IR primitive types (the \<open>Type\<close> enumeration used throughout the
  lowering code).
\<close>

datatype Type =
    IceType_void
  | IceType_i1 | IceType_i8 | IceType_i16 | IceType_i32 | IceType_i64
  | IceType_f32 | IceType_f64
  | IceType_v4i1 | IceType_v8i1 | IceType_v16i1
  | IceType_v16i8 | IceType_v8i16 | IceType_v4i32 | IceType_v4f32

text \<open>
  Modelled from the spec: the type attribute table (\<open>ICETYPE_TABLE\<close>) behind
  \<open>isVectorType\<close> and \<open>typeWidthInBytes\<close> is not part of the source files; the
  spec gives each type a byte size and a number of elements, the values below are the
  ones the type names spell out (128-bit vectors, \<open>i1\<close> stored in a byte).
\<close>

fun isVectorType :: "Type \<Rightarrow> bool" where
  "isVectorType IceType_v4i1 = True"
| "isVectorType IceType_v8i1 = True"
| "isVectorType IceType_v16i1 = True"
| "isVectorType IceType_v16i8 = True"
| "isVectorType IceType_v8i16 = True"
| "isVectorType IceType_v4i32 = True"
| "isVectorType IceType_v4f32 = True"
| "isVectorType _ = False"

fun typeWidthInBytes :: "Type \<Rightarrow> uint32_t" where
  "typeWidthInBytes IceType_void = 0"
| "typeWidthInBytes IceType_i1 = 1"
| "typeWidthInBytes IceType_i8 = 1"
| "typeWidthInBytes IceType_i16 = 2"
| "typeWidthInBytes IceType_i32 = 4"
| "typeWidthInBytes IceType_i64 = 8"
| "typeWidthInBytes IceType_f32 = 4"
| "typeWidthInBytes IceType_f64 = 8"
| "typeWidthInBytes _ = 16"

text \<open>
  Modelled from the spec: \<open>typeWidthInBytesOnStack\<close> lives in the target's header,
  which is not part of the source files; stack slots are at least 4 bytes wide
  ("scalars [aligned] to 4"), so the width is rounded up to a multiple of 4.
\<close>

definition typeWidthInBytesOnStack :: "Type \<Rightarrow> uint32_t" where
  "typeWidthInBytesOnStack ty = (typeWidthInBytes ty + 3) AND (NOT 3)"

section \<open>Operand model\<close>

text \<open>
  A \<open>Variable\<close> is a mutable object of the function being compiled: operands and
  instructions refer to it by its index in the function's variable list, and every
  setter of the source is an update of that list. The record follows the spec's data
  model (type, weight, register number, stack offset, defining node, lo/hi halves) and
  the further members the lowering code reads and writes.
\<close>

datatype RegWeight = RegWeight_Zero | RegWeight_Finite nat | RegWeight_Inf

definition NoRegister :: int where "NoRegister = -1"

record Variable =
  Ty :: Type
  Name :: string
  DefNode :: "nat option"
  Weight :: RegWeight
  RegNum :: int
  StackOffset :: int
  IsArgument :: bool
  RegisterPreference :: "nat option"
  AllowRegisterOverlap :: bool
  LoVar :: "nat option"
  HiVar :: "nat option"
  LiveRangeIsEmpty :: bool

datatype Constant =
    ConstantInteger Type uint64_t
  | ConstantFloat uint32_t
  | ConstantDouble uint64_t
  | ConstantRelocatable Type int string
  | ConstantUndef Type

datatype SegmentRegisters = DefaultSegment | SegReg_GS

datatype Portion = Low | High

datatype Operand =
    OpVariable nat
  | OpConstant Constant
  | OpX8632Mem Type "nat option" "Constant option" "nat option" nat SegmentRegisters
  | OpVariableSplit nat Portion

fun constantType :: "Constant \<Rightarrow> Type" where
  "constantType (ConstantInteger ty v) = ty"
| "constantType (ConstantFloat v) = IceType_f32"
| "constantType (ConstantDouble v) = IceType_f64"
| "constantType (ConstantRelocatable ty off name) = ty"
| "constantType (ConstantUndef ty) = ty"

text \<open>
  Modelled from the spec: \<open>GlobalContext::getConstantZero\<close> is not part of the
  source files; "Undef becomes the all-zero constant of that type", and there are no
  vector constants other than undef, so vector (and void) types are the unreachable
  branch.
\<close>

fun getConstantZero :: "Type \<Rightarrow> Constant option" where
  "getConstantZero IceType_i1 = Some (ConstantInteger IceType_i1 0)"
| "getConstantZero IceType_i8 = Some (ConstantInteger IceType_i8 0)"
| "getConstantZero IceType_i16 = Some (ConstantInteger IceType_i16 0)"
| "getConstantZero IceType_i32 = Some (ConstantInteger IceType_i32 0)"
| "getConstantZero IceType_i64 = Some (ConstantInteger IceType_i64 0)"
| "getConstantZero IceType_f32 = Some (ConstantFloat 0)"
| "getConstantZero IceType_f64 = Some (ConstantDouble 0)"
| "getConstantZero _ = None"

section \<open>Machine pseudo-instructions\<close>

text \<open>
  A pseudo-instruction carries an opcode, a destination variable (or none) and its
  source operands, as the emission helpers (\<open>_mov\<close>, \<open>_add\<close>, ...) receive them; a
  branch carries its condition and targets; the fake def/use/kill markers carry
  variables only. \<open>FakeKill\<close> records the instruction it is linked to by that
  instruction's position in the list of inserted instructions.
\<close>

datatype Opcode =
    Mov | Movp | Movd | Movq | Lea
  | Add | Adc | Sub | Sbb | And | Or | Xor | Imul | Mul
  | Cmp | Store | Storep | Storeq | Push | Pop | Ret | Fld | Fstp | Mfence | Ud2
  | Padd | Pand | Por | Pxor | Psub | Pmull | Pmuludq | Pshufd | Shufps | Pcmpeq
  | Addps | Subps | Mulps | Divps
  | Shl | Shr | Sar | Shld | Shrd | Test | Div | Idiv | Cbwdq
  | Addss | Subss | Mulss | Divss

datatype BrCond =
    Br_a | Br_ae | Br_b | Br_be | Br_e | Br_g | Br_ge | Br_l | Br_le | Br_ne | Br_np | Br_p
  | Br_None

datatype InstX8632 =
    X86 Opcode "nat option" "Operand list"
  | X86Br BrCond "nat option" "nat option" "nat option"
  | X86Label nat
  | X86Call "nat option" Operand
  | X86AdjustStack uint32_t
  | FakeDef nat "nat option"
  | FakeUse nat
  | FakeKill "nat list" nat

section \<open>High-level instructions\<close>

datatype OpKind =
    Arith_Add | Arith_Fadd | Arith_Sub | Arith_Fsub | Arith_Mul | Arith_Fmul
  | Arith_Udiv | Arith_Sdiv | Arith_Fdiv | Arith_Urem | Arith_Srem | Arith_Frem
  | Arith_Shl | Arith_Lshr | Arith_Ashr | Arith_And | Arith_Or | Arith_Xor

datatype ICond =
    Icmp_Eq | Icmp_Ne | Icmp_Ugt | Icmp_Uge | Icmp_Ult | Icmp_Ule
  | Icmp_Sgt | Icmp_Sge | Icmp_Slt | Icmp_Sle

datatype CastKind =
    Cast_Trunc | Cast_Zext | Cast_Sext | Cast_Fptoui | Cast_Fptosi | Cast_Uitofp
  | Cast_Sitofp | Cast_Fptrunc | Cast_Fpext | Cast_Bitcast | Cast_num

datatype IntrinsicID =
    UnknownIntrinsic
  | AtomicCmpxchg | AtomicFence | AtomicFenceAll | AtomicIsLockFree
  | AtomicLoad | AtomicRMW | AtomicStore
  | Bswap | Ctpop | Ctlz | Cttz | Longjmp | Memcpy | Memmove | Memset
  | NaClReadTP | Setjmp | Sqrt | Stacksave | Stackrestore | Trap

text \<open>
  The instructions of the IR that the lowering rules below receive. A conditional
  \<open>InstBr\<close> has a condition operand and two target nodes, an unconditional one a
  target only. \<open>InstSwitch\<close> has the comparison operand, the default label and the
  list of (value, label) cases.
\<close>

datatype InstKind =
    InstArithmetic OpKind nat Operand Operand
  | InstAssign nat Operand
  | InstBr "Operand option" nat nat
  | InstCall "nat option" Operand "Operand list" bool
  | InstCast CastKind nat Operand
  | InstIcmp ICond nat Operand Operand
  | InstIntrinsicCall IntrinsicID "nat option" "Operand list"
  | InstPhi nat
  | InstRet "Operand option"
  | InstStore Operand Operand
  | InstSwitch Operand nat "(uint64_t \<times> nat) list"

text \<open>
  An instruction in a node's list: its kind, the deleted mark, and the liveness
  information \<open>isLastUse\<close> reads (the variables whose live range ends in it).
\<close>

record Inst =
  Kind :: InstKind
  Deleted :: bool
  LiveRangesEnded :: "nat list"

definition isLastUse :: "Inst \<Rightarrow> Operand \<Rightarrow> bool" where
  "isLastUse I TestSrc =
     (case TestSrc of OpVariable v \<Rightarrow> v \<in> set (LiveRangesEnded I) | _ \<Rightarrow> False)"

section \<open>Target description\<close>

text \<open>
  The register table (\<open>REGX8632_TABLE\<close>), the icmp condition table
  (\<open>ICMPX8632_TABLE\<close>, from which the source builds \<open>TableIcmp32\<close> and
  \<open>TableIcmp64\<close>) and \<open>Intrinsics::VerifyMemoryOrder\<close> are not part of the
  source files: they are parameters of the model. \<open>InstructionSet\<close> is the value of
  the \<open>-mattr\<close> flag.
\<close>

datatype X86InstructionSet = SSE2 | SSE4_1

record Target =
  Reg_eax :: int
  Reg_ecx :: int
  Reg_edx :: int
  Reg_ebx :: int
  Reg_esp :: int
  Reg_ebp :: int
  Reg_ah :: int
  Reg_xmm0 :: int
  ScratchRegs :: "bool list"
  PreservedRegs :: "bool list"
  InstructionSet :: X86InstructionSet
  TableIcmp32 :: "ICond \<Rightarrow> BrCond"
  TableIcmp64 :: "ICond \<Rightarrow> BrCond \<times> BrCond \<times> BrCond"
  VerifyMemoryOrder :: "uint64_t \<Rightarrow> bool"

section \<open>Lowering state\<close>

text \<open>
  The state a lowering rule works on: the function's variables and error state, the
  target's members (\<open>PhysicalRegisters\<close>, \<open>NeedsStackAlignment\<close>,
  \<open>IsEbpBasedFrame\<close>, \<open>SpillAreaSizeBytes\<close>, \<open>NextLabelNumber\<close>) and the lowering
  context: the node being lowered, the instructions of the node (with the position
  \<open>Next\<close> of the instruction after the current one) and the pseudo-instructions
  inserted so far, in insertion order.
\<close>

record LoweringState =
  Variables :: "Variable list"
  Args :: "nat list"
  HasError :: bool
  ErrorMessage :: string
  PhysicalRegisters :: "nat option list"
  NeedsStackAlignment :: bool
  IsEbpBasedFrame :: bool
  SpillAreaSizeBytes :: nat
  NextLabelNumber :: nat
  Node :: nat
  NodeInsts :: "Inst list"
  Next :: nat
  Inserted :: "InstX8632 list"

text \<open>
  Modelled from the spec: \<open>Cfg::setError\<close> is not part of the source files; it
  "sets the function's error state with a human-readable message".
\<close>

definition setError :: "string \<Rightarrow> LoweringState \<Rightarrow> LoweringState" where
  "setError Message s = s\<lparr>HasError := True, ErrorMessage := Message\<rparr>"

text \<open>
  Modelled from the spec: \<open>Cfg::makeVariable\<close> and the constructor of \<open>Variable\<close>
  are not part of the source files; a new variable gets the next index, the given type,
  node and name, a finite weight, no register, no stack offset and no halves.
\<close>

definition newVariable :: "Type \<Rightarrow> nat option \<Rightarrow> string \<Rightarrow> Variable" where
  "newVariable ty node name =
     \<lparr>Ty = ty, Name = name, DefNode = node, Weight = RegWeight_Finite 1,
      RegNum = NoRegister, StackOffset = 0, IsArgument = False,
      RegisterPreference = None, AllowRegisterOverlap = False,
      LoVar = None, HiVar = None, LiveRangeIsEmpty = False\<rparr>"

definition makeVariable ::
  "Type \<Rightarrow> nat option \<Rightarrow> string \<Rightarrow> LoweringState \<Rightarrow> nat \<times> LoweringState" where
  "makeVariable ty node name s =
     (length (Variables s), s\<lparr>Variables := Variables s @ [newVariable ty node name]\<rparr>)"

definition getVar :: "LoweringState \<Rightarrow> nat \<Rightarrow> Variable" where
  "getVar s v = Variables s ! v"

definition updVar :: "nat \<Rightarrow> (Variable \<Rightarrow> Variable) \<Rightarrow> LoweringState \<Rightarrow> LoweringState" where
  "updVar v f s = s\<lparr>Variables := (Variables s)[v := f (Variables s ! v)]\<rparr>"

definition hasReg :: "LoweringState \<Rightarrow> nat \<Rightarrow> bool" where
  "hasReg s v = (RegNum (getVar s v) \<noteq> NoRegister)"

definition setRegNum :: "nat \<Rightarrow> int \<Rightarrow> LoweringState \<Rightarrow> LoweringState" where
  "setRegNum v r = updVar v (\<lambda>x. x\<lparr>RegNum := r\<rparr>)"

definition setWeightInfinite :: "nat \<Rightarrow> LoweringState \<Rightarrow> LoweringState" where
  "setWeightInfinite v = updVar v (\<lambda>x. x\<lparr>Weight := RegWeight_Inf\<rparr>)"

definition setPreferredRegister :: "nat \<Rightarrow> nat \<Rightarrow> bool \<Rightarrow> LoweringState \<Rightarrow> LoweringState" where
  "setPreferredRegister v Prefer Overlap =
     updVar v (\<lambda>x. x\<lparr>RegisterPreference := Some Prefer, AllowRegisterOverlap := Overlap\<rparr>)"

fun getType :: "LoweringState \<Rightarrow> Operand \<Rightarrow> Type" where
  "getType s (OpVariable v) = Ty (getVar s v)"
| "getType s (OpConstant c) = constantType c"
| "getType s (OpX8632Mem ty Base Offset Index Shift Seg) = ty"
| "getType s (OpVariableSplit v p) = IceType_i32"

text \<open>\<open>Context.insert\<close>: the instruction goes to the end of the inserted sequence.\<close>

definition Context_insert :: "InstX8632 \<Rightarrow> LoweringState \<Rightarrow> LoweringState" where
  "Context_insert I s = s\<lparr>Inserted := Inserted s @ [I]\<rparr>"

text \<open>
  The emission helpers \<open>_mov(Dest, Src)\<close>, \<open>_add(Dest, Src)\<close>, \<open>_cmp(Src0, Src1)\<close>,
  ... of the source each create one pseudo-instruction from their arguments and insert
  it: \<open>ins Op Dest Srcs\<close>.
\<close>

definition ins :: "Opcode \<Rightarrow> nat option \<Rightarrow> Operand list \<Rightarrow> LoweringState \<Rightarrow> LoweringState" where
  "ins Op Dest Srcs = Context_insert (X86 Op Dest Srcs)"

text \<open>
  \<open>getPhysicalRegister\<close>: the canonical \<open>i32\<close> variable of a physical register,
  created on first use and pre-coloured with the register. \<open>PhysicalRegisters\<close> is a
  vector of \<open>Reg_NUM\<close> entries, \<open>None\<close> for \<open>NULL\<close>; the assertion that the register
  number is in range is the \<open>None\<close> result.
\<close>

definition getPhysicalRegister :: "int \<Rightarrow> LoweringState \<Rightarrow> (nat \<times> LoweringState) option" where
  "getPhysicalRegister r s =
     (if \<not> (0 \<le> r \<and> nat r < length (PhysicalRegisters s)) then None
      else
        (case PhysicalRegisters s ! nat r of
           Some Reg \<Rightarrow> Some (Reg, s)
         | None \<Rightarrow>
             (let (Reg, s1) = makeVariable IceType_i32 None [] s;
                  s2 = setRegNum Reg r s1
              in Some (Reg, s2\<lparr>PhysicalRegisters := (PhysicalRegisters s2)[nat r := Some Reg]\<rparr>))))"

text \<open>
  \<open>makeReg\<close>: a fresh variable that must end up in a register: infinite weight, or
  pre-coloured with \<open>r\<close>. The assertion \<open>Type != IceType_i64\<close> is the \<open>None\<close> branch.
\<close>

definition makeReg :: "Type \<Rightarrow> int \<Rightarrow> LoweringState \<Rightarrow> (nat \<times> LoweringState) option" where
  "makeReg ty r s =
     (if ty = IceType_i64 then None
      else (let (Reg, s1) = makeVariable ty (Some (Node s)) [] s
            in Some (Reg, if r = NoRegister then setWeightInfinite Reg s1
                          else setRegNum Reg r s1)))"

text \<open>
  Modelled from the spec: \<open>_mov(T, Src, RegNum)\<close> with \<open>T == NULL\<close> is defined in the
  target's header, which is not part of the source files; in the lowering templates
  "\<open>T\<close> denote[s] fresh virtual registers": \<open>T\<close> is made by \<open>makeReg\<close> (pinned to
  \<open>RegNum\<close> when one is given) and the move into it is inserted.
\<close>

definition mov_new :: "Operand \<Rightarrow> int \<Rightarrow> LoweringState \<Rightarrow> (nat \<times> LoweringState) option" where
  "mov_new Src r s =
     do { (T, s1) \<leftarrow> makeReg (getType s Src) r s;
          Some (T, ins Mov (Some T) [Src] s1) }"

definition makeVectorOfZeros :: "Type \<Rightarrow> int \<Rightarrow> LoweringState \<Rightarrow> (nat \<times> LoweringState) option" where
  "makeVectorOfZeros ty r s =
     do { (Reg, s1) \<leftarrow> makeReg ty r s;
          Some (Reg, ins Pxor (Some Reg) [OpVariable Reg] (Context_insert (FakeDef Reg None) s1)) }"

text \<open>\<open>copyToReg\<close>: helper of \<open>legalize\<close>, a move into a fresh register variable.\<close>

definition copyToReg :: "Operand \<Rightarrow> int \<Rightarrow> LoweringState \<Rightarrow> (nat \<times> LoweringState) option" where
  "copyToReg Src r s =
     do { (Reg, s1) \<leftarrow> makeReg (getType s Src) r s;
          Some (Reg, if isVectorType (getType s Src) then ins Movp (Some Reg) [Src] s1
                     else ins Mov (Some Reg) [Src] s1) }"

section \<open>Legalization\<close>

text \<open>
  Modelled from the spec: the \<open>LegalMask\<close> enumeration is declared in the target's
  header, which is not part of the source files; "\<open>allowed \<subseteq> {Reg, Mem, Imm, Reloc}\<close>".
  \<open>Allowed & Legal_Mem\<close> is membership, \<open>Legal_Reg | Legal_Mem\<close> is the set of both,
  \<open>Legal_All\<close> is the set of all four.
\<close>

datatype OperandLegalization = Legal_Reg | Legal_Imm | Legal_Mem | Legal_Reloc

type_synonym LegalMask = "OperandLegalization set"

definition Legal_All :: LegalMask where
  "Legal_All = {Legal_Reg, Legal_Imm, Legal_Mem, Legal_Reloc}"

fun isConstantUndef :: "Constant \<Rightarrow> bool" where
  "isConstantUndef (ConstantUndef ty) = True"
| "isConstantUndef _ = False"

fun isConstantRelocatable :: "Constant \<Rightarrow> bool" where
  "isConstantRelocatable (ConstantRelocatable ty off name) = True"
| "isConstantRelocatable _ = False"

text \<open>
  \<open>legalize\<close> and its wrapper \<open>legalizeToVar\<close>. The two assertions at the head of
  \<open>legalize\<close>, the assertion that only undef constants have vector type, the cast of
  \<open>legalizeToVar\<close> and the final \<open>llvm_unreachable\<close> are \<open>None\<close>.
\<close>

function legalize ::
    "Operand \<Rightarrow> LegalMask \<Rightarrow> bool \<Rightarrow> int \<Rightarrow> LoweringState \<Rightarrow> (Operand \<times> LoweringState) option"
  and legalizeToVar ::
    "Operand \<Rightarrow> bool \<Rightarrow> int \<Rightarrow> LoweringState \<Rightarrow> (nat \<times> LoweringState) option"
where
  "legalize From Allowed AllowOverlap r s =
     (if Legal_Reg \<notin> Allowed then None
      else if \<not> (r = NoRegister \<or> Allowed = {Legal_Reg}) then None
      else
        (case From of
           OpX8632Mem ty Base Offset Index Shift Seg \<Rightarrow>
             do {
               (RegBase, s1) \<leftarrow>
                  (case Base of
                     None \<Rightarrow> Some (None, s)
                   | Some b \<Rightarrow>
                       do { (v, s') \<leftarrow> legalizeToVar (OpVariable b) True NoRegister s;
                            Some (Some v, s') });
               (RegIndex, s2) \<leftarrow>
                  (case Index of
                     None \<Rightarrow> Some (None, s1)
                   | Some i \<Rightarrow>
                       do { (v, s') \<leftarrow> legalizeToVar (OpVariable i) True NoRegister s1;
                            Some (Some v, s') });
               let From1 = (if Base \<noteq> RegBase \<or> Index \<noteq> RegIndex
                            then OpX8632Mem ty RegBase Offset RegIndex Shift Seg
                            else From);
               if Legal_Mem \<notin> Allowed
               then do { (Reg, s3) \<leftarrow> copyToReg From1 r s2; Some (OpVariable Reg, s3) }
               else Some (From1, s2)
             }
         | OpConstant c \<Rightarrow>
             (if isConstantUndef c \<and> isVectorType (constantType c)
              then do { (Reg, s1) \<leftarrow> makeVectorOfZeros (constantType c) NoRegister s;
                        Some (OpVariable Reg, s1) }
              else
                do {
                  c1 \<leftarrow> (if isConstantUndef c then getConstantZero (constantType c)
                         else Some c);
                  if isVectorType (constantType c1) then None
                  else
                    (let NeedsReg =
                           (Legal_Imm \<notin> Allowed
                            \<or> (Legal_Reloc \<notin> Allowed \<and> isConstantRelocatable c1)
                            \<or> (Legal_Mem \<notin> Allowed
                                \<and> (constantType c1 = IceType_f32
                                    \<or> constantType c1 = IceType_f64)))
                     in if NeedsReg
                        then do { (Reg, s1) \<leftarrow> copyToReg (OpConstant c1) r s;
                                  Some (OpVariable Reg, s1) }
                        else Some (OpConstant c1, s))
                })
         | OpVariable Var \<Rightarrow>
             (let MustHaveRegister = (hasReg s Var \<or> Weight (getVar s Var) = RegWeight_Inf)
              in if (Legal_Mem \<notin> Allowed \<and> \<not> MustHaveRegister)
                    \<or> (r \<noteq> NoRegister \<and> r \<noteq> RegNum (getVar s Var))
                 then do { (Reg, s1) \<leftarrow> copyToReg From r s;
                           Some (OpVariable Reg,
                                 if r = NoRegister
                                 then setPreferredRegister Reg Var AllowOverlap s1
                                 else s1) }
                 else Some (From, s))
         | OpVariableSplit v p \<Rightarrow> None))"
| "legalizeToVar From AllowOverlap r s =
     do { (Op, s1) \<leftarrow> legalize From {Legal_Reg} AllowOverlap r s;
          (case Op of OpVariable v \<Rightarrow> Some (v, s1) | _ \<Rightarrow> None) }"
  by pat_completeness auto
termination
  by (relation "measure (\<lambda>x. case x of
          Inl (From, Allowed, AllowOverlap, r, s) \<Rightarrow>
            (case From of OpX8632Mem ty Base Offset Index Shift Seg \<Rightarrow> 2 | _ \<Rightarrow> 0)
        | Inr (From, AllowOverlap, r, s) \<Rightarrow>
            (case From of OpX8632Mem ty Base Offset Index Shift Seg \<Rightarrow> 3 | _ \<Rightarrow> 1))")
     (auto split: Operand.splits)

declare legalize.simps [simp del] legalizeToVar.simps [simp del]

section \<open>64-bit splitting\<close>

definition setLoHi :: "nat \<Rightarrow> nat \<Rightarrow> nat \<Rightarrow> LoweringState \<Rightarrow> LoweringState" where
  "setLoHi v Lo Hi = updVar v (\<lambda>x. x\<lparr>LoVar := Some Lo, HiVar := Some Hi\<rparr>)"

definition setIsArg :: "nat \<Rightarrow> bool \<Rightarrow> LoweringState \<Rightarrow> LoweringState" where
  "setIsArg v b = updVar v (\<lambda>x. x\<lparr>IsArgument := b\<rparr>)"

text \<open>
  \<open>split64\<close>: for a variable of type \<open>i64\<close> or \<open>f64\<close> that has no halves yet, two
  new \<open>i32\<close> variables named after it. The assertions relating \<open>Lo\<close> and \<open>Hi\<close> are
  the \<open>None\<close> branches.
\<close>

definition split64 :: "nat \<Rightarrow> LoweringState \<Rightarrow> LoweringState option" where
  "split64 Var s =
     (if Ty (getVar s Var) \<noteq> IceType_i64 \<and> Ty (getVar s Var) \<noteq> IceType_f64 then Some s
      else
        (case LoVar (getVar s Var) of
           Some Lo \<Rightarrow> (if HiVar (getVar s Var) = None then None else Some s)
         | None \<Rightarrow>
             if HiVar (getVar s Var) \<noteq> None then None
             else
               (let (Lo, s1) = makeVariable IceType_i32 (Some (Node s))
                                 (Name (getVar s Var) @ ''__lo'') s;
                    (Hi, s2) = makeVariable IceType_i32 (Some (Node s))
                                 (Name (getVar s Var) @ ''__hi'') s1;
                    s3 = setLoHi Var Lo Hi s2
                in Some (if IsArgument (getVar s3 Var)
                         then setIsArg Hi True (setIsArg Lo True s3)
                         else s3))))"

text \<open>
  \<open>loOperand\<close> and \<open>hiOperand\<close>: the 32-bit halves of an \<open>i64\<close> operand. The
  assertion on the type, the \<open>llvm_unreachable\<close> for other operand kinds and a
  variable left without halves are \<open>None\<close>.
\<close>

definition loOperand :: "Operand \<Rightarrow> LoweringState \<Rightarrow> (Operand \<times> LoweringState) option" where
  "loOperand Operand s =
     (if getType s Operand \<noteq> IceType_i64 then None
      else
        (case Operand of
           OpVariable Var \<Rightarrow>
             do { s1 \<leftarrow> split64 Var s;
                  Lo \<leftarrow> LoVar (getVar s1 Var);
                  Some (OpVariable Lo, s1) }
         | OpConstant (ConstantInteger ty v) \<Rightarrow>
             Some (OpConstant (ConstantInteger IceType_i32 (v AND (push_bit 32 1 - 1))), s)
         | OpX8632Mem ty Base Offset Index Shift Seg \<Rightarrow>
             Some (OpX8632Mem IceType_i32 Base Offset Index Shift Seg, s)
         | _ \<Rightarrow> None))"

definition hiOperand :: "Operand \<Rightarrow> LoweringState \<Rightarrow> (Operand \<times> LoweringState) option" where
  "hiOperand Operand s =
     (if getType s Operand \<noteq> IceType_i64 then None
      else
        (case Operand of
           OpVariable Var \<Rightarrow>
             do { s1 \<leftarrow> split64 Var s;
                  Hi \<leftarrow> HiVar (getVar s1 Var);
                  Some (OpVariable Hi, s1) }
         | OpConstant (ConstantInteger ty v) \<Rightarrow>
             Some (OpConstant (ConstantInteger IceType_i32 (drop_bit 32 v)), s)
         | OpX8632Mem ty Base Offset Index Shift Seg \<Rightarrow>
             (let Offset1 =
                    (case Offset of
                       None \<Rightarrow> Some (ConstantInteger IceType_i32 4)
                     | Some (ConstantInteger oty ov) \<Rightarrow>
                         Some (ConstantInteger IceType_i32 (4 + ov))
                     | Some (ConstantRelocatable oty ooff name) \<Rightarrow>
                         Some (ConstantRelocatable IceType_i32 (4 + ooff) name)
                     | Some c \<Rightarrow> Some c)
              in Some (OpX8632Mem IceType_i32 Base Offset1 Index Shift Seg, s))
         | _ \<Rightarrow> None))"

section \<open>Branches and labels\<close>

text \<open>
  The four forms of \<open>_br\<close>: to a node, on a condition to a node, on a condition to
  one of two nodes, and on a condition to a label inside the block.
\<close>

definition br :: "nat \<Rightarrow> LoweringState \<Rightarrow> LoweringState" where
  "br Target = Context_insert (X86Br Br_None None (Some Target) None)"

definition br_cond :: "BrCond \<Rightarrow> nat \<Rightarrow> LoweringState \<Rightarrow> LoweringState" where
  "br_cond Condition Target = Context_insert (X86Br Condition (Some Target) None None)"

definition br_cond2 :: "BrCond \<Rightarrow> nat \<Rightarrow> nat \<Rightarrow> LoweringState \<Rightarrow> LoweringState" where
  "br_cond2 Condition TargetTrue TargetFalse =
     Context_insert (X86Br Condition (Some TargetTrue) (Some TargetFalse) None)"

definition br_label :: "BrCond \<Rightarrow> nat \<Rightarrow> LoweringState \<Rightarrow> LoweringState" where
  "br_label Condition Label = Context_insert (X86Br Condition None None (Some Label))"

text \<open>\<open>InstX8632Label::create\<close>: labels are numbered by a counter of the target.\<close>

definition makeLabel :: "LoweringState \<Rightarrow> nat \<times> LoweringState" where
  "makeLabel s = (NextLabelNumber s, s\<lparr>NextLabelNumber := NextLabelNumber s + 1\<rparr>)"

section \<open>Switch, phi, branch\<close>

fun lowerSwitch_cases :: "Operand \<Rightarrow> (uint64_t \<times> nat) list \<Rightarrow> LoweringState \<Rightarrow> LoweringState" where
  "lowerSwitch_cases Src0 [] s = s"
| "lowerSwitch_cases Src0 ((Value, Label) # Cases) s =
     lowerSwitch_cases Src0 Cases
       (br_cond Br_e Label
          (ins Cmp None [Src0, OpConstant (ConstantInteger IceType_i32 Value)] s))"

definition lowerSwitch ::
  "Operand \<Rightarrow> nat \<Rightarrow> (uint64_t \<times> nat) list \<Rightarrow> LoweringState \<Rightarrow> LoweringState option" where
  "lowerSwitch Comparison LabelDefault Cases s =
     do { (Src0, s1) \<leftarrow>
            (if length Cases \<ge> 2
             then do { (v, s') \<leftarrow> legalizeToVar Comparison True NoRegister s;
                       Some (OpVariable v, s') }
             else legalize Comparison {Legal_Reg, Legal_Mem} True NoRegister s);
          Some (br LabelDefault (lowerSwitch_cases Src0 Cases s1)) }"

definition lowerPhi :: "LoweringState \<Rightarrow> LoweringState option" where
  "lowerPhi s = Some (setError ''Phi found in regular instruction list'' s)"

definition lowerBr :: "Operand option \<Rightarrow> nat \<Rightarrow> nat \<Rightarrow> LoweringState \<Rightarrow> LoweringState option" where
  "lowerBr Condition TargetTrue TargetFalse s =
     (case Condition of
        None \<Rightarrow> Some (br TargetTrue s)
      | Some c \<Rightarrow>
          do { (Src0, s1) \<leftarrow> legalize c {Legal_Reg, Legal_Mem} False NoRegister s;
               Some (br_cond2 Br_ne TargetTrue TargetFalse
                       (ins Cmp None [Src0, OpConstant (ConstantInteger IceType_i32 0)] s1)) })"

section \<open>Casts and intrinsic calls: validation of the instruction\<close>

text \<open>
  \<open>lowerCast\<close> is a switch on the cast kind whose default branch rejects the
  instruction. The lowering sequences of the ten supported kinds are not embedded:
  they are the parameter \<open>lowerSupported\<close>.
\<close>

definition lowerCast ::
  "(CastKind \<Rightarrow> nat \<Rightarrow> Operand \<Rightarrow> LoweringState \<Rightarrow> LoweringState option)
   \<Rightarrow> CastKind \<Rightarrow> nat \<Rightarrow> Operand \<Rightarrow> LoweringState \<Rightarrow> LoweringState option" where
  "lowerCast lowerSupported CastKind Dest Src0 s =
     (case CastKind of
        Cast_num \<Rightarrow> Some (setError ''Cast type not supported'' s)
      | _ \<Rightarrow> lowerSupported CastKind Dest Src0 s)"

text \<open>
  \<open>llvm::cast<ConstantInteger>(Instr->getArg(n))->getValue()\<close>: the cast asserts; an
  argument that is missing or not an integer constant is \<open>None\<close>.
\<close>

definition getArgConstantInteger :: "Operand list \<Rightarrow> nat \<Rightarrow> uint64_t option" where
  "getArgConstantInteger args n =
     (if n < length args
      then (case args ! n of OpConstant (ConstantInteger ty v) \<Rightarrow> Some v | _ \<Rightarrow> None)
      else None)"

text \<open>
  \<open>lowerIntrinsicCall\<close>: the switch on the intrinsic ID with the checks each branch
  makes before it lowers anything. \<open>AtomicFence\<close>, \<open>AtomicFenceAll\<close>,
  \<open>AtomicIsLockFree\<close>, \<open>Trap\<close> and \<open>UnknownIntrinsic\<close> are embedded in full; for the
  other intrinsics the lowering that follows the checks is the parameter
  \<open>lowerValid\<close>.
\<close>

definition lowerIntrinsicCall ::
  "Target
   \<Rightarrow> (IntrinsicID \<Rightarrow> nat option \<Rightarrow> Operand list \<Rightarrow> LoweringState \<Rightarrow> LoweringState option)
   \<Rightarrow> IntrinsicID \<Rightarrow> nat option \<Rightarrow> Operand list \<Rightarrow> LoweringState \<Rightarrow> LoweringState option" where
  "lowerIntrinsicCall T lowerValid ID Dest args s =
     (case ID of
        AtomicCmpxchg \<Rightarrow>
          do { o3 \<leftarrow> getArgConstantInteger args 3;
               if \<not> VerifyMemoryOrder T o3
               then Some (setError ''Unexpected memory ordering (success) for AtomicCmpxchg'' s)
               else
                 do { o4 \<leftarrow> getArgConstantInteger args 4;
                      if \<not> VerifyMemoryOrder T o4
                      then Some (setError
                                   ''Unexpected memory ordering (failure) for AtomicCmpxchg'' s)
                      else lowerValid ID Dest args s } }
      | AtomicFence \<Rightarrow>
          do { o0 \<leftarrow> getArgConstantInteger args 0;
               if \<not> VerifyMemoryOrder T o0
               then Some (setError ''Unexpected memory ordering for AtomicFence'' s)
               else Some (ins Mfence None [] s) }
      | AtomicFenceAll \<Rightarrow> Some (ins Mfence None [] s)
      | AtomicIsLockFree \<Rightarrow>
          (if 0 < length args
           then
             (case args ! 0 of
                OpConstant (ConstantInteger ty v) \<Rightarrow>
                  (let Result = (if v = 1 \<or> v = 2 \<or> v = 4 \<or> v = 8
                                 then ConstantInteger IceType_i32 1
                                 else ConstantInteger IceType_i32 0)
                   in (case Dest of
                         Some d \<Rightarrow> Some (ins Mov (Some d) [OpConstant Result] s)
                       | None \<Rightarrow> map_option snd (mov_new (OpConstant Result) NoRegister s)))
              | _ \<Rightarrow>
                  Some (setError ''AtomicIsLockFree byte size should be compile-time const'' s))
           else None)
      | AtomicLoad \<Rightarrow>
          do { o1 \<leftarrow> getArgConstantInteger args 1;
               if \<not> VerifyMemoryOrder T o1
               then Some (setError ''Unexpected memory ordering for AtomicLoad'' s)
               else lowerValid ID Dest args s }
      | AtomicRMW \<Rightarrow>
          do { o3 \<leftarrow> getArgConstantInteger args 3;
               if \<not> VerifyMemoryOrder T o3
               then Some (setError ''Unexpected memory ordering for AtomicRMW'' s)
               else lowerValid ID Dest args s }
      | AtomicStore \<Rightarrow>
          do { o2 \<leftarrow> getArgConstantInteger args 2;
               if \<not> VerifyMemoryOrder T o2
               then Some (setError ''Unexpected memory ordering for AtomicStore'' s)
               else lowerValid ID Dest args s }
      | Trap \<Rightarrow> Some (ins Ud2 None [] s)
      | UnknownIntrinsic \<Rightarrow> Some (setError ''Should not be lowering UnknownIntrinsic'' s)
      | _ \<Rightarrow> lowerValid ID Dest args s)"

section \<open>A concrete target and function\<close>

text \<open>
  For evaluating the rules on concrete inputs: a register table in the x86 encoding
  order (\<open>eax\<close>, \<open>ecx\<close>, \<open>edx\<close>, \<open>ebx\<close>, \<open>esp\<close>, \<open>ebp\<close>, \<open>esi\<close>, \<open>edi\<close>, \<open>ah\<close>,
  \<open>xmm0\<close> .. \<open>xmm7\<close>) with the usual caller-save and callee-save sets, and a function
  without variables in which nothing has been lowered yet.
\<close>

definition X8632 :: Target where
  "X8632 =
     \<lparr>Reg_eax = 0, Reg_ecx = 1, Reg_edx = 2, Reg_ebx = 3, Reg_esp = 4, Reg_ebp = 5,
      Reg_ah = 8, Reg_xmm0 = 9,
      ScratchRegs = [True, True, True, False, False, False, False, False, False,
                     True, True, True, True, True, True, True, True],
      PreservedRegs = [False, False, False, True, False, True, True, True, False,
                       False, False, False, False, False, False, False, False],
      InstructionSet = SSE2,
      TableIcmp32 = (\<lambda>c. case c of
          Icmp_Eq \<Rightarrow> Br_e | Icmp_Ne \<Rightarrow> Br_ne | Icmp_Ugt \<Rightarrow> Br_a | Icmp_Uge \<Rightarrow> Br_ae
        | Icmp_Ult \<Rightarrow> Br_b | Icmp_Ule \<Rightarrow> Br_be | Icmp_Sgt \<Rightarrow> Br_g | Icmp_Sge \<Rightarrow> Br_ge
        | Icmp_Slt \<Rightarrow> Br_l | Icmp_Sle \<Rightarrow> Br_le),
      TableIcmp64 = (\<lambda>c. case c of
          Icmp_Eq \<Rightarrow> (Br_None, Br_None, Br_None) | Icmp_Ne \<Rightarrow> (Br_None, Br_None, Br_None)
        | Icmp_Ugt \<Rightarrow> (Br_a, Br_b, Br_a) | Icmp_Uge \<Rightarrow> (Br_a, Br_b, Br_ae)
        | Icmp_Ult \<Rightarrow> (Br_b, Br_a, Br_b) | Icmp_Ule \<Rightarrow> (Br_b, Br_a, Br_be)
        | Icmp_Sgt \<Rightarrow> (Br_g, Br_l, Br_a) | Icmp_Sge \<Rightarrow> (Br_g, Br_l, Br_ae)
        | Icmp_Slt \<Rightarrow> (Br_l, Br_g, Br_b) | Icmp_Sle \<Rightarrow> (Br_l, Br_g, Br_be)),
      VerifyMemoryOrder = (\<lambda>Order. Order = 6)\<rparr>"

definition emptyFunc :: LoweringState where
  "emptyFunc =
     \<lparr>Variables = [], Args = [], HasError = False, ErrorMessage = [],
      PhysicalRegisters = replicate 17 None,
      NeedsStackAlignment = False, IsEbpBasedFrame = False, SpillAreaSizeBytes = 0,
      NextLabelNumber = 0, Node = 0, NodeInsts = [], Next = 0, Inserted = []\<rparr>"

section \<open>Outcomes\<close>

text \<open>
  A lowering rule rejects an instruction when it returns with the function's error
  state set to a message and without having inserted any pseudo-instruction.
\<close>

definition rejected :: "LoweringState \<Rightarrow> LoweringState option \<Rightarrow> bool" where
  "rejected s r =
     (case r of
        None \<Rightarrow> False
      | Some s' \<Rightarrow> HasError s' \<and> ErrorMessage s' \<noteq> [] \<and> Inserted s' = Inserted s)"

section \<open>Stores\<close>

text \<open>
  \<open>FormMemoryOperand\<close>: an address operand becomes a memory operand (unless address
  mode optimization already made it one), which is then legalized with the default
  mask \<open>Legal_All\<close>. The assertions on the operand kind and the final cast are \<open>None\<close>.
\<close>

definition FormMemoryOperand ::
  "Operand \<Rightarrow> Type \<Rightarrow> LoweringState \<Rightarrow> (Operand \<times> LoweringState) option" where
  "FormMemoryOperand Operand ty s =
     do { Mem \<leftarrow>
            (case Operand of
               OpX8632Mem mty Base Offset Index Shift Seg \<Rightarrow> Some Operand
             | OpVariable Base \<Rightarrow> Some (OpX8632Mem ty (Some Base) None None 0 DefaultSegment)
             | OpConstant Offset \<Rightarrow>
                 (case Offset of
                    ConstantInteger cty v \<Rightarrow>
                      Some (OpX8632Mem ty None (Some Offset) None 0 DefaultSegment)
                  | ConstantRelocatable cty off name \<Rightarrow>
                      Some (OpX8632Mem ty None (Some Offset) None 0 DefaultSegment)
                  | _ \<Rightarrow> None)
             | OpVariableSplit v p \<Rightarrow> None);
          (Op, s1) \<leftarrow> legalize Mem Legal_All False NoRegister s;
          (case Op of
             OpX8632Mem mty Base Offset Index Shift Seg \<Rightarrow> Some (Op, s1)
           | _ \<Rightarrow> None) }"

definition lowerStore :: "Operand \<Rightarrow> Operand \<Rightarrow> LoweringState \<Rightarrow> LoweringState option" where
  "lowerStore Data Addr s =
     do { (NewAddr, s1) \<leftarrow> FormMemoryOperand Addr (getType s Data) s;
          let ty = getType s1 NewAddr;
          if ty = IceType_i64
          then
            do { (Value, s2) \<leftarrow> legalize Data Legal_All False NoRegister s1;
                 (Hi, s3) \<leftarrow> hiOperand Value s2;
                 (ValueHi, s4) \<leftarrow> legalize Hi {Legal_Reg, Legal_Imm} True NoRegister s3;
                 (Lo, s5) \<leftarrow> loOperand Value s4;
                 (ValueLo, s6) \<leftarrow> legalize Lo {Legal_Reg, Legal_Imm} True NoRegister s5;
                 (AddrHi, s7) \<leftarrow> hiOperand NewAddr s6;
                 let s8 = ins Store None [ValueHi, AddrHi] s7;
                 (AddrLo, s9) \<leftarrow> loOperand NewAddr s8;
                 Some (ins Store None [ValueLo, AddrLo] s9) }
          else if isVectorType ty
          then
            do { (Value, s2) \<leftarrow> legalizeToVar Data False NoRegister s1;
                 Some (ins Storep None [OpVariable Value, NewAddr] s2) }
          else
            do { (Value, s2) \<leftarrow> legalize Data {Legal_Reg, Legal_Imm} True NoRegister s1;
                 Some (ins Store None [Value, NewAddr] s2) } }"

section \<open>Calls\<close>

text \<open>
  The first loop of \<open>lowerCall\<close>: each argument goes to the XMM list (the first four
  vector arguments) or to the stack list, with its location relative to \<open>esp\<close>. The
  assertion on the argument's type is \<open>None\<close>.
\<close>

fun classifyArgs ::
  "Target \<Rightarrow> Operand list \<Rightarrow> Operand list \<times> Operand list \<times> Operand list \<times> uint32_t
   \<Rightarrow> LoweringState
   \<Rightarrow> ((Operand list \<times> Operand list \<times> Operand list \<times> uint32_t) \<times> LoweringState) option" where
  "classifyArgs T [] acc s = Some (acc, s)"
| "classifyArgs T (Arg # rest) (XmmArgs, StackArgs, StackArgLocations, ParameterAreaSizeBytes) s =
     (let ty = getType s Arg in
      if \<not> (ty = IceType_i32 \<or> ty = IceType_f32 \<or> ty = IceType_i64 \<or> ty = IceType_f64
             \<or> isVectorType ty) then None
      else if isVectorType ty \<and> length XmmArgs < X86_MAX_XMM_ARGS
      then classifyArgs T rest
             (XmmArgs @ [Arg], StackArgs, StackArgLocations, ParameterAreaSizeBytes) s
      else
        do { P \<leftarrow> (if isVectorType ty then applyStackAlignment ParameterAreaSizeBytes
                   else Some ParameterAreaSizeBytes);
             (esp, s1) \<leftarrow> getPhysicalRegister (Reg_esp T) s;
             classifyArgs T rest
               (XmmArgs, StackArgs @ [Arg],
                StackArgLocations
                  @ [OpX8632Mem ty (Some esp) (Some (ConstantInteger IceType_i32 (ucast P)))
                       None 0 DefaultSegment],
                P + typeWidthInBytesOnStack ty) s1 })"

text \<open>The second loop: a store of each stack argument to its location.\<close>

fun lowerStackArgs :: "(Operand \<times> Operand) list \<Rightarrow> LoweringState \<Rightarrow> LoweringState option" where
  "lowerStackArgs [] s = Some s"
| "lowerStackArgs ((Arg, Loc) # rest) s =
     do { s1 \<leftarrow> lowerStore Arg Loc s; lowerStackArgs rest s1 }"

text \<open>
  The third loop: the \<open>i\<close>-th XMM argument is legalized into register \<open>xmm0 + i\<close>, and
  a \<open>FakeUse\<close> of that register is inserted.
\<close>

fun lowerXmmArgs :: "Target \<Rightarrow> int \<Rightarrow> Operand list \<Rightarrow> LoweringState \<Rightarrow> LoweringState option" where
  "lowerXmmArgs T i [] s = Some s"
| "lowerXmmArgs T i (Arg # rest) s =
     do { (Reg, s1) \<leftarrow> legalizeToVar Arg False (Reg_xmm0 T + i) s;
          lowerXmmArgs T (i + 1) rest (Context_insert (FakeUse Reg) s1) }"

text \<open>
  The fourth loop: the physical register variable of every register marked as scratch,
  in the order of the register numbers \<open>is\<close>.
\<close>

fun killedRegs ::
  "Target \<Rightarrow> nat list \<Rightarrow> nat list \<Rightarrow> LoweringState \<Rightarrow> (nat list \<times> LoweringState) option" where
  "killedRegs T [] KilledRegs s = Some (KilledRegs, s)"
| "killedRegs T (i # is) KilledRegs s =
     (if ScratchRegs T ! i
      then do { (Reg, s1) \<leftarrow> getPhysicalRegister (int i) s;
                killedRegs T is (KilledRegs @ [Reg]) s1 }
      else killedRegs T is KilledRegs s)"

text \<open>
  The return registers for the type of \<open>Dest\<close>: \<open>ReturnReg\<close> (which doubles as the low
  half) and \<open>ReturnRegHi\<close>.
\<close>

definition returnRegs ::
  "Target \<Rightarrow> nat option \<Rightarrow> LoweringState \<Rightarrow> ((nat option \<times> nat option) \<times> LoweringState) option" where
  "returnRegs T Dest s =
     (case Dest of
        None \<Rightarrow> Some ((None, None), s)
      | Some d \<Rightarrow>
          (let ty = Ty (getVar s d) in
           if ty = IceType_void then Some ((None, None), s)
           else if ty = IceType_i1 \<or> ty = IceType_i8 \<or> ty = IceType_i16 \<or> ty = IceType_i32
           then do { (r, s1) \<leftarrow> makeReg ty (Reg_eax T) s; Some ((Some r, None), s1) }
           else if ty = IceType_i64
           then do { (r, s1) \<leftarrow> makeReg IceType_i32 (Reg_eax T) s;
                     (rh, s2) \<leftarrow> makeReg IceType_i32 (Reg_edx T) s1;
                     Some ((Some r, Some rh), s2) }
           else if ty = IceType_f32 \<or> ty = IceType_f64 then Some ((None, None), s)
           else do { (r, s1) \<leftarrow> makeReg ty (Reg_xmm0 T) s; Some ((Some r, None), s1) }))"

text \<open>
  The last part of \<open>lowerCall\<close>: the result of the call is assigned to \<open>Dest\<close>.
\<close>

definition assignCallResult ::
  "nat \<Rightarrow> nat option \<Rightarrow> nat option \<Rightarrow> LoweringState \<Rightarrow> LoweringState option" where
  "assignCallResult Dest ReturnReg ReturnRegHi s =
     (case ReturnReg of
        Some r \<Rightarrow>
          (case ReturnRegHi of
             Some rh \<Rightarrow>
               if Ty (getVar s Dest) \<noteq> IceType_i64 then None
               else
                 do { s1 \<leftarrow> split64 Dest s;
                      DestLo \<leftarrow> LoVar (getVar s1 Dest);
                      DestHi \<leftarrow> HiVar (getVar s1 Dest);
                      let s2 = setPreferredRegister DestLo r False s1;
                      let s3 = setPreferredRegister DestHi rh False s2;
                      let s4 = ins Mov (Some DestLo) [OpVariable r] s3;
                      Some (ins Mov (Some DestHi) [OpVariable rh] s4) }
           | None \<Rightarrow>
               (let ty = Ty (getVar s Dest) in
                if \<not> (ty = IceType_i32 \<or> ty = IceType_i16 \<or> ty = IceType_i8
                       \<or> ty = IceType_i1 \<or> isVectorType ty) then None
                else
                  (let s1 = setPreferredRegister Dest r False s
                   in Some (if isVectorType ty then ins Movp (Some Dest) [OpVariable r] s1
                            else ins Mov (Some Dest) [OpVariable r] s1))))
      | None \<Rightarrow>
          if Ty (getVar s Dest) = IceType_f32 \<or> Ty (getVar s Dest) = IceType_f64
          then Some (Context_insert (FakeUse Dest) (ins Fstp (Some Dest) [] s))
          else Some s)"

text \<open>
  \<open>lowerCall\<close>, for a call with destination \<open>Dest\<close> (or none), call target
  \<open>CallTarget\<close>, arguments \<open>CallArgs\<close> and the side-effect flag of the instruction.
  \<open>_adjust_stack\<close> inserts the stack adjustment pseudo-instruction.
\<close>

definition lowerCall ::
  "Target \<Rightarrow> nat option \<Rightarrow> Operand \<Rightarrow> Operand list \<Rightarrow> bool \<Rightarrow> LoweringState
   \<Rightarrow> LoweringState option" where
  "lowerCall T Dest CallTarget CallArgs HasSideEffects s =
     do { let s0 = s\<lparr>NeedsStackAlignment := True\<rparr>;
          ((XmmArgs, StackArgs, StackArgLocations, P0), s1) \<leftarrow>
             classifyArgs T CallArgs ([], [], [], 0) s0;
          ParameterAreaSizeBytes \<leftarrow> applyStackAlignment P0;
          let s2 = (if ParameterAreaSizeBytes \<noteq> 0
                    then Context_insert (X86AdjustStack ParameterAreaSizeBytes) s1 else s1);
          s3 \<leftarrow> lowerStackArgs (zip StackArgs StackArgLocations) s2;
          s4 \<leftarrow> lowerXmmArgs T 0 XmmArgs s3;
          ((ReturnReg, ReturnRegHi), s5) \<leftarrow> returnRegs T Dest s4;
          (Target, s6) \<leftarrow> legalize CallTarget Legal_All False NoRegister s5;
          let NewCall = length (Inserted s6);
          let s7 = Context_insert (X86Call ReturnReg Target) s6;
          let s8 = (case ReturnRegHi of
                      Some rh \<Rightarrow> Context_insert (FakeDef rh None) s7
                    | None \<Rightarrow> s7);
          s9 \<leftarrow> (if ParameterAreaSizeBytes \<noteq> 0
                  then do { (esp, s') \<leftarrow> getPhysicalRegister (Reg_esp T) s8;
                            Some (ins Add (Some esp)
                                    [OpConstant (ConstantInteger IceType_i32
                                                   (ucast ParameterAreaSizeBytes))] s') }
                  else Some s8);
          (KilledRegs, s10) \<leftarrow> killedRegs T [0 ..< length (ScratchRegs T)] [] s9;
          let s11 = Context_insert (FakeKill KilledRegs NewCall) s10;
          let s12 = (case ReturnReg of
                       Some r \<Rightarrow> if HasSideEffects then Context_insert (FakeUse r) s11 else s11
                     | None \<Rightarrow> s11);
          (case Dest of
             None \<Rightarrow> Some s12
           | Some d \<Rightarrow> assignCallResult d ReturnReg ReturnRegHi s12) }"

section \<open>Well-formed states and steps\<close>

text \<open>
  The table of physical registers is well formed when every entry is a variable of the
  function that is pre-coloured with the register of that entry.
\<close>

definition physOK :: "LoweringState \<Rightarrow> bool" where
  "physOK s =
     (\<forall>r v. r < length (PhysicalRegisters s) \<and> PhysicalRegisters s ! r = Some v
        \<longrightarrow> v < length (Variables s) \<and> RegNum (Variables s ! v) = int r)"

text \<open>
  A step from \<open>s\<close> to \<open>s'\<close> extends the state: variables are only added; the type,
  register number and weight of the existing ones stay as they are, and so do their
  halves once they have been split; pseudo-instructions are only appended; a
  well-formed register table stays so; and \<open>NeedsStackAlignment\<close> stays set once it
  is.
\<close>

definition keptVar :: "Variable \<Rightarrow> Variable \<Rightarrow> bool" where
  "keptVar x x' =
     (Ty x' = Ty x \<and> RegNum x' = RegNum x \<and> Weight x' = Weight x
      \<and> (LoVar x \<noteq> None \<longrightarrow> LoVar x' = LoVar x)
      \<and> (HiVar x \<noteq> None \<longrightarrow> HiVar x' = HiVar x))"

definition ext :: "LoweringState \<Rightarrow> LoweringState \<Rightarrow> bool" where
  "ext s s' =
     (length (Variables s) \<le> length (Variables s')
      \<and> (\<forall>v < length (Variables s). keptVar (Variables s ! v) (Variables s' ! v))
      \<and> (\<exists>xs. Inserted s' = Inserted s @ xs)
      \<and> length (PhysicalRegisters s') = length (PhysicalRegisters s)
      \<and> (physOK s \<longrightarrow> physOK s')
      \<and> (NeedsStackAlignment s \<longrightarrow> NeedsStackAlignment s'))"

text \<open>
  A function with an \<open>i32\<close> variable \<open>a\<close> (number 0) and an \<open>i64\<close> variable \<open>r\<close>
  (number 1).
\<close>

definition callExample :: LoweringState where
  "callExample = snd (makeVariable IceType_i64 None ''r''
                   (snd (makeVariable IceType_i32 None ''a'' emptyFunc)))"

text \<open>
  The variables an operand refers to (\<open>getNumVars\<close>/\<open>getVar\<close> of the operand classes),
  and the operands whose variables all belong to the function.
\<close>

fun getVars :: "Operand \<Rightarrow> nat list" where
  "getVars (OpVariable v) = [v]"
| "getVars (OpConstant c) = []"
| "getVars (OpX8632Mem ty Base Offset Index Shift Seg) =
     (case Base of None \<Rightarrow> [] | Some b \<Rightarrow> [b]) @ (case Index of None \<Rightarrow> [] | Some i \<Rightarrow> [i])"
| "getVars (OpVariableSplit v p) = [v]"

definition wfOperand :: "LoweringState \<Rightarrow> Operand \<Rightarrow> bool" where
  "wfOperand s Op = (\<forall>v \<in> set (getVars Op). v < length (Variables s))"

text \<open>
  A variable that is guaranteed a physical register: it is pre-coloured or has infinite
  weight (\<open>MustHaveRegister\<close> in \<open>legalize\<close>).
\<close>

definition mustHaveRegister :: "LoweringState \<Rightarrow> nat \<Rightarrow> bool" where
  "mustHaveRegister s v = (hasReg s v \<or> Weight (getVar s v) = RegWeight_Inf)"

section \<open>Arithmetic\<close>

text \<open>
  Modelled from the spec: \<open>makeHelperCall\<close> is defined in the target's header, which
  is not part of the source files; the helper-call operations are a "helper call to a
  named runtime function": a call instruction whose target is the symbol of that name
  and whose result goes to \<open>Dest\<close>. The arguments are added by the caller.
\<close>

definition makeHelperCall :: "string \<Rightarrow> nat \<Rightarrow> LoweringState \<Rightarrow> Operand" where
  "makeHelperCall HelperName Dest s =
     OpConstant (ConstantRelocatable (Ty (getVar s Dest)) 0 HelperName)"

definition castVariable :: "Operand \<Rightarrow> nat option" where
  "castVariable Op = (case Op of OpVariable v \<Rightarrow> Some v | _ \<Rightarrow> None)"

definition isConstant :: "Operand \<Rightarrow> bool" where
  "isConstant Op = (case Op of OpConstant c \<Rightarrow> True | _ \<Rightarrow> False)"

text \<open>
  The \<open>i64\<close> cases \<open>Add\<close>, \<open>And\<close>, \<open>Or\<close>, \<open>Xor\<close> and \<open>Sub\<close> of \<open>lowerArithmetic\<close> are the same
  six instructions up to the two opcodes (\<open>add\<close>/\<open>adc\<close>, \<open>and\<close>/\<open>and\<close>, ...).
\<close>

definition arith64_halfwise ::
  "Opcode \<Rightarrow> Opcode \<Rightarrow> nat \<Rightarrow> nat \<Rightarrow> Operand \<Rightarrow> Operand \<Rightarrow> Operand \<Rightarrow> Operand
   \<Rightarrow> LoweringState \<Rightarrow> LoweringState option" where
  "arith64_halfwise OpLo OpHi DestLo DestHi Src0Lo Src0Hi Src1Lo Src1Hi s =
     do { (T_Lo, s) \<leftarrow> mov_new Src0Lo NoRegister s;
          let s = ins OpLo (Some T_Lo) [Src1Lo] s;
          let s = ins Mov (Some DestLo) [OpVariable T_Lo] s;
          (T_Hi, s) \<leftarrow> mov_new Src0Hi NoRegister s;
          let s = ins OpHi (Some T_Hi) [Src1Hi] s;
          Some (ins Mov (Some DestHi) [OpVariable T_Hi] s) }"

text \<open>
  The \<open>i64\<close> shifts \<open>Shl\<close>, \<open>Lshr\<close> and \<open>Ashr\<close>, three cases of the source that differ
  in the instructions only: a double shift (\<open>shld\<close> or \<open>shrd\<close>) and the shift of the other
  half, a test of bit 5 of the count, and a branch over the correction for counts of 32
  and more.
\<close>

definition arith64_shift ::
  "Target \<Rightarrow> OpKind \<Rightarrow> nat \<Rightarrow> nat \<Rightarrow> Operand \<Rightarrow> Operand \<Rightarrow> Operand
   \<Rightarrow> LoweringState \<Rightarrow> LoweringState option" where
  "arith64_shift T Op DestLo DestHi Src0Lo Src0Hi Src1Lo s =
     do { let BitTest = OpConstant (ConstantInteger IceType_i32 0x20);
          let Zero = OpConstant (ConstantInteger IceType_i32 0);
          let SignExtend = OpConstant (ConstantInteger IceType_i32 0x1f);
          let (Label, s) = makeLabel s;
          (T_1, s) \<leftarrow> mov_new Src1Lo (Reg_ecx T) s;
          (T_2, s) \<leftarrow> mov_new Src0Lo NoRegister s;
          (T_3, s) \<leftarrow> mov_new Src0Hi NoRegister s;
          let s = (if Op = Arith_Shl
                   then ins Shl (Some T_2) [OpVariable T_1]
                          (ins Shld (Some T_3) [OpVariable T_2, OpVariable T_1] s)
                   else ins (if Op = Arith_Lshr then Shr else Sar) (Some T_3) [OpVariable T_1]
                          (ins Shrd (Some T_2) [OpVariable T_3, OpVariable T_1] s));
          let s = ins Test None [OpVariable T_1, BitTest] s;
          let s = br_label Br_e Label s;
          let s = (if Op = Arith_Shl
                   then ins Mov (Some T_2) [Zero]
                          (ins Mov (Some T_3) [OpVariable T_2]
                             (Context_insert (FakeUse T_3) s))
                   else (if Op = Arith_Lshr then ins Mov (Some T_3) [Zero]
                         else ins Sar (Some T_3) [SignExtend])
                          (ins Mov (Some T_2) [OpVariable T_3]
                             (Context_insert (FakeUse T_2) s)));
          let s = Context_insert (X86Label Label) s;
          let s = ins Mov (Some DestLo) [OpVariable T_2] s;
          Some (ins Mov (Some DestHi) [OpVariable T_3] s) }"

text \<open>
  The \<open>i64\<close> multiplication. \<open>T_4Lo\<close> and \<open>T_4Hi\<close> are pinned to \<open>eax\<close> and \<open>edx\<close>,
  \<open>T_3\<close> to \<open>eax\<close>; the \<open>FakeDef\<close> stands for the definition of \<open>edx\<close> by \<open>mul\<close>.
\<close>

definition arith64_mul ::
  "Target \<Rightarrow> nat \<Rightarrow> nat \<Rightarrow> Operand \<Rightarrow> Operand \<Rightarrow> Operand \<Rightarrow> Operand
   \<Rightarrow> LoweringState \<Rightarrow> LoweringState option" where
  "arith64_mul T DestLo DestHi Src0Lo Src0Hi Src1Lo0 Src1Hi s =
     do { (T_4Lo, s) \<leftarrow> makeReg IceType_i32 (Reg_eax T) s;
          (T_4Hi, s) \<leftarrow> makeReg IceType_i32 (Reg_edx T) s;
          (Src1Lo, s) \<leftarrow> legalize Src1Lo0 {Legal_Reg, Legal_Mem} False NoRegister s;
          (T_1, s) \<leftarrow> mov_new Src0Hi NoRegister s;
          let s = ins Imul (Some T_1) [Src1Lo] s;
          (T_2, s) \<leftarrow> mov_new Src1Hi NoRegister s;
          let s = ins Imul (Some T_2) [Src0Lo] s;
          (T_3, s) \<leftarrow> mov_new Src0Lo (Reg_eax T) s;
          let s = ins Mul (Some T_4Lo) [OpVariable T_3, Src1Lo] s;
          let s = Context_insert (FakeDef T_4Hi (Some T_4Lo)) s;
          let s = ins Mov (Some DestLo) [OpVariable T_4Lo] s;
          let s = ins Add (Some T_4Hi) [OpVariable T_1] s;
          let s = ins Add (Some T_4Hi) [OpVariable T_2] s;
          Some (ins Mov (Some DestHi) [OpVariable T_4Hi] s) }"

text \<open>
  The branch of \<open>lowerArithmetic\<close> for a destination of type \<open>i64\<close>. \<open>ISrc0\<close> and
  \<open>ISrc1\<close> are the sources of the instruction, \<open>Src0\<close> and \<open>Src1\<close> the legalized ones.
  The floating-point operators are unreachable.
\<close>

definition lowerArithmetic_i64 ::
  "Target \<Rightarrow> OpKind \<Rightarrow> nat \<Rightarrow> Operand \<Rightarrow> Operand \<Rightarrow> Operand \<Rightarrow> Operand
   \<Rightarrow> LoweringState \<Rightarrow> LoweringState option" where
  "lowerArithmetic_i64 T Op Dest ISrc0 ISrc1 Src0 Src1 s =
     do { (DestLoOp, s) \<leftarrow> loOperand (OpVariable Dest) s;
          DestLo \<leftarrow> castVariable DestLoOp;
          (DestHiOp, s) \<leftarrow> hiOperand (OpVariable Dest) s;
          DestHi \<leftarrow> castVariable DestHiOp;
          (Src0Lo, s) \<leftarrow> loOperand Src0 s;
          (Src0Hi, s) \<leftarrow> hiOperand Src0 s;
          (Src1Lo, s) \<leftarrow> loOperand Src1 s;
          (Src1Hi, s) \<leftarrow> hiOperand Src1 s;
          (case Op of
             Arith_Add \<Rightarrow> arith64_halfwise Add Adc DestLo DestHi Src0Lo Src0Hi Src1Lo Src1Hi s
           | Arith_And \<Rightarrow> arith64_halfwise And And DestLo DestHi Src0Lo Src0Hi Src1Lo Src1Hi s
           | Arith_Or \<Rightarrow> arith64_halfwise Or Or DestLo DestHi Src0Lo Src0Hi Src1Lo Src1Hi s
           | Arith_Xor \<Rightarrow> arith64_halfwise Xor Xor DestLo DestHi Src0Lo Src0Hi Src1Lo Src1Hi s
           | Arith_Sub \<Rightarrow> arith64_halfwise Sub Sbb DestLo DestHi Src0Lo Src0Hi Src1Lo Src1Hi s
           | Arith_Mul \<Rightarrow> arith64_mul T DestLo DestHi Src0Lo Src0Hi Src1Lo Src1Hi s
           | Arith_Shl \<Rightarrow> arith64_shift T Op DestLo DestHi Src0Lo Src0Hi Src1Lo s
           | Arith_Lshr \<Rightarrow> arith64_shift T Op DestLo DestHi Src0Lo Src0Hi Src1Lo s
           | Arith_Ashr \<Rightarrow> arith64_shift T Op DestLo DestHi Src0Lo Src0Hi Src1Lo s
           | Arith_Udiv \<Rightarrow>
               lowerCall T (Some Dest) (makeHelperCall ''__udivdi3'' Dest s) [ISrc0, ISrc1] True s
           | Arith_Sdiv \<Rightarrow>
               lowerCall T (Some Dest) (makeHelperCall ''__divdi3'' Dest s) [ISrc0, ISrc1] True s
           | Arith_Urem \<Rightarrow>
               lowerCall T (Some Dest) (makeHelperCall ''__umoddi3'' Dest s) [ISrc0, ISrc1] True s
           | Arith_Srem \<Rightarrow>
               lowerCall T (Some Dest) (makeHelperCall ''__moddi3'' Dest s) [ISrc0, ISrc1] True s
           | _ \<Rightarrow> None) }"

text \<open>
  The vector operations with a packed instruction: \<open>movp T, Src0; op T, Src1;
  movp Dest, T\<close>.
\<close>

definition arithVector_packed ::
  "Opcode \<Rightarrow> nat \<Rightarrow> Operand \<Rightarrow> Operand \<Rightarrow> LoweringState \<Rightarrow> LoweringState option" where
  "arithVector_packed Op Dest Src0 Src1 s =
     do { (T, s1) \<leftarrow> makeReg (Ty (getVar s Dest)) NoRegister s;
          let s2 = ins Movp (Some T) [Src0] s1;
          let s3 = ins Op (Some T) [Src1] s2;
          Some (ins Movp (Some Dest) [OpVariable T] s3) }"

text \<open>
  The multiplication of \<open>v4i32\<close> vectors without \<open>pmull\<close>: the products of the even
  and of the odd lanes by \<open>pmuludq\<close>, and shuffles that put the low halves in place.
\<close>

definition arithVector_mul_v4i32 ::
  "nat \<Rightarrow> Operand \<Rightarrow> Operand \<Rightarrow> LoweringState \<Rightarrow> LoweringState option" where
  "arithVector_mul_v4i32 Dest Src0 Src1 s =
     do { let Mask1030 = OpConstant (ConstantInteger IceType_i8 0x31);
          let Mask0202 = OpConstant (ConstantInteger IceType_i8 0x88);
          let Mask0213 = OpConstant (ConstantInteger IceType_i8 0xd8);
          (T1, s) \<leftarrow> makeReg IceType_v4i32 NoRegister s;
          (T2, s) \<leftarrow> makeReg IceType_v4i32 NoRegister s;
          (T3, s) \<leftarrow> makeReg IceType_v4i32 NoRegister s;
          (T4, s) \<leftarrow> makeReg IceType_v4i32 NoRegister s;
          let s = ins Movp (Some T1) [Src0] s;
          let s = ins Pshufd (Some T2) [Src0, Mask1030] s;
          let s = ins Pshufd (Some T3) [Src1, Mask1030] s;
          let s = ins Pmuludq (Some T1) [Src1] s;
          let s = ins Pmuludq (Some T2) [OpVariable T3] s;
          let s = ins Shufps (Some T1) [OpVariable T2, Mask0202] s;
          let s = ins Pshufd (Some T4) [OpVariable T1, Mask0213] s;
          Some (ins Movp (Some Dest) [OpVariable T4] s) }"

text \<open>
  The branch of \<open>lowerArithmetic\<close> for a destination of vector type.
  \<open>scalarizeArithmetic\<close> (which goes through \<open>lowerExtractElement\<close> and
  \<open>lowerInsertElement\<close>) is not embedded: it is the parameter \<open>scalarize\<close>.
\<close>

definition lowerArithmetic_vector ::
  "Target \<Rightarrow> (OpKind \<Rightarrow> nat \<Rightarrow> Operand \<Rightarrow> Operand \<Rightarrow> LoweringState \<Rightarrow> LoweringState option)
   \<Rightarrow> OpKind \<Rightarrow> nat \<Rightarrow> Operand \<Rightarrow> Operand \<Rightarrow> LoweringState \<Rightarrow> LoweringState option" where
  "lowerArithmetic_vector T scalarize Op Dest Src0 Src1 s =
     (case Op of
        Arith_Add \<Rightarrow> arithVector_packed Padd Dest Src0 Src1 s
      | Arith_And \<Rightarrow> arithVector_packed Pand Dest Src0 Src1 s
      | Arith_Or \<Rightarrow> arithVector_packed Por Dest Src0 Src1 s
      | Arith_Xor \<Rightarrow> arithVector_packed Pxor Dest Src0 Src1 s
      | Arith_Sub \<Rightarrow> arithVector_packed Psub Dest Src0 Src1 s
      | Arith_Mul \<Rightarrow>
          (let ty = Ty (getVar s Dest);
               TypesAreValidForPmull = (ty = IceType_v4i32 \<or> ty = IceType_v8i16);
               InstructionSetIsValidForPmull =
                 (ty = IceType_v8i16 \<or> InstructionSet T = SSE4_1)
           in if TypesAreValidForPmull \<and> InstructionSetIsValidForPmull
              then arithVector_packed Pmull Dest Src0 Src1 s
              else if ty = IceType_v4i32 then arithVector_mul_v4i32 Dest Src0 Src1 s
              else if ty \<noteq> IceType_v16i8 then None
              else scalarize Op Dest Src0 Src1 s)
      | Arith_Fadd \<Rightarrow> arithVector_packed Addps Dest Src0 Src1 s
      | Arith_Fsub \<Rightarrow> arithVector_packed Subps Dest Src0 Src1 s
      | Arith_Fmul \<Rightarrow> arithVector_packed Mulps Dest Src0 Src1 s
      | Arith_Fdiv \<Rightarrow> arithVector_packed Divps Dest Src0 Src1 s
      | _ \<Rightarrow> scalarize Op Dest Src0 Src1 s)"

text \<open>
  The scalar operations of the form \<open>mov T, Src0; op T, Src1; mov Dest, T\<close>, with \<open>T\<close>
  pinned to the register \<open>r\<close> if one is given.
\<close>

definition arithScalar_binop ::
  "Opcode \<Rightarrow> int \<Rightarrow> nat \<Rightarrow> Operand \<Rightarrow> Operand \<Rightarrow> LoweringState \<Rightarrow> LoweringState option" where
  "arithScalar_binop Op r Dest Src0 Src1 s =
     do { (T, s1) \<leftarrow> mov_new Src0 r s;
          let s2 = ins Op (Some T) [Src1] s1;
          Some (ins Mov (Some Dest) [OpVariable T] s2) }"

text \<open>The scalar shifts: a shift count that is not a constant is pinned to \<open>ecx\<close>.\<close>

definition arithScalar_shift ::
  "Target \<Rightarrow> Opcode \<Rightarrow> nat \<Rightarrow> Operand \<Rightarrow> Operand \<Rightarrow> LoweringState \<Rightarrow> LoweringState option" where
  "arithScalar_shift T Op Dest Src0 Src1 s =
     do { (Tmp, s1) \<leftarrow> mov_new Src0 NoRegister s;
          (Count, s2) \<leftarrow>
             (if \<not> isConstant Src1
              then do { (v, s') \<leftarrow> legalizeToVar Src1 False (Reg_ecx T) s1;
                        Some (OpVariable v, s') }
              else Some (Src1, s1));
          let s3 = ins Op (Some Tmp) [Count] s2;
          Some (ins Mov (Some Dest) [OpVariable Tmp] s3) }"

text \<open>
  The scalar divisions and remainders: the dividend in \<open>eax\<close> (and \<open>edx\<close> or \<open>ah\<close>),
  the divisor in a register or in memory.
\<close>

definition arithScalar_divrem ::
  "Target \<Rightarrow> OpKind \<Rightarrow> nat \<Rightarrow> Operand \<Rightarrow> Operand \<Rightarrow> LoweringState \<Rightarrow> LoweringState option" where
  "arithScalar_divrem T Op Dest Src0 Src1a s =
     do { (Src1, s) \<leftarrow> legalize Src1a {Legal_Reg, Legal_Mem} False NoRegister s;
          let i8 = (Ty (getVar s Dest) = IceType_i8);
          let Zero = OpConstant (ConstantInteger (if i8 then IceType_i8 else IceType_i32) 0);
          let hiReg = (if i8 then Reg_ah T else Reg_edx T);
          (case Op of
             Arith_Udiv \<Rightarrow>
               do { (Tmp, s) \<leftarrow> mov_new Src0 (Reg_eax T) s;
                    (T_hi, s) \<leftarrow> mov_new Zero hiReg s;
                    let s = ins Div (Some Tmp) [Src1, OpVariable T_hi] s;
                    Some (ins Mov (Some Dest) [OpVariable Tmp] s) }
           | Arith_Sdiv \<Rightarrow>
               if i8
               then do { (Tmp, s) \<leftarrow> mov_new Src0 (Reg_eax T) s;
                         let s = ins Cbwdq (Some Tmp) [OpVariable Tmp] s;
                         let s = ins Idiv (Some Tmp) [Src1, OpVariable Tmp] s;
                         Some (ins Mov (Some Dest) [OpVariable Tmp] s) }
               else do { (T_edx, s) \<leftarrow> makeReg IceType_i32 (Reg_edx T) s;
                         (Tmp, s) \<leftarrow> mov_new Src0 (Reg_eax T) s;
                         let s = ins Cbwdq (Some T_edx) [OpVariable Tmp] s;
                         let s = ins Idiv (Some Tmp) [Src1, OpVariable T_edx] s;
                         Some (ins Mov (Some Dest) [OpVariable Tmp] s) }
           | Arith_Urem \<Rightarrow>
               if i8
               then do { (Tmp, s) \<leftarrow> mov_new Src0 (Reg_eax T) s;
                         (T_ah, s) \<leftarrow> mov_new Zero (Reg_ah T) s;
                         let s = ins Div (Some T_ah) [Src1, OpVariable Tmp] s;
                         Some (ins Mov (Some Dest) [OpVariable T_ah] s) }
               else do { (T_edx, s) \<leftarrow> mov_new Zero (Reg_edx T) s;
                         (Tmp, s) \<leftarrow> mov_new Src0 (Reg_eax T) s;
                         let s = ins Div (Some T_edx) [Src1, OpVariable Tmp] s;
                         Some (ins Mov (Some Dest) [OpVariable T_edx] s) }
           | Arith_Srem \<Rightarrow>
               if i8
               then do { (T_ah, s) \<leftarrow> makeReg IceType_i8 (Reg_ah T) s;
                         (Tmp, s) \<leftarrow> mov_new Src0 (Reg_eax T) s;
                         let s = ins Cbwdq (Some Tmp) [OpVariable Tmp] s;
                         let s = Context_insert (FakeDef T_ah None) s;
                         let s = ins Idiv (Some T_ah) [Src1, OpVariable Tmp] s;
                         Some (ins Mov (Some Dest) [OpVariable T_ah] s) }
               else do { (T_edx, s) \<leftarrow> makeReg IceType_i32 (Reg_edx T) s;
                         (Tmp, s) \<leftarrow> mov_new Src0 (Reg_eax T) s;
                         let s = ins Cbwdq (Some T_edx) [OpVariable Tmp] s;
                         let s = ins Idiv (Some T_edx) [Src1, OpVariable Tmp] s;
                         Some (ins Mov (Some Dest) [OpVariable T_edx] s) }
           | _ \<Rightarrow> None) }"

text \<open>The branch of \<open>lowerArithmetic\<close> for a scalar destination other than \<open>i64\<close>.\<close>

definition lowerArithmetic_scalar ::
  "Target \<Rightarrow> OpKind \<Rightarrow> nat \<Rightarrow> Operand \<Rightarrow> Operand \<Rightarrow> LoweringState \<Rightarrow> LoweringState option" where
  "lowerArithmetic_scalar T Op Dest Src0 Src1 s =
     (case Op of
        Arith_Add \<Rightarrow> arithScalar_binop Add NoRegister Dest Src0 Src1 s
      | Arith_And \<Rightarrow> arithScalar_binop And NoRegister Dest Src0 Src1 s
      | Arith_Or \<Rightarrow> arithScalar_binop Or NoRegister Dest Src0 Src1 s
      | Arith_Xor \<Rightarrow> arithScalar_binop Xor NoRegister Dest Src0 Src1 s
      | Arith_Sub \<Rightarrow> arithScalar_binop Sub NoRegister Dest Src0 Src1 s
      | Arith_Mul \<Rightarrow>
          arithScalar_binop Imul
            (if Ty (getVar s Dest) = IceType_i8 then Reg_eax T else NoRegister) Dest Src0 Src1 s
      | Arith_Shl \<Rightarrow> arithScalar_shift T Shl Dest Src0 Src1 s
      | Arith_Lshr \<Rightarrow> arithScalar_shift T Shr Dest Src0 Src1 s
      | Arith_Ashr \<Rightarrow> arithScalar_shift T Sar Dest Src0 Src1 s
      | Arith_Udiv \<Rightarrow> arithScalar_divrem T Op Dest Src0 Src1 s
      | Arith_Sdiv \<Rightarrow> arithScalar_divrem T Op Dest Src0 Src1 s
      | Arith_Urem \<Rightarrow> arithScalar_divrem T Op Dest Src0 Src1 s
      | Arith_Srem \<Rightarrow> arithScalar_divrem T Op Dest Src0 Src1 s
      | Arith_Fadd \<Rightarrow> arithScalar_binop Addss NoRegister Dest Src0 Src1 s
      | Arith_Fsub \<Rightarrow> arithScalar_binop Subss NoRegister Dest Src0 Src1 s
      | Arith_Fmul \<Rightarrow> arithScalar_binop Mulss NoRegister Dest Src0 Src1 s
      | Arith_Fdiv \<Rightarrow> arithScalar_binop Divss NoRegister Dest Src0 Src1 s
      | Arith_Frem \<Rightarrow>
          lowerCall T (Some Dest)
            (makeHelperCall (if Ty (getVar s Dest) = IceType_f32 then ''fmodf'' else ''fmod'')
               Dest s)
            [Src0, Src1] True s)"

text \<open>
  \<open>lowerArithmetic\<close>: both sources are legalized with the default mask, then the rule
  branches on the type of the destination.
\<close>

definition lowerArithmetic ::
  "Target \<Rightarrow> (OpKind \<Rightarrow> nat \<Rightarrow> Operand \<Rightarrow> Operand \<Rightarrow> LoweringState \<Rightarrow> LoweringState option)
   \<Rightarrow> OpKind \<Rightarrow> nat \<Rightarrow> Operand \<Rightarrow> Operand \<Rightarrow> LoweringState \<Rightarrow> LoweringState option" where
  "lowerArithmetic T scalarize Op Dest ISrc0 ISrc1 s =
     do { (Src0, s1) \<leftarrow> legalize ISrc0 Legal_All False NoRegister s;
          (Src1, s2) \<leftarrow> legalize ISrc1 Legal_All False NoRegister s1;
          if Ty (getVar s2 Dest) = IceType_i64
          then lowerArithmetic_i64 T Op Dest ISrc0 ISrc1 Src0 Src1 s2
          else if isVectorType (Ty (getVar s2 Dest))
          then lowerArithmetic_vector T scalarize Op Dest Src0 Src1 s2
          else lowerArithmetic_scalar T Op Dest Src0 Src1 s2 }"

text \<open>
  The halves of an operand as a state records them: the reading of \<open>loOperand\<close> and
  \<open>hiOperand\<close> once the variable has been split.
\<close>

definition loOf :: "LoweringState \<Rightarrow> Operand \<Rightarrow> Operand option" where
  "loOf s Op =
     (case Op of
        OpVariable Var \<Rightarrow> map_option OpVariable (LoVar (getVar s Var))
      | _ \<Rightarrow> map_option fst (loOperand Op s))"

definition hiOf :: "LoweringState \<Rightarrow> Operand \<Rightarrow> Operand option" where
  "hiOf s Op =
     (case Op of
        OpVariable Var \<Rightarrow> map_option OpVariable (HiVar (getVar s Var))
      | _ \<Rightarrow> map_option fst (hiOperand Op s))"

text \<open>
  A function with three \<open>i64\<close> variables \<open>a\<close>, \<open>b\<close>, \<open>c\<close> (numbers 0, 1, 2) and three
  \<open>v4i32\<close> variables \<open>x\<close>, \<open>y\<close>, \<open>z\<close> (numbers 3, 4, 5).
\<close>

definition mulExample :: LoweringState where
  "mulExample =
     emptyFunc\<lparr>Variables :=
       [newVariable IceType_i64 None ''a'', newVariable IceType_i64 None ''b'',
        newVariable IceType_i64 None ''c'', newVariable IceType_v4i32 None ''x'',
        newVariable IceType_v4i32 None ''y'', newVariable IceType_v4i32 None ''z'']\<rparr>"

text \<open>
  The examples below never reach the scalarizing lowering: they run with a \<open>scalarize\<close>
  that fails, so that reaching it would show as \<open>None\<close>.
\<close>

definition noScalarize ::
  "OpKind \<Rightarrow> nat \<Rightarrow> Operand \<Rightarrow> Operand \<Rightarrow> LoweringState \<Rightarrow> LoweringState option" where
  "noScalarize Op Dest Src0 Src1 s = None"

section \<open>Integer comparison\<close>

text \<open>
  Modelled from the spec: the lowering context (\<open>Context.getNextInst\<close>,
  \<open>Context.advanceNext\<close>) and \<open>Inst::setDeleted\<close> are not part of the source files.
  A peephole looks at the instruction the current one is "immediately followed by":
  \<open>getNextInst\<close> is the instruction at the position \<open>Next\<close> of the node's list, if
  there is one; an instruction can be "mark[ed] deleted (which the emitter skips)";
  \<open>advanceNext\<close> moves \<open>Next\<close> past that instruction and past the instructions marked
  deleted that follow it.
\<close>

definition getNextInst :: "LoweringState \<Rightarrow> Inst option" where
  "getNextInst s =
     (if Next s < length (NodeInsts s) then Some (NodeInsts s ! Next s) else None)"

definition setDeleted :: "nat \<Rightarrow> LoweringState \<Rightarrow> LoweringState" where
  "setDeleted I s = s\<lparr>NodeInsts := (NodeInsts s)[I := (NodeInsts s ! I)\<lparr>Deleted := True\<rparr>]\<rparr>"

definition skipDeleted :: "Inst list \<Rightarrow> nat \<Rightarrow> nat" where
  "skipDeleted Insts I = I + length (takeWhile Deleted (drop I Insts))"

definition advanceNext :: "LoweringState \<Rightarrow> LoweringState" where
  "advanceNext s =
     (if Next s < length (NodeInsts s)
      then s\<lparr>Next := skipDeleted (NodeInsts s) (Next s + 1)\<rparr>
      else s)"

text \<open>
  The \<open>i64\<close> branch of \<open>lowerIcmp\<close>: the halves are compared one after the other, and
  the result is materialized in \<open>Dest\<close> around branches to labels inside the block.
\<close>

definition lowerIcmp_i64 ::
  "Target \<Rightarrow> ICond \<Rightarrow> nat \<Rightarrow> Operand \<Rightarrow> Operand \<Rightarrow> LoweringState \<Rightarrow> LoweringState option" where
  "lowerIcmp_i64 T Condition Dest Src0 Src1 s =
     do { let Zero = OpConstant (ConstantInteger IceType_i32 0);
          let One = OpConstant (ConstantInteger IceType_i32 1);
          (Src0Lo, s) \<leftarrow> loOperand Src0 s;
          (Src0LoRM, s) \<leftarrow> legalize Src0Lo {Legal_Reg, Legal_Mem} False NoRegister s;
          (Src0Hi, s) \<leftarrow> hiOperand Src0 s;
          (Src0HiRM, s) \<leftarrow> legalize Src0Hi {Legal_Reg, Legal_Mem} False NoRegister s;
          (Src1Lo, s) \<leftarrow> loOperand Src1 s;
          (Src1LoRI, s) \<leftarrow> legalize Src1Lo {Legal_Reg, Legal_Imm} False NoRegister s;
          (Src1Hi, s) \<leftarrow> hiOperand Src1 s;
          (Src1HiRI, s) \<leftarrow> legalize Src1Hi {Legal_Reg, Legal_Imm} False NoRegister s;
          if Condition = Icmp_Eq \<or> Condition = Icmp_Ne
          then do { let (Label, s) = makeLabel s;
                    let s = ins Mov (Some Dest) [if Condition = Icmp_Eq then Zero else One] s;
                    let s = ins Cmp None [Src0LoRM, Src1LoRI] s;
                    let s = br_label Br_ne Label s;
                    let s = ins Cmp None [Src0HiRM, Src1HiRI] s;
                    let s = br_label Br_ne Label s;
                    let s = Context_insert (FakeUse Dest) s;
                    let s = ins Mov (Some Dest) [if Condition = Icmp_Eq then One else Zero] s;
                    Some (Context_insert (X86Label Label) s) }
          else do { let (C1, C2, C3) = TableIcmp64 T Condition;
                    let (LabelFalse, s) = makeLabel s;
                    let (LabelTrue, s) = makeLabel s;
                    let s = ins Mov (Some Dest) [One] s;
                    let s = ins Cmp None [Src0HiRM, Src1HiRI] s;
                    let s = br_label C1 LabelTrue s;
                    let s = br_label C2 LabelFalse s;
                    let s = ins Cmp None [Src0LoRM, Src1LoRI] s;
                    let s = br_label C3 LabelTrue s;
                    let s = Context_insert (X86Label LabelFalse) s;
                    let s = Context_insert (FakeUse Dest) s;
                    let s = ins Mov (Some Dest) [Zero] s;
                    Some (Context_insert (X86Label LabelTrue) s) } }"

text \<open>
  \<open>lowerIcmp\<close>. The branch for a destination of vector type (which goes through
  \<open>lowerCast\<close> and \<open>eliminateNextVectorSextInstruction\<close>) is not embedded: it is the
  parameter \<open>lowerVector\<close>. \<open>Fuse\<close> is the test of the peephole: the targets of the
  next instruction when it is a conditional branch on \<open>Dest\<close> that is the last use of
  \<open>Dest\<close> and the operands are not \<open>i64\<close>. The fused sequence returns early; the
  other two sequences materialize the result in \<open>Dest\<close>.
\<close>

definition lowerIcmp ::
  "Target \<Rightarrow> (ICond \<Rightarrow> nat \<Rightarrow> Operand \<Rightarrow> Operand \<Rightarrow> LoweringState \<Rightarrow> LoweringState option)
   \<Rightarrow> ICond \<Rightarrow> nat \<Rightarrow> Operand \<Rightarrow> Operand \<Rightarrow> LoweringState \<Rightarrow> LoweringState option" where
  "lowerIcmp T lowerVector Condition Dest ISrc0 ISrc1 s =
     do { (Src0, s) \<leftarrow> legalize ISrc0 Legal_All False NoRegister s;
          (Src1, s) \<leftarrow> legalize ISrc1 Legal_All False NoRegister s;
          if isVectorType (Ty (getVar s Dest)) then lowerVector Condition Dest Src0 Src1 s
          else
            do { let IsSrc1ImmOrReg =
                       (case Src1 of OpConstant c \<Rightarrow> True
                        | OpVariable Var \<Rightarrow> hasReg s Var
                        | _ \<Rightarrow> False);
                 let Fuse =
                       (case getNextInst s of
                          None \<Rightarrow> None
                        | Some NextBr \<Rightarrow>
                            (case Kind NextBr of
                               InstBr Cond TargetTrue TargetFalse \<Rightarrow>
                                 if getType s Src0 \<noteq> IceType_i64 \<and> Cond \<noteq> None
                                    \<and> Cond = Some (OpVariable Dest)
                                    \<and> isLastUse NextBr (OpVariable Dest)
                                 then Some (TargetTrue, TargetFalse) else None
                             | _ \<Rightarrow> None));
                 (case Fuse of
                    Some (TargetTrue, TargetFalse) \<Rightarrow>
                      do { let s = setDeleted (Next s) s;
                           (Src0RM, s) \<leftarrow>
                             legalize Src0
                               (if IsSrc1ImmOrReg then {Legal_Reg, Legal_Mem} else {Legal_Reg})
                               True NoRegister s;
                           let s = ins Cmp None [Src0RM, Src1] s;
                           let s = br_cond2 (TableIcmp32 T Condition) TargetTrue TargetFalse s;
                           Some (advanceNext s) }
                  | None \<Rightarrow>
                      if getType s Src0 = IceType_i64
                      then lowerIcmp_i64 T Condition Dest Src0 Src1 s
                      else
                        do { (Src0RM, s) \<leftarrow>
                               legalize Src0
                                 (if IsSrc1ImmOrReg then {Legal_Reg, Legal_Mem}
                                  else {Legal_Reg})
                                 True NoRegister s;
                             let (Label, s) = makeLabel s;
                             let s = ins Cmp None [Src0RM, Src1] s;
                             let s = ins Mov (Some Dest)
                                       [OpConstant (ConstantInteger IceType_i32 1)] s;
                             let s = br_label (TableIcmp32 T Condition) Label s;
                             let s = Context_insert (FakeUse Dest) s;
                             let s = ins Mov (Some Dest)
                                       [OpConstant (ConstantInteger IceType_i32 0)] s;
                             Some (Context_insert (X86Label Label) s) }) } }"

text \<open>
  \<open>Inst::getDest\<close> for the pseudo-instructions: the variable an instruction defines.
\<close>

fun instDest :: "InstX8632 \<Rightarrow> nat option" where
  "instDest (X86 Op Dest Srcs) = Dest"
| "instDest (X86Call Dest Target) = Dest"
| "instDest (FakeDef Dest Src) = Some Dest"
| "instDest _ = None"

text \<open>
  A step that leaves the node's instructions and the position in them alone and inserts
  only instructions that define variables made by the step.
\<close>

definition tempsOnly :: "LoweringState \<Rightarrow> LoweringState \<Rightarrow> bool" where
  "tempsOnly s s' =
     (NodeInsts s' = NodeInsts s \<and> Next s' = Next s
      \<and> length (Variables s) \<le> length (Variables s')
      \<and> (\<exists>xs. Inserted s' = Inserted s @ xs
               \<and> (\<forall>i \<in> set xs. \<exists>d. instDest i = Some d \<and> length (Variables s) \<le> d)))"

text \<open>
  A node in which a conditional branch on \<open>b\<close> follows the comparison being lowered and
  is the last use of \<open>b\<close>. The variables are \<open>a\<close> (\<open>i32\<close>, number 0), \<open>b\<close> (\<open>i1\<close>,
  number 1), \<open>x\<close> and \<open>y\<close> (\<open>i64\<close>, numbers 2 and 3). The examples never reach the
  vector branch: they run with a \<open>lowerVector\<close> that fails.
\<close>

definition icmpExample :: LoweringState where
  "icmpExample =
     emptyFunc\<lparr>Variables :=
       [newVariable IceType_i32 None ''a'', newVariable IceType_i1 None ''b'',
        newVariable IceType_i64 None ''x'', newVariable IceType_i64 None ''y''],
       NodeInsts :=
         [\<lparr>Kind = InstBr (Some (OpVariable 1)) 1 2, Deleted = False,
           LiveRangesEnded = [1]\<rparr>]\<rparr>"

definition noVectorIcmp ::
  "ICond \<Rightarrow> nat \<Rightarrow> Operand \<Rightarrow> Operand \<Rightarrow> LoweringState \<Rightarrow> LoweringState option" where
  "noVectorIcmp Condition Dest Src0 Src1 s = None"

section \<open>Frame layout\<close>

text \<open>
  The sizes of the frame are \<open>size_t\<close> and \<open>uint32_t\<close> values in the source. A
  \<open>uint32_t\<close> is a 32-bit word here; a \<open>size_t\<close>, whose width is the host's, is a
  natural number (the sums of slot widths are not taken to overflow it), and the
  conversions between the two are written out: \<open>of_nat\<close> truncates to 32 bits, \<open>unat\<close>
  extends. A stack offset (\<open>int32_t\<close>) is an integer.
\<close>

definition X86_LOG2_OF_MIN_STACK_SLOT_SIZE :: nat where
  "X86_LOG2_OF_MIN_STACK_SLOT_SIZE = 2"

definition X86_LOG2_OF_MAX_STACK_SLOT_SIZE :: nat where
  "X86_LOG2_OF_MAX_STACK_SLOT_SIZE = 4"

text \<open>
  \<open>llvm::findFirstSet\<close> (with its default for zero): the index of the lowest set bit,
  and the largest value of the type when there is none.
\<close>

definition findFirstSet :: "uint32_t \<Rightarrow> nat" where
  "findFirstSet Val = (case filter (bit Val) [0 ..< 32] of [] \<Rightarrow> 4294967295 | n # ns \<Rightarrow> n)"

text \<open>
  \<open>sortByAlignment\<close>: the variables in buckets by the logarithm of their width on the
  stack, the widest bucket first; the two assertions are the \<open>None\<close> result.
\<close>

definition sortByAlignment :: "LoweringState \<Rightarrow> nat list \<Rightarrow> nat list option" where
  "sortByAlignment s Source =
     (let NumBuckets = X86_LOG2_OF_MAX_STACK_SLOT_SIZE - X86_LOG2_OF_MIN_STACK_SLOT_SIZE + 1;
          LogNaturalAlignment =
            (\<lambda>Var. findFirstSet (typeWidthInBytesOnStack (Ty (getVar s Var))))
      in if \<exists>Var \<in> set Source.
              \<not> (X86_LOG2_OF_MIN_STACK_SLOT_SIZE \<le> LogNaturalAlignment Var
                 \<and> LogNaturalAlignment Var \<le> X86_LOG2_OF_MAX_STACK_SLOT_SIZE)
         then None
         else Some (concat (map
                (\<lambda>I. filter (\<lambda>Var. LogNaturalAlignment Var - X86_LOG2_OF_MIN_STACK_SLOT_SIZE
                                    = NumBuckets - I - 1) Source)
                [0 ..< NumBuckets])))"

definition setStackOffset :: "nat \<Rightarrow> int \<Rightarrow> LoweringState \<Rightarrow> LoweringState" where
  "setStackOffset v Offset = updVar v (\<lambda>x. x\<lparr>StackOffset := Offset\<rparr>)"

text \<open>
  \<open>finishArgumentLowering\<close> for an argument passed on the stack. The recursion of the
  source on the halves of a split \<open>i64\<close> argument is one level deep (the halves are
  asserted not to be \<open>i64\<close>): \<open>finishArgumentLowering_slot\<close> is the part after the test
  for the halves.
\<close>

definition finishArgumentLowering_slot ::
  "nat \<Rightarrow> nat \<Rightarrow> nat \<Rightarrow> nat \<Rightarrow> LoweringState \<Rightarrow> (nat \<times> LoweringState) option" where
  "finishArgumentLowering_slot Arg FramePtr BasicFrameOffset InArgsSizeBytes0 s =
     do { let ty = Ty (getVar s Arg);
          InArgsSizeBytes \<leftarrow>
            (if isVectorType ty
             then map_option unat (applyStackAlignment (of_nat InArgsSizeBytes0))
             else Some InArgsSizeBytes0);
          let s = setStackOffset Arg (int (BasicFrameOffset + InArgsSizeBytes)) s;
          let InArgsSizeBytes1 = InArgsSizeBytes + unat (typeWidthInBytesOnStack ty);
          if hasReg s Arg
          then if ty = IceType_i64 then None
               else
                 (let Mem = OpX8632Mem ty (Some FramePtr)
                              (Some (ConstantInteger IceType_i32
                                       (of_int (StackOffset (getVar s Arg)))))
                              None 0 DefaultSegment
                  in Some (InArgsSizeBytes1,
                           if isVectorType ty then ins Movp (Some Arg) [Mem] s
                           else ins Mov (Some Arg) [Mem] s))
          else Some (InArgsSizeBytes1, s) }"

definition finishArgumentLowering ::
  "nat \<Rightarrow> nat \<Rightarrow> nat \<Rightarrow> nat \<Rightarrow> LoweringState \<Rightarrow> (nat \<times> LoweringState) option" where
  "finishArgumentLowering Arg FramePtr BasicFrameOffset InArgsSizeBytes s =
     (case (LoVar (getVar s Arg), HiVar (getVar s Arg)) of
        (Some Lo, Some Hi) \<Rightarrow>
          if Ty (getVar s Arg) = IceType_i64
          then if Ty (getVar s Lo) = IceType_i64 \<or> Ty (getVar s Hi) = IceType_i64 then None
               else do { (InArgsSizeBytes1, s1) \<leftarrow>
                           finishArgumentLowering_slot Lo FramePtr BasicFrameOffset
                             InArgsSizeBytes s;
                         finishArgumentLowering_slot Hi FramePtr BasicFrameOffset
                           InArgsSizeBytes1 s1 }
          else finishArgumentLowering_slot Arg FramePtr BasicFrameOffset InArgsSizeBytes s
      | _ \<Rightarrow> finishArgumentLowering_slot Arg FramePtr BasicFrameOffset InArgsSizeBytes s)"

text \<open>
  The loops of \<open>addProlog\<close>. The prepass over the variables computes \<open>RegsUsed\<close>,
  \<open>SpilledVariables\<close> and \<open>VariablesLinkedToSpillSplots\<close>; an index outside the bit
  vector \<open>RegsUsed\<close> is the \<open>None\<close> result. Modelled from the spec for the members of
  \<open>Variable\<close> (not part of the source files): a variable has "a defining node or none
  meaning multi-block life", so \<open>isMultiblockLife\<close> is \<open>DefNode = None\<close> and
  \<open>getLocalUseNode\<close> is the defining node.
\<close>

fun addProlog_prepass ::
  "bool \<Rightarrow> LoweringState \<Rightarrow> nat list \<Rightarrow> bool list \<times> nat list \<times> nat list
   \<Rightarrow> (bool list \<times> nat list \<times> nat list) option" where
  "addProlog_prepass ComputedLiveRanges s [] acc = Some acc"
| "addProlog_prepass ComputedLiveRanges s (Var # Vars)
     (RegsUsed, SpilledVariables, VariablesLinkedToSpillSplots) =
     (if hasReg s Var
      then if 0 \<le> RegNum (getVar s Var) \<and> nat (RegNum (getVar s Var)) < length RegsUsed
           then addProlog_prepass ComputedLiveRanges s Vars
                  (RegsUsed[nat (RegNum (getVar s Var)) := True], SpilledVariables,
                   VariablesLinkedToSpillSplots)
           else None
      else if IsArgument (getVar s Var)
      then addProlog_prepass ComputedLiveRanges s Vars
             (RegsUsed, SpilledVariables, VariablesLinkedToSpillSplots)
      else if ComputedLiveRanges \<and> LiveRangeIsEmpty (getVar s Var)
      then addProlog_prepass ComputedLiveRanges s Vars
             (RegsUsed, SpilledVariables, VariablesLinkedToSpillSplots)
      else if Weight (getVar s Var) = RegWeight_Zero \<and> AllowRegisterOverlap (getVar s Var)
              \<and> (case RegisterPreference (getVar s Var) of
                    Some Linked \<Rightarrow> \<not> hasReg s Linked
                  | None \<Rightarrow> False)
      then addProlog_prepass ComputedLiveRanges s Vars
             (RegsUsed, SpilledVariables, VariablesLinkedToSpillSplots @ [Var])
      else addProlog_prepass ComputedLiveRanges s Vars
             (RegsUsed, SpilledVariables @ [Var], VariablesLinkedToSpillSplots))"

text \<open>
  The loop over the sorted spilled variables that computes \<open>SpillAreaAlignmentBytes\<close>,
  \<open>GlobalsSize\<close>, \<open>LocalsSize\<close> (a size per node), \<open>SpillAreaSizeBytes\<close> (here
  \<open>SpillAreaSize\<close>) and \<open>LocalsSlotsAlignmentBytes\<close>.
\<close>

fun addProlog_spillSizes ::
  "bool \<Rightarrow> LoweringState \<Rightarrow> nat list
   \<Rightarrow> uint32_t \<times> nat \<times> (nat \<Rightarrow> nat) \<times> nat \<times> uint32_t
   \<Rightarrow> uint32_t \<times> nat \<times> (nat \<Rightarrow> nat) \<times> nat \<times> uint32_t" where
  "addProlog_spillSizes SimpleCoalescing s [] acc = acc"
| "addProlog_spillSizes SimpleCoalescing s (Var # Vars)
     (SpillAreaAlignmentBytes0, GlobalsSize, LocalsSize, SpillAreaSize,
      LocalsSlotsAlignmentBytes) =
     (let Increment = unat (typeWidthInBytesOnStack (Ty (getVar s Var)));
          SpillAreaAlignmentBytes =
            (if SpillAreaAlignmentBytes0 = 0 then of_nat Increment
             else SpillAreaAlignmentBytes0)
      in if SimpleCoalescing
         then (case DefNode (getVar s Var) of
                 None \<Rightarrow>
                   addProlog_spillSizes SimpleCoalescing s Vars
                     (SpillAreaAlignmentBytes, GlobalsSize + Increment, LocalsSize,
                      SpillAreaSize, LocalsSlotsAlignmentBytes)
               | Some NodeIndex \<Rightarrow>
                   (let LocalsSize1 = LocalsSize(NodeIndex := LocalsSize NodeIndex + Increment)
                    in addProlog_spillSizes SimpleCoalescing s Vars
                         (SpillAreaAlignmentBytes, GlobalsSize, LocalsSize1,
                          if LocalsSize1 NodeIndex > SpillAreaSize
                          then LocalsSize1 NodeIndex else SpillAreaSize,
                          if LocalsSlotsAlignmentBytes = 0 then of_nat Increment
                          else LocalsSlotsAlignmentBytes)))
         else addProlog_spillSizes SimpleCoalescing s Vars
                (SpillAreaAlignmentBytes, GlobalsSize, LocalsSize,
                 SpillAreaSize + Increment, LocalsSlotsAlignmentBytes))"

text \<open>
  The pushes of the preserved registers that are used; \<open>_push\<close> inserts a \<open>push\<close> of
  the register's variable.
\<close>

fun addProlog_pushes ::
  "bool list \<Rightarrow> bool list \<Rightarrow> nat list \<Rightarrow> nat \<Rightarrow> LoweringState
   \<Rightarrow> (nat \<times> LoweringState) option" where
  "addProlog_pushes CalleeSaves RegsUsed [] PreservedRegsSizeBytes s =
     Some (PreservedRegsSizeBytes, s)"
| "addProlog_pushes CalleeSaves RegsUsed (i # is) PreservedRegsSizeBytes s =
     (if CalleeSaves ! i \<and> RegsUsed ! i
      then do { (Reg, s1) \<leftarrow> getPhysicalRegister (int i) s;
                addProlog_pushes CalleeSaves RegsUsed is (PreservedRegsSizeBytes + 4)
                  (ins Push None [OpVariable Reg] s1) }
      else addProlog_pushes CalleeSaves RegsUsed is PreservedRegsSizeBytes s)"

text \<open>
  The loop over the arguments: the first \<open>X86_MAX_XMM_ARGS\<close> vector arguments are in
  registers, the others get their offset from \<open>finishArgumentLowering\<close>.
\<close>

fun addProlog_args ::
  "nat \<Rightarrow> nat \<Rightarrow> nat list \<Rightarrow> nat \<Rightarrow> nat \<Rightarrow> LoweringState
   \<Rightarrow> (nat \<times> LoweringState) option" where
  "addProlog_args FramePtr BasicFrameOffset [] NumXmmArgs InArgsSizeBytes s =
     Some (InArgsSizeBytes, s)"
| "addProlog_args FramePtr BasicFrameOffset (Arg # Rest) NumXmmArgs InArgsSizeBytes s =
     (if isVectorType (Ty (getVar s Arg)) \<and> NumXmmArgs < X86_MAX_XMM_ARGS
      then addProlog_args FramePtr BasicFrameOffset Rest (NumXmmArgs + 1) InArgsSizeBytes s
      else do { (InArgsSizeBytes1, s1) \<leftarrow>
                  finishArgumentLowering Arg FramePtr BasicFrameOffset InArgsSizeBytes s;
                addProlog_args FramePtr BasicFrameOffset Rest NumXmmArgs InArgsSizeBytes1 s1 })"

text \<open>The loop that fills in the stack offsets of the spilled variables.\<close>

fun addProlog_locals ::
  "bool \<Rightarrow> nat \<Rightarrow> nat \<Rightarrow> nat list \<Rightarrow> nat \<times> (nat \<Rightarrow> nat) \<times> nat
   \<Rightarrow> LoweringState \<Rightarrow> nat \<times> LoweringState" where
  "addProlog_locals SimpleCoalescing SpillAreaPaddingBytes GlobalsAndSubsequentPaddingSize []
     (GlobalsSpaceUsed, LocalsSize, NextStackOffset) s = (NextStackOffset, s)"
| "addProlog_locals SimpleCoalescing SpillAreaPaddingBytes GlobalsAndSubsequentPaddingSize
     (Var # Vars) (GlobalsSpaceUsed, LocalsSize, NextStackOffset0) s =
     (let Increment = unat (typeWidthInBytesOnStack (Ty (getVar s Var)));
          (GlobalsSpaceUsed1, LocalsSize1, NextStackOffset) =
            (if SimpleCoalescing
             then (case DefNode (getVar s Var) of
                     None \<Rightarrow>
                       (GlobalsSpaceUsed + Increment, LocalsSize, GlobalsSpaceUsed + Increment)
                   | Some NodeIndex \<Rightarrow>
                       (GlobalsSpaceUsed,
                        LocalsSize(NodeIndex := LocalsSize NodeIndex + Increment),
                        SpillAreaPaddingBytes + GlobalsAndSubsequentPaddingSize
                          + (LocalsSize NodeIndex + Increment)))
             else (GlobalsSpaceUsed, LocalsSize, NextStackOffset0 + Increment));
          s1 = (if IsEbpBasedFrame s then setStackOffset Var (- int NextStackOffset) s
                else setStackOffset Var (int (SpillAreaSizeBytes s) - int NextStackOffset) s)
      in addProlog_locals SimpleCoalescing SpillAreaPaddingBytes
           GlobalsAndSubsequentPaddingSize Vars
           (GlobalsSpaceUsed1, LocalsSize1, NextStackOffset) s1)"

text \<open>
  The variables linked to a spilled variable take its stack offset.
\<close>

fun addProlog_linked :: "nat list \<Rightarrow> LoweringState \<Rightarrow> LoweringState option" where
  "addProlog_linked [] s = Some s"
| "addProlog_linked (Var # Vars) s =
     (case RegisterPreference (getVar s Var) of
        None \<Rightarrow> None
      | Some Linked \<Rightarrow>
          addProlog_linked Vars (setStackOffset Var (StackOffset (getVar s Linked)) s))"

text \<open>
  The first part of \<open>addProlog\<close>, up to the padding between the globals and the locals
  area: it returns the locals \<open>PreservedRegsSizeBytes\<close>, \<open>SpillAreaPaddingBytes\<close>,
  \<open>GlobalsAndSubsequentPaddingSize\<close>, \<open>SortedSpilledVariables\<close> and
  \<open>VariablesLinkedToSpillSplots\<close>, which the rest of the function reads.
  \<open>callsReturnsTwice\<close> and \<open>ComputedLiveRanges\<close> are parameters, \<open>CalleeSaves\<close> is
  \<open>PreservedRegs\<close> of the target's register table, and the frame pointer set is
  \<open>ebp\<close>. The prolog is inserted at the start of the entry node: the inserted
  instructions follow each other in \<open>Inserted\<close>. \<open>RegsUsed\<close>, \<open>FrameSizeLocals\<close>,
  \<open>HasComputedFrame\<close> and the stack adjustment of the base class are members that no
  function of the model reads again: they are not part of the state.
\<close>

definition addProlog_spillArea ::
  "Target \<Rightarrow> bool \<Rightarrow> bool \<Rightarrow> LoweringState
   \<Rightarrow> ((nat \<times> uint32_t \<times> uint32_t \<times> nat list \<times> nat list) \<times> LoweringState) option" where
  "addProlog_spillArea T CallsReturnsTwice ComputedLiveRanges s0 =
     do { let SimpleCoalescing = \<not> CallsReturnsTwice;
          let s = s0\<lparr>SpillAreaSizeBytes := 0\<rparr>;
          let CalleeSaves = PreservedRegs T;
          (RegsUsed, SpilledVariables, VariablesLinkedToSpillSplots) \<leftarrow>
            addProlog_prepass ComputedLiveRanges s [0 ..< length (Variables s)]
              (replicate (length CalleeSaves) False, [], []);
          SortedSpilledVariables \<leftarrow> sortByAlignment s SpilledVariables;
          let (SpillAreaAlignmentBytes, GlobalsSize, LocalsSize, Size,
               LocalsSlotsAlignmentBytes) =
                addProlog_spillSizes SimpleCoalescing s SortedSpilledVariables
                  (0, 0, (\<lambda>NodeIndex. 0), SpillAreaSizeBytes s, 0);
          let s = s\<lparr>SpillAreaSizeBytes := Size + GlobalsSize\<rparr>;
          (PreservedRegsSizeBytes0, s) \<leftarrow>
            addProlog_pushes CalleeSaves RegsUsed [0 ..< length CalleeSaves] 0 s;
          (PreservedRegsSizeBytes, s) \<leftarrow>
            (if IsEbpBasedFrame s
             then if RegsUsed ! nat (Reg_ebp T) then None
                  else do { (ebp, s) \<leftarrow> getPhysicalRegister (Reg_ebp T) s;
                            (esp, s) \<leftarrow> getPhysicalRegister (Reg_esp T) s;
                            let s = ins Push None [OpVariable ebp] s;
                            Some (PreservedRegsSizeBytes0 + 4,
                                  ins Mov (Some ebp) [OpVariable esp] s) }
             else Some (PreservedRegsSizeBytes0, s));
          (SpillAreaPaddingBytes, s) \<leftarrow>
            (if SpillAreaAlignmentBytes \<noteq> 0
             then if \<not> SpillAreaAlignmentBytes \<le> X86_STACK_ALIGNMENT_BYTES then None
                  else do { let PaddingStart =
                                  X86_RET_IP_SIZE_BYTES + of_nat PreservedRegsSizeBytes;
                            SpillAreaStart \<leftarrow> applyAlignment PaddingStart SpillAreaAlignmentBytes;
                            let SpillAreaPaddingBytes = SpillAreaStart - PaddingStart;
                            Some (SpillAreaPaddingBytes,
                                  s\<lparr>SpillAreaSizeBytes :=
                                       SpillAreaSizeBytes s + unat SpillAreaPaddingBytes\<rparr>) }
             else Some (0, s));
          (GlobalsAndSubsequentPaddingSize, s) \<leftarrow>
            (if LocalsSlotsAlignmentBytes \<noteq> 0
             then if \<not> LocalsSlotsAlignmentBytes \<le> SpillAreaAlignmentBytes then None
                  else do { GlobalsAndSubsequentPaddingSize \<leftarrow>
                              applyAlignment (of_nat GlobalsSize) LocalsSlotsAlignmentBytes;
                            Some (GlobalsAndSubsequentPaddingSize,
                                  s\<lparr>SpillAreaSizeBytes :=
                                       SpillAreaSizeBytes s
                                       + (unat GlobalsAndSubsequentPaddingSize - GlobalsSize)\<rparr>) }
             else Some (of_nat GlobalsSize, s));
          Some ((PreservedRegsSizeBytes, SpillAreaPaddingBytes, GlobalsAndSubsequentPaddingSize,
                 SortedSpilledVariables, VariablesLinkedToSpillSplots), s) }"

text \<open>
  \<open>addProlog\<close>: after the spill area has been sized, \<open>esp\<close> is aligned if necessary,
  the \<open>sub\<close> of the frame size from \<open>esp\<close> is inserted, and the stack offsets of the
  arguments and of the spilled variables are filled in. Modelled from the spec for
  \<open>getFrameOrStackReg\<close> (declared in the target's header): the frame is addressed in
  "frame-pointer vs stack-pointer" mode, from \<open>ebp\<close> when the frame is \<open>ebp\<close> based and
  from \<open>esp\<close> otherwise.
\<close>

definition addProlog ::
  "Target \<Rightarrow> bool \<Rightarrow> bool \<Rightarrow> LoweringState \<Rightarrow> LoweringState option" where
  "addProlog T CallsReturnsTwice ComputedLiveRanges s0 =
     do { ((PreservedRegsSizeBytes, SpillAreaPaddingBytes, GlobalsAndSubsequentPaddingSize,
            SortedSpilledVariables, VariablesLinkedToSpillSplots), s) \<leftarrow>
            addProlog_spillArea T CallsReturnsTwice ComputedLiveRanges s0;
          s \<leftarrow> (if NeedsStackAlignment s
                then do { let StackOffset =
                                X86_RET_IP_SIZE_BYTES + of_nat PreservedRegsSizeBytes;
                          StackSize \<leftarrow>
                            applyStackAlignment
                              (of_nat (unat StackOffset + SpillAreaSizeBytes s));
                          Some (s\<lparr>SpillAreaSizeBytes := unat (StackSize - StackOffset)\<rparr>) }
                else Some s);
          s \<leftarrow> (if SpillAreaSizeBytes s \<noteq> 0
                then do { (esp, s1) \<leftarrow> getPhysicalRegister (Reg_esp T) s;
                          Some (ins Sub (Some esp)
                                  [OpConstant (ConstantInteger IceType_i32
                                                 (of_nat (SpillAreaSizeBytes s1)))] s1) }
                else Some s);
          (FramePtr, s) \<leftarrow>
            getPhysicalRegister (if IsEbpBasedFrame s then Reg_ebp T else Reg_esp T) s;
          let BasicFrameOffset =
                PreservedRegsSizeBytes + unat X86_RET_IP_SIZE_BYTES
                + (if \<not> IsEbpBasedFrame s then SpillAreaSizeBytes s else 0);
          (InArgsSizeBytes, s) \<leftarrow> addProlog_args FramePtr BasicFrameOffset (Args s) 0 0 s;
          let (NextStackOffset, s) =
                addProlog_locals (\<not> CallsReturnsTwice) (unat SpillAreaPaddingBytes)
                  (unat GlobalsAndSubsequentPaddingSize) SortedSpilledVariables
                  (unat SpillAreaPaddingBytes, (\<lambda>NodeIndex. 0), unat SpillAreaPaddingBytes) s;
          addProlog_linked VariablesLinkedToSpillSplots s }"

text \<open>
  \<open>lowerAlloca\<close>, for the destination, the size operand and the alignment of the
  instruction. The assertion that the alignment is a power of two is the \<open>None\<close>
  result.
\<close>

definition lowerAlloca ::
  "Target \<Rightarrow> nat \<Rightarrow> Operand \<Rightarrow> uint32_t \<Rightarrow> LoweringState \<Rightarrow> LoweringState option" where
  "lowerAlloca T Dest SizeInBytes AlignInBytes s0 =
     do { let s = s0\<lparr>IsEbpBasedFrame := True\<rparr>;
          let s = s\<lparr>NeedsStackAlignment := True\<rparr>;
          (esp, s) \<leftarrow> getPhysicalRegister (Reg_esp T) s;
          (TotalSize, s) \<leftarrow> legalize SizeInBytes Legal_All False NoRegister s;
          let AlignmentParam = max AlignInBytes 1;
          if AlignmentParam AND (AlignmentParam - 1) \<noteq> 0 then None
          else
            do { let Alignment = max AlignmentParam X86_STACK_ALIGNMENT_BYTES;
                 let s = (if Alignment > X86_STACK_ALIGNMENT_BYTES
                          then ins And (Some esp)
                                 [OpConstant (ConstantInteger IceType_i32 (ucast (- Alignment)))] s
                          else s);
                 s \<leftarrow> (case TotalSize of
                         OpConstant (ConstantInteger ty v) \<Rightarrow>
                           do { Value \<leftarrow> applyAlignment (ucast v) Alignment;
                                Some (ins Sub (Some esp)
                                        [OpConstant (ConstantInteger IceType_i32 (ucast Value))]
                                        s) }
                       | _ \<Rightarrow>
                           do { (T1, s) \<leftarrow> makeReg IceType_i32 NoRegister s;
                                let s = ins Mov (Some T1) [TotalSize] s;
                                let s = ins Add (Some T1)
                                          [OpConstant (ConstantInteger IceType_i32
                                                         (ucast (Alignment - 1)))] s;
                                let s = ins And (Some T1)
                                          [OpConstant (ConstantInteger IceType_i32
                                                         (ucast (- Alignment)))] s;
                                Some (ins Sub (Some esp) [OpVariable T1] s) });
                 Some (ins Mov (Some Dest) [OpVariable esp] s) } }"

text \<open>\<open>push\<close> instructions, for counting them.\<close>

fun isPush :: "InstX8632 \<Rightarrow> bool" where
  "isPush (X86 Push Dest Srcs) = True"
| "isPush _ = False"

text \<open>
  A function in which a call has been lowered: the variables are \<open>a\<close> (\<open>i32\<close>, number
  0), \<open>x\<close> (\<open>i64\<close>, number 1) and a temporary in the callee-save register \<open>ebx\<close>
  (number 2).
\<close>

definition frameExample :: LoweringState where
  "frameExample =
     emptyFunc\<lparr>Variables :=
       [newVariable IceType_i32 None ''a'', newVariable IceType_i64 None ''x'',
        (newVariable IceType_i32 None ''t'')\<lparr>RegNum := 3\<rparr>],
       NeedsStackAlignment := True\<rparr>"

section \<open>Rounding up to a power of two\<close>

lemma unat_pow2: "k < 32 \<Longrightarrow> unat (2 ^ k :: uint32_t) = 2 ^ k"
proof -
  assume k: "k < 32"
  have "(2 ^ k :: uint32_t) = of_nat (2 ^ k)" by simp
  then have "unat (2 ^ k :: uint32_t) = 2 ^ k mod 2 ^ 32"
    by (simp only: unat_of_nat) simp
  moreover have "(2::nat) ^ k < 2 ^ 32" using k by (rule power_strict_increasing) simp
  ultimately show ?thesis by simp
qed

lemma pow2_and_pred: "(2 ^ k :: uint32_t) AND (2 ^ k - 1) = 0"
proof -
  have "(2 ^ k - 1 :: uint32_t) = mask k" by (simp add: mask_eq_exp_minus_1)
  moreover have "(2 ^ k :: uint32_t) AND mask k = 0"
    by (rule bit_eqI) (auto simp: bit_simps)
  ultimately show ?thesis by simp
qed

lemma unat_take_bit32: "unat (take_bit k (w :: uint32_t)) = unat w mod 2 ^ k"
  by (metis unsigned_take_bit_eq take_bit_eq_mod)

lemma round_up_nat:
  fixes V A :: nat
  assumes "0 < A"
  defines "r \<equiv> (V + A - 1) - (V + A - 1) mod A"
  shows "A dvd r" "V \<le> r" "\<And>m. A dvd m \<Longrightarrow> V \<le> m \<Longrightarrow> r \<le> m"
proof -
  show d: "A dvd r" unfolding r_def by (rule dvd_minus_mod)
  have "(V + A - 1) mod A < A" using assms(1) by simp
  then show "V \<le> r" unfolding r_def by linarith
  fix m assume m: "A dvd m" "V \<le> m"
  have "r \<le> V + A - 1" unfolding r_def by simp
  with m(2) assms(1) have lt: "r < m + A" by linarith
  from d obtain a where a: "r = A * a" by (auto elim: dvdE)
  from m(1) obtain b where b: "m = A * b" by (auto elim: dvdE)
  from lt have "A * a < A * (b + 1)" by (simp add: a b)
  then have "a < b + 1" by (rule mult_less_cancel1 [THEN iffD1, THEN conjunct2])
  then have "a \<le> b" by simp
  then show "r \<le> m" by (simp add: a b)
qed

lemma and_neg_pow2: "(w :: uint32_t) AND (- (2 ^ k)) = w - take_bit k w"
proof -
  have a: "w AND NOT (mask k) = push_bit k (drop_bit k w)"
    by (rule bit_eqI) (auto simp: bit_simps)
  have "push_bit k (drop_bit k w) + take_bit k w = w" by (rule bits_ident)
  then have "push_bit k (drop_bit k w) = w - take_bit k w" by (simp add: algebra_simps)
  with a show ?thesis by (simp add: minus_exp_eq_not_mask)
qed

lemma unat_and_neg_pow2:
  "unat ((w :: uint32_t) AND (- (2 ^ k))) = unat w - unat w mod 2 ^ k"
proof -
  have le: "take_bit k w \<le> w"
    by (simp add: word_le_nat_alt unat_take_bit32)
  have "unat (w - take_bit k w) = unat w - unat (take_bit k w)"
    using le by (rule unat_sub)
  then show ?thesis
    by (simp only: and_neg_pow2 unat_take_bit32)
qed

lemma unat_round_arg:
  assumes k: "k < 32" and nov: "unat Value + 2 ^ k - 1 < 2 ^ 32"
  shows "unat ((Value :: uint32_t) + 2 ^ k - 1) = unat Value + 2 ^ k - 1"
proof -
  have nz: "(2 ^ k :: uint32_t) \<noteq> 0"
    using unat_pow2[OF k] by (metis unat_0 power_not_zero zero_neq_numeral)
  have p: "unat (2 ^ k - 1 :: uint32_t) = 2 ^ k - 1"
    using nz by (simp add: unat_minus_one unat_pow2[OF k])
  have "unat Value + unat (2 ^ k - 1 :: uint32_t) < 2 ^ LENGTH(32)"
    using nov p by simp
  then have s: "unat (Value + (2 ^ k - 1)) = unat Value + unat (2 ^ k - 1 :: uint32_t)"
    by (simp only: unat_add_lem)
  have e: "Value + 2 ^ k - 1 = Value + (2 ^ k - 1)" by simp
  have "unat (Value + 2 ^ k - 1) = unat (Value + (2 ^ k - 1))" by (simp only: e)
  also have "\<dots> = unat Value + (2 ^ k - 1)" by (simp only: s p)
  also have "\<dots> = unat Value + 2 ^ k - 1" by simp
  finally show ?thesis .
qed

text \<open>
  When \<open>Alignment\<close> is a power of two other than zero and \<open>Value + Alignment - 1\<close> does
  not overflow 32 bits, \<open>applyAlignment\<close> returns (its assertion holds) the smallest
  multiple of \<open>Alignment\<close> that is greater than or equal to \<open>Value\<close>.
\<close>

lemma applyAlignment_round_up:
  assumes k: "k < 32" and al: "Alignment = 2 ^ k"
      and nov: "unat Value + unat Alignment - 1 < 2 ^ 32"
  shows "\<exists>r. applyAlignment Value Alignment = Some r
           \<and> unat Alignment dvd unat r \<and> unat Value \<le> unat r
           \<and> (\<forall>m. unat Alignment dvd m \<and> unat Value \<le> m \<longrightarrow> unat r \<le> m)"
proof -
  have ua: "unat Alignment = 2 ^ k" using k by (simp add: al unat_pow2)
  have pos: "0 < (2::nat) ^ k" by simp
  have w: "unat (Value + 2 ^ k - 1) = unat Value + 2 ^ k - 1"
    using k nov unfolding ua by (rule unat_round_arg)
  have r: "applyAlignment Value Alignment = Some ((Value + 2 ^ k - 1) AND (- (2 ^ k)))"
    by (simp add: applyAlignment_def al pow2_and_pred)
  have u: "unat ((Value + 2 ^ k - 1) AND (- (2 ^ k)))
           = (unat Value + 2 ^ k - 1) - (unat Value + 2 ^ k - 1) mod 2 ^ k"
    by (simp only: unat_and_neg_pow2 w)
  note ru = round_up_nat[where V = "unat Value" and A = "2 ^ k", OF pos]
  have "unat Alignment dvd unat ((Value + 2 ^ k - 1) AND (- (2 ^ k)))"
    unfolding u ua by (rule ru(1))
  moreover have "unat Value \<le> unat ((Value + 2 ^ k - 1) AND (- (2 ^ k)))"
    unfolding u by (rule ru(2))
  moreover have "\<forall>m. unat Alignment dvd m \<and> unat Value \<le> m
                  \<longrightarrow> unat ((Value + 2 ^ k - 1) AND (- (2 ^ k))) \<le> m"
    unfolding u ua using ru(3) by blast
  ultimately show ?thesis using r by blast
qed

section \<open>Switch\<close>

lemma Inserted_lowerSwitch_cases:
  "Inserted (lowerSwitch_cases Src0 Cases s) =
     Inserted s @ concat (map (\<lambda>(v, l).
        [X86 Cmp None [Src0, OpConstant (ConstantInteger IceType_i32 v)],
         X86Br Br_e (Some l) None None]) Cases)"
  by (induction Cases arbitrary: s) (auto simp: ins_def br_cond_def Context_insert_def)

lemma legalize_Variable_RegMem:
  "legalize (OpVariable v) {Legal_Reg, Legal_Mem} ov NoRegister s = Some (OpVariable v, s)"
  by (simp add: legalize.simps)

text \<open>
  C9 (as amended). \<open>lowerSwitch\<close> first legalizes the comparison operand, which may
  insert instructions; after those it inserts one \<open>cmp\<close> followed by one \<open>je\<close> per
  case, in case order, and the \<open>jmp\<close> to the default label last. For a switch with
  zero cases whose comparison operand is a variable the legalization inserts nothing,
  and the single \<open>jmp\<close> to the default label is all that is inserted.
\<close>

theorem lowerSwitch_sequence:
  "lowerSwitch (OpVariable v) LabelDefault [] s = Some (br LabelDefault s)
   \<and> Inserted (br LabelDefault s) = Inserted s @ [X86Br Br_None None (Some LabelDefault) None]
   \<and> (\<forall>s'. lowerSwitch Comparison LabelDefault Cases s = Some s' \<longrightarrow>
        (\<exists>Src0 s1.
           (if length Cases \<ge> 2
            then (\<exists>v. legalizeToVar Comparison True NoRegister s = Some (v, s1)
                      \<and> Src0 = OpVariable v)
            else legalize Comparison {Legal_Reg, Legal_Mem} True NoRegister s = Some (Src0, s1))
           \<and> Inserted s' =
               Inserted s1
               @ concat (map (\<lambda>(Value, Label).
                    [X86 Cmp None [Src0, OpConstant (ConstantInteger IceType_i32 Value)],
                     X86Br Br_e (Some Label) None None]) Cases)
               @ [X86Br Br_None None (Some LabelDefault) None]))"
proof (intro conjI allI impI)
  show "lowerSwitch (OpVariable v) LabelDefault [] s = Some (br LabelDefault s)"
    by (simp add: lowerSwitch_def legalize_Variable_RegMem)
  show "Inserted (br LabelDefault s) = Inserted s @ [X86Br Br_None None (Some LabelDefault) None]"
    by (simp add: br_def Context_insert_def)
next
  fix s' assume a: "lowerSwitch Comparison LabelDefault Cases s = Some s'"
  show "\<exists>Src0 s1.
           (if length Cases \<ge> 2
            then (\<exists>v. legalizeToVar Comparison True NoRegister s = Some (v, s1)
                      \<and> Src0 = OpVariable v)
            else legalize Comparison {Legal_Reg, Legal_Mem} True NoRegister s = Some (Src0, s1))
           \<and> Inserted s' =
               Inserted s1
               @ concat (map (\<lambda>(Value, Label).
                    [X86 Cmp None [Src0, OpConstant (ConstantInteger IceType_i32 Value)],
                     X86Br Br_e (Some Label) None None]) Cases)
               @ [X86Br Br_None None (Some LabelDefault) None]"
    using a
    by (auto simp: lowerSwitch_def Inserted_lowerSwitch_cases br_def Context_insert_def
             split: if_splits Option.bind_splits)
qed

theorem lowerSwitch_sequence_witness:
  "\<exists>s' s1 v.
     lowerSwitch (OpVariable 0) 7 [(1, 2), (3, 4)]
        (snd (makeVariable IceType_i32 None ''a'' emptyFunc)) = Some s'
     \<and> legalizeToVar (OpVariable 0) True NoRegister
        (snd (makeVariable IceType_i32 None ''a'' emptyFunc)) = Some (v, s1)
     \<and> Inserted s' =
          Inserted s1
          @ [X86 Cmp None [OpVariable v, OpConstant (ConstantInteger IceType_i32 1)],
             X86Br Br_e (Some 2) None None,
             X86 Cmp None [OpVariable v, OpConstant (ConstantInteger IceType_i32 3)],
             X86Br Br_e (Some 4) None None]
          @ [X86Br Br_None None (Some 7) None]"
proof -
  let ?s0 = "snd (makeVariable IceType_i32 None ''a'' emptyFunc)"
  have "lowerSwitch (OpVariable 0) 7 [(1, 2), (3, 4)] ?s0 \<noteq> None"
    by code_simp
  then obtain s' where s': "lowerSwitch (OpVariable 0) 7 [(1, 2), (3, 4)] ?s0 = Some s'"
    by blast
  note t = lowerSwitch_sequence[where Comparison = "OpVariable 0" and LabelDefault = 7
             and Cases = "[(1, 2), (3, 4)]" and s = ?s0 and v = 0]
  from t s' show ?thesis by auto
qed

text \<open>
  A switch without cases on the constant 5: the legalization of the comparison operand
  inserts a move before the jump.
\<close>

theorem lowerSwitch_constant_counterexample:
  "map_option Inserted (lowerSwitch (OpConstant (ConstantInteger IceType_i32 5)) 7 [] emptyFunc)
   = Some [X86 Mov (Some 0) [OpConstant (ConstantInteger IceType_i32 5)],
           X86Br Br_None None (Some 7) None]"
  by code_simp

section \<open>Rejected instructions\<close>

lemma Inserted_setError [simp]: "Inserted (setError m s) = Inserted s"
  by (simp add: setError_def)

lemma HasError_setError [simp]: "HasError (setError m s)"
  by (simp add: setError_def)

lemma ErrorMessage_setError [simp]: "ErrorMessage (setError m s) = m"
  by (simp add: setError_def)

text \<open>
  C8. A phi in the regular instruction list, an unsupported cast kind, a memory-order
  argument of an atomic intrinsic that \<open>VerifyMemoryOrder\<close> refuses (the success or the
  failure order of \<open>AtomicCmpxchg\<close>, the order of \<open>AtomicFence\<close>, \<open>AtomicLoad\<close>,
  \<open>AtomicRMW\<close>, \<open>AtomicStore\<close>) and a byte size of \<open>AtomicIsLockFree\<close> that is not an
  integer constant: in each case the lowering rule returns with the error state set to
  a message and has inserted no pseudo-instruction.
\<close>

theorem user_IR_violation_rejected:
  "rejected s (lowerPhi s)
   \<and> rejected s (lowerCast lowerSupported Cast_num Dest Src0 s)
   \<and> ((ID = AtomicCmpxchg \<and> n = 3 \<or> ID = AtomicFence \<and> n = 0 \<or> ID = AtomicLoad \<and> n = 1
         \<or> ID = AtomicRMW \<and> n = 3 \<or> ID = AtomicStore \<and> n = 2)
        \<and> getArgConstantInteger args n = Some Order \<and> \<not> VerifyMemoryOrder T Order
        \<longrightarrow> rejected s (lowerIntrinsicCall T lowerValid ID DestOpt args s))
   \<and> (getArgConstantInteger args 3 = Some OrderS \<and> VerifyMemoryOrder T OrderS
        \<and> getArgConstantInteger args 4 = Some OrderF \<and> \<not> VerifyMemoryOrder T OrderF
        \<longrightarrow> rejected s (lowerIntrinsicCall T lowerValid AtomicCmpxchg DestOpt args s))
   \<and> (args \<noteq> [] \<and> (\<forall>ty v. hd args \<noteq> OpConstant (ConstantInteger ty v))
        \<longrightarrow> rejected s (lowerIntrinsicCall T lowerValid AtomicIsLockFree DestOpt args s))"
proof (intro conjI impI)
  show "rejected s (lowerPhi s)" by (simp add: rejected_def lowerPhi_def)
  show "rejected s (lowerCast lowerSupported Cast_num Dest Src0 s)"
    by (simp add: rejected_def lowerCast_def)
next
  assume "(ID = AtomicCmpxchg \<and> n = 3 \<or> ID = AtomicFence \<and> n = 0 \<or> ID = AtomicLoad \<and> n = 1
      \<or> ID = AtomicRMW \<and> n = 3 \<or> ID = AtomicStore \<and> n = 2)
      \<and> getArgConstantInteger args n = Some Order \<and> \<not> VerifyMemoryOrder T Order"
  then show "rejected s (lowerIntrinsicCall T lowerValid ID DestOpt args s)"
    by (auto simp: rejected_def lowerIntrinsicCall_def)
next
  assume "getArgConstantInteger args 3 = Some OrderS \<and> VerifyMemoryOrder T OrderS
    \<and> getArgConstantInteger args 4 = Some OrderF \<and> \<not> VerifyMemoryOrder T OrderF"
  then show "rejected s (lowerIntrinsicCall T lowerValid AtomicCmpxchg DestOpt args s)"
    by (auto simp: rejected_def lowerIntrinsicCall_def)
next
  assume "args \<noteq> [] \<and> (\<forall>ty v. hd args \<noteq> OpConstant (ConstantInteger ty v))"
  then show "rejected s (lowerIntrinsicCall T lowerValid AtomicIsLockFree DestOpt args s)"
    by (cases args)
       (auto simp: rejected_def lowerIntrinsicCall_def split: Operand.splits Constant.splits)
qed

theorem user_IR_violation_rejected_witness:
  "getArgConstantInteger
      [OpVariable 0, OpVariable 1, OpVariable 2,
       OpConstant (ConstantInteger IceType_i32 5), OpConstant (ConstantInteger IceType_i32 6)] 3
     = Some 5
   \<and> \<not> VerifyMemoryOrder X8632 5
   \<and> rejected emptyFunc
        (lowerIntrinsicCall X8632 (\<lambda>ID Dest args s. Some s) AtomicCmpxchg None
           [OpVariable 0, OpVariable 1, OpVariable 2,
            OpConstant (ConstantInteger IceType_i32 5), OpConstant (ConstantInteger IceType_i32 6)]
           emptyFunc)
   \<and> getArgConstantInteger
      [OpVariable 0, OpVariable 1, OpVariable 2,
       OpConstant (ConstantInteger IceType_i32 6), OpConstant (ConstantInteger IceType_i32 5)] 3
     = Some 6
   \<and> VerifyMemoryOrder X8632 6
   \<and> getArgConstantInteger
      [OpVariable 0, OpVariable 1, OpVariable 2,
       OpConstant (ConstantInteger IceType_i32 6), OpConstant (ConstantInteger IceType_i32 5)] 4
     = Some 5
   \<and> rejected emptyFunc
        (lowerIntrinsicCall X8632 (\<lambda>ID Dest args s. Some s) AtomicCmpxchg None
           [OpVariable 0, OpVariable 1, OpVariable 2,
            OpConstant (ConstantInteger IceType_i32 6), OpConstant (ConstantInteger IceType_i32 5)]
           emptyFunc)
   \<and> rejected emptyFunc
        (lowerIntrinsicCall X8632 (\<lambda>ID Dest args s. Some s) AtomicIsLockFree None
           [OpVariable 0] emptyFunc)"
proof -
  let ?lv = "\<lambda>(ID :: IntrinsicID) (Dest :: nat option) (args :: Operand list)
               (s :: LoweringState). Some s"
  let ?a = "[OpVariable 0, OpVariable 1, OpVariable 2,
       OpConstant (ConstantInteger IceType_i32 5), OpConstant (ConstantInteger IceType_i32 6)]"
  let ?b = "[OpVariable 0, OpVariable 1, OpVariable 2,
       OpConstant (ConstantInteger IceType_i32 6), OpConstant (ConstantInteger IceType_i32 5)]"
  have a3: "getArgConstantInteger ?a 3 = Some 5" by (simp add: getArgConstantInteger_def)
  have b3: "getArgConstantInteger ?b 3 = Some 6" by (simp add: getArgConstantInteger_def)
  have b4: "getArgConstantInteger ?b 4 = Some 5" by (simp add: getArgConstantInteger_def)
  have v5: "\<not> VerifyMemoryOrder X8632 5" by (simp add: X8632_def)
  have v6: "VerifyMemoryOrder X8632 6" by (simp add: X8632_def)
  have c: "[OpVariable 0] \<noteq> [] \<and> (\<forall>ty v. hd [OpVariable 0] \<noteq> OpConstant (ConstantInteger ty v))"
    by simp
  note t1 = user_IR_violation_rejected[where ID = AtomicCmpxchg and n = 3 and args = ?a
      and Order = 5 and T = X8632 and s = emptyFunc and lowerValid = ?lv and DestOpt = None,
      THEN conjunct2, THEN conjunct2, THEN conjunct1, THEN mp]
  note t2 = user_IR_violation_rejected[where args = ?b and OrderS = 6 and OrderF = 5
      and T = X8632 and s = emptyFunc and lowerValid = ?lv and DestOpt = None,
      THEN conjunct2, THEN conjunct2, THEN conjunct2, THEN conjunct1, THEN mp]
  note t3 = user_IR_violation_rejected[where args = "[OpVariable 0]"
      and T = X8632 and s = emptyFunc and lowerValid = ?lv and DestOpt = None,
      THEN conjunct2, THEN conjunct2, THEN conjunct2, THEN conjunct2, THEN mp, OF c]
  have r1: "rejected emptyFunc (lowerIntrinsicCall X8632 ?lv AtomicCmpxchg None ?a emptyFunc)"
    using a3 v5 by (intro t1) simp
  have r2: "rejected emptyFunc (lowerIntrinsicCall X8632 ?lv AtomicCmpxchg None ?b emptyFunc)"
    using b3 b4 v5 v6 by (intro t2) simp
  from a3 v5 r1 b3 v6 b4 r2 t3 show ?thesis by (intro conjI)
qed

section \<open>Steps extend the state\<close>

lemma keptVar_refl [simp]: "keptVar x x"
  by (simp add: keptVar_def)

lemma keptVar_trans: "keptVar x y \<Longrightarrow> keptVar y z \<Longrightarrow> keptVar x z"
  by (auto simp: keptVar_def)

lemma ext_refl [simp]: "ext s s"
  by (simp add: ext_def)

lemma ext_trans:
  assumes a: "ext s s1" and b: "ext s1 s2" shows "ext s s2"
proof -
  have "keptVar (Variables s ! v) (Variables s2 ! v)" if "v < length (Variables s)" for v
  proof -
    from a that have "keptVar (Variables s ! v) (Variables s1 ! v)" "v < length (Variables s1)"
      by (simp_all add: ext_def)
    moreover from b this(2) have "keptVar (Variables s1 ! v) (Variables s2 ! v)"
      by (simp add: ext_def)
    ultimately show ?thesis by (blast intro: keptVar_trans)
  qed
  moreover from a b have "length (Variables s) \<le> length (Variables s2)"
    "length (PhysicalRegisters s2) = length (PhysicalRegisters s)"
    "physOK s \<longrightarrow> physOK s2" "\<exists>xs. Inserted s2 = Inserted s @ xs"
    "NeedsStackAlignment s \<longrightarrow> NeedsStackAlignment s2"
    by (auto simp: ext_def)
  ultimately show ?thesis by (simp add: ext_def)
qed

lemma physOK_vars:
  assumes "physOK s" "PhysicalRegisters s' = PhysicalRegisters s"
    "length (Variables s) \<le> length (Variables s')"
    "\<forall>v<length (Variables s). RegNum (Variables s' ! v) = RegNum (Variables s ! v)"
  shows "physOK s'"
  unfolding physOK_def
proof (intro allI impI)
  fix r v assume a: "r < length (PhysicalRegisters s') \<and> PhysicalRegisters s' ! r = Some v"
  with assms(1,2) have "v < length (Variables s) \<and> RegNum (Variables s ! v) = int r"
    unfolding physOK_def by simp
  with assms(3,4) show "v < length (Variables s') \<and> RegNum (Variables s' ! v) = int r"
    by simp
qed

lemma ext_intro:
  assumes "length (Variables s) \<le> length (Variables s')"
    "\<forall>v<length (Variables s). keptVar (Variables s ! v) (Variables s' ! v)"
    "Inserted s' = Inserted s @ xs"
    "PhysicalRegisters s' = PhysicalRegisters s"
    "NeedsStackAlignment s' = NeedsStackAlignment s"
  shows "ext s s'"
proof -
  from assms(2) have "\<forall>v<length (Variables s). RegNum (Variables s' ! v) = RegNum (Variables s ! v)"
    by (simp add: keptVar_def)
  with assms(1,4) have "physOK s \<longrightarrow> physOK s'"
    using physOK_vars[of s s'] by blast
  with assms show ?thesis unfolding ext_def by simp
qed

lemma ext_Context_insert [simp]: "ext s (Context_insert I s)"
  by (rule ext_intro[where xs = "[I]"]) (simp_all add: Context_insert_def)

lemma ext_ins [simp]: "ext s (ins Op D Srcs s)"
  by (simp add: ins_def)

lemma ext_makeVariable: "makeVariable ty n nm s = (v, s') \<Longrightarrow> ext s s'"
  by (rule ext_intro[where xs = "[]"]) (auto simp: makeVariable_def nth_append)

lemma ext_updVar:
  "(\<And>x. keptVar x (f x)) \<Longrightarrow> ext s (updVar v f s)"
  by (cases "v < length (Variables s)"; rule ext_intro[where xs = "[]"])
     (auto simp: updVar_def nth_list_update)

lemma ext_setPreferredRegister [simp]: "ext s (setPreferredRegister v p ov s)"
  by (simp add: setPreferredRegister_def ext_updVar keptVar_def)

lemma ext_setLoHi:
  assumes "v < length (Variables s) \<longrightarrow>
             LoVar (Variables s ! v) = None \<and> HiVar (Variables s ! v) = None"
  shows "ext s (setLoHi v l h s)"
  using assms
  by (cases "v < length (Variables s)"; intro ext_intro[where xs = "[]"])
     (auto simp: setLoHi_def updVar_def nth_list_update keptVar_def)

lemma ext_setIsArg [simp]: "ext s (setIsArg v b s)"
  by (simp add: setIsArg_def ext_updVar keptVar_def)

lemma makeReg_props:
  assumes "makeReg ty r s = Some (Reg, s')"
  shows "ext s s'" "Reg = length (Variables s)" "length (Variables s') = Suc (length (Variables s))"
    "Ty (Variables s' ! Reg) = ty" "ty \<noteq> IceType_i64"
    "RegNum (Variables s' ! Reg) = r"
    "r = NoRegister \<Longrightarrow> Weight (Variables s' ! Reg) = RegWeight_Inf"
    "Inserted s' = Inserted s" "PhysicalRegisters s' = PhysicalRegisters s"
proof -
  from assms have e: "ty \<noteq> IceType_i64" "Reg = length (Variables s)"
     "s' = (if r = NoRegister then setWeightInfinite Reg else setRegNum Reg r)
             (s\<lparr>Variables := Variables s @ [newVariable ty (Some (Node s)) []]\<rparr>)"
    by (auto simp: makeReg_def makeVariable_def split: if_splits)
  show "ty \<noteq> IceType_i64" "Reg = length (Variables s)" by fact+
  show "length (Variables s') = Suc (length (Variables s))"
    "Ty (Variables s' ! Reg) = ty" "RegNum (Variables s' ! Reg) = r"
    "r = NoRegister \<Longrightarrow> Weight (Variables s' ! Reg) = RegWeight_Inf"
    "Inserted s' = Inserted s" "PhysicalRegisters s' = PhysicalRegisters s"
    by (auto simp: e setWeightInfinite_def setRegNum_def updVar_def newVariable_def)
  show "ext s s'"
    by (rule ext_intro[where xs = "[]"])
       (auto simp: e setWeightInfinite_def setRegNum_def updVar_def nth_append nth_list_update)
qed

lemma copyToReg_props:
  assumes "copyToReg Src r s = Some (Reg, s')"
  shows "ext s s'" "Reg = length (Variables s)" "length (Variables s') = Suc (length (Variables s))"
    "Ty (Variables s' ! Reg) = getType s Src"
    "RegNum (Variables s' ! Reg) = r"
    "r = NoRegister \<Longrightarrow> Weight (Variables s' ! Reg) = RegWeight_Inf"
    "PhysicalRegisters s' = PhysicalRegisters s"
proof -
  from assms obtain s1 where m: "makeReg (getType s Src) r s = Some (Reg, s1)"
    and s': "s' = (if isVectorType (getType s Src) then ins Movp (Some Reg) [Src] s1
                   else ins Mov (Some Reg) [Src] s1)"
    by (auto simp: copyToReg_def split: Option.bind_splits)
  note p = makeReg_props[OF m]
  have "ext s1 s'" by (simp add: s')
  with p(1) show "ext s s'" by (rule ext_trans)
  show "Reg = length (Variables s)" by (rule p(2))
  show "length (Variables s') = Suc (length (Variables s))"
    "Ty (Variables s' ! Reg) = getType s Src"
    "RegNum (Variables s' ! Reg) = r"
    "r = NoRegister \<Longrightarrow> Weight (Variables s' ! Reg) = RegWeight_Inf"
    "PhysicalRegisters s' = PhysicalRegisters s"
    using p by (auto simp: s' ins_def Context_insert_def)
qed

lemma ext_mov_new:
  assumes "mov_new Src r s = Some (T, s')" shows "ext s s'"
proof -
  from assms obtain s1 where m: "makeReg (getType s Src) r s = Some (T, s1)"
    and s': "s' = ins Mov (Some T) [Src] s1"
    by (auto simp: mov_new_def split: Option.bind_splits)
  have "ext s1 s'" by (simp add: s')
  with makeReg_props(1)[OF m] show ?thesis by (rule ext_trans)
qed

lemma ext_makeVectorOfZeros:
  assumes "makeVectorOfZeros ty r s = Some (Reg, s')" shows "ext s s'"
proof -
  from assms obtain s1 where m: "makeReg ty r s = Some (Reg, s1)"
    and s': "s' = ins Pxor (Some Reg) [OpVariable Reg] (Context_insert (FakeDef Reg None) s1)"
    by (auto simp: makeVectorOfZeros_def split: Option.bind_splits)
  have "ext s1 (Context_insert (FakeDef Reg None) s1)" by simp
  moreover have "ext (Context_insert (FakeDef Reg None) s1) s'" by (simp add: s')
  ultimately have "ext s1 s'" by (rule ext_trans)
  with makeReg_props(1)[OF m] show ?thesis by (rule ext_trans)
qed

lemma legalize_OpVariable:
  "legalize (OpVariable Var) A ov r s =
     (if Legal_Reg \<notin> A then None
      else if \<not> (r = NoRegister \<or> A = {Legal_Reg}) then None
      else if (Legal_Mem \<notin> A \<and> \<not> (hasReg s Var \<or> Weight (getVar s Var) = RegWeight_Inf))
              \<or> (r \<noteq> NoRegister \<and> r \<noteq> RegNum (getVar s Var))
      then do { (Reg, s1) \<leftarrow> copyToReg (OpVariable Var) r s;
                Some (OpVariable Reg,
                      if r = NoRegister then setPreferredRegister Reg Var ov s1 else s1) }
      else Some (OpVariable Var, s))"
  by (subst legalize.simps) (simp only: Operand.case Let_def)

lemma legalize_OpConstant:
  "legalize (OpConstant c) A ov r s =
     (if Legal_Reg \<notin> A then None
      else if \<not> (r = NoRegister \<or> A = {Legal_Reg}) then None
      else if isConstantUndef c \<and> isVectorType (constantType c)
      then do { (Reg, s1) \<leftarrow> makeVectorOfZeros (constantType c) NoRegister s;
                Some (OpVariable Reg, s1) }
      else
        do { c1 \<leftarrow> (if isConstantUndef c then getConstantZero (constantType c) else Some c);
             if isVectorType (constantType c1) then None
             else if Legal_Imm \<notin> A
                     \<or> (Legal_Reloc \<notin> A \<and> isConstantRelocatable c1)
                     \<or> (Legal_Mem \<notin> A
                         \<and> (constantType c1 = IceType_f32 \<or> constantType c1 = IceType_f64))
             then do { (Reg, s1) \<leftarrow> copyToReg (OpConstant c1) r s;
                       Some (OpVariable Reg, s1) }
             else Some (OpConstant c1, s) })"
  by (subst legalize.simps) (simp only: Operand.case Let_def)

lemma legalize_OpX8632Mem:
  "legalize (OpX8632Mem ty Base Offset Index Shift Seg) A ov r s =
     (if Legal_Reg \<notin> A then None
      else if \<not> (r = NoRegister \<or> A = {Legal_Reg}) then None
      else
        do { (RegBase, s1) \<leftarrow>
               (case Base of
                  None \<Rightarrow> Some (None, s)
                | Some b \<Rightarrow>
                    do { (v, s') \<leftarrow> legalizeToVar (OpVariable b) True NoRegister s;
                         Some (Some v, s') });
             (RegIndex, s2) \<leftarrow>
               (case Index of
                  None \<Rightarrow> Some (None, s1)
                | Some i \<Rightarrow>
                    do { (v, s') \<leftarrow> legalizeToVar (OpVariable i) True NoRegister s1;
                         Some (Some v, s') });
             if Legal_Mem \<notin> A
             then do { (Reg, s3) \<leftarrow>
                         copyToReg (OpX8632Mem ty RegBase Offset RegIndex Shift Seg) r s2;
                       Some (OpVariable Reg, s3) }
             else Some (OpX8632Mem ty RegBase Offset RegIndex Shift Seg, s2) })"
proof -
  have e: "\<And>RegBase RegIndex.
      (if Base \<noteq> RegBase \<or> Index \<noteq> RegIndex
       then OpX8632Mem ty RegBase Offset RegIndex Shift Seg
       else OpX8632Mem ty Base Offset Index Shift Seg)
      = OpX8632Mem ty RegBase Offset RegIndex Shift Seg"
    by simp
  show ?thesis
    by (subst legalize.simps) (simp only: Operand.case Let_def e)
qed

lemma legalize_OpVariableSplit: "legalize (OpVariableSplit v p) A ov r s = None"
  by (subst legalize.simps) simp

lemma legalizeToVar_eq:
  "legalizeToVar From ov r s =
     do { (Op, s1) \<leftarrow> legalize From {Legal_Reg} ov r s;
          (case Op of OpVariable v \<Rightarrow> Some (v, s1) | _ \<Rightarrow> None) }"
  by (rule legalizeToVar.simps)

lemma legalizeToVar_elim:
  assumes "legalizeToVar From ov r s = Some (v, s')"
  obtains "legalize From {Legal_Reg} ov r s = Some (OpVariable v, s')"
  using assms
  by (auto simp: legalizeToVar_eq split: Option.bind_splits Operand.splits)

lemma ext_legalize_Variable:
  assumes "legalize (OpVariable Var) A ov r s = Some (Op, s')" shows "ext s s'"
proof (cases "s' = s")
  case True then show ?thesis by simp
next
  case False
  with assms obtain Reg s1 where c: "copyToReg (OpVariable Var) r s = Some (Reg, s1)"
    and s': "s' = (if r = NoRegister then setPreferredRegister Reg Var ov s1 else s1)"
    by (auto simp: legalize_OpVariable split: if_splits Option.bind_splits)
  have "ext s1 s'" by (simp add: s')
  with copyToReg_props(1)[OF c] show ?thesis by (rule ext_trans)
qed

lemma ext_legalizeToVar_Variable:
  "legalizeToVar (OpVariable b) ov r s = Some (v, s') \<Longrightarrow> ext s s'"
  by (erule legalizeToVar_elim) (rule ext_legalize_Variable)

lemma ext_legalize_Constant:
  assumes "legalize (OpConstant c) A ov r s = Some (Op, s')" shows "ext s s'"
proof (cases "s' = s")
  case True then show ?thesis by simp
next
  case False
  with assms consider
      (zeros) Reg where "makeVectorOfZeros (constantType c) NoRegister s = Some (Reg, s')"
    | (copy) c1 Reg where "copyToReg (OpConstant c1) r s = Some (Reg, s')"
    by (auto simp: legalize_OpConstant split: if_splits Option.bind_splits)
  then show ?thesis
    by cases (auto dest: ext_makeVectorOfZeros copyToReg_props(1))
qed

lemma ext_legalize_opt:
  assumes "(case Base of None \<Rightarrow> Some (None, s)
            | Some b \<Rightarrow> do { (v, s') \<leftarrow> legalizeToVar (OpVariable b) True NoRegister s;
                              Some (Some v, s') }) = Some (RegBase, s1)"
  shows "ext s s1"
  using assms
  by (cases Base) (auto split: Option.bind_splits dest: ext_legalizeToVar_Variable)

lemma ext_legalize: "legalize From A ov r s = Some (Op, s') \<Longrightarrow> ext s s'"
proof (cases From)
  case (OpVariable Var)
  assume "legalize From A ov r s = Some (Op, s')"
  then show ?thesis unfolding OpVariable by (rule ext_legalize_Variable)
next
  case (OpConstant c)
  assume "legalize From A ov r s = Some (Op, s')"
  then show ?thesis unfolding OpConstant by (rule ext_legalize_Constant)
next
  case (OpX8632Mem ty Base Offset Index Shift Seg)
  assume "legalize From A ov r s = Some (Op, s')"
  then obtain RegBase s1 RegIndex s2 where
    1: "(case Base of None \<Rightarrow> Some (None, s)
            | Some b \<Rightarrow> do { (v, s') \<leftarrow> legalizeToVar (OpVariable b) True NoRegister s;
                              Some (Some v, s') }) = Some (RegBase, s1)"
    and 2: "(case Index of None \<Rightarrow> Some (None, s1)
            | Some b \<Rightarrow> do { (v, s') \<leftarrow> legalizeToVar (OpVariable b) True NoRegister s1;
                              Some (Some v, s') }) = Some (RegIndex, s2)"
    and 3: "s' = s2 \<or> (\<exists>Reg. copyToReg (OpX8632Mem ty RegBase Offset RegIndex Shift Seg) r s2
                          = Some (Reg, s'))"
    unfolding OpX8632Mem legalize_OpX8632Mem
    by (auto split: if_splits Option.bind_splits)
  from 3 have "ext s2 s'" by (auto dest: copyToReg_props(1))
  with ext_legalize_opt[OF 1] ext_legalize_opt[OF 2] show ?thesis
    by (blast intro: ext_trans)
next
  case (OpVariableSplit v p)
  assume "legalize From A ov r s = Some (Op, s')"
  then show ?thesis by (simp add: OpVariableSplit legalize_OpVariableSplit)
qed

lemma ext_legalizeToVar: "legalizeToVar From ov r s = Some (v, s') \<Longrightarrow> ext s s'"
  by (erule legalizeToVar_elim) (rule ext_legalize)

section \<open>Calls: the steps extend the state\<close>

lemma ext_Inserted: "ext s s' \<Longrightarrow> \<exists>xs. Inserted s' = Inserted s @ xs"
  by (simp add: ext_def)

lemma ext_RegNum:
  "ext s s' \<Longrightarrow> v < length (Variables s) \<Longrightarrow>
     v < length (Variables s') \<and> RegNum (Variables s' ! v) = RegNum (Variables s ! v)"
  by (simp add: ext_def keptVar_def)

lemma ext_physOK: "ext s s' \<Longrightarrow> physOK s \<Longrightarrow> physOK s'"
  by (simp add: ext_def)

lemma split64_props:
  assumes "split64 Var s = Some s'"
  shows "ext s s'" "Inserted s' = Inserted s"
proof -
  have e: "ext s (snd (makeVariable IceType_i32 n1 nm1 s))" for n1 nm1
    by (rule ext_makeVariable[of _ _ _ _ "fst (makeVariable IceType_i32 n1 nm1 s)"]) simp
  consider (same) "s' = s"
    | (new) s1 s2 s3 Lo Hi n nm1 nm2 where
        "makeVariable IceType_i32 n nm1 s = (Lo, s1)"
        "makeVariable IceType_i32 n nm2 s1 = (Hi, s2)"
        "s3 = setLoHi Var Lo Hi s2"
        "s' = (if IsArgument (getVar s3 Var) then setIsArg Hi True (setIsArg Lo True s3) else s3)"
        "LoVar (getVar s Var) = None" "HiVar (getVar s Var) = None"
    using assms
    by (auto simp: split64_def Let_def split: if_splits option.splits prod.splits)
  then have "ext s s' \<and> Inserted s' = Inserted s"
  proof cases
    case same then show ?thesis by simp
  next
    case new
    have a: "ext s s1" using new(1) by (rule ext_makeVariable)
    have b: "ext s1 s2" using new(2) by (rule ext_makeVariable)
    have "Var < length (Variables s2) \<longrightarrow>
            LoVar (Variables s2 ! Var) = None \<and> HiVar (Variables s2 ! Var) = None"
    proof (cases "Var < length (Variables s)")
      case True
      with new(1,2,5,6) show ?thesis
        by (auto simp: makeVariable_def getVar_def nth_append)
    next
      case False
      have "Var < length (Variables s2) \<Longrightarrow>
              Var = length (Variables s) \<or> Var = Suc (length (Variables s))"
        using False new(1,2) by (auto simp: makeVariable_def)
      then show ?thesis
        using new(1,2) by (auto simp: makeVariable_def nth_append newVariable_def)
    qed
    then have c: "ext s2 s3" unfolding new(3) by (rule ext_setLoHi)
    have d: "ext s3 s'"
      using ext_trans[OF ext_setIsArg[of s3 Lo True] ext_setIsArg[of "setIsArg Lo True s3" Hi True]]
      by (simp add: new(4))
    have i: "Inserted s' = Inserted s"
      using new
      by (auto simp: makeVariable_def setLoHi_def setIsArg_def updVar_def)
    from a b c d i show ?thesis by (blast intro: ext_trans)
  qed
  then show "ext s s'" "Inserted s' = Inserted s" by simp_all
qed

lemma loOperand_props:
  assumes "loOperand Operand s = Some (Op, s')"
  shows "ext s s'" "Inserted s' = Inserted s"
proof -
  from assms have "s' = s \<or> (\<exists>Var. split64 Var s = Some s')"
    by (auto simp: loOperand_def split: if_splits Operand.splits Constant.splits Option.bind_splits)
  then show "ext s s'" "Inserted s' = Inserted s"
    by (auto dest: split64_props)
qed

lemma hiOperand_props:
  assumes "hiOperand Operand s = Some (Op, s')"
  shows "ext s s'" "Inserted s' = Inserted s"
proof -
  from assms have "s' = s \<or> (\<exists>Var. split64 Var s = Some s')"
    by (auto simp: hiOperand_def Let_def
             split: if_splits Operand.splits Constant.splits Option.bind_splits)
  then show "ext s s'" "Inserted s' = Inserted s"
    by (auto dest: split64_props)
qed

lemma ext_FormMemoryOperand:
  assumes "FormMemoryOperand Operand ty s = Some (Op, s')" shows "ext s s'"
proof -
  from assms obtain Mem where "legalize Mem Legal_All False NoRegister s = Some (Op, s')"
    by (auto simp: FormMemoryOperand_def split: Option.bind_splits Operand.splits)
  then show ?thesis by (rule ext_legalize)
qed

lemma ext_lowerStore:
  assumes "lowerStore Data Addr s = Some s'" shows "ext s s'"
proof -
  from assms obtain NewAddr s1 where
    f: "FormMemoryOperand Addr (getType s Data) s = Some (NewAddr, s1)"
    by (auto simp: lowerStore_def split: Option.bind_splits)
  note a = ext_FormMemoryOperand[OF f]
  let ?ty = "getType s1 NewAddr"
  consider (i64) "?ty = IceType_i64" | (vec) "?ty \<noteq> IceType_i64" "isVectorType ?ty"
    | (scalar) "?ty \<noteq> IceType_i64" "\<not> isVectorType ?ty"
    by blast
  then have "ext s1 s'"
  proof cases
    case i64
    with assms f obtain Value s2 Hi s3 ValueHi s4 Lo s5 ValueLo s6 AddrHi s7 AddrLo s9 where
      1: "legalize Data Legal_All False NoRegister s1 = Some (Value, s2)"
      and 2: "hiOperand Value s2 = Some (Hi, s3)"
      and 3: "legalize Hi {Legal_Reg, Legal_Imm} True NoRegister s3 = Some (ValueHi, s4)"
      and 4: "loOperand Value s4 = Some (Lo, s5)"
      and 5: "legalize Lo {Legal_Reg, Legal_Imm} True NoRegister s5 = Some (ValueLo, s6)"
      and 6: "hiOperand NewAddr s6 = Some (AddrHi, s7)"
      and 7: "loOperand NewAddr (ins Store None [ValueHi, AddrHi] s7) = Some (AddrLo, s9)"
      and 8: "s' = ins Store None [ValueLo, AddrLo] s9"
      by (auto simp: lowerStore_def Let_def split: Option.bind_splits)
    have "ext s7 s9"
      using ext_trans[OF ext_ins loOperand_props(1)[OF 7]] .
    moreover have "ext s9 s'" by (simp add: 8)
    ultimately show ?thesis
      using ext_legalize[OF 1] hiOperand_props(1)[OF 2] ext_legalize[OF 3]
        loOperand_props(1)[OF 4] ext_legalize[OF 5] hiOperand_props(1)[OF 6]
      by (blast intro: ext_trans)
  next
    case vec
    with assms f obtain Value s2 where
      1: "legalizeToVar Data False NoRegister s1 = Some (Value, s2)"
      and 2: "s' = ins Storep None [OpVariable Value, NewAddr] s2"
      by (auto simp: lowerStore_def Let_def split: Option.bind_splits)
    have "ext s2 s'" by (simp add: 2)
    with ext_legalizeToVar[OF 1] show ?thesis by (rule ext_trans)
  next
    case scalar
    with assms f obtain Value s2 where
      1: "legalize Data {Legal_Reg, Legal_Imm} True NoRegister s1 = Some (Value, s2)"
      and 2: "s' = ins Store None [Value, NewAddr] s2"
      by (auto simp: lowerStore_def Let_def split: Option.bind_splits)
    have "ext s2 s'" by (simp add: 2)
    with ext_legalize[OF 1] show ?thesis by (rule ext_trans)
  qed
  with a show ?thesis by (rule ext_trans)
qed

lemma getPhysicalRegister_props:
  assumes "getPhysicalRegister r s = Some (Reg, s')"
  shows "ext s s'" "Inserted s' = Inserted s"
    "physOK s \<Longrightarrow> Reg < length (Variables s') \<and> RegNum (Variables s' ! Reg) = r"
proof -
  from assms have rng: "0 \<le> r" "nat r < length (PhysicalRegisters s)"
    by (auto simp: getPhysicalRegister_def split: if_splits)
  show "ext s s'" "Inserted s' = Inserted s"
    "physOK s \<Longrightarrow> Reg < length (Variables s') \<and> RegNum (Variables s' ! Reg) = r"
  proof (atomize (full), cases "PhysicalRegisters s ! nat r")
    case (Some v)
    with assms rng have "s' = s" "Reg = v"
      by (auto simp: getPhysicalRegister_def)
    with Some rng show "ext s s' \<and> Inserted s' = Inserted s \<and>
       (physOK s \<longrightarrow> Reg < length (Variables s') \<and> RegNum (Variables s' ! Reg) = r)"
      by (auto simp: physOK_def)
  next
    case None
    let ?n = "length (Variables s)"
    from None assms rng have R: "Reg = ?n"
      and s': "s' = s\<lparr>Variables := (Variables s @ [newVariable IceType_i32 None []])
                         [?n := (newVariable IceType_i32 None [])\<lparr>RegNum := r\<rparr>],
                      PhysicalRegisters := (PhysicalRegisters s)[nat r := Some ?n]\<rparr>"
      by (auto simp: getPhysicalRegister_def makeVariable_def setRegNum_def updVar_def Let_def)
    have vars: "length (Variables s) \<le> length (Variables s')"
      "\<forall>v<length (Variables s). Variables s' ! v = Variables s ! v"
      by (auto simp: s' nth_append nth_list_update)
    have new: "Reg < length (Variables s')" "RegNum (Variables s' ! Reg) = r"
      by (auto simp: s' R)
    have ok: "physOK s \<Longrightarrow> physOK s'"
      unfolding physOK_def
    proof (intro allI impI)
      fix q v assume p: "\<forall>r v. r < length (PhysicalRegisters s) \<and> PhysicalRegisters s ! r = Some v
        \<longrightarrow> v < length (Variables s) \<and> RegNum (Variables s ! v) = int r"
        and q: "q < length (PhysicalRegisters s') \<and> PhysicalRegisters s' ! q = Some v"
      show "v < length (Variables s') \<and> RegNum (Variables s' ! v) = int q"
      proof (cases "q = nat r")
        case True
        with q rng have "v = ?n" by (simp add: s')
        with True rng new R show ?thesis by simp
      next
        case False
        with q have "q < length (PhysicalRegisters s) \<and> PhysicalRegisters s ! q = Some v"
          by (simp add: s')
        with p have "v < length (Variables s) \<and> RegNum (Variables s ! v) = int q" by blast
        with vars show ?thesis by auto
      qed
    qed
    have "ext s s'"
      unfolding ext_def keptVar_def using vars ok by (auto simp: s')
    moreover have "Inserted s' = Inserted s" by (simp add: s')
    ultimately show "ext s s' \<and> Inserted s' = Inserted s \<and>
       (physOK s \<longrightarrow> Reg < length (Variables s') \<and> RegNum (Variables s' ! Reg) = r)"
      using new by simp
  qed
qed

lemma classifyArgs_props:
  "classifyArgs T CallArgs acc s = Some (res, s') \<Longrightarrow> ext s s' \<and> Inserted s' = Inserted s"
proof (induction T CallArgs acc s rule: classifyArgs.induct)
  case (1 T acc s)
  then show ?case by simp
next
  case (2 T Arg rest XmmArgs StackArgs StackArgLocations P s)
  let ?ty = "getType s Arg"
  from "2.prems" have ok: "?ty = IceType_i32 \<or> ?ty = IceType_f32 \<or> ?ty = IceType_i64
      \<or> ?ty = IceType_f64 \<or> isVectorType ?ty"
    by (auto simp: Let_def split: if_splits)
  show ?case
  proof (cases "isVectorType ?ty \<and> length XmmArgs < X86_MAX_XMM_ARGS")
    case True
    with "2.prems" ok have "classifyArgs T rest (XmmArgs @ [Arg], StackArgs, StackArgLocations, P) s
        = Some (res, s')"
      by (auto simp: Let_def)
    with "2.IH"(1)[OF refl _ True] ok show ?thesis by blast
  next
    case False
    with "2.prems" ok obtain P1 esp s1 where
      p: "(if isVectorType ?ty then applyStackAlignment P else Some P) = Some P1"
      and g: "getPhysicalRegister (Reg_esp T) s = Some (esp, s1)"
      and c: "classifyArgs T rest
               (XmmArgs, StackArgs @ [Arg],
                StackArgLocations
                  @ [OpX8632Mem ?ty (Some esp) (Some (ConstantInteger IceType_i32 (ucast P1)))
                       None 0 DefaultSegment],
                P1 + typeWidthInBytesOnStack ?ty) s1 = Some (res, s')"
      by (auto simp: Let_def split: Option.bind_splits if_splits)
    from "2.IH"(2)[OF refl _ False p _ refl c] ok g
    have "ext s1 s' \<and> Inserted s' = Inserted s1" by simp
    with getPhysicalRegister_props(1,2)[OF g] show ?thesis
      by (auto intro: ext_trans)
  qed
qed

lemma ext_lowerStackArgs: "lowerStackArgs xs s = Some s' \<Longrightarrow> ext s s'"
proof (induction xs arbitrary: s)
  case Nil then show ?case by simp
next
  case (Cons a xs)
  obtain Arg Loc where a: "a = (Arg, Loc)" by (cases a)
  from Cons.prems obtain s1 where 1: "lowerStore Arg Loc s = Some s1"
    and 2: "lowerStackArgs xs s1 = Some s'"
    by (auto simp: a split: Option.bind_splits)
  from ext_lowerStore[OF 1] Cons.IH[OF 2] show ?case by (rule ext_trans)
qed

lemma ext_lowerXmmArgs: "lowerXmmArgs T i xs s = Some s' \<Longrightarrow> ext s s'"
proof (induction xs arbitrary: s i)
  case Nil then show ?case by simp
next
  case (Cons Arg xs)
  from Cons.prems obtain Reg s1 where 1: "legalizeToVar Arg False (Reg_xmm0 T + i) s = Some (Reg, s1)"
    and 2: "lowerXmmArgs T (i + 1) xs (Context_insert (FakeUse Reg) s1) = Some s'"
    by (auto split: Option.bind_splits)
  have "ext s1 (Context_insert (FakeUse Reg) s1)" by simp
  with ext_legalizeToVar[OF 1] Cons.IH[OF 2] show ?case by (blast intro: ext_trans)
qed

lemma returnRegs_props:
  assumes "returnRegs T Dest s = Some ((ReturnReg, ReturnRegHi), s')"
  shows "ext s s'" "Inserted s' = Inserted s"
proof -
  from assms consider (same) "s' = s"
    | (one) ty r Reg where "makeReg ty r s = Some (Reg, s')"
    | (two) r Reg s1 rh RegHi where "makeReg IceType_i32 r s = Some (Reg, s1)"
        "makeReg IceType_i32 rh s1 = Some (RegHi, s')"
    by (auto simp: returnRegs_def Let_def split: option.splits if_splits Option.bind_splits)
  then have "ext s s' \<and> Inserted s' = Inserted s"
  proof cases
    case same then show ?thesis by simp
  next
    case one then show ?thesis by (simp add: makeReg_props)
  next
    case two
    from makeReg_props(1)[OF two(1)] makeReg_props(1)[OF two(2)] have "ext s s'"
      by (rule ext_trans)
    then show ?thesis using makeReg_props(8)[OF two(1)] makeReg_props(8)[OF two(2)] by simp
  qed
  then show "ext s s'" "Inserted s' = Inserted s" by simp_all
qed

lemma killedRegs_props:
  "\<lbrakk>killedRegs T is acc s = Some (K, s'); physOK s; \<forall>v\<in>set acc. v < length (Variables s)\<rbrakk>
   \<Longrightarrow> ext s s' \<and> Inserted s' = Inserted s \<and> (\<forall>v\<in>set K. v < length (Variables s'))
      \<and> map (\<lambda>v. RegNum (Variables s' ! v)) K
          = map (\<lambda>v. RegNum (Variables s ! v)) acc @ map int (filter (\<lambda>i. ScratchRegs T ! i) is)"
proof (induction "is" arbitrary: acc s)
  case Nil
  then show ?case by simp
next
  case (Cons i "is")
  show ?case
  proof (cases "ScratchRegs T ! i")
    case False
    with Cons.prems(1) have "killedRegs T is acc s = Some (K, s')" by simp
    from Cons.IH[OF this Cons.prems(2,3)] False show ?thesis by simp
  next
    case True
    with Cons.prems(1) obtain Reg s1 where g: "getPhysicalRegister (int i) s = Some (Reg, s1)"
      and k: "killedRegs T is (acc @ [Reg]) s1 = Some (K, s')"
      by (auto split: Option.bind_splits)
    note gp = getPhysicalRegister_props[OF g]
    from gp(3)[OF Cons.prems(2)] have R: "Reg < length (Variables s1)"
      "RegNum (Variables s1 ! Reg) = int i" by simp_all
    have ok1: "physOK s1" using gp(1) Cons.prems(2) by (rule ext_physOK)
    have acc1: "\<forall>v\<in>set (acc @ [Reg]). v < length (Variables s1)"
      using Cons.prems(3) R(1) ext_RegNum[OF gp(1)] by auto
    have old: "map (\<lambda>v. RegNum (Variables s1 ! v)) acc = map (\<lambda>v. RegNum (Variables s ! v)) acc"
      using Cons.prems(3) ext_RegNum[OF gp(1)] by simp
    from Cons.IH[OF k ok1 acc1] have ih: "ext s1 s'" "Inserted s' = Inserted s1"
      "\<forall>v\<in>set K. v < length (Variables s')"
      "map (\<lambda>v. RegNum (Variables s' ! v)) K
          = map (\<lambda>v. RegNum (Variables s1 ! v)) (acc @ [Reg])
            @ map int (filter (\<lambda>i. ScratchRegs T ! i) is)"
      by simp_all
    from gp(1) ih(1) have "ext s s'" by (rule ext_trans)
    then show ?thesis using ih gp(2) old R True by simp
  qed
qed

lemma ext_assignCallResult:
  assumes "assignCallResult Dest ReturnReg ReturnRegHi s = Some s'"
  shows "ext s s'"
proof -
  from assms consider (same) "s' = s"
    | (pair) s1 DestLo DestHi r rh where "split64 Dest s = Some s1"
        "s' = ins Mov (Some DestHi) [OpVariable rh]
                (ins Mov (Some DestLo) [OpVariable r]
                   (setPreferredRegister DestHi rh False
                      (setPreferredRegister DestLo r False s1)))"
    | (one) r op where "s' = ins op (Some Dest) [OpVariable r] (setPreferredRegister Dest r False s)"
    | (fp) "s' = Context_insert (FakeUse Dest) (ins Fstp (Some Dest) [] s)"
    by (auto simp: assignCallResult_def Let_def
             split: option.splits if_splits Option.bind_splits)
  then show ?thesis
  proof cases
    case same then show ?thesis by simp
  next
    case (pair s1 DestLo DestHi r rh)
    let ?a = "setPreferredRegister DestLo r False s1"
    let ?b = "setPreferredRegister DestHi rh False ?a"
    let ?c = "ins Mov (Some DestLo) [OpVariable r] ?b"
    have "ext s1 ?a" "ext ?a ?b" "ext ?b ?c" "ext ?c s'" by (simp_all add: pair(2))
    with split64_props(1)[OF pair(1)] show ?thesis by (blast intro: ext_trans)
  next
    case (one r op)
    have "ext s (setPreferredRegister Dest r False s)" by simp
    moreover have "ext (setPreferredRegister Dest r False s) s'" by (simp add: one)
    ultimately show ?thesis by (rule ext_trans)
  next
    case fp
    have "ext s (ins Fstp (Some Dest) [] s)" by simp
    moreover have "ext (ins Fstp (Some Dest) [] s) s'" by (simp add: fp)
    ultimately show ?thesis by (rule ext_trans)
  qed
qed

section \<open>Calls: the register kill after the call\<close>

lemma lowerCall_steps:
  assumes "lowerCall T Dest CallTarget CallArgs HasSideEffects s = Some s'"
  shows "\<exists>XmmArgs StackArgs StackArgLocations P0 s1 P s3 s4 ReturnReg ReturnRegHi s5 Target s6
      s9 KilledRegs s10.
    (classifyArgs T CallArgs ([], [], [], 0) (s\<lparr>NeedsStackAlignment := True\<rparr>)
       = Some ((XmmArgs, StackArgs, StackArgLocations, P0), s1))
    \<and> (applyStackAlignment P0 = Some P)
    \<and> (lowerStackArgs (zip StackArgs StackArgLocations)
       (if P \<noteq> 0 then Context_insert (X86AdjustStack P) s1 else s1) = Some s3)
    \<and> (lowerXmmArgs T 0 XmmArgs s3 = Some s4)
    \<and> (returnRegs T Dest s4 = Some ((ReturnReg, ReturnRegHi), s5))
    \<and> (legalize CallTarget Legal_All False NoRegister s5 = Some (Target, s6))
    \<and> ((if P \<noteq> 0
      then do { (esp, s') \<leftarrow> getPhysicalRegister (Reg_esp T)
                   (case ReturnRegHi of
                      Some rh \<Rightarrow> Context_insert (FakeDef rh None)
                                   (Context_insert (X86Call ReturnReg Target) s6)
                    | None \<Rightarrow> Context_insert (X86Call ReturnReg Target) s6);
                Some (ins Add (Some esp)
                        [OpConstant (ConstantInteger IceType_i32 (ucast P))] s') }
      else Some (case ReturnRegHi of
                      Some rh \<Rightarrow> Context_insert (FakeDef rh None)
                                   (Context_insert (X86Call ReturnReg Target) s6)
                    | None \<Rightarrow> Context_insert (X86Call ReturnReg Target) s6)) = Some s9)
    \<and> (killedRegs T [0 ..< length (ScratchRegs T)] [] s9 = Some (KilledRegs, s10))
    \<and> ((case Dest of
        None \<Rightarrow> Some (case ReturnReg of
                       Some r \<Rightarrow> if HasSideEffects
                                 then Context_insert (FakeUse r)
                                        (Context_insert (FakeKill KilledRegs (length (Inserted s6))) s10)
                                 else Context_insert (FakeKill KilledRegs (length (Inserted s6))) s10
                     | None \<Rightarrow> Context_insert (FakeKill KilledRegs (length (Inserted s6))) s10)
      | Some d \<Rightarrow> assignCallResult d ReturnReg ReturnRegHi
                    (case ReturnReg of
                       Some r \<Rightarrow> if HasSideEffects
                                 then Context_insert (FakeUse r)
                                        (Context_insert (FakeKill KilledRegs (length (Inserted s6))) s10)
                                 else Context_insert (FakeKill KilledRegs (length (Inserted s6))) s10
                     | None \<Rightarrow> Context_insert (FakeKill KilledRegs (length (Inserted s6))) s10))
     = Some s')"
  using assms unfolding lowerCall_def Let_def
  by (simp only: bind_eq_Some_conv split_paired_Ex prod.case) blast

lemma ext_NeedsStackAlignment [simp]: "ext s (s\<lparr>NeedsStackAlignment := True\<rparr>)"
  by (simp add: ext_def physOK_def)

lemma ext_Ty:
  "ext s s' \<Longrightarrow> v < length (Variables s) \<Longrightarrow> Ty (Variables s' ! v) = Ty (Variables s ! v)"
  by (simp add: ext_def keptVar_def)

lemma returnRegs_hi:
  assumes "returnRegs T Dest s = Some ((ReturnReg, ReturnRegHi), s')"
  shows "ReturnRegHi \<noteq> None \<longleftrightarrow> (\<exists>d. Dest = Some d \<and> Ty (Variables s ! d) = IceType_i64)"
  using assms
  by (auto simp: returnRegs_def Let_def getVar_def
           split: option.splits if_splits Option.bind_splits)

lemma returnRegs_edx:
  assumes "returnRegs T Dest s = Some ((ReturnReg, Some rh), s')"
  shows "rh < length (Variables s') \<and> RegNum (Variables s' ! rh) = Reg_edx T"
proof -
  from assms obtain s1 where "makeReg IceType_i32 (Reg_edx T) s1 = Some (rh, s')"
    by (auto simp: returnRegs_def Let_def
             split: option.splits if_splits Option.bind_splits)
  from makeReg_props(2,3,6)[OF this] show ?thesis by simp
qed

lemma classifyArgs_Nil: "classifyArgs T [] acc s = Some (res, s') \<Longrightarrow> res = acc"
  by simp

lemma applyStackAlignment_0: "applyStackAlignment 0 = Some P \<Longrightarrow> P = 0"
  by (simp add: applyStackAlignment_def applyAlignment_def X86_STACK_ALIGNMENT_BYTES_def)

text \<open>
  C3 (as amended). For every call that is lowered (in a state whose register table is
  well formed), the inserted sequence contains the call instruction and, after it, a
  \<open>FakeKill\<close> that is linked to the call and whose variables are exactly the physical
  registers marked as scratch (caller-save). Between the two there is a \<open>FakeDef\<close> of
  the high return register, a variable in \<open>edx\<close>, exactly when the destination has type
  \<open>i64\<close>, then an \<open>add\<close> to \<open>esp\<close> of the parameter area size exactly when that size
  is not zero, and nothing else. The parameter area size \<open>P\<close> is the one \<open>lowerCall\<close>
  computes: the size \<open>P0\<close> of the stack arguments that \<open>classifyArgs\<close> returns, rounded
  up by \<open>applyStackAlignment\<close>; when it is not zero the sequence starts with the stack
  adjustment by \<open>P\<close>. It is zero when the call has no arguments, so that the \<open>FakeKill\<close>
  immediately follows a call without arguments whose destination is not \<open>i64\<close>.
\<close>

theorem lowerCall_FakeKill_follows_call:
  assumes run: "lowerCall T Dest CallTarget CallArgs HasSideEffects s = Some s'"
    and ok: "physOK s"
    and dest: "\<forall>d. Dest = Some d \<longrightarrow> d < length (Variables s)"
  shows "\<exists>XmmArgs StackArgs StackArgLocations P0 s1 (P :: uint32_t) pre ReturnReg ReturnRegHi
          Target esp KilledRegs post.
      classifyArgs T CallArgs ([], [], [], 0) (s\<lparr>NeedsStackAlignment := True\<rparr>)
        = Some ((XmmArgs, StackArgs, StackArgLocations, P0), s1)
      \<and> applyStackAlignment P0 = Some P
      \<and> Inserted s' =
          Inserted s @ (if P \<noteq> 0 then [X86AdjustStack P] else []) @ pre
          @ [X86Call ReturnReg Target]
          @ (case ReturnRegHi of Some rh \<Rightarrow> [FakeDef rh None] | None \<Rightarrow> [])
          @ (if P \<noteq> 0
             then [X86 Add (Some esp) [OpConstant (ConstantInteger IceType_i32 (ucast P))]]
             else [])
          @ [FakeKill KilledRegs
               (length (Inserted s @ (if P \<noteq> 0 then [X86AdjustStack P] else []) @ pre))]
          @ post
      \<and> (ReturnRegHi \<noteq> None \<longleftrightarrow> (\<exists>d. Dest = Some d \<and> Ty (Variables s ! d) = IceType_i64))
      \<and> (\<forall>rh. ReturnRegHi = Some rh \<longrightarrow> RegNum (Variables s' ! rh) = Reg_edx T)
      \<and> (CallArgs = [] \<longrightarrow> P = 0)
      \<and> (P \<noteq> 0 \<longrightarrow> RegNum (Variables s' ! esp) = Reg_esp T)
      \<and> map (\<lambda>v. RegNum (Variables s' ! v)) KilledRegs
          = map int (filter (\<lambda>i. ScratchRegs T ! i) [0 ..< length (ScratchRegs T)])"
proof -
  let ?s0 = "s\<lparr>NeedsStackAlignment := True\<rparr>"
  from lowerCall_steps[OF run]
  obtain XmmArgs StackArgs StackArgLocations P0 s1 P s3 s4 ReturnReg ReturnRegHi s5 Target s6
      s9 KilledRegs s10 where
    c1: "classifyArgs T CallArgs ([], [], [], 0) ?s0
       = Some ((XmmArgs, StackArgs, StackArgLocations, P0), s1)"
    and c2: "applyStackAlignment P0 = Some P"
    and c3: "lowerStackArgs (zip StackArgs StackArgLocations)
       (if P \<noteq> 0 then Context_insert (X86AdjustStack P) s1 else s1) = Some s3"
    and c4: "lowerXmmArgs T 0 XmmArgs s3 = Some s4"
    and c5: "returnRegs T Dest s4 = Some ((ReturnReg, ReturnRegHi), s5)"
    and c6: "legalize CallTarget Legal_All False NoRegister s5 = Some (Target, s6)"
    and c7: "(if P \<noteq> 0
      then do { (esp, s') \<leftarrow> getPhysicalRegister (Reg_esp T)
                   (case ReturnRegHi of
                      Some rh \<Rightarrow> Context_insert (FakeDef rh None)
                                   (Context_insert (X86Call ReturnReg Target) s6)
                    | None \<Rightarrow> Context_insert (X86Call ReturnReg Target) s6);
                Some (ins Add (Some esp)
                        [OpConstant (ConstantInteger IceType_i32 (ucast P))] s') }
      else Some (case ReturnRegHi of
                      Some rh \<Rightarrow> Context_insert (FakeDef rh None)
                                   (Context_insert (X86Call ReturnReg Target) s6)
                    | None \<Rightarrow> Context_insert (X86Call ReturnReg Target) s6)) = Some s9"
    and c8: "killedRegs T [0 ..< length (ScratchRegs T)] [] s9 = Some (KilledRegs, s10)"
    and c9: "(case Dest of
        None \<Rightarrow> Some (case ReturnReg of
                       Some r \<Rightarrow> if HasSideEffects
                                 then Context_insert (FakeUse r)
                                        (Context_insert (FakeKill KilledRegs (length (Inserted s6))) s10)
                                 else Context_insert (FakeKill KilledRegs (length (Inserted s6))) s10
                     | None \<Rightarrow> Context_insert (FakeKill KilledRegs (length (Inserted s6))) s10)
      | Some d \<Rightarrow> assignCallResult d ReturnReg ReturnRegHi
                    (case ReturnReg of
                       Some r \<Rightarrow> if HasSideEffects
                                 then Context_insert (FakeUse r)
                                        (Context_insert (FakeKill KilledRegs (length (Inserted s6))) s10)
                                 else Context_insert (FakeKill KilledRegs (length (Inserted s6))) s10
                     | None \<Rightarrow> Context_insert (FakeKill KilledRegs (length (Inserted s6))) s10))
     = Some s'"
    by blast
  \<comment> \<open>before the call\<close>
  let ?s2 = "if P \<noteq> 0 then Context_insert (X86AdjustStack P) s1 else s1"
  have e01: "ext s s1"
    using ext_trans[OF ext_NeedsStackAlignment] classifyArgs_props[OF c1] by blast
  have e12: "ext s1 ?s2" by simp
  have e04: "ext s s4"
    using e01 e12 ext_lowerStackArgs[OF c3] ext_lowerXmmArgs[OF c4] by (blast intro: ext_trans)
  have e06: "ext s s6"
    using e04 returnRegs_props(1)[OF c5] ext_legalize[OF c6] by (blast intro: ext_trans)
  have e26: "ext ?s2 s6"
    using ext_lowerStackArgs[OF c3] ext_lowerXmmArgs[OF c4] returnRegs_props(1)[OF c5]
      ext_legalize[OF c6]
    by (blast intro: ext_trans)
  have i2: "Inserted ?s2 = Inserted s @ (if P \<noteq> 0 then [X86AdjustStack P] else [])"
    using classifyArgs_props[OF c1] by (simp add: Context_insert_def)
  from ext_Inserted[OF e26] obtain pre where
    pre: "Inserted s6 = Inserted s @ (if P \<noteq> 0 then [X86AdjustStack P] else []) @ pre"
    unfolding i2 by auto
  have ok6: "physOK s6" using e06 ok by (rule ext_physOK)
  have hi: "ReturnRegHi \<noteq> None \<longleftrightarrow> (\<exists>d. Dest = Some d \<and> Ty (Variables s ! d) = IceType_i64)"
    using returnRegs_hi[OF c5] dest ext_Ty[OF e04] by auto
  have p0: "CallArgs = [] \<longrightarrow> P = 0"
    using c1 c2 by (auto dest: applyStackAlignment_0)
  \<comment> \<open>the call and what follows it\<close>
  let ?s7 = "Context_insert (X86Call ReturnReg Target) s6"
  let ?s8 = "case ReturnRegHi of Some rh \<Rightarrow> Context_insert (FakeDef rh None) ?s7 | None \<Rightarrow> ?s7"
  have i8: "Inserted ?s8 = Inserted s6 @ [X86Call ReturnReg Target]
              @ (case ReturnRegHi of Some rh \<Rightarrow> [FakeDef rh None] | None \<Rightarrow> [])"
    by (simp add: Context_insert_def split: option.splits)
  have e68: "ext s6 ?s8"
    using ext_trans[OF ext_Context_insert ext_Context_insert]
    by (auto split: option.splits)
  have ok8: "physOK ?s8" using e68 ok6 by (rule ext_physOK)
  have "\<exists>esp. Inserted s9 = Inserted ?s8
            @ (if P \<noteq> 0
               then [X86 Add (Some esp) [OpConstant (ConstantInteger IceType_i32 (ucast P))]]
               else [])
          \<and> ext ?s8 s9
          \<and> (P \<noteq> 0 \<longrightarrow> esp < length (Variables s9) \<and> RegNum (Variables s9 ! esp) = Reg_esp T)"
  proof (cases "P = 0")
    case True
    with c7 show ?thesis by auto
  next
    case False
    with c7 obtain esp sa where g: "getPhysicalRegister (Reg_esp T) ?s8 = Some (esp, sa)"
      and s9: "s9 = ins Add (Some esp) [OpConstant (ConstantInteger IceType_i32 (ucast P))] sa"
      by (auto split: Option.bind_splits)
    note gp = getPhysicalRegister_props[OF g]
    have "ext sa s9" by (simp add: s9)
    with gp(1) have "ext ?s8 s9" by (rule ext_trans)
    moreover have "Inserted s9 = Inserted ?s8
            @ [X86 Add (Some esp) [OpConstant (ConstantInteger IceType_i32 (ucast P))]]"
      using gp(2) by (simp add: s9 ins_def Context_insert_def)
    moreover have "esp < length (Variables s9) \<and> RegNum (Variables s9 ! esp) = Reg_esp T"
      using gp(3)[OF ok8] by (simp add: s9 ins_def Context_insert_def)
    ultimately show ?thesis using False by auto
  qed
  then obtain esp where i9: "Inserted s9 = Inserted ?s8
            @ (if P \<noteq> 0
               then [X86 Add (Some esp) [OpConstant (ConstantInteger IceType_i32 (ucast P))]]
               else [])"
    and e89: "ext ?s8 s9"
    and esp9: "P \<noteq> 0 \<longrightarrow> esp < length (Variables s9) \<and> RegNum (Variables s9 ! esp) = Reg_esp T"
    by blast
  have ok9: "physOK s9" using e89 ok8 by (rule ext_physOK)
  from killedRegs_props[OF c8 ok9] have k: "ext s9 s10" "Inserted s10 = Inserted s9"
    "\<forall>v\<in>set KilledRegs. v < length (Variables s10)"
    "map (\<lambda>v. RegNum (Variables s10 ! v)) KilledRegs
       = map int (filter (\<lambda>i. ScratchRegs T ! i) [0 ..< length (ScratchRegs T)])"
    by simp_all
  let ?s11 = "Context_insert (FakeKill KilledRegs (length (Inserted s6))) s10"
  let ?s12 = "case ReturnReg of
                Some r \<Rightarrow> if HasSideEffects then Context_insert (FakeUse r) ?s11 else ?s11
              | None \<Rightarrow> ?s11"
  have e1112: "ext ?s11 ?s12" by (auto split: option.splits)
  have e12': "ext ?s12 s'"
    using c9 by (cases Dest) (auto dest: ext_assignCallResult)
  have e11': "ext ?s11 s'" using e1112 e12' by (rule ext_trans)
  from ext_Inserted[OF e11'] obtain post where post: "Inserted s' = Inserted ?s11 @ post"
    by blast
  have e10': "ext s10 s'" using ext_trans[OF ext_Context_insert e11'] .
  have ins: "Inserted s' =
          Inserted s @ (if P \<noteq> 0 then [X86AdjustStack P] else []) @ pre
          @ [X86Call ReturnReg Target]
          @ (case ReturnRegHi of Some rh \<Rightarrow> [FakeDef rh None] | None \<Rightarrow> [])
          @ (if P \<noteq> 0
             then [X86 Add (Some esp) [OpConstant (ConstantInteger IceType_i32 (ucast P))]]
             else [])
          @ [FakeKill KilledRegs
               (length (Inserted s @ (if P \<noteq> 0 then [X86AdjustStack P] else []) @ pre))]
          @ post"
    using post k(2) i9 i8 pre by (simp add: Context_insert_def)
  have e5': "ext s5 s'"
    using ext_legalize[OF c6] e68 e89 k(1) e10' by (blast intro: ext_trans)
  have edx: "\<forall>rh. ReturnRegHi = Some rh \<longrightarrow> RegNum (Variables s' ! rh) = Reg_edx T"
  proof (intro allI impI)
    fix rh assume "ReturnRegHi = Some rh"
    with c5 have "returnRegs T Dest s4 = Some ((ReturnReg, Some rh), s5)" by simp
    from returnRegs_edx[OF this] ext_RegNum[OF e5', of rh]
    show "RegNum (Variables s' ! rh) = Reg_edx T" by simp
  qed
  have regs: "map (\<lambda>v. RegNum (Variables s' ! v)) KilledRegs
          = map int (filter (\<lambda>i. ScratchRegs T ! i) [0 ..< length (ScratchRegs T)])"
    using k(3,4) ext_RegNum[OF e10'] by (simp cong: map_cong)
  have esp': "P \<noteq> 0 \<longrightarrow> RegNum (Variables s' ! esp) = Reg_esp T"
    using esp9 ext_RegNum[OF ext_trans[OF k(1) e10']] by auto
  show ?thesis
    by (intro exI conjI) (rule c1 c2 ins hi edx p0 esp' regs)+
qed

lemma physOK_callExample: "physOK callExample"
  by (auto simp: physOK_def callExample_def makeVariable_def emptyFunc_def)

theorem lowerCall_FakeKill_follows_call_witness:
  "physOK callExample \<and> 1 < length (Variables callExample)
   \<and> (\<exists>s' pre ReturnReg rh Target (P :: uint32_t) esp KilledRegs post.
        lowerCall X8632 (Some 1) (OpConstant (ConstantRelocatable IceType_i32 0 ''f''))
          [OpVariable 0] True callExample = Some s'
        \<and> Inserted s' =
            Inserted callExample @ (if P \<noteq> 0 then [X86AdjustStack P] else []) @ pre
            @ [X86Call ReturnReg Target]
            @ [FakeDef rh None]
            @ (if P \<noteq> 0
               then [X86 Add (Some esp) [OpConstant (ConstantInteger IceType_i32 (ucast P))]]
               else [])
            @ [FakeKill KilledRegs
                 (length (Inserted callExample
                          @ (if P \<noteq> 0 then [X86AdjustStack P] else []) @ pre))]
            @ post
        \<and> RegNum (Variables s' ! rh) = Reg_edx X8632
        \<and> map (\<lambda>v. RegNum (Variables s' ! v)) KilledRegs
            = map int (filter (\<lambda>i. ScratchRegs X8632 ! i) [0 ..< length (ScratchRegs X8632)]))"
proof -
  have len: "1 < length (Variables callExample)"
    by (simp add: callExample_def makeVariable_def emptyFunc_def)
  have ty: "Ty (Variables callExample ! 1) = IceType_i64"
    by (simp add: callExample_def makeVariable_def emptyFunc_def newVariable_def)
  have "lowerCall X8632 (Some 1) (OpConstant (ConstantRelocatable IceType_i32 0 ''f''))
          [OpVariable 0] True callExample \<noteq> None"
    by code_simp
  then obtain s' where
    s': "lowerCall X8632 (Some 1) (OpConstant (ConstantRelocatable IceType_i32 0 ''f''))
          [OpVariable 0] True callExample = Some s'"
    by blast
  have d: "\<forall>d. Some (1::nat) = Some d \<longrightarrow> d < length (Variables callExample)"
    using len by simp
  from lowerCall_FakeKill_follows_call[OF s' physOK_callExample d]
  obtain pre ReturnReg ReturnRegHi Target and P :: uint32_t and esp KilledRegs post where
    ins: "Inserted s' =
            Inserted callExample @ (if P \<noteq> 0 then [X86AdjustStack P] else []) @ pre
            @ [X86Call ReturnReg Target]
            @ (case ReturnRegHi of Some rh \<Rightarrow> [FakeDef rh None] | None \<Rightarrow> [])
            @ (if P \<noteq> 0
               then [X86 Add (Some esp) [OpConstant (ConstantInteger IceType_i32 (ucast P))]]
               else [])
            @ [FakeKill KilledRegs
                 (length (Inserted callExample
                          @ (if P \<noteq> 0 then [X86AdjustStack P] else []) @ pre))]
            @ post"
    and hi: "ReturnRegHi \<noteq> None
               \<longleftrightarrow> (\<exists>d. Some (1::nat) = Some d \<and> Ty (Variables callExample ! d) = IceType_i64)"
    and edx: "\<forall>rh. ReturnRegHi = Some rh \<longrightarrow> RegNum (Variables s' ! rh) = Reg_edx X8632"
    and regs: "map (\<lambda>v. RegNum (Variables s' ! v)) KilledRegs
            = map int (filter (\<lambda>i. ScratchRegs X8632 ! i) [0 ..< length (ScratchRegs X8632)])"
    by (elim exE conjE) (rule that)
  from hi ty obtain rh where rh: "ReturnRegHi = Some rh" by auto
  have ins': "Inserted s' =
            Inserted callExample @ (if P \<noteq> 0 then [X86AdjustStack P] else []) @ pre
            @ [X86Call ReturnReg Target]
            @ [FakeDef rh None]
            @ (if P \<noteq> 0
               then [X86 Add (Some esp) [OpConstant (ConstantInteger IceType_i32 (ucast P))]]
               else [])
            @ [FakeKill KilledRegs
                 (length (Inserted callExample
                          @ (if P \<noteq> 0 then [X86AdjustStack P] else []) @ pre))]
            @ post"
    using ins by (simp add: rh)
  from edx rh have edx': "RegNum (Variables s' ! rh) = Reg_edx X8632" by simp
  have "\<exists>s' pre ReturnReg rh Target (P :: uint32_t) esp KilledRegs post.
        lowerCall X8632 (Some 1) (OpConstant (ConstantRelocatable IceType_i32 0 ''f''))
          [OpVariable 0] True callExample = Some s'
        \<and> Inserted s' =
            Inserted callExample @ (if P \<noteq> 0 then [X86AdjustStack P] else []) @ pre
            @ [X86Call ReturnReg Target]
            @ [FakeDef rh None]
            @ (if P \<noteq> 0
               then [X86 Add (Some esp) [OpConstant (ConstantInteger IceType_i32 (ucast P))]]
               else [])
            @ [FakeKill KilledRegs
                 (length (Inserted callExample
                          @ (if P \<noteq> 0 then [X86AdjustStack P] else []) @ pre))]
            @ post
        \<and> RegNum (Variables s' ! rh) = Reg_edx X8632
        \<and> map (\<lambda>v. RegNum (Variables s' ! v)) KilledRegs
            = map int (filter (\<lambda>i. ScratchRegs X8632 ! i) [0 ..< length (ScratchRegs X8632)])"
    by (intro exI conjI) (rule s' ins' edx' regs)+
  with physOK_callExample len show ?thesis by blast
qed

text \<open>
  A call \<open>r = f(a)\<close> with an \<open>i64\<close> result and one stack argument: a \<open>FakeDef\<close> and the
  \<open>add\<close> to \<open>esp\<close> stand between the call and its \<open>FakeKill\<close>.
\<close>

theorem lowerCall_counterexample:
  "map_option Inserted
     (lowerCall X8632 (Some 1) (OpConstant (ConstantRelocatable IceType_i32 0 ''f''))
        [OpVariable 0] True callExample)
   = Some [X86AdjustStack 16,
           X86 Mov (Some 3) [OpVariable 0],
           X86 Store None [OpVariable 3,
              OpX8632Mem IceType_i32 (Some 2) (Some (ConstantInteger IceType_i32 0)) None 0
                DefaultSegment],
           X86Call (Some 4) (OpConstant (ConstantRelocatable IceType_i32 0 ''f'')),
           FakeDef 5 None,
           X86 Add (Some 2) [OpConstant (ConstantInteger IceType_i32 16)],
           FakeKill [6, 7, 8, 9, 10, 11, 12, 13, 14, 15, 16] 3,
           FakeUse 4,
           X86 Mov (Some 17) [OpVariable 4],
           X86 Mov (Some 18) [OpVariable 5]]"
  by code_simp

section \<open>Legalization is idempotent\<close>

lemma mustHaveRegister_ext:
  "ext s s' \<Longrightarrow> v < length (Variables s) \<Longrightarrow> mustHaveRegister s v \<Longrightarrow> mustHaveRegister s' v"
  by (simp add: ext_def keptVar_def mustHaveRegister_def hasReg_def getVar_def)

lemma legalize_Variable_keep:
  "mustHaveRegister s v \<Longrightarrow> Legal_Reg \<in> A \<Longrightarrow>
     legalize (OpVariable v) A ov NoRegister s = Some (OpVariable v, s)"
  by (simp add: legalize_OpVariable mustHaveRegister_def)

lemma legalizeToVar_Variable_keep:
  "mustHaveRegister s v \<Longrightarrow> legalizeToVar (OpVariable v) ov NoRegister s = Some (v, s)"
  by (simp add: legalizeToVar_eq legalize_Variable_keep)

lemma copyToReg_mustHave:
  assumes "copyToReg Src NoRegister s = Some (Reg, s')"
  shows "Reg < length (Variables s')" "mustHaveRegister s' Reg"
  using copyToReg_props[OF assms]
  by (simp_all add: mustHaveRegister_def getVar_def)

lemma mustHaveRegister_setPreferredRegister:
  "mustHaveRegister s v \<Longrightarrow> mustHaveRegister (setPreferredRegister u p ov s) v"
  by (cases "u < length (Variables s)")
     (auto simp: mustHaveRegister_def setPreferredRegister_def updVar_def hasReg_def getVar_def
        nth_list_update list_update_beyond)

lemma legalize_Variable_result:
  assumes "legalize (OpVariable Var) A ov NoRegister s = Some (Op, s')"
  shows "legalize Op A ov' NoRegister s' = Some (Op, s')"
proof -
  from assms have A: "Legal_Reg \<in> A"
    by (auto simp: legalize_OpVariable split: if_splits)
  show ?thesis
  proof (cases "(Legal_Mem \<notin> A \<and> \<not> (hasReg s Var \<or> Weight (getVar s Var) = RegWeight_Inf))")
    case False
    with assms A have "Op = OpVariable Var" "s' = s"
      by (auto simp: legalize_OpVariable)
    with False A show ?thesis by (auto simp: legalize_OpVariable)
  next
    case True
    with assms A obtain Reg s1 where c: "copyToReg (OpVariable Var) NoRegister s = Some (Reg, s1)"
      and r: "Op = OpVariable Reg" "s' = setPreferredRegister Reg Var ov s1"
      by (auto simp: legalize_OpVariable split: Option.bind_splits)
    from copyToReg_mustHave(2)[OF c] have "mustHaveRegister s' Reg"
      unfolding r by (rule mustHaveRegister_setPreferredRegister)
    from this A show ?thesis unfolding r(1) by (rule legalize_Variable_keep)
  qed
qed

lemma legalizeToVar_Variable_result:
  assumes "legalizeToVar (OpVariable b) True NoRegister s = Some (v, s1)" "b < length (Variables s)"
  shows "ext s s1" "v < length (Variables s1)" "mustHaveRegister s1 v"
proof -
  from assms(1) have l: "legalize (OpVariable b) {Legal_Reg} True NoRegister s = Some (OpVariable v, s1)"
    by (rule legalizeToVar_elim)
  show e: "ext s s1" using l by (rule ext_legalize)
  show "v < length (Variables s1)" "mustHaveRegister s1 v"
  proof (atomize (full), cases "mustHaveRegister s b")
    case True
    with l have "v = b" "s1 = s"
      by (auto simp: legalize_OpVariable mustHaveRegister_def)
    with True assms(2) show "v < length (Variables s1) \<and> mustHaveRegister s1 v" by simp
  next
    case False
    with l obtain s0 where c: "copyToReg (OpVariable b) NoRegister s = Some (v, s0)"
      and s1: "s1 = setPreferredRegister v b True s0"
      by (auto simp: legalize_OpVariable mustHaveRegister_def split: Option.bind_splits)
    have "v < length (Variables s1)"
      using copyToReg_mustHave(1)[OF c] by (simp add: s1 setPreferredRegister_def updVar_def)
    moreover have "mustHaveRegister s1 v"
      unfolding s1 using copyToReg_mustHave(2)[OF c] by (rule mustHaveRegister_setPreferredRegister)
    ultimately show "v < length (Variables s1) \<and> mustHaveRegister s1 v" by simp
  qed
qed

lemma legalize_opt_result:
  assumes "(case Base of None \<Rightarrow> Some (None, s)
            | Some b \<Rightarrow> do { (v, s') \<leftarrow> legalizeToVar (OpVariable b) True NoRegister s;
                              Some (Some v, s') }) = Some (RegBase, s1)"
    and "\<forall>b. Base = Some b \<longrightarrow> b < length (Variables s)"
  shows "ext s s1"
    "\<forall>v. RegBase = Some v \<longrightarrow> v < length (Variables s1) \<and> mustHaveRegister s1 v"
  using assms
  by (cases Base; auto split: Option.bind_splits dest: legalizeToVar_Variable_result)+

lemma legalize_opt_keep:
  assumes "\<forall>v. RegBase = Some v \<longrightarrow> mustHaveRegister s v"
  shows "(case RegBase of None \<Rightarrow> Some (None, s)
            | Some b \<Rightarrow> do { (v, s') \<leftarrow> legalizeToVar (OpVariable b) True NoRegister s;
                              Some (Some v, s') }) = Some (RegBase, s)"
  using assms by (cases RegBase) (simp_all add: legalizeToVar_Variable_keep)

text \<open>
  C7. \<open>legalize\<close> with an allowed mask that permits a register (and no register hint)
  is idempotent: legalizing the operand it returned again, in the state it left,
  returns that operand and changes nothing.
\<close>

theorem legalize_idempotent:
  assumes l: "legalize From A ov NoRegister s = Some (Op, s')"
    and wf: "wfOperand s From"
  shows "legalize Op A ov' NoRegister s' = Some (Op, s')"
proof -
  from l have A: "Legal_Reg \<in> A"
    by (subst (asm) legalize.simps) (auto split: if_splits)
  have copied: "legalize (OpVariable Reg) A ov' NoRegister s1 = Some (OpVariable Reg, s1)"
    if "copyToReg Src NoRegister s0 = Some (Reg, s1)" for Src Reg s0 s1
    using copyToReg_mustHave(2)[OF that] A by (rule legalize_Variable_keep)
  show ?thesis
  proof (cases From)
    case (OpVariable Var)
    with l show ?thesis by (auto intro: legalize_Variable_result)
  next
    case (OpConstant c)
    show ?thesis
    proof (cases "isConstantUndef c \<and> isVectorType (constantType c)")
      case True
      with l A OpConstant obtain Reg s1 where
        m: "makeReg (constantType c) NoRegister s = Some (Reg, s1)"
        and r: "Op = OpVariable Reg"
          "s' = ins Pxor (Some Reg) [OpVariable Reg] (Context_insert (FakeDef Reg None) s1)"
        by (auto simp: legalize_OpConstant makeVectorOfZeros_def split: Option.bind_splits)
      have "mustHaveRegister s' Reg"
        using makeReg_props(7)[OF m] makeReg_props(3)[OF m] makeReg_props(2)[OF m]
        by (simp add: r mustHaveRegister_def getVar_def ins_def Context_insert_def)
      from this A show ?thesis unfolding r(1) by (rule legalize_Variable_keep)
    next
      case False
      with l A OpConstant obtain c1 where
        c1: "(if isConstantUndef c then getConstantZero (constantType c) else Some c) = Some c1"
        and nv: "\<not> isVectorType (constantType c1)"
        and rest: "(if Legal_Imm \<notin> A
                     \<or> (Legal_Reloc \<notin> A \<and> isConstantRelocatable c1)
                     \<or> (Legal_Mem \<notin> A
                         \<and> (constantType c1 = IceType_f32 \<or> constantType c1 = IceType_f64))
             then do { (Reg, s1) \<leftarrow> copyToReg (OpConstant c1) NoRegister s;
                       Some (OpVariable Reg, s1) }
             else Some (OpConstant c1, s)) = Some (Op, s')"
        by (auto simp: legalize_OpConstant split: Option.bind_splits if_splits)
      have nu: "\<not> isConstantUndef c1"
        using c1 by (cases "isConstantUndef c"; cases "constantType c") auto
      show ?thesis
      proof (cases "Legal_Imm \<notin> A
                     \<or> (Legal_Reloc \<notin> A \<and> isConstantRelocatable c1)
                     \<or> (Legal_Mem \<notin> A
                         \<and> (constantType c1 = IceType_f32 \<or> constantType c1 = IceType_f64))")
        case True
        with rest obtain Reg where "copyToReg (OpConstant c1) NoRegister s = Some (Reg, s')"
          "Op = OpVariable Reg"
          by (auto split: Option.bind_splits)
        then show ?thesis by (simp add: copied)
      next
        case False
        with rest have "Op = OpConstant c1" "s' = s" by auto
        with False nu nv A show ?thesis by (auto simp: legalize_OpConstant)
      qed
    qed
  next
    case (OpX8632Mem ty Base Offset Index Shift Seg)
    from wf have wfb: "\<forall>b. Base = Some b \<longrightarrow> b < length (Variables s)"
      and wfi: "\<forall>i. Index = Some i \<longrightarrow> i < length (Variables s)"
      by (auto simp: wfOperand_def OpX8632Mem)
    from l A obtain RegBase s1 RegIndex s2 where
      1: "(case Base of None \<Rightarrow> Some (None, s)
            | Some b \<Rightarrow> do { (v, s') \<leftarrow> legalizeToVar (OpVariable b) True NoRegister s;
                              Some (Some v, s') }) = Some (RegBase, s1)"
      and 2: "(case Index of None \<Rightarrow> Some (None, s1)
            | Some b \<Rightarrow> do { (v, s') \<leftarrow> legalizeToVar (OpVariable b) True NoRegister s1;
                              Some (Some v, s') }) = Some (RegIndex, s2)"
      and 3: "(if Legal_Mem \<notin> A
             then do { (Reg, s3) \<leftarrow>
                         copyToReg (OpX8632Mem ty RegBase Offset RegIndex Shift Seg) NoRegister s2;
                       Some (OpVariable Reg, s3) }
             else Some (OpX8632Mem ty RegBase Offset RegIndex Shift Seg, s2)) = Some (Op, s')"
      unfolding OpX8632Mem legalize_OpX8632Mem
      by (auto split: Option.bind_splits)
    note b = legalize_opt_result[OF 1 wfb]
    have wfi1: "\<forall>i. Index = Some i \<longrightarrow> i < length (Variables s1)"
      using wfi b(1) by (auto simp: ext_def)
    note i = legalize_opt_result[OF 2 wfi1]
    show ?thesis
    proof (cases "Legal_Mem \<in> A")
      case False
      with 3 obtain Reg where
        "copyToReg (OpX8632Mem ty RegBase Offset RegIndex Shift Seg) NoRegister s2 = Some (Reg, s')"
        "Op = OpVariable Reg"
        by (auto split: Option.bind_splits)
      then show ?thesis by (simp add: copied)
    next
      case True
      with 3 have r: "Op = OpX8632Mem ty RegBase Offset RegIndex Shift Seg" "s' = s2" by auto
      have kb: "\<forall>v. RegBase = Some v \<longrightarrow> mustHaveRegister s2 v"
        using b(2) i(1) by (auto intro: mustHaveRegister_ext)
      have ki: "\<forall>v. RegIndex = Some v \<longrightarrow> mustHaveRegister s2 v"
        using i(2) by auto
      show ?thesis
        unfolding r legalize_OpX8632Mem
        using A True by (simp add: legalize_opt_keep[OF kb] legalize_opt_keep[OF ki])
    qed
  next
    case (OpVariableSplit v p)
    with l show ?thesis by (simp add: legalize_OpVariableSplit)
  qed
qed

theorem legalize_idempotent_witness:
  "wfOperand callExample (OpX8632Mem IceType_i32 (Some 0) None None 0 DefaultSegment)
   \<and> (\<exists>s'. legalize (OpX8632Mem IceType_i32 (Some 0) None None 0 DefaultSegment)
               Legal_All False NoRegister callExample
             = Some (OpX8632Mem IceType_i32 (Some 2) None None 0 DefaultSegment, s')
           \<and> legalize (OpX8632Mem IceType_i32 (Some 2) None None 0 DefaultSegment)
               Legal_All False NoRegister s'
             = Some (OpX8632Mem IceType_i32 (Some 2) None None 0 DefaultSegment, s'))"
proof -
  let ?From = "OpX8632Mem IceType_i32 (Some 0) None None 0 DefaultSegment"
  let ?Op = "OpX8632Mem IceType_i32 (Some 2) None None 0 DefaultSegment"
  have wf: "wfOperand callExample ?From"
    by (simp add: wfOperand_def callExample_def makeVariable_def emptyFunc_def)
  have "map_option fst (legalize ?From Legal_All False NoRegister callExample) = Some ?Op"
    by code_simp
  then obtain s' where l: "legalize ?From Legal_All False NoRegister callExample = Some (?Op, s')"
    by auto
  from legalize_idempotent[OF l wf, of False] l wf show ?thesis by blast
qed

section \<open>The multiplication of two 64-bit integers\<close>

lemma mov_new_props:
  assumes "mov_new Src r s = Some (T, s')"
  shows "ext s s'" "Inserted s' = Inserted s @ [X86 Mov (Some T) [Src]]"
    "T < length (Variables s')" "RegNum (Variables s' ! T) = r"
proof -
  from assms obtain s1 where m: "makeReg (getType s Src) r s = Some (T, s1)"
    and s': "s' = ins Mov (Some T) [Src] s1"
    by (auto simp: mov_new_def split: Option.bind_splits)
  note p = makeReg_props[OF m]
  show "ext s s'" using assms by (rule ext_mov_new)
  show "Inserted s' = Inserted s @ [X86 Mov (Some T) [Src]]"
    "T < length (Variables s')" "RegNum (Variables s' ! T) = r"
    using p by (simp_all add: s' ins_def Context_insert_def)
qed

lemma Inserted_ins [simp]: "Inserted (ins Op D Srcs s) = Inserted s @ [X86 Op D Srcs]"
  by (simp add: ins_def Context_insert_def)

lemma Inserted_Context_insert [simp]: "Inserted (Context_insert I s) = Inserted s @ [I]"
  by (simp add: Context_insert_def)

lemma Variables_ins [simp]: "Variables (ins Op D Srcs s) = Variables s"
  by (simp add: ins_def Context_insert_def)

lemma Variables_Context_insert [simp]: "Variables (Context_insert I s) = Variables s"
  by (simp add: Context_insert_def)

lemma wfOperand_ext: "ext s s' \<Longrightarrow> wfOperand s Op \<Longrightarrow> wfOperand s' Op"
  by (auto simp: wfOperand_def ext_def)

lemma loOperand_loOf:
  assumes "loOperand Op s = Some (Lo, s1)"
  shows "loOf s1 Op = Some Lo"
proof (cases Op)
  case (OpVariable v)
  with assms show ?thesis
    by (auto simp: loOperand_def loOf_def split: if_splits Option.bind_splits)
next
  case (OpConstant c)
  with assms show ?thesis
    by (auto simp: loOperand_def loOf_def split: if_splits Constant.splits)
next
  case (OpX8632Mem ty b off i sh sg)
  with assms show ?thesis
    by (auto simp: loOperand_def loOf_def split: if_splits)
next
  case (OpVariableSplit v p)
  with assms show ?thesis by (auto simp: loOperand_def split: if_splits)
qed

lemma hiOperand_hiOf:
  assumes "hiOperand Op s = Some (Hi, s1)"
  shows "hiOf s1 Op = Some Hi"
proof (cases Op)
  case (OpVariable v)
  with assms show ?thesis
    by (auto simp: hiOperand_def hiOf_def split: if_splits Option.bind_splits)
next
  case (OpConstant c)
  with assms show ?thesis
    by (auto simp: hiOperand_def hiOf_def split: if_splits Constant.splits)
next
  case (OpX8632Mem ty b off i sh sg)
  with assms show ?thesis
    by (auto simp: hiOperand_def hiOf_def Let_def split: if_splits)
next
  case (OpVariableSplit v p)
  with assms show ?thesis by (auto simp: hiOperand_def split: if_splits)
qed

lemma loOf_ext:
  assumes "loOf s Op = Some Lo" "ext s s'" "wfOperand s Op"
  shows "loOf s' Op = Some Lo"
proof (cases Op)
  case (OpVariable v)
  with assms show ?thesis
    by (auto simp: loOf_def wfOperand_def ext_def keptVar_def getVar_def)
next
  case (OpConstant c)
  with assms show ?thesis
    by (auto simp: loOf_def loOperand_def split: if_splits Constant.splits)
next
  case (OpX8632Mem ty b off i sh sg)
  with assms show ?thesis
    by (auto simp: loOf_def loOperand_def split: if_splits)
next
  case (OpVariableSplit v p)
  with assms show ?thesis by (auto simp: loOf_def loOperand_def split: if_splits)
qed

lemma hiOf_ext:
  assumes "hiOf s Op = Some Hi" "ext s s'" "wfOperand s Op"
  shows "hiOf s' Op = Some Hi"
proof (cases Op)
  case (OpVariable v)
  with assms show ?thesis
    by (auto simp: hiOf_def wfOperand_def ext_def keptVar_def getVar_def)
next
  case (OpConstant c)
  with assms show ?thesis
    by (auto simp: hiOf_def hiOperand_def split: if_splits Constant.splits)
next
  case (OpX8632Mem ty b off i sh sg)
  with assms show ?thesis
    by (auto simp: hiOf_def hiOperand_def Let_def split: if_splits)
next
  case (OpVariableSplit v p)
  with assms show ?thesis by (auto simp: hiOf_def hiOperand_def split: if_splits)
qed

lemma castVariable_Some: "castVariable Op = Some v \<longleftrightarrow> Op = OpVariable v"
  by (cases Op) (simp_all add: castVariable_def)

lemma lowerArithmetic_i64_Mul_steps:
  assumes "lowerArithmetic T scalarize Arith_Mul Dest ISrc0 ISrc1 s = Some s'"
    and "Ty (Variables s ! Dest) = IceType_i64" "Dest < length (Variables s)"
  shows "\<exists>Src0 s1 Src1 s2 DestLo s3 DestHi s4 Src0Lo s5 Src0Hi s6 Src1Lo s7 Src1Hi s8
           T_4Lo s9 T_4Hi s10 Src1LoRM s11 T_1 s12 T_2 s13 T_3 s14.
      legalize ISrc0 Legal_All False NoRegister s = Some (Src0, s1)
      \<and> legalize ISrc1 Legal_All False NoRegister s1 = Some (Src1, s2)
      \<and> loOperand (OpVariable Dest) s2 = Some (OpVariable DestLo, s3)
      \<and> hiOperand (OpVariable Dest) s3 = Some (OpVariable DestHi, s4)
      \<and> loOperand Src0 s4 = Some (Src0Lo, s5)
      \<and> hiOperand Src0 s5 = Some (Src0Hi, s6)
      \<and> loOperand Src1 s6 = Some (Src1Lo, s7)
      \<and> hiOperand Src1 s7 = Some (Src1Hi, s8)
      \<and> makeReg IceType_i32 (Reg_eax T) s8 = Some (T_4Lo, s9)
      \<and> makeReg IceType_i32 (Reg_edx T) s9 = Some (T_4Hi, s10)
      \<and> legalize Src1Lo {Legal_Reg, Legal_Mem} False NoRegister s10 = Some (Src1LoRM, s11)
      \<and> mov_new Src0Hi NoRegister s11 = Some (T_1, s12)
      \<and> mov_new Src1Hi NoRegister (ins Imul (Some T_1) [Src1LoRM] s12) = Some (T_2, s13)
      \<and> mov_new Src0Lo (Reg_eax T) (ins Imul (Some T_2) [Src0Lo] s13) = Some (T_3, s14)
      \<and> s' = ins Mov (Some DestHi) [OpVariable T_4Hi]
                (ins Add (Some T_4Hi) [OpVariable T_2]
                  (ins Add (Some T_4Hi) [OpVariable T_1]
                    (ins Mov (Some DestLo) [OpVariable T_4Lo]
                      (Context_insert (FakeDef T_4Hi (Some T_4Lo))
                        (ins Mul (Some T_4Lo) [OpVariable T_3, Src1LoRM] s14)))))"
proof -
  from assms(1) obtain Src0 s1 Src1 s2 where
    l0: "legalize ISrc0 Legal_All False NoRegister s = Some (Src0, s1)"
    and l1: "legalize ISrc1 Legal_All False NoRegister s1 = Some (Src1, s2)"
    and r: "(if Ty (getVar s2 Dest) = IceType_i64
          then lowerArithmetic_i64 T Arith_Mul Dest ISrc0 ISrc1 Src0 Src1 s2
          else if isVectorType (Ty (getVar s2 Dest))
          then lowerArithmetic_vector T scalarize Arith_Mul Dest Src0 Src1 s2
          else lowerArithmetic_scalar T Arith_Mul Dest Src0 Src1 s2) = Some s'"
    unfolding lowerArithmetic_def
    by (simp only: bind_eq_Some_conv split_paired_Ex prod.case) blast
  have "ext s s2" using ext_legalize[OF l0] ext_legalize[OF l1] by (rule ext_trans)
  with assms(2,3) have "Ty (getVar s2 Dest) = IceType_i64"
    by (simp add: ext_def keptVar_def getVar_def)
  with r have "lowerArithmetic_i64 T Arith_Mul Dest ISrc0 ISrc1 Src0 Src1 s2 = Some s'"
    by simp
  then have "\<exists>DestLoOp DestLo s3 DestHiOp DestHi s4 Src0Lo s5 Src0Hi s6 Src1Lo s7 Src1Hi s8
           T_4Lo s9 T_4Hi s10 Src1LoRM s11 T_1 s12 T_2 s13 T_3 s14.
      loOperand (OpVariable Dest) s2 = Some (DestLoOp, s3)
      \<and> castVariable DestLoOp = Some DestLo
      \<and> hiOperand (OpVariable Dest) s3 = Some (DestHiOp, s4)
      \<and> castVariable DestHiOp = Some DestHi
      \<and> loOperand Src0 s4 = Some (Src0Lo, s5)
      \<and> hiOperand Src0 s5 = Some (Src0Hi, s6)
      \<and> loOperand Src1 s6 = Some (Src1Lo, s7)
      \<and> hiOperand Src1 s7 = Some (Src1Hi, s8)
      \<and> makeReg IceType_i32 (Reg_eax T) s8 = Some (T_4Lo, s9)
      \<and> makeReg IceType_i32 (Reg_edx T) s9 = Some (T_4Hi, s10)
      \<and> legalize Src1Lo {Legal_Reg, Legal_Mem} False NoRegister s10 = Some (Src1LoRM, s11)
      \<and> mov_new Src0Hi NoRegister s11 = Some (T_1, s12)
      \<and> mov_new Src1Hi NoRegister (ins Imul (Some T_1) [Src1LoRM] s12) = Some (T_2, s13)
      \<and> mov_new Src0Lo (Reg_eax T) (ins Imul (Some T_2) [Src0Lo] s13) = Some (T_3, s14)
      \<and> s' = ins Mov (Some DestHi) [OpVariable T_4Hi]
                (ins Add (Some T_4Hi) [OpVariable T_2]
                  (ins Add (Some T_4Hi) [OpVariable T_1]
                    (ins Mov (Some DestLo) [OpVariable T_4Lo]
                      (Context_insert (FakeDef T_4Hi (Some T_4Lo))
                        (ins Mul (Some T_4Lo) [OpVariable T_3, Src1LoRM] s14)))))"
    unfolding lowerArithmetic_i64_def arith64_mul_def Let_def OpKind.case
    apply (simp only: bind_eq_Some_conv split_paired_Ex prod.case option.inject)
    apply (elim exE conjE)
    apply (intro exI conjI; (assumption | (rule sym, assumption)))
    done
  then show ?thesis using l0 l1
    apply (simp only: castVariable_Some)
    apply (elim exE conjE)
    apply (intro exI conjI; (assumption | simp))
    done
qed

lemma legalize_Variable_All:
  "legalize (OpVariable v) Legal_All ov NoRegister s = Some (OpVariable v, s)"
  by (simp add: legalize_OpVariable Legal_All_def)

lemma wfOperand_legalize:
  assumes "legalize From A ov r s = Some (Op, s')" "wfOperand s From"
  shows "wfOperand s' Op"
proof -
  have copied: "wfOperand s1 (OpVariable Reg)"
    if "copyToReg Src r0 s0 = Some (Reg, s1)" for Src r0 Reg s0 s1
    using copyToReg_props(2,3)[OF that] by (simp add: wfOperand_def)
  show ?thesis
  proof (cases From)
    case (OpVariable Var)
    show ?thesis
    proof (cases "(Legal_Mem \<notin> A \<and> \<not> (hasReg s Var \<or> Weight (getVar s Var) = RegWeight_Inf))
              \<or> (r \<noteq> NoRegister \<and> r \<noteq> RegNum (getVar s Var))")
      case False
      with assms OpVariable have "Op = From" "s' = s"
        by (auto simp: legalize_OpVariable split: if_splits)
      with assms(2) show ?thesis by simp
    next
      case True
      with assms OpVariable obtain Reg s1 where c: "copyToReg (OpVariable Var) r s = Some (Reg, s1)"
        and r: "Op = OpVariable Reg"
          "s' = (if r = NoRegister then setPreferredRegister Reg Var ov s1 else s1)"
        by (auto simp: legalize_OpVariable split: if_splits Option.bind_splits)
      have "ext s1 s'" by (simp add: r)
      with copied[OF c] show ?thesis unfolding r(1) by (rule wfOperand_ext[rotated])
    qed
  next
    case (OpConstant c)
    show ?thesis
    proof (cases "\<exists>c1. Op = OpConstant c1")
      case True then show ?thesis by (auto simp: wfOperand_def)
    next
      case False
      with assms OpConstant have
        "(\<exists>Reg s1 ty. makeReg ty NoRegister s = Some (Reg, s1) \<and> Op = OpVariable Reg
            \<and> s' = ins Pxor (Some Reg) [OpVariable Reg] (Context_insert (FakeDef Reg None) s1))
         \<or> (\<exists>c1 Reg. copyToReg (OpConstant c1) r s = Some (Reg, s') \<and> Op = OpVariable Reg)"
        by (auto simp add: legalize_OpConstant makeVectorOfZeros_def
                 split: if_splits Option.bind_splits)
      then show ?thesis
      proof (elim disjE exE conjE)
        fix Reg s1 ty
        assume z: "makeReg ty NoRegister s = Some (Reg, s1)" "Op = OpVariable Reg"
          "s' = ins Pxor (Some Reg) [OpVariable Reg] (Context_insert (FakeDef Reg None) s1)"
        then show ?thesis using makeReg_props(2,3)[OF z(1)] by (simp add: wfOperand_def)
      next
        fix c1 Reg
        assume "copyToReg (OpConstant c1) r s = Some (Reg, s')" "Op = OpVariable Reg"
        then show ?thesis using copied by simp
      qed
    qed
  next
    case (OpX8632Mem ty Base Offset Index Shift Seg)
    from assms(2) have wfb: "\<forall>b. Base = Some b \<longrightarrow> b < length (Variables s)"
      and wfi: "\<forall>i. Index = Some i \<longrightarrow> i < length (Variables s)"
      by (auto simp: wfOperand_def OpX8632Mem)
    from assms(1) obtain RegBase s1 RegIndex s2 where
      1: "(case Base of None \<Rightarrow> Some (None, s)
            | Some b \<Rightarrow> do { (v, s') \<leftarrow> legalizeToVar (OpVariable b) True NoRegister s;
                              Some (Some v, s') }) = Some (RegBase, s1)"
      and 2: "(case Index of None \<Rightarrow> Some (None, s1)
            | Some b \<Rightarrow> do { (v, s') \<leftarrow> legalizeToVar (OpVariable b) True NoRegister s1;
                              Some (Some v, s') }) = Some (RegIndex, s2)"
      and 3: "(if Legal_Mem \<notin> A
             then do { (Reg, s3) \<leftarrow>
                         copyToReg (OpX8632Mem ty RegBase Offset RegIndex Shift Seg) r s2;
                       Some (OpVariable Reg, s3) }
             else Some (OpX8632Mem ty RegBase Offset RegIndex Shift Seg, s2)) = Some (Op, s')"
      unfolding OpX8632Mem legalize_OpX8632Mem
      by (auto split: Option.bind_splits if_splits)
    note b = legalize_opt_result[OF 1 wfb]
    have wfi1: "\<forall>i. Index = Some i \<longrightarrow> i < length (Variables s1)"
      using wfi b(1) by (auto simp: ext_def)
    note i = legalize_opt_result[OF 2 wfi1]
    show ?thesis
    proof (cases "Legal_Mem \<in> A")
      case False
      with 3 obtain Reg where
        "copyToReg (OpX8632Mem ty RegBase Offset RegIndex Shift Seg) r s2 = Some (Reg, s')"
        "Op = OpVariable Reg"
        by (auto split: Option.bind_splits)
      then show ?thesis using copied by simp
    next
      case True
      with 3 have r: "Op = OpX8632Mem ty RegBase Offset RegIndex Shift Seg" "s' = s2" by auto
      have "\<forall>v. RegBase = Some v \<longrightarrow> v < length (Variables s2)"
        using b(2) i(1) by (auto simp: ext_def)
      with i(2) show ?thesis by (auto simp: r wfOperand_def)
    qed
  next
    case (OpVariableSplit v p)
    with assms show ?thesis by (simp add: legalize_OpVariableSplit)
  qed
qed

lemma loOperand_Variable_is_Variable:
  "loOperand (OpVariable v) s = Some (Lo, s1) \<Longrightarrow> \<exists>l. Lo = OpVariable l"
  by (auto simp: loOperand_def split: if_splits Option.bind_splits)

lemma legalize_Variable_RegMem_any:
  "legalize (OpVariable v) {Legal_Reg, Legal_Mem} ov NoRegister s = Some (Op, s1)
     \<Longrightarrow> Op = OpVariable v \<and> s1 = s"
  by (simp add: legalize_OpVariable)

lemma mov_new_fresh:
  assumes "mov_new Src r s = Some (T, s')"
  shows "T = length (Variables s)" "length (Variables s') = Suc (length (Variables s))"
    "RegNum (Variables s' ! T) = r"
    "r = NoRegister \<Longrightarrow> Weight (Variables s' ! T) = RegWeight_Inf"
proof -
  from assms obtain s1 where m: "makeReg (getType s Src) r s = Some (T, s1)"
    and s': "s' = ins Mov (Some T) [Src] s1"
    by (auto simp: mov_new_def split: Option.bind_splits)
  note p = makeReg_props[OF m]
  show "T = length (Variables s)" "length (Variables s') = Suc (length (Variables s))"
    "RegNum (Variables s' ! T) = r"
    "r = NoRegister \<Longrightarrow> Weight (Variables s' ! T) = RegWeight_Inf"
    using p by (simp_all add: s')
qed

lemma loOperand_Constant:
  "loOperand Op s = Some (OpConstant k, s1) \<Longrightarrow> \<exists>w. k = ConstantInteger IceType_i32 w"
  by (cases Op)
     (auto simp: loOperand_def split: if_splits Constant.splits Option.bind_splits)

lemma legalize_Mem_result:
  assumes l: "legalize From A ov NoRegister s = Some (OpX8632Mem ty B Off I Sh Sg, s')"
    and wf: "wfOperand s From"
  shows "\<forall>v. B = Some v \<longrightarrow> v < length (Variables s') \<and> mustHaveRegister s' v"
    "\<forall>v. I = Some v \<longrightarrow> v < length (Variables s') \<and> mustHaveRegister s' v"
proof -
  have "(\<forall>v. B = Some v \<longrightarrow> v < length (Variables s') \<and> mustHaveRegister s' v)
      \<and> (\<forall>v. I = Some v \<longrightarrow> v < length (Variables s') \<and> mustHaveRegister s' v)"
  proof (cases From)
    case (OpVariable Var)
    with l show ?thesis
      by (auto simp: legalize_OpVariable split: if_splits Option.bind_splits)
  next
    case (OpConstant c)
    with l show ?thesis
      by (auto simp: legalize_OpConstant split: if_splits Option.bind_splits)
  next
    case (OpX8632Mem ty0 Base Offset Index Shift Seg)
    from wf have wfb: "\<forall>b. Base = Some b \<longrightarrow> b < length (Variables s)"
      and wfi: "\<forall>i. Index = Some i \<longrightarrow> i < length (Variables s)"
      by (auto simp: wfOperand_def OpX8632Mem)
    from l obtain RegBase s1 RegIndex s2 where
      1: "(case Base of None \<Rightarrow> Some (None, s)
            | Some b \<Rightarrow> do { (v, s') \<leftarrow> legalizeToVar (OpVariable b) True NoRegister s;
                              Some (Some v, s') }) = Some (RegBase, s1)"
      and 2: "(case Index of None \<Rightarrow> Some (None, s1)
            | Some b \<Rightarrow> do { (v, s') \<leftarrow> legalizeToVar (OpVariable b) True NoRegister s1;
                              Some (Some v, s') }) = Some (RegIndex, s2)"
      and 3: "B = RegBase" "I = RegIndex" "s' = s2"
      unfolding OpX8632Mem legalize_OpX8632Mem
      by (auto split: if_splits Option.bind_splits)
    note b = legalize_opt_result[OF 1 wfb]
    have wfi1: "\<forall>i. Index = Some i \<longrightarrow> i < length (Variables s1)"
      using wfi b(1) by (auto simp: ext_def)
    note i = legalize_opt_result[OF 2 wfi1]
    have "\<forall>v. RegBase = Some v \<longrightarrow> v < length (Variables s2) \<and> mustHaveRegister s2 v"
      using b(2) i(1) ext_RegNum[OF i(1)] by (auto intro: mustHaveRegister_ext)
    with i(2) show ?thesis by (simp add: 3)
  next
    case (OpVariableSplit v p)
    with l show ?thesis by (simp add: legalize_OpVariableSplit)
  qed
  then show "\<forall>v. B = Some v \<longrightarrow> v < length (Variables s') \<and> mustHaveRegister s' v"
    "\<forall>v. I = Some v \<longrightarrow> v < length (Variables s') \<and> mustHaveRegister s' v"
    by simp_all
qed

lemma legalize_Mem_keep:
  assumes "\<forall>v. B = Some v \<longrightarrow> mustHaveRegister s v" "\<forall>v. I = Some v \<longrightarrow> mustHaveRegister s v"
    and "Legal_Reg \<in> A" "Legal_Mem \<in> A"
  shows "legalize (OpX8632Mem ty B Off I Sh Sg) A ov NoRegister s
           = Some (OpX8632Mem ty B Off I Sh Sg, s)"
  unfolding legalize_OpX8632Mem
  using assms(3,4) by (simp add: legalize_opt_keep[OF assms(1)] legalize_opt_keep[OF assms(2)])

text \<open>
  The low half of a legalized \<open>i64\<close> operand is legal for \<open>Legal_Reg | Legal_Mem\<close> as it
  is, unless it is a constant, which is moved into a new register.
\<close>

lemma legalize_lo_RegMem:
  assumes l1: "legalize ISrc1 Legal_All False NoRegister s1 = Some (Src1, s2)"
    and wf: "wfOperand s1 ISrc1"
    and lo: "loOperand Src1 s6 = Some (Src1Lo, s7)"
    and e26: "ext s2 s6" and e710: "ext s7 s10"
    and l2: "legalize Src1Lo {Legal_Reg, Legal_Mem} False NoRegister s10 = Some (Src1LoRM, s11)"
  shows "(\<forall>k. Src1Lo \<noteq> OpConstant k) \<longrightarrow> Src1LoRM = Src1Lo \<and> s11 = s10"
    "\<forall>k. Src1Lo = OpConstant k \<longrightarrow>
       (\<exists>r. copyToReg Src1Lo NoRegister s10 = Some (r, s11) \<and> Src1LoRM = OpVariable r)"
proof -
  have e210: "ext s2 s10"
    using e26 loOperand_props(1)[OF lo] e710 by (blast intro: ext_trans)
  have "((\<forall>k. Src1Lo \<noteq> OpConstant k) \<longrightarrow> Src1LoRM = Src1Lo \<and> s11 = s10)
      \<and> (\<forall>k. Src1Lo = OpConstant k \<longrightarrow>
           (\<exists>r. copyToReg Src1Lo NoRegister s10 = Some (r, s11) \<and> Src1LoRM = OpVariable r))"
  proof (cases Src1)
    case (OpVariable v)
    with lo obtain l where "Src1Lo = OpVariable l"
      by (auto dest: loOperand_Variable_is_Variable)
    with l2 show ?thesis by (auto dest: legalize_Variable_RegMem_any)
  next
    case (OpConstant c)
    with lo obtain w where k: "Src1Lo = OpConstant (ConstantInteger IceType_i32 w)"
      by (auto simp: loOperand_def split: if_splits Constant.splits)
    from l2 show ?thesis
      by (auto simp: k legalize_OpConstant split: if_splits Option.bind_splits)
  next
    case (OpX8632Mem ty B Off I Sh Sg)
    from lo have m: "Src1Lo = OpX8632Mem IceType_i32 B Off I Sh Sg"
      by (auto simp: OpX8632Mem loOperand_def split: if_splits)
    note r = legalize_Mem_result[OF l1[unfolded OpX8632Mem] wf]
    have kb: "\<forall>v. B = Some v \<longrightarrow> mustHaveRegister s10 v"
      using r(1) e210 by (auto intro: mustHaveRegister_ext)
    have ki: "\<forall>v. I = Some v \<longrightarrow> mustHaveRegister s10 v"
      using r(2) e210 by (auto intro: mustHaveRegister_ext)
    have "legalize Src1Lo {Legal_Reg, Legal_Mem} False NoRegister s10 = Some (Src1Lo, s10)"
      unfolding m by (rule legalize_Mem_keep[OF kb ki]) simp_all
    with l2 show ?thesis by (simp add: m)
  next
    case (OpVariableSplit v p)
    with lo show ?thesis by (simp add: loOperand_def)
  qed
  then show "(\<forall>k. Src1Lo \<noteq> OpConstant k) \<longrightarrow> Src1LoRM = Src1Lo \<and> s11 = s10"
    "\<forall>k. Src1Lo = OpConstant k \<longrightarrow>
       (\<exists>r. copyToReg Src1Lo NoRegister s10 = Some (r, s11) \<and> Src1LoRM = OpVariable r)"
    by simp_all
qed

lemma legalize_ConstantInteger_All:
  assumes "legalize (OpConstant (ConstantInteger ty c)) Legal_All ov NoRegister s = Some (Op, s')"
  shows "Op = OpConstant (ConstantInteger ty c) \<and> s' = s"
  using assms
  by (simp add: legalize_OpConstant Legal_All_def split: if_splits)

text \<open>
  C1 (as amended). For an arithmetic instruction \<open>a = b * c\<close> of type \<open>i64\<close>,
  \<open>lowerArithmetic\<close> legalizes the two sources first (the instructions \<open>pre\<close>, none when
  both are variables), then the low half of \<open>c\<close> for \<open>Legal_Reg | Legal_Mem\<close> (the
  instructions \<open>preC\<close>: none when \<open>lo(c)\<close> is a variable or a memory operand, and the move
  of \<open>lo(c)\<close> into a new register when it is a constant, since \<open>mul\<close> takes no
  immediate), and then inserts exactly the schoolbook expansion on new, distinct
  temporaries: \<open>t1 = hi(b)\<close>, \<open>t1 *= lo(c)\<close>, \<open>t2 = hi(c)\<close>, \<open>t2 *= lo(b)\<close>,
  \<open>t3 = lo(b)\<close> with \<open>t3\<close> in \<open>eax\<close>, the double-width \<open>mul\<close> of \<open>t3\<close> by \<open>lo(c)\<close> into
  \<open>t4.lo\<close> in \<open>eax\<close>, with a \<open>FakeDef\<close> of \<open>t4.hi\<close> in \<open>edx\<close>, then \<open>lo(a) = t4.lo\<close>,
  \<open>t4.hi += t1\<close>, \<open>t4.hi += t2\<close> and \<open>hi(a) = t4.hi\<close>. The two additions go into the
  variable pinned to \<open>edx\<close>: \<open>hi(a) = edx + t1 + t2\<close>.
\<close>

theorem lowerArithmetic_i64_Mul_schoolbook:
  assumes run: "lowerArithmetic T scalarize Arith_Mul Dest ISrc0 ISrc1 s = Some s'"
    and ty: "Ty (Variables s ! Dest) = IceType_i64" and d: "Dest < length (Variables s)"
    and wf0: "wfOperand s ISrc0" and wf1: "wfOperand s ISrc1"
  shows "\<exists>Src0 s1 Src1 s2 pre preC bLo bHi cLo cLoRM cHi aLo aHi t1 t2 t3 t4Lo t4Hi.
      legalize ISrc0 Legal_All False NoRegister s = Some (Src0, s1)
      \<and> legalize ISrc1 Legal_All False NoRegister s1 = Some (Src1, s2)
      \<and> Inserted s2 = Inserted s @ pre
      \<and> Inserted s' =
          Inserted s @ pre @ preC
          @ [X86 Mov (Some t1) [bHi], X86 Imul (Some t1) [cLoRM],
             X86 Mov (Some t2) [cHi], X86 Imul (Some t2) [bLo],
             X86 Mov (Some t3) [bLo], X86 Mul (Some t4Lo) [OpVariable t3, cLoRM],
             FakeDef t4Hi (Some t4Lo),
             X86 Mov (Some aLo) [OpVariable t4Lo],
             X86 Add (Some t4Hi) [OpVariable t1], X86 Add (Some t4Hi) [OpVariable t2],
             X86 Mov (Some aHi) [OpVariable t4Hi]]
      \<and> loOf s' (OpVariable Dest) = Some (OpVariable aLo)
      \<and> hiOf s' (OpVariable Dest) = Some (OpVariable aHi)
      \<and> loOf s' Src0 = Some bLo \<and> hiOf s' Src0 = Some bHi
      \<and> loOf s' Src1 = Some cLo \<and> hiOf s' Src1 = Some cHi
      \<and> ((\<forall>k. cLo \<noteq> OpConstant k) \<longrightarrow> cLoRM = cLo \<and> preC = [])
      \<and> (\<forall>k. cLo = OpConstant k \<longrightarrow>
            (\<exists>r. cLoRM = OpVariable r \<and> preC = [X86 Mov (Some r) [cLo]]
                 \<and> t4Hi < r \<and> r < t1
                 \<and> RegNum (Variables s' ! r) = NoRegister
                 \<and> Weight (Variables s' ! r) = RegWeight_Inf))
      \<and> length (Variables s) \<le> t4Lo \<and> t4Lo < t4Hi \<and> t4Hi < t1 \<and> t1 < t2 \<and> t2 < t3
      \<and> RegNum (Variables s' ! t1) = NoRegister \<and> Weight (Variables s' ! t1) = RegWeight_Inf
      \<and> RegNum (Variables s' ! t2) = NoRegister \<and> Weight (Variables s' ! t2) = RegWeight_Inf
      \<and> RegNum (Variables s' ! t3) = Reg_eax T
      \<and> RegNum (Variables s' ! t4Lo) = Reg_eax T
      \<and> RegNum (Variables s' ! t4Hi) = Reg_edx T
      \<and> ((\<exists>v. ISrc0 = OpVariable v) \<and> (\<exists>v. ISrc1 = OpVariable v)
           \<longrightarrow> Src0 = ISrc0 \<and> Src1 = ISrc1 \<and> pre = [] \<and> preC = [])"
proof -
  from lowerArithmetic_i64_Mul_steps[OF run ty d]
  obtain Src0 s1 Src1 s2 DestLo s3 DestHi s4 Src0Lo s5 Src0Hi s6 Src1Lo s7 Src1Hi s8
           T_4Lo s9 T_4Hi s10 Src1LoRM s11 T_1 s12 T_2 s13 T_3 s14 where
    l0: "legalize ISrc0 Legal_All False NoRegister s = Some (Src0, s1)"
    and l1: "legalize ISrc1 Legal_All False NoRegister s1 = Some (Src1, s2)"
    and dl: "loOperand (OpVariable Dest) s2 = Some (OpVariable DestLo, s3)"
    and dh: "hiOperand (OpVariable Dest) s3 = Some (OpVariable DestHi, s4)"
    and bl: "loOperand Src0 s4 = Some (Src0Lo, s5)"
    and bh: "hiOperand Src0 s5 = Some (Src0Hi, s6)"
    and cl: "loOperand Src1 s6 = Some (Src1Lo, s7)"
    and ch: "hiOperand Src1 s7 = Some (Src1Hi, s8)"
    and m1: "makeReg IceType_i32 (Reg_eax T) s8 = Some (T_4Lo, s9)"
    and m2: "makeReg IceType_i32 (Reg_edx T) s9 = Some (T_4Hi, s10)"
    and l2: "legalize Src1Lo {Legal_Reg, Legal_Mem} False NoRegister s10 = Some (Src1LoRM, s11)"
    and n1: "mov_new Src0Hi NoRegister s11 = Some (T_1, s12)"
    and n2: "mov_new Src1Hi NoRegister (ins Imul (Some T_1) [Src1LoRM] s12) = Some (T_2, s13)"
    and n3: "mov_new Src0Lo (Reg_eax T) (ins Imul (Some T_2) [Src0Lo] s13) = Some (T_3, s14)"
    and s': "s' = ins Mov (Some DestHi) [OpVariable T_4Hi]
                (ins Add (Some T_4Hi) [OpVariable T_2]
                  (ins Add (Some T_4Hi) [OpVariable T_1]
                    (ins Mov (Some DestLo) [OpVariable T_4Lo]
                      (Context_insert (FakeDef T_4Hi (Some T_4Lo))
                        (ins Mul (Some T_4Lo) [OpVariable T_3, Src1LoRM] s14)))))"
    by (elim exE conjE) (rule that)
  \<comment> \<open>every step extends the state\<close>
  note e01 = ext_legalize[OF l0] and e12 = ext_legalize[OF l1]
    and e23 = loOperand_props(1)[OF dl] and e34 = hiOperand_props(1)[OF dh]
    and e45 = loOperand_props(1)[OF bl] and e56 = hiOperand_props(1)[OF bh]
    and e67 = loOperand_props(1)[OF cl] and e78 = hiOperand_props(1)[OF ch]
    and e89 = makeReg_props(1)[OF m1] and e910 = makeReg_props(1)[OF m2]
    and e1011 = ext_legalize[OF l2] and e1112 = mov_new_props(1)[OF n1]
  have e1213: "ext s12 s13"
    using ext_trans[OF ext_ins mov_new_props(1)[OF n2]] .
  have e1314: "ext s13 s14"
    using ext_trans[OF ext_ins mov_new_props(1)[OF n3]] .
  have v14: "Variables s' = Variables s14" by (simp add: s')
  have e14': "ext s14 s'"
    unfolding ext_def using ext_refl[of s14, unfolded ext_def]
    by (simp add: v14 s' physOK_def ins_def Context_insert_def)
  have e13': "ext s13 s'" using e1314 e14' by (rule ext_trans)
  have e12': "ext s12 s'" using e1213 e13' by (rule ext_trans)
  have e11': "ext s11 s'" using e1112 e12' by (rule ext_trans)
  have e10': "ext s10 s'" using e1011 e11' by (rule ext_trans)
  have e9': "ext s9 s'" using e910 e10' by (rule ext_trans)
  have e8': "ext s8 s'" using e89 e9' by (rule ext_trans)
  have e7': "ext s7 s'" using e78 e8' by (rule ext_trans)
  have e6': "ext s6 s'" using e67 e7' by (rule ext_trans)
  have e5': "ext s5 s'" using e56 e6' by (rule ext_trans)
  have e4': "ext s4 s'" using e45 e5' by (rule ext_trans)
  have e3': "ext s3 s'" using e34 e4' by (rule ext_trans)
  have e02: "ext s s2" using e01 e12 by (rule ext_trans)
  have e03: "ext s s3" using e02 e23 by (rule ext_trans)
  have e04: "ext s s4" using e03 e34 by (rule ext_trans)
  have e05: "ext s s5" using e04 e45 by (rule ext_trans)
  have e26: "ext s2 s6" using e23 e34 e45 e56 by (blast intro: ext_trans)
  have e27: "ext s2 s7" using e26 e67 by (rule ext_trans)
  \<comment> \<open>the inserted instructions\<close>
  from ext_Inserted[OF e02] obtain pre1 where p1: "Inserted s2 = Inserted s @ pre1" by blast
  have i10: "Inserted s10 = Inserted s2"
    using loOperand_props(2)[OF dl] hiOperand_props(2)[OF dh] loOperand_props(2)[OF bl]
      hiOperand_props(2)[OF bh] loOperand_props(2)[OF cl] hiOperand_props(2)[OF ch]
      makeReg_props(8)[OF m1] makeReg_props(8)[OF m2]
    by simp
  from ext_Inserted[OF e1011] obtain pre2 where p2: "Inserted s11 = Inserted s10 @ pre2" by blast
  have ins: "Inserted s' =
        Inserted s @ pre1 @ pre2
        @ [X86 Mov (Some T_1) [Src0Hi], X86 Imul (Some T_1) [Src1LoRM],
           X86 Mov (Some T_2) [Src1Hi], X86 Imul (Some T_2) [Src0Lo],
           X86 Mov (Some T_3) [Src0Lo], X86 Mul (Some T_4Lo) [OpVariable T_3, Src1LoRM],
           FakeDef T_4Hi (Some T_4Lo),
           X86 Mov (Some DestLo) [OpVariable T_4Lo],
           X86 Add (Some T_4Hi) [OpVariable T_1], X86 Add (Some T_4Hi) [OpVariable T_2],
           X86 Mov (Some DestHi) [OpVariable T_4Hi]]"
    using mov_new_props(2)[OF n1] mov_new_props(2)[OF n2] mov_new_props(2)[OF n3] p1 p2 i10
    by (simp add: s')
  \<comment> \<open>the pinned registers\<close>
  have r3: "RegNum (Variables s' ! T_3) = Reg_eax T"
    using mov_new_props(3,4)[OF n3] by (simp add: v14)
  have r4l: "RegNum (Variables s' ! T_4Lo) = Reg_eax T"
    using makeReg_props(2,3,6)[OF m1] ext_RegNum[OF e9', of T_4Lo] by simp
  have r4h: "RegNum (Variables s' ! T_4Hi) = Reg_edx T"
    using makeReg_props(2,3,6)[OF m2] ext_RegNum[OF e10', of T_4Hi] by simp
  \<comment> \<open>the halves\<close>
  have wd: "wfOperand s (OpVariable Dest)" using d by (simp add: wfOperand_def)
  have wb: "wfOperand s1 Src0" using l0 wf0 by (rule wfOperand_legalize)
  have wc: "wfOperand s2 Src1"
    using l1 wfOperand_ext[OF e01 wf1] by (rule wfOperand_legalize)
  have aL: "loOf s' (OpVariable Dest) = Some (OpVariable DestLo)"
    using loOperand_loOf[OF dl] e3' wfOperand_ext[OF e03 wd] by (rule loOf_ext)
  have aH: "hiOf s' (OpVariable Dest) = Some (OpVariable DestHi)"
    using hiOperand_hiOf[OF dh] e4' wfOperand_ext[OF e04 wd] by (rule hiOf_ext)
  have wb5: "wfOperand s5 Src0"
    using wfOperand_ext[OF ext_trans[OF e12 ext_trans[OF e23 ext_trans[OF e34 e45]]] wb] .
  have bL: "loOf s' Src0 = Some Src0Lo"
    using loOperand_loOf[OF bl] e5' wb5 by (rule loOf_ext)
  have bH: "hiOf s' Src0 = Some Src0Hi"
    using hiOperand_hiOf[OF bh] e6' wfOperand_ext[OF e56 wb5] by (rule hiOf_ext)
  have cL: "loOf s' Src1 = Some Src1Lo"
    using loOperand_loOf[OF cl] e7' wfOperand_ext[OF e27 wc] by (rule loOf_ext)
  have cH: "hiOf s' Src1 = Some Src1Hi"
    using hiOperand_hiOf[OF ch] e8' wfOperand_ext[OF ext_trans[OF e27 e78] wc]
    by (rule hiOf_ext)
  \<comment> \<open>the legalization of the low half of the second source\<close>
  have e710: "ext s7 s10" using e78 e89 e910 by (blast intro: ext_trans)
  note lo = legalize_lo_RegMem[OF l1 wfOperand_ext[OF e01 wf1] cl e26 e710 l2]
  have keep: "(\<forall>k. Src1Lo \<noteq> OpConstant k) \<longrightarrow> Src1LoRM = Src1Lo \<and> pre2 = []"
    using lo(1) p2 by auto
  have len9: "T_4Lo = length (Variables s8)" "length (Variables s9) = Suc T_4Lo"
    using makeReg_props(2,3)[OF m1] by simp_all
  have len10: "T_4Hi = Suc T_4Lo" "length (Variables s10) = Suc T_4Hi"
    using makeReg_props(2,3)[OF m2] len9 by simp_all
  have len11: "length (Variables s10) \<le> length (Variables s11)"
    using e1011 by (simp add: ext_def)
  note f1 = mov_new_fresh[OF n1] and f2 = mov_new_fresh[OF n2] and f3 = mov_new_fresh[OF n3]
  have t1: "T_1 = length (Variables s11)" "length (Variables s12) = Suc T_1"
    using f1 by simp_all
  have t2: "T_2 = Suc T_1" "length (Variables s13) = Suc T_2"
    using f2 t1 by simp_all
  have t3: "T_3 = Suc T_2" "length (Variables s14) = Suc T_3"
    using f3 t2 by simp_all
  have const: "\<forall>k. Src1Lo = OpConstant k \<longrightarrow>
            (\<exists>r. Src1LoRM = OpVariable r \<and> pre2 = [X86 Mov (Some r) [Src1Lo]]
                 \<and> T_4Hi < r \<and> r < T_1
                 \<and> RegNum (Variables s' ! r) = NoRegister
                 \<and> Weight (Variables s' ! r) = RegWeight_Inf)"
  proof (intro allI impI)
    fix k assume k: "Src1Lo = OpConstant k"
    with lo(2) obtain r where c: "copyToReg Src1Lo NoRegister s10 = Some (r, s11)"
      and rm: "Src1LoRM = OpVariable r"
      by blast
    note cp = copyToReg_props[OF c]
    have nv: "\<not> isVectorType (getType s10 Src1Lo)"
      using loOperand_Constant[OF cl[unfolded k]] by (auto simp: k)
    from c have i11: "Inserted s11 = Inserted s10 @ [X86 Mov (Some r) [Src1Lo]]"
      using nv makeReg_props(8)
      by (auto simp: copyToReg_def ins_def Context_insert_def split: Option.bind_splits)
    have r11: "r < length (Variables s11)" using cp(2,3) by simp
    have "keptVar (Variables s11 ! r) (Variables s' ! r)"
      using e11' r11 by (simp add: ext_def)
    then have "RegNum (Variables s' ! r) = NoRegister" "Weight (Variables s' ! r) = RegWeight_Inf"
      using cp(5,6) by (simp_all add: keptVar_def)
    moreover have "pre2 = [X86 Mov (Some r) [Src1Lo]]" using i11 p2 by simp
    moreover have "T_4Hi < r" "r < T_1" using cp(2,3) len10 t1 by simp_all
    ultimately show "\<exists>r. Src1LoRM = OpVariable r \<and> pre2 = [X86 Mov (Some r) [Src1Lo]]
                 \<and> T_4Hi < r \<and> r < T_1
                 \<and> RegNum (Variables s' ! r) = NoRegister
                 \<and> Weight (Variables s' ! r) = RegWeight_Inf"
      using rm by blast
  qed
  \<comment> \<open>the temporaries are new and distinct\<close>
  have e08: "ext s s8" using e05 e56 e67 e78 by (blast intro: ext_trans)
  have o0: "length (Variables s) \<le> T_4Lo" using e08 len9 by (simp add: ext_def)
  have o1: "T_4Lo < T_4Hi" using len10 by simp
  have o2: "T_4Hi < T_1" using len10 len11 t1 by simp
  have o3: "T_1 < T_2" using t2 by simp
  have o4: "T_2 < T_3" using t3 by simp
  have k1: "keptVar (Variables s12 ! T_1) (Variables s' ! T_1)"
    using e12' t1 by (simp add: ext_def)
  have r1: "RegNum (Variables s' ! T_1) = NoRegister"
    and w1: "Weight (Variables s' ! T_1) = RegWeight_Inf"
    using k1 f1 by (simp_all add: keptVar_def)
  have k2: "keptVar (Variables s13 ! T_2) (Variables s' ! T_2)"
    using e13' t2 by (simp add: ext_def)
  have r2: "RegNum (Variables s' ! T_2) = NoRegister"
    and w2: "Weight (Variables s' ! T_2) = RegWeight_Inf"
    using k2 f2 by (simp_all add: keptVar_def)
  \<comment> \<open>operands that are variables need no legalization\<close>
  have vars: "(\<exists>v. ISrc0 = OpVariable v) \<and> (\<exists>v. ISrc1 = OpVariable v)
           \<longrightarrow> Src0 = ISrc0 \<and> Src1 = ISrc1 \<and> pre1 = [] \<and> pre2 = []"
  proof (intro impI; elim conjE exE)
    fix u v assume u: "ISrc0 = OpVariable u" and v: "ISrc1 = OpVariable v"
    from l0 have a: "Src0 = ISrc0" "s1 = s" by (simp_all add: u legalize_Variable_All)
    from l1 have b: "Src1 = ISrc1" "s2 = s1" by (simp_all add: v legalize_Variable_All)
    from cl b(1) v obtain l where "Src1Lo = OpVariable l"
      by (auto dest: loOperand_Variable_is_Variable)
    with l2 have "s11 = s10" by (auto dest: legalize_Variable_RegMem_any)
    with p1 p2 a b show "Src0 = ISrc0 \<and> Src1 = ISrc1 \<and> pre1 = [] \<and> pre2 = []" by simp
  qed
  show ?thesis
    by (intro exI conjI)
       (rule l0 l1 p1 ins aL aH bL bH cL cH keep const o0 o1 o2 o3 o4 r1 w1 r2 w2
          r3 r4l r4h vars)+
qed



theorem lowerArithmetic_i64_Mul_schoolbook_witness:
  "\<exists>s' bLo bHi aLo aHi r t1 t2 t3 t4Lo t4Hi.
      lowerArithmetic X8632 noScalarize Arith_Mul 0 (OpVariable 1)
        (OpConstant (ConstantInteger IceType_i64 5)) mulExample = Some s'
      \<and> Inserted s' =
          [X86 Mov (Some r) [OpConstant (ConstantInteger IceType_i32 5)],
           X86 Mov (Some t1) [bHi], X86 Imul (Some t1) [OpVariable r],
           X86 Mov (Some t2) [OpConstant (ConstantInteger IceType_i32 0)],
           X86 Imul (Some t2) [bLo],
           X86 Mov (Some t3) [bLo], X86 Mul (Some t4Lo) [OpVariable t3, OpVariable r],
           FakeDef t4Hi (Some t4Lo),
           X86 Mov (Some aLo) [OpVariable t4Lo],
           X86 Add (Some t4Hi) [OpVariable t1], X86 Add (Some t4Hi) [OpVariable t2],
           X86 Mov (Some aHi) [OpVariable t4Hi]]
      \<and> t4Lo < t4Hi \<and> t4Hi < r \<and> r < t1 \<and> t1 < t2 \<and> t2 < t3
      \<and> RegNum (Variables s' ! t3) = Reg_eax X8632
      \<and> RegNum (Variables s' ! t4Lo) = Reg_eax X8632
      \<and> RegNum (Variables s' ! t4Hi) = Reg_edx X8632
      \<and> loOf s' (OpVariable 0) = Some (OpVariable aLo)
      \<and> hiOf s' (OpVariable 0) = Some (OpVariable aHi)
      \<and> loOf s' (OpVariable 1) = Some bLo \<and> hiOf s' (OpVariable 1) = Some bHi"
proof -
  let ?c = "OpConstant (ConstantInteger IceType_i64 5)"
  have ty: "Ty (Variables mulExample ! 0) = IceType_i64"
    by (simp add: mulExample_def emptyFunc_def newVariable_def)
  have d: "0 < length (Variables mulExample)"
    by (simp add: mulExample_def emptyFunc_def)
  have wf1: "wfOperand mulExample (OpVariable 1)"
    by (simp add: wfOperand_def mulExample_def emptyFunc_def)
  have wf2: "wfOperand mulExample ?c"
    by (simp add: wfOperand_def)
  have i: "Inserted mulExample = []"
    by (simp add: mulExample_def emptyFunc_def)
  have lo5: "loOf x ?c = Some (OpConstant (ConstantInteger IceType_i32 5))" for x
    by (simp add: loOf_def loOperand_def)
  have hi5: "hiOf x ?c = Some (OpConstant (ConstantInteger IceType_i32 0))" for x
    by (simp add: hiOf_def hiOperand_def)
  have "lowerArithmetic X8632 noScalarize Arith_Mul 0 (OpVariable 1) ?c mulExample \<noteq> None"
    by code_simp
  then obtain s' where
    s': "lowerArithmetic X8632 noScalarize Arith_Mul 0 (OpVariable 1) ?c mulExample = Some s'"
    by blast
  from lowerArithmetic_i64_Mul_schoolbook[OF s' ty d wf1 wf2]
  obtain Src0 s1 Src1 s2 pre preC bLo bHi cLo cLoRM cHi aLo aHi t1 t2 t3 t4Lo t4Hi where
    l0: "legalize (OpVariable 1) Legal_All False NoRegister mulExample = Some (Src0, s1)"
    and l1: "legalize ?c Legal_All False NoRegister s1 = Some (Src1, s2)"
    and p: "Inserted s2 = Inserted mulExample @ pre"
    and ins: "Inserted s' =
          Inserted mulExample @ pre @ preC
          @ [X86 Mov (Some t1) [bHi], X86 Imul (Some t1) [cLoRM],
             X86 Mov (Some t2) [cHi], X86 Imul (Some t2) [bLo],
             X86 Mov (Some t3) [bLo], X86 Mul (Some t4Lo) [OpVariable t3, cLoRM],
             FakeDef t4Hi (Some t4Lo),
             X86 Mov (Some aLo) [OpVariable t4Lo],
             X86 Add (Some t4Hi) [OpVariable t1], X86 Add (Some t4Hi) [OpVariable t2],
             X86 Mov (Some aHi) [OpVariable t4Hi]]"
    and a: "loOf s' (OpVariable 0) = Some (OpVariable aLo)"
      "hiOf s' (OpVariable 0) = Some (OpVariable aHi)"
    and b: "loOf s' Src0 = Some bLo" "hiOf s' Src0 = Some bHi"
    and c: "loOf s' Src1 = Some cLo" "hiOf s' Src1 = Some cHi"
    and const: "\<forall>k. cLo = OpConstant k \<longrightarrow>
            (\<exists>r. cLoRM = OpVariable r \<and> preC = [X86 Mov (Some r) [cLo]]
                 \<and> t4Hi < r \<and> r < t1
                 \<and> RegNum (Variables s' ! r) = NoRegister
                 \<and> Weight (Variables s' ! r) = RegWeight_Inf)"
    and o: "t4Lo < t4Hi" "t4Hi < t1" "t1 < t2" "t2 < t3"
    and r: "RegNum (Variables s' ! t3) = Reg_eax X8632"
      "RegNum (Variables s' ! t4Lo) = Reg_eax X8632"
      "RegNum (Variables s' ! t4Hi) = Reg_edx X8632"
    by (elim exE conjE) (rule that)
  from l0 have e0: "Src0 = OpVariable 1" "s1 = mulExample"
    by (simp_all add: legalize_Variable_All)
  from l1 have e1: "Src1 = ?c" "s2 = s1"
    using legalize_ConstantInteger_All[of IceType_i64 5 False s1 Src1 s2] by simp_all
  from p have pre: "pre = []" by (simp add: e0 e1)
  from c have cc: "cLo = OpConstant (ConstantInteger IceType_i32 5)"
    "cHi = OpConstant (ConstantInteger IceType_i32 0)"
    by (simp_all add: e1 lo5 hi5)
  from const cc obtain r where rr: "cLoRM = OpVariable r"
    "preC = [X86 Mov (Some r) [OpConstant (ConstantInteger IceType_i32 5)]]"
    "t4Hi < r" "r < t1"
    by auto
  have ins': "Inserted s' =
          [X86 Mov (Some r) [OpConstant (ConstantInteger IceType_i32 5)],
           X86 Mov (Some t1) [bHi], X86 Imul (Some t1) [OpVariable r],
           X86 Mov (Some t2) [OpConstant (ConstantInteger IceType_i32 0)],
           X86 Imul (Some t2) [bLo],
           X86 Mov (Some t3) [bLo], X86 Mul (Some t4Lo) [OpVariable t3, OpVariable r],
           FakeDef t4Hi (Some t4Lo),
           X86 Mov (Some aLo) [OpVariable t4Lo],
           X86 Add (Some t4Hi) [OpVariable t1], X86 Add (Some t4Hi) [OpVariable t2],
           X86 Mov (Some aHi) [OpVariable t4Hi]]"
    using ins by (simp add: i pre rr cc)
  show ?thesis
    by (intro exI conjI)
       (rule s' ins' o(1) rr(3) rr(4) o(3) o(4) r a b[unfolded e0])+
qed

text \<open>
  The multiplication \<open>a = b * c\<close> of three \<open>i64\<close> variables: both additions go into
  variable 13, the one pinned to \<open>edx\<close> (register 2), and not into variable 12 or 16, the
  ones pinned to \<open>eax\<close> (register 0).
\<close>

theorem lowerArithmetic_i64_Mul_counterexample:
  "map_option Inserted
     (lowerArithmetic X8632 noScalarize Arith_Mul 0 (OpVariable 1) (OpVariable 2) mulExample)
   = Some [X86 Mov (Some 14) [OpVariable 9], X86 Imul (Some 14) [OpVariable 10],
           X86 Mov (Some 15) [OpVariable 11], X86 Imul (Some 15) [OpVariable 8],
           X86 Mov (Some 16) [OpVariable 8], X86 Mul (Some 12) [OpVariable 16, OpVariable 10],
           FakeDef 13 (Some 12),
           X86 Mov (Some 6) [OpVariable 12],
           X86 Add (Some 13) [OpVariable 14], X86 Add (Some 13) [OpVariable 15],
           X86 Mov (Some 7) [OpVariable 13]]
   \<and> map_option (map RegNum \<circ> Variables)
     (lowerArithmetic X8632 noScalarize Arith_Mul 0 (OpVariable 1) (OpVariable 2) mulExample)
   = Some [-1, -1, -1, -1, -1, -1, -1, -1, -1, -1, -1, -1, 0, 2, -1, -1, 0]
   \<and> Reg_eax X8632 = 0 \<and> Reg_edx X8632 = 2"
  by code_simp

section \<open>The multiplication of two vectors of 32-bit integers\<close>

lemma arithVector_packed_Inserted:
  assumes "arithVector_packed Op Dest Src0 Src1 s = Some s'"
  shows "Inserted s' =
           Inserted s @ [X86 Movp (Some (length (Variables s))) [Src0],
                         X86 Op (Some (length (Variables s))) [Src1],
                         X86 Movp (Some Dest) [OpVariable (length (Variables s))]]"
proof -
  from assms obtain T s1 where m: "makeReg (Ty (getVar s Dest)) NoRegister s = Some (T, s1)"
    and s': "s' = ins Movp (Some Dest) [OpVariable T] (ins Op (Some T) [Src1]
                    (ins Movp (Some T) [Src0] s1))"
    by (auto simp: arithVector_packed_def Let_def split: Option.bind_splits)
  show ?thesis using makeReg_props(2,8)[OF m] by (simp add: s')
qed

lemma arithVector_mul_v4i32_Inserted:
  assumes "arithVector_mul_v4i32 Dest Src0 Src1 s = Some s'"
  shows "Inserted s' =
           Inserted s @
           [X86 Movp (Some (length (Variables s))) [Src0],
            X86 Pshufd (Some (length (Variables s) + 1))
              [Src0, OpConstant (ConstantInteger IceType_i8 0x31)],
            X86 Pshufd (Some (length (Variables s) + 2))
              [Src1, OpConstant (ConstantInteger IceType_i8 0x31)],
            X86 Pmuludq (Some (length (Variables s))) [Src1],
            X86 Pmuludq (Some (length (Variables s) + 1))
              [OpVariable (length (Variables s) + 2)],
            X86 Shufps (Some (length (Variables s)))
              [OpVariable (length (Variables s) + 1),
               OpConstant (ConstantInteger IceType_i8 0x88)],
            X86 Pshufd (Some (length (Variables s) + 3))
              [OpVariable (length (Variables s)),
               OpConstant (ConstantInteger IceType_i8 0xd8)],
            X86 Movp (Some Dest) [OpVariable (length (Variables s) + 3)]]"
proof -
  from assms obtain T1 s1 T2 s2 T3 s3 T4 s4 where
    m1: "makeReg IceType_v4i32 NoRegister s = Some (T1, s1)"
    and m2: "makeReg IceType_v4i32 NoRegister s1 = Some (T2, s2)"
    and m3: "makeReg IceType_v4i32 NoRegister s2 = Some (T3, s3)"
    and m4: "makeReg IceType_v4i32 NoRegister s3 = Some (T4, s4)"
    and s': "s' = ins Movp (Some Dest) [OpVariable T4]
              (ins Pshufd (Some T4) [OpVariable T1, OpConstant (ConstantInteger IceType_i8 0xd8)]
              (ins Shufps (Some T1) [OpVariable T2, OpConstant (ConstantInteger IceType_i8 0x88)]
              (ins Pmuludq (Some T2) [OpVariable T3]
              (ins Pmuludq (Some T1) [Src1]
              (ins Pshufd (Some T3) [Src1, OpConstant (ConstantInteger IceType_i8 0x31)]
              (ins Pshufd (Some T2) [Src0, OpConstant (ConstantInteger IceType_i8 0x31)]
              (ins Movp (Some T1) [Src0] s4)))))))"
    unfolding arithVector_mul_v4i32_def Let_def
    by (simp only: bind_eq_Some_conv split_paired_Ex prod.case option.inject) blast
  show ?thesis
    using makeReg_props(2,3,8)[OF m1] makeReg_props(2,3,8)[OF m2]
      makeReg_props(2,3,8)[OF m3] makeReg_props(2,3,8)[OF m4]
    by (simp add: s')
qed

lemma lowerArithmetic_vector_steps:
  assumes run: "lowerArithmetic T scalarize Op Dest ISrc0 ISrc1 s = Some s'"
    and ty: "isVectorType (Ty (Variables s ! Dest))" and d: "Dest < length (Variables s)"
  shows "\<exists>Src0 s1 Src1 s2.
       legalize ISrc0 Legal_All False NoRegister s = Some (Src0, s1)
     \<and> legalize ISrc1 Legal_All False NoRegister s1 = Some (Src1, s2)
     \<and> Ty (getVar s2 Dest) = Ty (Variables s ! Dest)
     \<and> lowerArithmetic_vector T scalarize Op Dest Src0 Src1 s2 = Some s'"
proof -
  from run obtain Src0 s1 Src1 s2 where
    l0: "legalize ISrc0 Legal_All False NoRegister s = Some (Src0, s1)"
    and l1: "legalize ISrc1 Legal_All False NoRegister s1 = Some (Src1, s2)"
    and r: "(if Ty (getVar s2 Dest) = IceType_i64
          then lowerArithmetic_i64 T Op Dest ISrc0 ISrc1 Src0 Src1 s2
          else if isVectorType (Ty (getVar s2 Dest))
          then lowerArithmetic_vector T scalarize Op Dest Src0 Src1 s2
          else lowerArithmetic_scalar T Op Dest Src0 Src1 s2) = Some s'"
    unfolding lowerArithmetic_def
    by (simp only: bind_eq_Some_conv split_paired_Ex prod.case) blast
  have e: "ext s s2" using ext_legalize[OF l0] ext_legalize[OF l1] by (rule ext_trans)
  have t: "Ty (getVar s2 Dest) = Ty (Variables s ! Dest)"
    using ext_Ty[OF e d] by (simp add: getVar_def)
  have n: "Ty (Variables s ! Dest) \<noteq> IceType_i64" using ty by auto
  from r have "lowerArithmetic_vector T scalarize Op Dest Src0 Src1 s2 = Some s'"
    by (simp add: t n ty)
  with l0 l1 t show ?thesis by blast
qed

lemma makeReg_Some:
  "ty \<noteq> IceType_i64 \<Longrightarrow> \<exists>Reg s'. makeReg ty r s = Some (Reg, s')"
  by (simp add: makeReg_def split_def Let_def)

lemma arithVector_packed_Some:
  "Ty (getVar s Dest) \<noteq> IceType_i64 \<Longrightarrow> \<exists>s'. arithVector_packed Op Dest Src0 Src1 s = Some s'"
  using makeReg_Some[of "Ty (getVar s Dest)" NoRegister s]
  by (auto simp add: arithVector_packed_def Let_def)

lemma arithVector_mul_v4i32_Some: "\<exists>s'. arithVector_mul_v4i32 Dest Src0 Src1 s = Some s'"
proof -
  have n: "IceType_v4i32 \<noteq> IceType_i64" by simp
  from makeReg_Some[OF n] obtain T1 s1 where
    m1: "makeReg IceType_v4i32 NoRegister s = Some (T1, s1)" by blast
  from makeReg_Some[OF n] obtain T2 s2 where
    m2: "makeReg IceType_v4i32 NoRegister s1 = Some (T2, s2)" by blast
  from makeReg_Some[OF n] obtain T3 s3 where
    m3: "makeReg IceType_v4i32 NoRegister s2 = Some (T3, s3)" by blast
  from makeReg_Some[OF n] obtain T4 s4 where
    m4: "makeReg IceType_v4i32 NoRegister s3 = Some (T4, s4)" by blast
  show ?thesis by (simp add: arithVector_mul_v4i32_def Let_def m1 m2 m3 m4)
qed

lemma lowerArithmetic_v4i32_Mul_Variables:
  assumes "Ty (Variables s ! Dest) = IceType_v4i32"
  shows "lowerArithmetic T scalarize Arith_Mul Dest (OpVariable a) (OpVariable b) s =
           (if InstructionSet T = SSE4_1
            then arithVector_packed Pmull Dest (OpVariable a) (OpVariable b) s
            else arithVector_mul_v4i32 Dest (OpVariable a) (OpVariable b) s)"
  using assms
  by (simp add: lowerArithmetic_def legalize_Variable_All getVar_def
        lowerArithmetic_vector_def)

lemma lowerArithmetic_v4i32_Mul_Variables_Some:
  assumes "Ty (Variables s ! Dest) = IceType_v4i32"
  shows "\<exists>s'. lowerArithmetic T scalarize Arith_Mul Dest (OpVariable a) (OpVariable b) s
               = Some s'"
proof (cases "InstructionSet T = SSE4_1")
  case True
  have "Ty (getVar s Dest) \<noteq> IceType_i64" using assms by (simp add: getVar_def)
  from arithVector_packed_Some[OF this] show ?thesis
    by (simp add: lowerArithmetic_v4i32_Mul_Variables[OF assms] True)
next
  case False
  with arithVector_mul_v4i32_Some show ?thesis
    by (simp add: lowerArithmetic_v4i32_Mul_Variables[OF assms])
qed

text \<open>
  C2 (as amended). For a multiplication with a destination of type \<open>v4i32\<close>,
  \<open>lowerArithmetic\<close> legalizes the two sources first (the instructions \<open>pre\<close>, none when
  both are variables). With SSE2 only it then inserts exactly eight instructions on four
  fresh temporaries: \<open>movp T1, Src0\<close>; \<open>pshufd T2, Src0, 0x31\<close>; \<open>pshufd T3, Src1, 0x31\<close>;
  \<open>pmuludq T1, Src1\<close>; \<open>pmuludq T2, T3\<close>; \<open>shufps T1, T2, 0x88\<close>;
  \<open>pshufd T4, T1, 0xd8\<close>; \<open>movp Dest, T4\<close>. With SSE4.1 it inserts \<open>movp T1, Src0\<close>;
  \<open>pmull T1, Src1\<close>; \<open>movp Dest, T1\<close>: a single \<open>pmull\<close> between two moves.
\<close>

theorem lowerArithmetic_v4i32_Mul:
  assumes run: "lowerArithmetic T scalarize Arith_Mul Dest ISrc0 ISrc1 s = Some s'"
    and ty: "Ty (Variables s ! Dest) = IceType_v4i32" and d: "Dest < length (Variables s)"
  shows "\<exists>pre Src0 Src1 s1 s2 T1 T2 T3 T4.
       legalize ISrc0 Legal_All False NoRegister s = Some (Src0, s1)
     \<and> legalize ISrc1 Legal_All False NoRegister s1 = Some (Src1, s2)
     \<and> Inserted s2 = Inserted s @ pre
     \<and> length (Variables s) \<le> T1 \<and> T1 < T2 \<and> T2 < T3 \<and> T3 < T4
     \<and> (InstructionSet T = SSE2 \<longrightarrow>
          Inserted s' =
            Inserted s @ pre @
            [X86 Movp (Some T1) [Src0],
             X86 Pshufd (Some T2) [Src0, OpConstant (ConstantInteger IceType_i8 0x31)],
             X86 Pshufd (Some T3) [Src1, OpConstant (ConstantInteger IceType_i8 0x31)],
             X86 Pmuludq (Some T1) [Src1],
             X86 Pmuludq (Some T2) [OpVariable T3],
             X86 Shufps (Some T1) [OpVariable T2, OpConstant (ConstantInteger IceType_i8 0x88)],
             X86 Pshufd (Some T4) [OpVariable T1, OpConstant (ConstantInteger IceType_i8 0xd8)],
             X86 Movp (Some Dest) [OpVariable T4]])
     \<and> (InstructionSet T = SSE4_1 \<longrightarrow>
          Inserted s' =
            Inserted s @ pre @
            [X86 Movp (Some T1) [Src0], X86 Pmull (Some T1) [Src1],
             X86 Movp (Some Dest) [OpVariable T1]])
     \<and> ((\<exists>v. ISrc0 = OpVariable v) \<and> (\<exists>v. ISrc1 = OpVariable v)
           \<longrightarrow> Src0 = ISrc0 \<and> Src1 = ISrc1 \<and> pre = [])"
proof -
  have vt: "isVectorType (Ty (Variables s ! Dest))" by (simp add: ty)
  from lowerArithmetic_vector_steps[OF run vt d]
  obtain Src0 s1 Src1 s2 where
    l0: "legalize ISrc0 Legal_All False NoRegister s = Some (Src0, s1)"
    and l1: "legalize ISrc1 Legal_All False NoRegister s1 = Some (Src1, s2)"
    and t: "Ty (getVar s2 Dest) = Ty (Variables s ! Dest)"
    and r: "lowerArithmetic_vector T scalarize Arith_Mul Dest Src0 Src1 s2 = Some s'"
    by blast
  have e: "ext s s2" using ext_legalize[OF l0] ext_legalize[OF l1] by (rule ext_trans)
  from ext_Inserted[OF e] obtain pre where p: "Inserted s2 = Inserted s @ pre" by blast
  have len: "length (Variables s) \<le> length (Variables s2)" using e by (simp add: ext_def)
  let ?n = "length (Variables s2)"
  have sse2: "InstructionSet T = SSE2 \<longrightarrow>
          Inserted s' =
            Inserted s @ pre @
            [X86 Movp (Some ?n) [Src0],
             X86 Pshufd (Some (?n + 1)) [Src0, OpConstant (ConstantInteger IceType_i8 0x31)],
             X86 Pshufd (Some (?n + 2)) [Src1, OpConstant (ConstantInteger IceType_i8 0x31)],
             X86 Pmuludq (Some ?n) [Src1],
             X86 Pmuludq (Some (?n + 1)) [OpVariable (?n + 2)],
             X86 Shufps (Some ?n)
               [OpVariable (?n + 1), OpConstant (ConstantInteger IceType_i8 0x88)],
             X86 Pshufd (Some (?n + 3))
               [OpVariable ?n, OpConstant (ConstantInteger IceType_i8 0xd8)],
             X86 Movp (Some Dest) [OpVariable (?n + 3)]]"
  proof
    assume "InstructionSet T = SSE2"
    with r have "arithVector_mul_v4i32 Dest Src0 Src1 s2 = Some s'"
      by (simp add: lowerArithmetic_vector_def t ty)
    from arithVector_mul_v4i32_Inserted[OF this] show "Inserted s' =
            Inserted s @ pre @
            [X86 Movp (Some ?n) [Src0],
             X86 Pshufd (Some (?n + 1)) [Src0, OpConstant (ConstantInteger IceType_i8 0x31)],
             X86 Pshufd (Some (?n + 2)) [Src1, OpConstant (ConstantInteger IceType_i8 0x31)],
             X86 Pmuludq (Some ?n) [Src1],
             X86 Pmuludq (Some (?n + 1)) [OpVariable (?n + 2)],
             X86 Shufps (Some ?n)
               [OpVariable (?n + 1), OpConstant (ConstantInteger IceType_i8 0x88)],
             X86 Pshufd (Some (?n + 3))
               [OpVariable ?n, OpConstant (ConstantInteger IceType_i8 0xd8)],
             X86 Movp (Some Dest) [OpVariable (?n + 3)]]"
      by (simp add: p)
  qed
  have sse4: "InstructionSet T = SSE4_1 \<longrightarrow>
          Inserted s' =
            Inserted s @ pre @
            [X86 Movp (Some ?n) [Src0], X86 Pmull (Some ?n) [Src1],
             X86 Movp (Some Dest) [OpVariable ?n]]"
  proof
    assume "InstructionSet T = SSE4_1"
    with r have "arithVector_packed Pmull Dest Src0 Src1 s2 = Some s'"
      by (simp add: lowerArithmetic_vector_def t ty)
    from arithVector_packed_Inserted[OF this] show "Inserted s' =
            Inserted s @ pre @
            [X86 Movp (Some ?n) [Src0], X86 Pmull (Some ?n) [Src1],
             X86 Movp (Some Dest) [OpVariable ?n]]"
      by (simp add: p)
  qed
  have vars: "(\<exists>v. ISrc0 = OpVariable v) \<and> (\<exists>v. ISrc1 = OpVariable v)
           \<longrightarrow> Src0 = ISrc0 \<and> Src1 = ISrc1 \<and> pre = []"
  proof (intro impI; elim conjE exE)
    fix u v assume u: "ISrc0 = OpVariable u" and v: "ISrc1 = OpVariable v"
    from l0 have a: "Src0 = ISrc0" "s1 = s" by (simp_all add: u legalize_Variable_All)
    from l1 have b: "Src1 = ISrc1" "s2 = s1" by (simp_all add: v legalize_Variable_All)
    from p a b show "Src0 = ISrc0 \<and> Src1 = ISrc1 \<and> pre = []" by simp
  qed
  have o: "?n < ?n + 1" "?n + 1 < ?n + 2" "?n + 2 < ?n + 3" by simp_all
  show ?thesis
    by (intro exI conjI) (rule l0 l1 p len o sse2 sse4 vars)+
qed

theorem lowerArithmetic_v4i32_Mul_witness:
  "\<exists>s' s4 T1 T2 T3 T4 T5.
      InstructionSet X8632 = SSE2
    \<and> lowerArithmetic X8632 noScalarize Arith_Mul 3 (OpVariable 4) (OpVariable 5) mulExample
        = Some s'
    \<and> Inserted s' =
            [X86 Movp (Some T1) [OpVariable 4],
             X86 Pshufd (Some T2) [OpVariable 4, OpConstant (ConstantInteger IceType_i8 0x31)],
             X86 Pshufd (Some T3) [OpVariable 5, OpConstant (ConstantInteger IceType_i8 0x31)],
             X86 Pmuludq (Some T1) [OpVariable 5],
             X86 Pmuludq (Some T2) [OpVariable T3],
             X86 Shufps (Some T1) [OpVariable T2, OpConstant (ConstantInteger IceType_i8 0x88)],
             X86 Pshufd (Some T4) [OpVariable T1, OpConstant (ConstantInteger IceType_i8 0xd8)],
             X86 Movp (Some 3) [OpVariable T4]]
    \<and> InstructionSet (X8632\<lparr>InstructionSet := SSE4_1\<rparr>) = SSE4_1
    \<and> lowerArithmetic (X8632\<lparr>InstructionSet := SSE4_1\<rparr>) noScalarize Arith_Mul 3
          (OpVariable 4) (OpVariable 5) mulExample
        = Some s4
    \<and> Inserted s4 =
            [X86 Movp (Some T5) [OpVariable 4], X86 Pmull (Some T5) [OpVariable 5],
             X86 Movp (Some 3) [OpVariable T5]]"
proof -
  have ty: "Ty (Variables mulExample ! 3) = IceType_v4i32"
    by (simp add: mulExample_def emptyFunc_def newVariable_def)
  have d: "3 < length (Variables mulExample)"
    by (simp add: mulExample_def emptyFunc_def)
  have i: "Inserted mulExample = []"
    by (simp add: mulExample_def emptyFunc_def)
  have is2: "InstructionSet X8632 = SSE2" by (simp add: X8632_def)
  have is4: "InstructionSet (X8632\<lparr>InstructionSet := SSE4_1\<rparr>) = SSE4_1" by simp
  from lowerArithmetic_v4i32_Mul_Variables_Some[OF ty] obtain s' where
    s': "lowerArithmetic X8632 noScalarize Arith_Mul 3 (OpVariable 4) (OpVariable 5) mulExample
           = Some s'"
    by blast
  from lowerArithmetic_v4i32_Mul_Variables_Some[OF ty] obtain s4 where
    s4: "lowerArithmetic (X8632\<lparr>InstructionSet := SSE4_1\<rparr>) noScalarize Arith_Mul 3
          (OpVariable 4) (OpVariable 5) mulExample = Some s4"
    by blast
  from lowerArithmetic_v4i32_Mul[OF s' ty d]
  obtain pre Src0 Src1 T1 T2 T3 T4 where
    a: "InstructionSet X8632 = SSE2 \<longrightarrow>
          Inserted s' =
            Inserted mulExample @ pre @
            [X86 Movp (Some T1) [Src0],
             X86 Pshufd (Some T2) [Src0, OpConstant (ConstantInteger IceType_i8 0x31)],
             X86 Pshufd (Some T3) [Src1, OpConstant (ConstantInteger IceType_i8 0x31)],
             X86 Pmuludq (Some T1) [Src1],
             X86 Pmuludq (Some T2) [OpVariable T3],
             X86 Shufps (Some T1) [OpVariable T2, OpConstant (ConstantInteger IceType_i8 0x88)],
             X86 Pshufd (Some T4) [OpVariable T1, OpConstant (ConstantInteger IceType_i8 0xd8)],
             X86 Movp (Some 3) [OpVariable T4]]"
    and av: "(\<exists>v. OpVariable 4 = OpVariable v) \<and> (\<exists>v. OpVariable 5 = OpVariable v)
           \<longrightarrow> Src0 = OpVariable 4 \<and> Src1 = OpVariable 5 \<and> pre = []"
    by (elim exE conjE) (rule that)
  from av have ae: "Src0 = OpVariable 4" "Src1 = OpVariable 5" "pre = []" by simp_all
  from a is2 have a': "Inserted s' =
            [X86 Movp (Some T1) [OpVariable 4],
             X86 Pshufd (Some T2) [OpVariable 4, OpConstant (ConstantInteger IceType_i8 0x31)],
             X86 Pshufd (Some T3) [OpVariable 5, OpConstant (ConstantInteger IceType_i8 0x31)],
             X86 Pmuludq (Some T1) [OpVariable 5],
             X86 Pmuludq (Some T2) [OpVariable T3],
             X86 Shufps (Some T1) [OpVariable T2, OpConstant (ConstantInteger IceType_i8 0x88)],
             X86 Pshufd (Some T4) [OpVariable T1, OpConstant (ConstantInteger IceType_i8 0xd8)],
             X86 Movp (Some 3) [OpVariable T4]]"
    by (simp only: ae i append_Nil simp_thms)
  from lowerArithmetic_v4i32_Mul[OF s4 ty d]
  obtain pre4 Src04 Src14 T5 where
    b: "InstructionSet (X8632\<lparr>InstructionSet := SSE4_1\<rparr>) = SSE4_1 \<longrightarrow>
          Inserted s4 =
            Inserted mulExample @ pre4 @
            [X86 Movp (Some T5) [Src04], X86 Pmull (Some T5) [Src14],
             X86 Movp (Some 3) [OpVariable T5]]"
    and bv: "(\<exists>v. OpVariable 4 = OpVariable v) \<and> (\<exists>v. OpVariable 5 = OpVariable v)
           \<longrightarrow> Src04 = OpVariable 4 \<and> Src14 = OpVariable 5 \<and> pre4 = []"
    by (elim exE conjE) (rule that)
  from bv have be: "Src04 = OpVariable 4" "Src14 = OpVariable 5" "pre4 = []" by simp_all
  from b is4 have b': "Inserted s4 =
            [X86 Movp (Some T5) [OpVariable 4], X86 Pmull (Some T5) [OpVariable 5],
             X86 Movp (Some 3) [OpVariable T5]]"
    by (simp only: be i append_Nil simp_thms)
  show ?thesis
    by (intro exI conjI) (rule is2 s' a' is4 s4 b')+
qed

text \<open>
  The multiplication \<open>x = y * z\<close> of three \<open>v4i32\<close> variables with SSE2 only: eight
  instructions, six of them \<open>pmuludq\<close>, \<open>pshufd\<close> or \<open>shufps\<close>; and with SSE4.1: the
  \<open>pmull\<close> stands between two moves.
\<close>

theorem lowerArithmetic_v4i32_Mul_counterexample:
  "map_option Inserted
     (lowerArithmetic X8632 noScalarize Arith_Mul 3 (OpVariable 4) (OpVariable 5) mulExample)
   = Some [X86 Movp (Some 6) [OpVariable 4],
           X86 Pshufd (Some 7) [OpVariable 4, OpConstant (ConstantInteger IceType_i8 0x31)],
           X86 Pshufd (Some 8) [OpVariable 5, OpConstant (ConstantInteger IceType_i8 0x31)],
           X86 Pmuludq (Some 6) [OpVariable 5],
           X86 Pmuludq (Some 7) [OpVariable 8],
           X86 Shufps (Some 6) [OpVariable 7, OpConstant (ConstantInteger IceType_i8 0x88)],
           X86 Pshufd (Some 9) [OpVariable 6, OpConstant (ConstantInteger IceType_i8 0xd8)],
           X86 Movp (Some 3) [OpVariable 9]]
   \<and> InstructionSet X8632 = SSE2
   \<and> map_option Inserted
     (lowerArithmetic (X8632\<lparr>InstructionSet := SSE4_1\<rparr>) noScalarize Arith_Mul 3
        (OpVariable 4) (OpVariable 5) mulExample)
   = Some [X86 Movp (Some 6) [OpVariable 4], X86 Pmull (Some 6) [OpVariable 5],
           X86 Movp (Some 3) [OpVariable 6]]"
proof -
  have ty: "Ty (Variables mulExample ! 3) = IceType_v4i32"
    by (simp add: mulExample_def emptyFunc_def newVariable_def)
  have n: "length (Variables mulExample) = 6"
    by (simp add: mulExample_def emptyFunc_def)
  have i: "Inserted mulExample = []"
    by (simp add: mulExample_def emptyFunc_def)
  have is2: "InstructionSet X8632 = SSE2" by (simp add: X8632_def)
  have e2: "lowerArithmetic X8632 noScalarize Arith_Mul 3 (OpVariable 4) (OpVariable 5) mulExample
        = arithVector_mul_v4i32 3 (OpVariable 4) (OpVariable 5) mulExample"
    by (simp add: lowerArithmetic_v4i32_Mul_Variables[OF ty] is2)
  have e4: "lowerArithmetic (X8632\<lparr>InstructionSet := SSE4_1\<rparr>) noScalarize Arith_Mul 3
        (OpVariable 4) (OpVariable 5) mulExample
        = arithVector_packed Pmull 3 (OpVariable 4) (OpVariable 5) mulExample"
    by (simp add: lowerArithmetic_v4i32_Mul_Variables[OF ty])
  from arithVector_mul_v4i32_Some obtain s' where
    s': "arithVector_mul_v4i32 3 (OpVariable 4) (OpVariable 5) mulExample = Some s'" by blast
  have "Ty (getVar mulExample 3) \<noteq> IceType_i64" using ty by (simp add: getVar_def)
  from arithVector_packed_Some[OF this] obtain s4 where
    s4: "arithVector_packed Pmull 3 (OpVariable 4) (OpVariable 5) mulExample = Some s4"
    by blast
  show ?thesis
    using arithVector_mul_v4i32_Inserted[OF s'] arithVector_packed_Inserted[OF s4]
    by (simp add: e2 e4 s' s4 n i is2)
qed

section \<open>The fusion of a comparison and the branch on its result\<close>

lemma tempsOnly_refl [simp]: "tempsOnly s s"
  by (simp add: tempsOnly_def)

lemma tempsOnly_trans:
  assumes a: "tempsOnly s s1" and b: "tempsOnly s1 s2" shows "tempsOnly s s2"
proof -
  from a obtain xs where xs: "Inserted s1 = Inserted s @ xs"
    "\<forall>i \<in> set xs. \<exists>d. instDest i = Some d \<and> length (Variables s) \<le> d"
    by (auto simp: tempsOnly_def)
  from b obtain ys where ys: "Inserted s2 = Inserted s1 @ ys"
    "\<forall>i \<in> set ys. \<exists>d. instDest i = Some d \<and> length (Variables s1) \<le> d"
    by (auto simp: tempsOnly_def)
  have l: "length (Variables s) \<le> length (Variables s1)" using a by (simp add: tempsOnly_def)
  have "Inserted s2 = Inserted s @ (xs @ ys)" by (simp add: xs ys)
  moreover have "\<forall>i \<in> set (xs @ ys). \<exists>d. instDest i = Some d \<and> length (Variables s) \<le> d"
    using xs(2) ys(2) l by fastforce
  ultimately have "\<exists>zs. Inserted s2 = Inserted s @ zs
      \<and> (\<forall>i \<in> set zs. \<exists>d. instDest i = Some d \<and> length (Variables s) \<le> d)"
    by blast
  with a b show ?thesis by (simp add: tempsOnly_def)
qed

lemma tempsOnly_makeReg:
  assumes "makeReg ty r s = Some (Reg, s')"
  shows "tempsOnly s s'" "NodeInsts s' = NodeInsts s" "Next s' = Next s"
proof -
  from assms have e: "s' = (if r = NoRegister then setWeightInfinite Reg else setRegNum Reg r)
             (s\<lparr>Variables := Variables s @ [newVariable ty (Some (Node s)) []]\<rparr>)"
    by (auto simp: makeReg_def makeVariable_def split: if_splits)
  show "NodeInsts s' = NodeInsts s" "Next s' = Next s"
    by (simp_all add: e setWeightInfinite_def setRegNum_def updVar_def)
  then show "tempsOnly s s'"
    using makeReg_props(3,8)[OF assms] by (simp add: tempsOnly_def)
qed

lemma tempsOnly_copyToReg:
  assumes "copyToReg Src r s = Some (Reg, s')" shows "tempsOnly s s'"
proof -
  from assms obtain s1 where m: "makeReg (getType s Src) r s = Some (Reg, s1)"
    and s': "s' = (if isVectorType (getType s Src) then ins Movp (Some Reg) [Src] s1
                   else ins Mov (Some Reg) [Src] s1)"
    by (auto simp: copyToReg_def split: Option.bind_splits)
  show ?thesis
    using makeReg_props(2,3,8)[OF m] tempsOnly_makeReg(2,3)[OF m]
    by (simp add: tempsOnly_def s' ins_def Context_insert_def)
qed

lemma tempsOnly_makeVectorOfZeros:
  assumes "makeVectorOfZeros ty r s = Some (Reg, s')" shows "tempsOnly s s'"
proof -
  from assms obtain s1 where m: "makeReg ty r s = Some (Reg, s1)"
    and s': "s' = ins Pxor (Some Reg) [OpVariable Reg] (Context_insert (FakeDef Reg None) s1)"
    by (auto simp: makeVectorOfZeros_def split: Option.bind_splits)
  show ?thesis
    using makeReg_props(2,3,8)[OF m] tempsOnly_makeReg(2,3)[OF m]
    by (simp add: tempsOnly_def s' ins_def Context_insert_def)
qed

lemma tempsOnly_setPreferredRegister [simp]: "tempsOnly s (setPreferredRegister v p ov s)"
  by (simp add: tempsOnly_def setPreferredRegister_def updVar_def)

lemma tempsOnly_legalize_Variable:
  assumes "legalize (OpVariable Var) A ov r s = Some (Op, s')" shows "tempsOnly s s'"
proof (cases "s' = s")
  case True then show ?thesis by simp
next
  case False
  with assms obtain Reg s1 where c: "copyToReg (OpVariable Var) r s = Some (Reg, s1)"
    and s': "s' = (if r = NoRegister then setPreferredRegister Reg Var ov s1 else s1)"
    by (auto simp: legalize_OpVariable split: if_splits Option.bind_splits)
  have "tempsOnly s1 s'" by (simp add: s')
  with tempsOnly_copyToReg[OF c] show ?thesis by (rule tempsOnly_trans)
qed

lemma tempsOnly_legalize_Constant:
  assumes "legalize (OpConstant c) A ov r s = Some (Op, s')" shows "tempsOnly s s'"
proof (cases "s' = s")
  case True then show ?thesis by simp
next
  case False
  with assms consider
      (zeros) Reg where "makeVectorOfZeros (constantType c) NoRegister s = Some (Reg, s')"
    | (copy) c1 Reg where "copyToReg (OpConstant c1) r s = Some (Reg, s')"
    by (auto simp: legalize_OpConstant split: if_splits Option.bind_splits)
  then show ?thesis
    by cases (auto dest: tempsOnly_makeVectorOfZeros tempsOnly_copyToReg)
qed

lemma tempsOnly_legalize_opt:
  assumes "(case Base of None \<Rightarrow> Some (None, s)
            | Some b \<Rightarrow> do { (v, s') \<leftarrow> legalizeToVar (OpVariable b) True NoRegister s;
                              Some (Some v, s') }) = Some (RegBase, s1)"
  shows "tempsOnly s s1"
  using assms
  by (cases Base)
     (auto split: Option.bind_splits elim!: legalizeToVar_elim dest: tempsOnly_legalize_Variable)

lemma tempsOnly_legalize:
  assumes l: "legalize From A ov r s = Some (Op, s')" shows "tempsOnly s s'"
proof (cases From)
  case (OpVariable Var)
  from l show ?thesis unfolding OpVariable by (rule tempsOnly_legalize_Variable)
next
  case (OpConstant c)
  from l show ?thesis unfolding OpConstant by (rule tempsOnly_legalize_Constant)
next
  case (OpX8632Mem ty Base Offset Index Shift Seg)
  from l obtain RegBase s1 RegIndex s2 where
    1: "(case Base of None \<Rightarrow> Some (None, s)
            | Some b \<Rightarrow> do { (v, s') \<leftarrow> legalizeToVar (OpVariable b) True NoRegister s;
                              Some (Some v, s') }) = Some (RegBase, s1)"
    and 2: "(case Index of None \<Rightarrow> Some (None, s1)
            | Some b \<Rightarrow> do { (v, s') \<leftarrow> legalizeToVar (OpVariable b) True NoRegister s1;
                              Some (Some v, s') }) = Some (RegIndex, s2)"
    and 3: "s' = s2 \<or> (\<exists>Reg. copyToReg (OpX8632Mem ty RegBase Offset RegIndex Shift Seg) r s2
                          = Some (Reg, s'))"
    unfolding OpX8632Mem legalize_OpX8632Mem
    by (auto split: if_splits Option.bind_splits)
  from 3 have "tempsOnly s2 s'" by (auto dest: tempsOnly_copyToReg)
  with tempsOnly_legalize_opt[OF 1] tempsOnly_legalize_opt[OF 2] show ?thesis
    by (blast intro: tempsOnly_trans)
next
  case (OpVariableSplit v p)
  from l show ?thesis by (simp add: OpVariableSplit legalize_OpVariableSplit)
qed

lemma constantType_getConstantZero: "getConstantZero ty = Some c \<Longrightarrow> constantType c = ty"
  by (cases ty) auto

lemma Ty_setPreferredRegister:
  "Ty (Variables (setPreferredRegister v p ov s) ! w) = Ty (Variables s ! w)"
  by (cases "v < length (Variables s)")
     (auto simp add: setPreferredRegister_def updVar_def nth_list_update list_update_beyond)

lemma getType_legalize:
  assumes l: "legalize From A ov r s = Some (Op, s')"
  shows "getType s' Op = getType s From"
proof (cases From)
  case (OpVariable Var)
  from l consider (keep) "Op = OpVariable Var" "s' = s"
    | (copy) Reg s1 where "copyToReg (OpVariable Var) r s = Some (Reg, s1)"
        "s' = (if r = NoRegister then setPreferredRegister Reg Var ov s1 else s1)"
        "Op = OpVariable Reg"
    by (auto simp: OpVariable legalize_OpVariable split: if_splits Option.bind_splits)
  then show ?thesis
  proof cases
    case keep
    then show ?thesis by (simp add: OpVariable)
  next
    case copy
    show ?thesis
      using copyToReg_props(4)[OF copy(1)]
      by (simp add: copy(2,3) OpVariable getVar_def Ty_setPreferredRegister)
  qed
next
  case (OpConstant c)
  have z: "constantType c1 = constantType c"
    if "(if isConstantUndef c then getConstantZero (constantType c) else Some c) = Some c1"
    for c1
    using that by (auto split: if_splits dest: constantType_getConstantZero)
  from l have "(\<exists>Reg. makeVectorOfZeros (constantType c) NoRegister s = Some (Reg, s')
                  \<and> Op = OpVariable Reg)
      \<or> (\<exists>c1. (if isConstantUndef c then getConstantZero (constantType c) else Some c)
                 = Some c1
               \<and> ((\<exists>Reg. copyToReg (OpConstant c1) r s = Some (Reg, s') \<and> Op = OpVariable Reg)
                    \<or> Op = OpConstant c1))"
    unfolding OpConstant legalize_OpConstant
    by (auto split: if_splits Option.bind_splits)
  with z consider
      (zeros) Reg where "makeVectorOfZeros (constantType c) NoRegister s = Some (Reg, s')"
        "Op = OpVariable Reg"
    | (copy) c1 Reg where "copyToReg (OpConstant c1) r s = Some (Reg, s')"
        "Op = OpVariable Reg" "constantType c1 = constantType c"
    | (keep) c1 where "Op = OpConstant c1" "constantType c1 = constantType c"
    by blast
  then show ?thesis
  proof cases
    case zeros
    from zeros(1) obtain s1 where m: "makeReg (constantType c) NoRegister s = Some (Reg, s1)"
      and s': "s' = ins Pxor (Some Reg) [OpVariable Reg] (Context_insert (FakeDef Reg None) s1)"
      by (auto simp: makeVectorOfZeros_def split: Option.bind_splits)
    show ?thesis using makeReg_props(4)[OF m]
      by (simp add: zeros(2) s' OpConstant getVar_def)
  next
    case copy
    show ?thesis using copyToReg_props(4)[OF copy(1)]
      by (simp add: copy(2,3) OpConstant getVar_def)
  next
    case keep
    then show ?thesis by (simp add: OpConstant)
  qed
next
  case (OpX8632Mem ty Base Offset Index Shift Seg)
  from l obtain RegBase s1 RegIndex s2 where
    3: "(s' = s2 \<and> Op = OpX8632Mem ty RegBase Offset RegIndex Shift Seg)
         \<or> (\<exists>Reg. copyToReg (OpX8632Mem ty RegBase Offset RegIndex Shift Seg) r s2
                          = Some (Reg, s') \<and> Op = OpVariable Reg)"
    unfolding OpX8632Mem legalize_OpX8632Mem
    by (auto split: if_splits Option.bind_splits)
  then show ?thesis
    by (auto simp: OpX8632Mem getVar_def dest: copyToReg_props(4))
next
  case (OpVariableSplit v p)
  from l show ?thesis by (simp add: OpVariableSplit legalize_OpVariableSplit)
qed


lemma getType_ext: "ext s s' \<Longrightarrow> wfOperand s Op \<Longrightarrow> getType s' Op = getType s Op"
  by (cases Op) (simp_all add: wfOperand_def getVar_def ext_Ty)

lemma tempsOnly_getNextInst: "tempsOnly s s' \<Longrightarrow> getNextInst s' = getNextInst s"
  by (simp add: tempsOnly_def getNextInst_def)

lemma lowerIcmp_fused_steps:
  assumes run: "lowerIcmp T lowerVector Condition Dest ISrc0 ISrc1 s = Some s'"
    and nxt: "getNextInst s = Some NextBr"
    and kind: "Kind NextBr = InstBr (Some (OpVariable Dest)) TargetTrue TargetFalse"
    and last: "isLastUse NextBr (OpVariable Dest)"
    and d: "Dest < length (Variables s)"
    and nv: "\<not> isVectorType (Ty (Variables s ! Dest))"
    and wf0: "wfOperand s ISrc0"
    and n64: "getType s ISrc0 \<noteq> IceType_i64"
  shows "\<exists>Src0 s1 Src1 s2 Src0RM s3.
       legalize ISrc0 Legal_All False NoRegister s = Some (Src0, s1)
     \<and> legalize ISrc1 Legal_All False NoRegister s1 = Some (Src1, s2)
     \<and> legalize Src0
         (if (case Src1 of OpConstant c \<Rightarrow> True | OpVariable Var \<Rightarrow> hasReg s2 Var
              | _ \<Rightarrow> False)
          then {Legal_Reg, Legal_Mem} else {Legal_Reg})
         True NoRegister (setDeleted (Next s2) s2) = Some (Src0RM, s3)
     \<and> s' = advanceNext (br_cond2 (TableIcmp32 T Condition) TargetTrue TargetFalse
                (ins Cmp None [Src0RM, Src1] s3))"
proof -
  from run obtain Src0 s1 Src1 s2 where
    l0: "legalize ISrc0 Legal_All False NoRegister s = Some (Src0, s1)"
    and l1: "legalize ISrc1 Legal_All False NoRegister s1 = Some (Src1, s2)"
    and r: "lowerIcmp T lowerVector Condition Dest ISrc0 ISrc1 s =
              (if isVectorType (Ty (getVar s2 Dest)) then lowerVector Condition Dest Src0 Src1 s2
          else
            do { let IsSrc1ImmOrReg =
                       (case Src1 of OpConstant c \<Rightarrow> True
                        | OpVariable Var \<Rightarrow> hasReg s2 Var
                        | _ \<Rightarrow> False);
                 let Fuse =
                       (case getNextInst s2 of
                          None \<Rightarrow> None
                        | Some NextBr \<Rightarrow>
                            (case Kind NextBr of
                               InstBr Cond TargetTrue TargetFalse \<Rightarrow>
                                 if getType s2 Src0 \<noteq> IceType_i64 \<and> Cond \<noteq> None
                                    \<and> Cond = Some (OpVariable Dest)
                                    \<and> isLastUse NextBr (OpVariable Dest)
                                 then Some (TargetTrue, TargetFalse) else None
                             | _ \<Rightarrow> None));
                 (case Fuse of
                    Some (TargetTrue, TargetFalse) \<Rightarrow>
                      do { let s = setDeleted (Next s2) s2;
                           (Src0RM, s) \<leftarrow>
                             legalize Src0
                               (if IsSrc1ImmOrReg then {Legal_Reg, Legal_Mem} else {Legal_Reg})
                               True NoRegister s;
                           let s = ins Cmp None [Src0RM, Src1] s;
                           let s = br_cond2 (TableIcmp32 T Condition) TargetTrue TargetFalse s;
                           Some (advanceNext s) }
                  | None \<Rightarrow>
                      if getType s2 Src0 = IceType_i64
                      then lowerIcmp_i64 T Condition Dest Src0 Src1 s2
                      else
                        do { (Src0RM, s) \<leftarrow>
                               legalize Src0
                                 (if IsSrc1ImmOrReg then {Legal_Reg, Legal_Mem}
                                  else {Legal_Reg})
                                 True NoRegister s2;
                             let (Label, s) = makeLabel s;
                             let s = ins Cmp None [Src0RM, Src1] s;
                             let s = ins Mov (Some Dest)
                                       [OpConstant (ConstantInteger IceType_i32 1)] s;
                             let s = br_label (TableIcmp32 T Condition) Label s;
                             let s = Context_insert (FakeUse Dest) s;
                             let s = ins Mov (Some Dest)
                                       [OpConstant (ConstantInteger IceType_i32 0)] s;
                             Some (Context_insert (X86Label Label) s) }) })"
    unfolding lowerIcmp_def
    by (auto split: Option.bind_splits)
  have e01: "ext s s1" using l0 by (rule ext_legalize)
  have e12: "ext s1 s2" using l1 by (rule ext_legalize)
  have e02: "ext s s2" using e01 e12 by (rule ext_trans)
  have t02: "tempsOnly s s2"
    using tempsOnly_legalize[OF l0] tempsOnly_legalize[OF l1] by (rule tempsOnly_trans)
  have a: "\<not> isVectorType (Ty (getVar s2 Dest))"
    using nv ext_Ty[OF e02 d] by (simp add: getVar_def)
  have b: "getNextInst s2 = Some NextBr"
    using tempsOnly_getNextInst[OF t02] nxt by simp
  have c: "getType s2 Src0 \<noteq> IceType_i64"
    using getType_legalize[OF l0] getType_ext[OF e12 wfOperand_legalize[OF l0 wf0]] n64
    by simp
  from run[unfolded r] have "do { (Src0RM, s) \<leftarrow>
         legalize Src0
          (if (case Src1 of OpConstant c \<Rightarrow> True | OpVariable Var \<Rightarrow> hasReg s2 Var
               | _ \<Rightarrow> False)
           then {Legal_Reg, Legal_Mem} else {Legal_Reg})
          True NoRegister (setDeleted (Next s2) s2);
         Some (advanceNext (br_cond2 (TableIcmp32 T Condition) TargetTrue TargetFalse
                (ins Cmp None [Src0RM, Src1] s))) } = Some s'"
    by (simp add: a b c kind last Let_def)
  then obtain Src0RM s3 where
    l2: "legalize Src0
          (if (case Src1 of OpConstant c \<Rightarrow> True | OpVariable Var \<Rightarrow> hasReg s2 Var
               | _ \<Rightarrow> False)
           then {Legal_Reg, Legal_Mem} else {Legal_Reg})
          True NoRegister (setDeleted (Next s2) s2) = Some (Src0RM, s3)"
    and s': "s' = advanceNext (br_cond2 (TableIcmp32 T Condition) TargetTrue TargetFalse
                (ins Cmp None [Src0RM, Src1] s3))"
    by (auto split: Option.bind_splits)
  from l0 l1 l2 s' show ?thesis by blast
qed


lemma skipDeleted_ge: "I \<le> skipDeleted Insts I"
  by (simp add: skipDeleted_def)

text \<open>
  C5 (as amended). When the comparison \<open>Dest = icmp Condition, ISrc0, ISrc1\<close> has a scalar
  destination and operands that are not \<open>i64\<close>, and the next instruction of the node is
  a conditional branch on \<open>Dest\<close> that is the last use of \<open>Dest\<close>, \<open>lowerIcmp\<close> fuses the
  two: after the instructions \<open>pre\<close> that legalize the operands (each of which defines a
  new temporary, so none is a \<open>cmp\<close>, a branch or a definition of \<open>Dest\<close>; none at all when the first operand is a variable and
  the second an integer constant) it inserts exactly one \<open>cmp\<close> and one conditional
  branch to the two targets of the branch, it marks the branch deleted, and it moves the
  position past it.
\<close>

theorem lowerIcmp_fuses_branch:
  assumes run: "lowerIcmp T lowerVector Condition Dest ISrc0 ISrc1 s = Some s'"
    and nxt: "getNextInst s = Some NextBr"
    and kind: "Kind NextBr = InstBr (Some (OpVariable Dest)) TargetTrue TargetFalse"
    and last: "isLastUse NextBr (OpVariable Dest)"
    and d: "Dest < length (Variables s)"
    and nv: "\<not> isVectorType (Ty (Variables s ! Dest))"
    and wf0: "wfOperand s ISrc0"
    and n64: "getType s ISrc0 \<noteq> IceType_i64"
  shows "\<exists>pre Src0RM Src1.
       Inserted s' =
         Inserted s @ pre
         @ [X86 Cmp None [Src0RM, Src1],
            X86Br (TableIcmp32 T Condition) (Some TargetTrue) (Some TargetFalse) None]
     \<and> (\<forall>i \<in> set pre. \<exists>v. instDest i = Some v \<and> length (Variables s) \<le> v)
     \<and> NodeInsts s' = (NodeInsts s)[Next s := NextBr\<lparr>Deleted := True\<rparr>]
     \<and> Deleted (NodeInsts s' ! Next s)
     \<and> Next s' = skipDeleted (NodeInsts s') (Next s + 1)
     \<and> Next s < Next s'
     \<and> ((\<exists>a. ISrc0 = OpVariable a) \<and> (\<exists>ty c. ISrc1 = OpConstant (ConstantInteger ty c))
          \<longrightarrow> pre = [] \<and> Src0RM = ISrc0 \<and> Src1 = ISrc1)"
proof -
  from lowerIcmp_fused_steps[OF run nxt kind last d nv wf0 n64]
  obtain Src0 s1 Src1 s2 Src0RM s3 where
    l0: "legalize ISrc0 Legal_All False NoRegister s = Some (Src0, s1)"
    and l1: "legalize ISrc1 Legal_All False NoRegister s1 = Some (Src1, s2)"
    and l2: "legalize Src0
         (if (case Src1 of OpConstant c \<Rightarrow> True | OpVariable Var \<Rightarrow> hasReg s2 Var
              | _ \<Rightarrow> False)
          then {Legal_Reg, Legal_Mem} else {Legal_Reg})
         True NoRegister (setDeleted (Next s2) s2) = Some (Src0RM, s3)"
    and s': "s' = advanceNext (br_cond2 (TableIcmp32 T Condition) TargetTrue TargetFalse
                (ins Cmp None [Src0RM, Src1] s3))"
    by blast
  have t02: "tempsOnly s s2"
    using tempsOnly_legalize[OF l0] tempsOnly_legalize[OF l1] by (rule tempsOnly_trans)
  have t23: "tempsOnly (setDeleted (Next s2) s2) s3" using l2 by (rule tempsOnly_legalize)
  from t02 obtain xs where xs: "Inserted s2 = Inserted s @ xs"
    "\<forall>i \<in> set xs. \<exists>v. instDest i = Some v \<and> length (Variables s) \<le> v"
    and c02: "NodeInsts s2 = NodeInsts s" "Next s2 = Next s"
    and len02: "length (Variables s) \<le> length (Variables s2)"
    by (auto simp: tempsOnly_def)
  from t23 obtain ys where ys: "Inserted s3 = Inserted s2 @ ys"
    "\<forall>i \<in> set ys. \<exists>v. instDest i = Some v \<and> length (Variables s2) \<le> v"
    and c23: "NodeInsts s3 = (NodeInsts s2)[Next s2 := (NodeInsts s2 ! Next s2)\<lparr>Deleted := True\<rparr>]"
      "Next s3 = Next s2"
    by (auto simp: tempsOnly_def setDeleted_def)
  from nxt have n: "Next s < length (NodeInsts s)" "NodeInsts s ! Next s = NextBr"
    by (auto simp: getNextInst_def split: if_splits)
  have ni3: "NodeInsts s3 = (NodeInsts s)[Next s := NextBr\<lparr>Deleted := True\<rparr>]"
    by (simp add: c23 c02 n)
  have nx3: "Next s3 = Next s" by (simp add: c23 c02)
  have ins: "Inserted s' =
         Inserted s @ (xs @ ys)
         @ [X86 Cmp None [Src0RM, Src1],
            X86Br (TableIcmp32 T Condition) (Some TargetTrue) (Some TargetFalse) None]"
    by (simp add: s' advanceNext_def br_cond2_def xs ys)
  have fresh: "\<forall>i \<in> set (xs @ ys). \<exists>v. instDest i = Some v \<and> length (Variables s) \<le> v"
    using xs(2) ys(2) len02 by fastforce
  have ni: "NodeInsts s' = (NodeInsts s)[Next s := NextBr\<lparr>Deleted := True\<rparr>]"
    by (simp add: s' advanceNext_def br_cond2_def ins_def Context_insert_def ni3)
  have del: "Deleted (NodeInsts s' ! Next s)" using n by (simp add: ni)
  have nx: "Next s' = skipDeleted (NodeInsts s') (Next s + 1)"
    using n by (simp add: s' advanceNext_def br_cond2_def ins_def Context_insert_def ni3 nx3)
  have lt: "Next s < Next s'"
    using skipDeleted_ge[of "Next s + 1" "NodeInsts s'"] by (simp add: nx)
  have simple: "(\<exists>a. ISrc0 = OpVariable a) \<and> (\<exists>ty c. ISrc1 = OpConstant (ConstantInteger ty c))
          \<longrightarrow> xs @ ys = [] \<and> Src0RM = ISrc0 \<and> Src1 = ISrc1"
  proof (intro impI; elim conjE exE)
    fix a ty c assume a: "ISrc0 = OpVariable a" and c: "ISrc1 = OpConstant (ConstantInteger ty c)"
    from l0 have 0: "Src0 = ISrc0" "s1 = s" by (simp_all add: a legalize_Variable_All)
    from l1 have 1: "Src1 = ISrc1" "s2 = s1"
      using legalize_ConstantInteger_All[of ty c False s1 Src1 s2] by (simp_all add: c)
    from l2 have 2: "Src0RM = ISrc0" "s3 = setDeleted (Next s2) s2"
      by (simp_all add: 0 1 a c legalize_Variable_RegMem)
    from xs(1) ys(1) have "xs @ ys = []" by (simp add: 0 1 2 setDeleted_def)
    with 1 2 show "xs @ ys = [] \<and> Src0RM = ISrc0 \<and> Src1 = ISrc1" by simp
  qed
  show ?thesis
    by (intro exI conjI) (rule ins fresh ni del nx lt simple)+
qed

theorem lowerIcmp_fuses_branch_witness:
  "\<exists>s'. lowerIcmp X8632 noVectorIcmp Icmp_Eq 1 (OpVariable 0)
           (OpConstant (ConstantInteger IceType_i32 7)) icmpExample = Some s'
       \<and> getNextInst icmpExample
           = Some \<lparr>Kind = InstBr (Some (OpVariable 1)) 1 2, Deleted = False,
                   LiveRangesEnded = [1]\<rparr>
       \<and> Inserted s' =
           [X86 Cmp None [OpVariable 0, OpConstant (ConstantInteger IceType_i32 7)],
            X86Br (TableIcmp32 X8632 Icmp_Eq) (Some 1) (Some 2) None]
       \<and> NodeInsts s' =
           [\<lparr>Kind = InstBr (Some (OpVariable 1)) 1 2, Deleted = True, LiveRangesEnded = [1]\<rparr>]
       \<and> Next s' = 1"
proof -
  let ?br = "\<lparr>Kind = InstBr (Some (OpVariable 1)) 1 2, Deleted = False,
               LiveRangesEnded = [1]\<rparr>"
  have nxt: "getNextInst icmpExample = Some ?br"
    by (simp add: getNextInst_def icmpExample_def emptyFunc_def)
  have kind: "Kind ?br = InstBr (Some (OpVariable 1)) 1 2" by simp
  have last: "isLastUse ?br (OpVariable 1)" by (simp add: isLastUse_def)
  have d: "1 < length (Variables icmpExample)"
    by (simp add: icmpExample_def emptyFunc_def)
  have nv: "\<not> isVectorType (Ty (Variables icmpExample ! 1))"
    by (simp add: icmpExample_def emptyFunc_def newVariable_def)
  have wf0: "wfOperand icmpExample (OpVariable 0)"
    by (simp add: wfOperand_def icmpExample_def emptyFunc_def)
  have n64: "getType icmpExample (OpVariable 0) \<noteq> IceType_i64"
    by (simp add: getVar_def icmpExample_def emptyFunc_def newVariable_def)
  have i: "Inserted icmpExample = []" "Next icmpExample = 0"
    "NodeInsts icmpExample = [?br]"
    by (simp_all add: icmpExample_def emptyFunc_def)
  have "lowerIcmp X8632 noVectorIcmp Icmp_Eq 1 (OpVariable 0)
           (OpConstant (ConstantInteger IceType_i32 7)) icmpExample \<noteq> None"
    by code_simp
  then obtain s' where
    s': "lowerIcmp X8632 noVectorIcmp Icmp_Eq 1 (OpVariable 0)
           (OpConstant (ConstantInteger IceType_i32 7)) icmpExample = Some s'"
    by blast
  from lowerIcmp_fuses_branch[OF s' nxt kind last d nv wf0 n64]
  obtain pre Src0RM Src1 where
    a: "Inserted s' =
         Inserted icmpExample @ pre
         @ [X86 Cmp None [Src0RM, Src1],
            X86Br (TableIcmp32 X8632 Icmp_Eq) (Some 1) (Some 2) None]"
    and ni: "NodeInsts s' = (NodeInsts icmpExample)[Next icmpExample := ?br\<lparr>Deleted := True\<rparr>]"
    and nx: "Next s' = skipDeleted (NodeInsts s') (Next icmpExample + 1)"
    and simple: "(\<exists>a. OpVariable 0 = OpVariable a)
          \<and> (\<exists>ty c. OpConstant (ConstantInteger IceType_i32 7) = OpConstant (ConstantInteger ty c))
          \<longrightarrow> pre = [] \<and> Src0RM = OpVariable 0
              \<and> Src1 = OpConstant (ConstantInteger IceType_i32 7)"
    by (elim exE conjE) (rule that)
  from simple have e: "pre = []" "Src0RM = OpVariable 0"
    "Src1 = OpConstant (ConstantInteger IceType_i32 7)"
    by simp_all
  have a': "Inserted s' =
           [X86 Cmp None [OpVariable 0, OpConstant (ConstantInteger IceType_i32 7)],
            X86Br (TableIcmp32 X8632 Icmp_Eq) (Some 1) (Some 2) None]"
    using a by (simp add: e i)
  have ni': "NodeInsts s' =
           [\<lparr>Kind = InstBr (Some (OpVariable 1)) 1 2, Deleted = True, LiveRangesEnded = [1]\<rparr>]"
    using ni by (simp add: i)
  have nx': "Next s' = 1" using nx by (simp add: ni' i skipDeleted_def)
  show ?thesis
    by (intro exI conjI) (rule s' nxt a' ni' nx')+
qed

text \<open>
  The comparison \<open>b = icmp eq x, y\<close> of two \<open>i64\<close> variables, followed by a conditional
  branch on \<open>b\<close> that is the last use of \<open>b\<close>: two \<open>cmp\<close>, two branches to a label and
  two moves into \<open>b\<close> are inserted, and the branch instruction is neither marked deleted
  nor skipped.
\<close>

theorem lowerIcmp_i64_counterexample:
  "map_option Inserted
     (lowerIcmp X8632 noVectorIcmp Icmp_Eq 1 (OpVariable 2) (OpVariable 3) icmpExample)
   = Some [X86 Mov (Some 8) [OpVariable 6], X86 Mov (Some 9) [OpVariable 7],
           X86 Mov (Some 1) [OpConstant (ConstantInteger IceType_i32 0)],
           X86 Cmp None [OpVariable 4, OpVariable 8],
           X86Br Br_ne None None (Some 0),
           X86 Cmp None [OpVariable 5, OpVariable 9],
           X86Br Br_ne None None (Some 0), FakeUse 1,
           X86 Mov (Some 1) [OpConstant (ConstantInteger IceType_i32 1)],
           X86Label 0]
   \<and> map_option NodeInsts
     (lowerIcmp X8632 noVectorIcmp Icmp_Eq 1 (OpVariable 2) (OpVariable 3) icmpExample)
   = Some [\<lparr>Kind = InstBr (Some (OpVariable 1)) 1 2, Deleted = False,
             LiveRangesEnded = [1]\<rparr>]
   \<and> map_option Next
     (lowerIcmp X8632 noVectorIcmp Icmp_Eq 1 (OpVariable 2) (OpVariable 3) icmpExample)
   = Some 0
   \<and> getNextInst icmpExample
     = Some \<lparr>Kind = InstBr (Some (OpVariable 1)) 1 2, Deleted = False,
             LiveRangesEnded = [1]\<rparr>
   \<and> isLastUse \<lparr>Kind = InstBr (Some (OpVariable 1)) 1 2, Deleted = False,
                 LiveRangesEnded = [1]\<rparr> (OpVariable 1)"
  by code_simp

section \<open>The alignment of the stack frame\<close>


lemma ext_killedRegs: "killedRegs T is acc s = Some (K, s') \<Longrightarrow> ext s s'"
proof (induction "is" arbitrary: acc s)
  case Nil
  then show ?case by simp
next
  case (Cons i "is")
  show ?case
  proof (cases "ScratchRegs T ! i")
    case False
    with Cons.prems have "killedRegs T is acc s = Some (K, s')" by simp
    then show ?thesis by (rule Cons.IH)
  next
    case True
    with Cons.prems obtain Reg s1 where g: "getPhysicalRegister (int i) s = Some (Reg, s1)"
      and k: "killedRegs T is (acc @ [Reg]) s1 = Some (K, s')"
      by (auto split: Option.bind_splits)
    from getPhysicalRegister_props(1)[OF g] Cons.IH[OF k] show ?thesis by (rule ext_trans)
  qed
qed


lemma NeedsStackAlignment_ins [simp]:
  "NeedsStackAlignment (ins Op D Srcs s) = NeedsStackAlignment s"
  by (simp add: ins_def Context_insert_def)



lemma getPhysicalRegister_frame:
  assumes "getPhysicalRegister r s = Some (Reg, s')"
  shows "SpillAreaSizeBytes s' = SpillAreaSizeBytes s"
    "NeedsStackAlignment s' = NeedsStackAlignment s"
    "IsEbpBasedFrame s' = IsEbpBasedFrame s" "Inserted s' = Inserted s"
  using assms
  by (auto simp: getPhysicalRegister_def makeVariable_def setRegNum_def updVar_def Let_def
           split: if_splits option.splits)

lemma addProlog_pushes_props:
  "addProlog_pushes CalleeSaves RegsUsed is P s = Some (P', s') \<Longrightarrow>
     \<exists>xs. Inserted s' = Inserted s @ xs \<and> filter isPush xs = xs \<and> P' = P + 4 * length xs
          \<and> SpillAreaSizeBytes s' = SpillAreaSizeBytes s
          \<and> NeedsStackAlignment s' = NeedsStackAlignment s
          \<and> IsEbpBasedFrame s' = IsEbpBasedFrame s"
proof (induction "is" arbitrary: P s)
  case Nil
  then show ?case by simp
next
  case (Cons i "is")
  show ?case
  proof (cases "CalleeSaves ! i \<and> RegsUsed ! i")
    case False
    with Cons.prems have "addProlog_pushes CalleeSaves RegsUsed is P s = Some (P', s')" by auto
    then show ?thesis by (rule Cons.IH)
  next
    case True
    with Cons.prems obtain Reg s1 where g: "getPhysicalRegister (int i) s = Some (Reg, s1)"
      and k: "addProlog_pushes CalleeSaves RegsUsed is (P + 4)
                (ins Push None [OpVariable Reg] s1) = Some (P', s')"
      by (auto split: Option.bind_splits)
    from Cons.IH[OF k] obtain xs where
      xs: "Inserted s' = Inserted (ins Push None [OpVariable Reg] s1) @ xs"
        "filter isPush xs = xs" "P' = P + 4 + 4 * length xs"
        "SpillAreaSizeBytes s' = SpillAreaSizeBytes (ins Push None [OpVariable Reg] s1)"
        "NeedsStackAlignment s' = NeedsStackAlignment (ins Push None [OpVariable Reg] s1)"
        "IsEbpBasedFrame s' = IsEbpBasedFrame (ins Push None [OpVariable Reg] s1)"
      by auto
    note f = getPhysicalRegister_frame[OF g]
    have "Inserted s' = Inserted s @ (X86 Push None [OpVariable Reg] # xs)"
      "filter isPush (X86 Push None [OpVariable Reg] # xs) = X86 Push None [OpVariable Reg] # xs"
      "P' = P + 4 * length (X86 Push None [OpVariable Reg] # xs)"
      "SpillAreaSizeBytes s' = SpillAreaSizeBytes s"
      "NeedsStackAlignment s' = NeedsStackAlignment s"
      "IsEbpBasedFrame s' = IsEbpBasedFrame s"
      using xs f by (simp_all add: ins_def Context_insert_def)
    then show ?thesis by blast
  qed
qed

lemma addProlog_spillArea_props:
  assumes "addProlog_spillArea T CallsReturnsTwice ComputedLiveRanges s = Some ((P, l), s1)"
  shows "\<exists>xs. Inserted s1 = Inserted s @ xs \<and> P = 4 * length (filter isPush xs)
          \<and> NeedsStackAlignment s1 = NeedsStackAlignment s
          \<and> IsEbpBasedFrame s1 = IsEbpBasedFrame s"
proof -
  from assms obtain RegsUsed Size P0 sa sb where
    pu: "addProlog_pushes (PreservedRegs T) RegsUsed [0 ..< length (PreservedRegs T)] 0
           (s\<lparr>SpillAreaSizeBytes := Size\<rparr>) = Some (P0, sa)"
    and eb: "(if IsEbpBasedFrame sa
          then \<exists>ebp s2 esp s3. getPhysicalRegister (Reg_ebp T) sa = Some (ebp, s2)
                 \<and> getPhysicalRegister (Reg_esp T) s2 = Some (esp, s3)
                 \<and> P = P0 + 4
                 \<and> sb = ins Mov (Some ebp) [OpVariable esp] (ins Push None [OpVariable ebp] s3)
          else P = P0 \<and> sb = sa)"
    and fr: "Inserted s1 = Inserted sb" "NeedsStackAlignment s1 = NeedsStackAlignment sb"
      "IsEbpBasedFrame s1 = IsEbpBasedFrame sb"
    unfolding addProlog_spillArea_def Let_def
    by (auto split: Option.bind_splits prod.splits if_splits)
  from addProlog_pushes_props[OF pu] obtain xs where
    xs: "Inserted sa = Inserted s @ xs" "filter isPush xs = xs" "P0 = 4 * length xs"
      "NeedsStackAlignment sa = NeedsStackAlignment s" "IsEbpBasedFrame sa = IsEbpBasedFrame s"
    by auto
  show ?thesis
  proof (cases "IsEbpBasedFrame sa")
    case False
    with eb have "P = P0" "sb = sa" by simp_all
    with xs fr show ?thesis by auto
  next
    case True
    with eb obtain ebp s2 esp s3 where
      g1: "getPhysicalRegister (Reg_ebp T) sa = Some (ebp, s2)"
      and g2: "getPhysicalRegister (Reg_esp T) s2 = Some (esp, s3)"
      and P: "P = P0 + 4"
      and sb: "sb = ins Mov (Some ebp) [OpVariable esp] (ins Push None [OpVariable ebp] s3)"
      by auto
    note f1 = getPhysicalRegister_frame[OF g1] and f2 = getPhysicalRegister_frame[OF g2]
    let ?ys = "xs @ [X86 Push None [OpVariable ebp], X86 Mov (Some ebp) [OpVariable esp]]"
    have "Inserted s1 = Inserted s @ ?ys"
      using fr(1) xs(1) f1 f2 by (simp add: sb ins_def Context_insert_def)
    moreover have "P = 4 * length (filter isPush ?ys)"
      using xs(2,3) P by simp
    moreover have "NeedsStackAlignment s1 = NeedsStackAlignment s"
      "IsEbpBasedFrame s1 = IsEbpBasedFrame s"
      using fr(2,3) xs(4,5) f1 f2 by (simp_all add: sb ins_def Context_insert_def)
    ultimately show ?thesis by blast
  qed
qed


lemma finishArgumentLowering_slot_props:
  assumes "finishArgumentLowering_slot Arg FramePtr B n s = Some (n', s')"
  shows "\<exists>ys. Inserted s' = Inserted s @ ys \<and> filter isPush ys = []
          \<and> SpillAreaSizeBytes s' = SpillAreaSizeBytes s"
  using assms
  by (auto simp: finishArgumentLowering_slot_def Let_def setStackOffset_def updVar_def
                 ins_def Context_insert_def
           split: Option.bind_splits if_splits)

lemma finishArgumentLowering_props:
  assumes "finishArgumentLowering Arg FramePtr B n s = Some (n', s')"
  shows "\<exists>ys. Inserted s' = Inserted s @ ys \<and> filter isPush ys = []
          \<and> SpillAreaSizeBytes s' = SpillAreaSizeBytes s"
proof -
  from assms consider
      (one) "finishArgumentLowering_slot Arg FramePtr B n s = Some (n', s')"
    | (two) Lo Hi n1 s1 where "finishArgumentLowering_slot Lo FramePtr B n s = Some (n1, s1)"
        "finishArgumentLowering_slot Hi FramePtr B n1 s1 = Some (n', s')"
    by (auto simp: finishArgumentLowering_def
             split: option.splits if_splits Option.bind_splits)
  then show ?thesis
  proof cases
    case one
    then show ?thesis by (rule finishArgumentLowering_slot_props)
  next
    case two
    from finishArgumentLowering_slot_props[OF two(1)] obtain xs where
      xs: "Inserted s1 = Inserted s @ xs" "filter isPush xs = []"
        "SpillAreaSizeBytes s1 = SpillAreaSizeBytes s" by auto
    from finishArgumentLowering_slot_props[OF two(2)] obtain ys where
      ys: "Inserted s' = Inserted s1 @ ys" "filter isPush ys = []"
        "SpillAreaSizeBytes s' = SpillAreaSizeBytes s1" by auto
    have "Inserted s' = Inserted s @ (xs @ ys)" "filter isPush (xs @ ys) = []"
      "SpillAreaSizeBytes s' = SpillAreaSizeBytes s"
      using xs ys by simp_all
    then show ?thesis by blast
  qed
qed

lemma addProlog_args_props:
  "addProlog_args FramePtr B as k n s = Some (n', s') \<Longrightarrow>
     \<exists>ys. Inserted s' = Inserted s @ ys \<and> filter isPush ys = []
          \<and> SpillAreaSizeBytes s' = SpillAreaSizeBytes s"
proof (induction as arbitrary: k n s)
  case Nil
  then show ?case by simp
next
  case (Cons Arg as)
  show ?case
  proof (cases "isVectorType (Ty (getVar s Arg)) \<and> k < X86_MAX_XMM_ARGS")
    case True
    with Cons.prems have "addProlog_args FramePtr B as (k + 1) n s = Some (n', s')" by auto
    then show ?thesis by (rule Cons.IH)
  next
    case False
    with Cons.prems obtain n1 s1 where
      1: "finishArgumentLowering Arg FramePtr B n s = Some (n1, s1)"
      and 2: "addProlog_args FramePtr B as k n1 s1 = Some (n', s')"
      by (auto split: Option.bind_splits)
    from finishArgumentLowering_props[OF 1] obtain xs where
      xs: "Inserted s1 = Inserted s @ xs" "filter isPush xs = []"
        "SpillAreaSizeBytes s1 = SpillAreaSizeBytes s" by auto
    from Cons.IH[OF 2] obtain ys where
      ys: "Inserted s' = Inserted s1 @ ys" "filter isPush ys = []"
        "SpillAreaSizeBytes s' = SpillAreaSizeBytes s1" by auto
    have "Inserted s' = Inserted s @ (xs @ ys)" "filter isPush (xs @ ys) = []"
      "SpillAreaSizeBytes s' = SpillAreaSizeBytes s"
      using xs ys by simp_all
    then show ?thesis by blast
  qed
qed

lemma addProlog_locals_props:
  "Inserted (snd (addProlog_locals SC pad G Vars acc s)) = Inserted s
   \<and> SpillAreaSizeBytes (snd (addProlog_locals SC pad G Vars acc s)) = SpillAreaSizeBytes s"
proof (induction Vars arbitrary: acc s)
  case Nil
  show ?case by (cases acc) simp
next
  case (Cons Var Vars)
  obtain a b c where acc: "acc = (a, b, c)" by (cases acc)
  show ?case
    unfolding acc addProlog_locals.simps Let_def split_def
    by (simp add: Cons.IH setStackOffset_def updVar_def)
qed

lemma addProlog_linked_props:
  "addProlog_linked Vars s = Some s' \<Longrightarrow>
     Inserted s' = Inserted s \<and> SpillAreaSizeBytes s' = SpillAreaSizeBytes s"
proof (induction Vars arbitrary: s)
  case Nil
  then show ?case by simp
next
  case (Cons Var Vars)
  from Cons.prems obtain Linked where
    "addProlog_linked Vars (setStackOffset Var (StackOffset (getVar s Linked)) s) = Some s'"
    by (auto split: option.splits)
  from Cons.IH[OF this] show ?case by (simp add: setStackOffset_def updVar_def)
qed





lemma addProlog_steps:
  assumes "addProlog T CallsReturnsTwice ComputedLiveRanges s = Some s'"
  shows "\<exists>P pad G Sorted Linked s1 s2 s3 FramePtr s4 InArgs s5.
      addProlog_spillArea T CallsReturnsTwice ComputedLiveRanges s
        = Some ((P, pad, G, Sorted, Linked), s1)
    \<and> (if NeedsStackAlignment s1
        then do { StackSize \<leftarrow>
                    applyStackAlignment
                      (of_nat (unat (X86_RET_IP_SIZE_BYTES + of_nat P :: uint32_t)
                               + SpillAreaSizeBytes s1));
                  Some (s1\<lparr>SpillAreaSizeBytes :=
                            unat (StackSize - (X86_RET_IP_SIZE_BYTES + of_nat P))\<rparr>) }
        else Some s1) = Some s2
    \<and> (if SpillAreaSizeBytes s2 \<noteq> 0
        then do { (esp, sx) \<leftarrow> getPhysicalRegister (Reg_esp T) s2;
                  Some (ins Sub (Some esp)
                         [OpConstant (ConstantInteger IceType_i32
                                        (of_nat (SpillAreaSizeBytes sx)))] sx) }
        else Some s2) = Some s3
    \<and> getPhysicalRegister (if IsEbpBasedFrame s3 then Reg_ebp T else Reg_esp T) s3
        = Some (FramePtr, s4)
    \<and> addProlog_args FramePtr
         (P + unat X86_RET_IP_SIZE_BYTES
          + (if \<not> IsEbpBasedFrame s4 then SpillAreaSizeBytes s4 else 0))
         (Args s4) 0 0 s4 = Some (InArgs, s5)
    \<and> (case addProlog_locals (\<not> CallsReturnsTwice) (unat pad) (unat G) Sorted
                 (unat pad, (\<lambda>NodeIndex. 0), unat pad) s5 of
          (NextStackOffset, s) \<Rightarrow> addProlog_linked Linked s) = Some s'"
  using assms unfolding addProlog_def Let_def
  by (simp only: bind_eq_Some_conv split_paired_Ex prod.case) blast







section \<open>The rounding of the frame sizes\<close>

lemma addProlog_spillArea_sizes:
  assumes run: "addProlog_spillArea T CallsReturnsTwice ComputedLiveRanges s
                  = Some ((P, pad, G, Sorted, Linked), s1)"
    and sz: "addProlog_spillSizes (\<not> CallsReturnsTwice) (s\<lparr>SpillAreaSizeBytes := 0\<rparr>) Sorted
               (0, 0, (\<lambda>NodeIndex. 0), 0, 0) = (SA, GS, LS, Size, LSA)"
  shows "if SA \<noteq> 0
         then applyAlignment (X86_RET_IP_SIZE_BYTES + of_nat P) SA
                = Some (X86_RET_IP_SIZE_BYTES + of_nat P + pad)
         else pad = 0"
    "if LSA \<noteq> 0 then applyAlignment (of_nat GS) LSA = Some G else G = of_nat GS"
    "SpillAreaSizeBytes s1 = Size + GS + unat pad + (unat G - GS)"
proof -
  show "if SA \<noteq> 0
         then applyAlignment (X86_RET_IP_SIZE_BYTES + of_nat P) SA
                = Some (X86_RET_IP_SIZE_BYTES + of_nat P + pad)
         else pad = 0"
    using run sz unfolding addProlog_spillArea_def Let_def
    by (auto split: Option.bind_splits prod.splits if_splits)
  show "if LSA \<noteq> 0 then applyAlignment (of_nat GS) LSA = Some G else G = of_nat GS"
    using run sz unfolding addProlog_spillArea_def Let_def
    by (auto split: Option.bind_splits prod.splits if_splits)
  have f: "SpillAreaSizeBytes y = SpillAreaSizeBytes x"
    if "getPhysicalRegister r x = Some (Reg, y)" for r x Reg y
    using that by (rule getPhysicalRegister_frame(1))
  have p: "SpillAreaSizeBytes y = SpillAreaSizeBytes x"
    if "addProlog_pushes C R is n x = Some (n', y)" for C R "is" n x n' y
    using addProlog_pushes_props[OF that] by auto
  have le: "unat (of_nat n :: uint32_t) \<le> n" for n
    by (simp only: unat_of_nat) simp
  show "SpillAreaSizeBytes s1 = Size + GS + unat pad + (unat G - GS)"
    using run sz unfolding addProlog_spillArea_def Let_def
    by (auto simp: ins_def Context_insert_def le dest!: f p
             split: Option.bind_splits prod.splits if_splits)
qed


lemma addProlog_frame_size:
  assumes run: "addProlog T CallsReturnsTwice ComputedLiveRanges s = Some s'"
    and n: "NeedsStackAlignment s"
  shows "\<exists>P l s1 StackSize.
      addProlog_spillArea T CallsReturnsTwice ComputedLiveRanges s = Some ((P, l), s1)
    \<and> applyAlignment
        (of_nat (unat (X86_RET_IP_SIZE_BYTES + of_nat P :: uint32_t) + SpillAreaSizeBytes s1))
        X86_STACK_ALIGNMENT_BYTES = Some StackSize
    \<and> SpillAreaSizeBytes s' = unat (StackSize - (X86_RET_IP_SIZE_BYTES + of_nat P))"
proof -
  from addProlog_steps[OF run]
  obtain P pad G Sorted Linked s1 s2 s3 FramePtr s4 InArgs s5 where
    sa: "addProlog_spillArea T CallsReturnsTwice ComputedLiveRanges s
        = Some ((P, pad, G, Sorted, Linked), s1)"
    and al: "(if NeedsStackAlignment s1
        then do { StackSize \<leftarrow>
                    applyStackAlignment
                      (of_nat (unat (X86_RET_IP_SIZE_BYTES + of_nat P :: uint32_t)
                               + SpillAreaSizeBytes s1));
                  Some (s1\<lparr>SpillAreaSizeBytes :=
                            unat (StackSize - (X86_RET_IP_SIZE_BYTES + of_nat P))\<rparr>) }
        else Some s1) = Some s2"
    and sub: "(if SpillAreaSizeBytes s2 \<noteq> 0
        then do { (esp, sx) \<leftarrow> getPhysicalRegister (Reg_esp T) s2;
                  Some (ins Sub (Some esp)
                         [OpConstant (ConstantInteger IceType_i32
                                        (of_nat (SpillAreaSizeBytes sx)))] sx) }
        else Some s2) = Some s3"
    and fp: "getPhysicalRegister (if IsEbpBasedFrame s3 then Reg_ebp T else Reg_esp T) s3
        = Some (FramePtr, s4)"
    and ar: "addProlog_args FramePtr
         (P + unat X86_RET_IP_SIZE_BYTES
          + (if \<not> IsEbpBasedFrame s4 then SpillAreaSizeBytes s4 else 0))
         (Args s4) 0 0 s4 = Some (InArgs, s5)"
    and li: "(case addProlog_locals (\<not> CallsReturnsTwice) (unat pad) (unat G) Sorted
                 (unat pad, (\<lambda>NodeIndex. 0), unat pad) s5 of
          (NextStackOffset, s) \<Rightarrow> addProlog_linked Linked s) = Some s'"
    by (elim exE conjE) (rule that)
  let ?s6 = "snd (addProlog_locals (\<not> CallsReturnsTwice) (unat pad) (unat G) Sorted
                 (unat pad, (\<lambda>NodeIndex. 0), unat pad) s5)"
  from li have li': "addProlog_linked Linked ?s6 = Some s'" by (simp add: split_def)
  from addProlog_spillArea_props[OF sa] have n1: "NeedsStackAlignment s1" using n by auto
  from al n1 obtain A where
    A: "applyStackAlignment
          (of_nat (unat (X86_RET_IP_SIZE_BYTES + of_nat P :: uint32_t)
                   + SpillAreaSizeBytes s1)) = Some A"
    and e: "s2 = s1\<lparr>SpillAreaSizeBytes := unat (A - (X86_RET_IP_SIZE_BYTES + of_nat P))\<rparr>"
    by (auto split: Option.bind_splits)
  have z3: "SpillAreaSizeBytes s3 = SpillAreaSizeBytes s2"
  proof (cases "SpillAreaSizeBytes s2 = 0")
    case True
    with sub show ?thesis by simp
  next
    case False
    with sub obtain esp sx where g: "getPhysicalRegister (Reg_esp T) s2 = Some (esp, sx)"
      and e: "s3 = ins Sub (Some esp)
                     [OpConstant (ConstantInteger IceType_i32
                                    (of_nat (SpillAreaSizeBytes sx)))] sx"
      by (auto split: Option.bind_splits)
    note f = getPhysicalRegister_frame[OF g]
    show ?thesis by (simp add: e f ins_def Context_insert_def)
  qed
  note f4 = getPhysicalRegister_frame[OF fp]
  from addProlog_args_props[OF ar] have
    ys: "SpillAreaSizeBytes s5 = SpillAreaSizeBytes s4"
    by auto
  note f6 = addProlog_locals_props[of "\<not> CallsReturnsTwice" "unat pad" "unat G" Sorted
              "(unat pad, (\<lambda>NodeIndex. 0), unat pad)" s5]
  note f7 = addProlog_linked_props[OF li']
  have size: "SpillAreaSizeBytes s' = SpillAreaSizeBytes s2"
    using f7 f6 ys f4(1) z3 by simp
  have sz: "SpillAreaSizeBytes s' = unat (A - (X86_RET_IP_SIZE_BYTES + of_nat P))"
    by (simp add: size e)
  from A have A': "applyAlignment
        (of_nat (unat (X86_RET_IP_SIZE_BYTES + of_nat P :: uint32_t) + SpillAreaSizeBytes s1))
        X86_STACK_ALIGNMENT_BYTES = Some A"
    by (simp only: applyStackAlignment_def)
  show ?thesis
    apply (rule exI[of _ P])
    apply (rule exI[of _ "(pad, G, Sorted, Linked)"])
    apply (rule exI[of _ s1])
    apply (rule exI[of _ A])
    apply (intro conjI)
      apply (rule sa)
     apply (rule A')
    apply (rule sz)
    done
qed

lemma finishArgumentLowering_vector:
  assumes run: "finishArgumentLowering Arg FramePtr BasicFrameOffset InArgsSizeBytes a
                  = Some (InArgsSizeBytes', a')"
    and v: "isVectorType (Ty (getVar a Arg))"
  shows "\<exists>r. applyAlignment (of_nat InArgsSizeBytes) X86_STACK_ALIGNMENT_BYTES = Some r
          \<and> InArgsSizeBytes' = unat r + unat (typeWidthInBytesOnStack (Ty (getVar a Arg)))
          \<and> (Arg < length (Variables a) \<longrightarrow>
               StackOffset (getVar a' Arg) = int (BasicFrameOffset + unat r))"
proof -
  from v have ni: "Ty (getVar a Arg) \<noteq> IceType_i64" by auto
  from run ni have slot:
    "finishArgumentLowering_slot Arg FramePtr BasicFrameOffset InArgsSizeBytes a
       = Some (InArgsSizeBytes', a')"
    by (auto simp: finishArgumentLowering_def split: option.splits)
  from slot v show ?thesis
    by (auto simp: finishArgumentLowering_slot_def Let_def applyStackAlignment_def
                   setStackOffset_def updVar_def getVar_def hasReg_def ins_def Context_insert_def
             split: Option.bind_splits if_splits)
qed

lemma classifyArgs_vector_on_stack:
  assumes run: "classifyArgs T (Arg # rest) (XmmArgs, StackArgs, StackArgLocations, P) c
                  = Some res"
    and v: "isVectorType (getType c Arg)"
    and full: "\<not> length XmmArgs < X86_MAX_XMM_ARGS"
  shows "\<exists>P' esp c1.
      applyAlignment P X86_STACK_ALIGNMENT_BYTES = Some P'
    \<and> getPhysicalRegister (Reg_esp T) c = Some (esp, c1)
    \<and> classifyArgs T rest
        (XmmArgs, StackArgs @ [Arg],
         StackArgLocations
           @ [OpX8632Mem (getType c Arg) (Some esp)
                (Some (ConstantInteger IceType_i32 (ucast P'))) None 0 DefaultSegment],
         P' + typeWidthInBytesOnStack (getType c Arg)) c1 = Some res"
  using run v full
  by (auto simp: Let_def applyStackAlignment_def split: Option.bind_splits if_splits)

lemma lowerCall_parameter_area:
  assumes "lowerCall T Dest CallTarget CallArgs HasSideEffects s = Some s'"
  shows "\<exists>XmmArgs StackArgs StackArgLocations P0 s1 P post.
      classifyArgs T CallArgs ([], [], [], 0) (s\<lparr>NeedsStackAlignment := True\<rparr>)
        = Some ((XmmArgs, StackArgs, StackArgLocations, P0), s1)
    \<and> applyAlignment P0 X86_STACK_ALIGNMENT_BYTES = Some P
    \<and> Inserted s' = Inserted s @ (if P \<noteq> 0 then [X86AdjustStack P] else []) @ post"
proof -
  from lowerCall_steps[OF assms]
  obtain XmmArgs StackArgs StackArgLocations P0 s1 P s3 s4 ReturnReg ReturnRegHi s5 Target s6
      s9 KilledRegs s10 where
    c1: "classifyArgs T CallArgs ([], [], [], 0) (s\<lparr>NeedsStackAlignment := True\<rparr>)
       = Some ((XmmArgs, StackArgs, StackArgLocations, P0), s1)"
    and c2: "applyStackAlignment P0 = Some P"
    and c3: "lowerStackArgs (zip StackArgs StackArgLocations)
       (if P \<noteq> 0 then Context_insert (X86AdjustStack P) s1 else s1) = Some s3"
    and c4: "lowerXmmArgs T 0 XmmArgs s3 = Some s4"
    and c5: "returnRegs T Dest s4 = Some ((ReturnReg, ReturnRegHi), s5)"
    and c6: "legalize CallTarget Legal_All False NoRegister s5 = Some (Target, s6)"
    and c9: "(if P \<noteq> 0
      then do { (esp, s') \<leftarrow> getPhysicalRegister (Reg_esp T)
                   (case ReturnRegHi of
                      Some rh \<Rightarrow> Context_insert (FakeDef rh None)
                                   (Context_insert (X86Call ReturnReg Target) s6)
                    | None \<Rightarrow> Context_insert (X86Call ReturnReg Target) s6);
                Some (ins Add (Some esp)
                        [OpConstant (ConstantInteger IceType_i32 (ucast P))] s') }
      else Some (case ReturnRegHi of
                      Some rh \<Rightarrow> Context_insert (FakeDef rh None)
                                   (Context_insert (X86Call ReturnReg Target) s6)
                    | None \<Rightarrow> Context_insert (X86Call ReturnReg Target) s6)) = Some s9"
    and c10: "killedRegs T [0 ..< length (ScratchRegs T)] [] s9 = Some (KilledRegs, s10)"
    and c12: "(case Dest of
        None \<Rightarrow> Some (case ReturnReg of
                       Some r \<Rightarrow> if HasSideEffects
                                 then Context_insert (FakeUse r)
                                        (Context_insert (FakeKill KilledRegs (length (Inserted s6))) s10)
                                 else Context_insert (FakeKill KilledRegs (length (Inserted s6))) s10
                     | None \<Rightarrow> Context_insert (FakeKill KilledRegs (length (Inserted s6))) s10)
      | Some d \<Rightarrow> assignCallResult d ReturnReg ReturnRegHi
                    (case ReturnReg of
                       Some r \<Rightarrow> if HasSideEffects
                                 then Context_insert (FakeUse r)
                                        (Context_insert (FakeKill KilledRegs (length (Inserted s6))) s10)
                                 else Context_insert (FakeKill KilledRegs (length (Inserted s6))) s10
                     | None \<Rightarrow> Context_insert (FakeKill KilledRegs (length (Inserted s6))) s10))
     = Some s'"
    by (elim exE conjE) (rule that)
  let ?s2 = "(if P \<noteq> 0 then Context_insert (X86AdjustStack P) s1 else s1)"
  have i1: "Inserted s1 = Inserted s" using classifyArgs_props[OF c1] by simp
  have i2: "Inserted ?s2 = Inserted s @ (if P \<noteq> 0 then [X86AdjustStack P] else [])"
    by (simp add: i1 Context_insert_def)
  note e3 = ext_lowerStackArgs[OF c3]
  note e4 = ext_lowerXmmArgs[OF c4]
  note e5 = returnRegs_props(1)[OF c5]
  note e6 = ext_legalize[OF c6]
  let ?s7 = "Context_insert (X86Call ReturnReg Target) s6"
  let ?s8 = "(case ReturnRegHi of
                      Some rh \<Rightarrow> Context_insert (FakeDef rh None) ?s7
                    | None \<Rightarrow> ?s7)"
  have e7: "ext s6 ?s7" by simp
  have "ext ?s7 ?s8" by (cases ReturnRegHi) simp_all
  with e7 have e8: "ext s6 ?s8" by (rule ext_trans)
  have e9: "ext ?s8 s9"
  proof (cases "P = 0")
    case True
    with c9 show ?thesis by auto
  next
    case False
    with c9 obtain esp sx where g: "getPhysicalRegister (Reg_esp T) ?s8 = Some (esp, sx)"
      and s9: "s9 = ins Add (Some esp) [OpConstant (ConstantInteger IceType_i32 (ucast P))] sx"
      by (auto split: Option.bind_splits)
    have "ext sx s9" by (simp add: s9)
    with getPhysicalRegister_props(1)[OF g] show ?thesis by (rule ext_trans)
  qed
  note e10 = ext_killedRegs[OF c10]
  let ?s11 = "Context_insert (FakeKill KilledRegs (length (Inserted s6))) s10"
  let ?s12 = "(case ReturnReg of
                 Some r \<Rightarrow> if HasSideEffects then Context_insert (FakeUse r) ?s11 else ?s11
               | None \<Rightarrow> ?s11)"
  have e11: "ext s10 ?s11" by simp
  have "ext ?s11 ?s12" by (cases ReturnReg) simp_all
  with e11 have e12: "ext s10 ?s12" by (rule ext_trans)
  have e': "ext ?s12 s'"
  proof (cases Dest)
    case None
    with c12 show ?thesis by auto
  next
    case (Some d)
    with c12 have "assignCallResult d ReturnReg ReturnRegHi ?s12 = Some s'" by simp
    then show ?thesis by (rule ext_assignCallResult)
  qed
  note x4 = ext_trans[OF e3 e4]
  note x5 = ext_trans[OF x4 e5]
  note x6 = ext_trans[OF x5 e6]
  note x8 = ext_trans[OF x6 e8]
  note x9 = ext_trans[OF x8 e9]
  note x10 = ext_trans[OF x9 e10]
  note x12 = ext_trans[OF x10 e12]
  have "ext ?s2 s'" using x12 e' by (rule ext_trans)
  from ext_Inserted[OF this] obtain post where "Inserted s' = Inserted ?s2 @ post" by blast
  then have p: "Inserted s' = Inserted s @ (if P \<noteq> 0 then [X86AdjustStack P] else []) @ post"
    by (simp only: i2 append_assoc)
  from c2 have c2': "applyAlignment P0 X86_STACK_ALIGNMENT_BYTES = Some P"
    by (simp only: applyStackAlignment_def)
  show ?thesis
    by (intro exI conjI) (rule c1 c2' p)+
qed

lemma lowerAlloca_constant:
  assumes "lowerAlloca T Dest (OpConstant (ConstantInteger ty v)) AlignInBytes a = Some a'"
  shows "\<exists>esp a1 Value.
      getPhysicalRegister (Reg_esp T) (a\<lparr>IsEbpBasedFrame := True, NeedsStackAlignment := True\<rparr>)
        = Some (esp, a1)
    \<and> applyAlignment (ucast v) (max (max AlignInBytes 1) X86_STACK_ALIGNMENT_BYTES) = Some Value
    \<and> Inserted a' = Inserted a
        @ (if max (max AlignInBytes 1) X86_STACK_ALIGNMENT_BYTES > X86_STACK_ALIGNMENT_BYTES
           then [X86 And (Some esp)
                   [OpConstant (ConstantInteger IceType_i32
                      (ucast (- max (max AlignInBytes 1) X86_STACK_ALIGNMENT_BYTES)))]]
           else [])
        @ [X86 Sub (Some esp) [OpConstant (ConstantInteger IceType_i32 (ucast Value))],
           X86 Mov (Some Dest) [OpVariable esp]]"
proof -
  let ?s0 = "a\<lparr>IsEbpBasedFrame := True, NeedsStackAlignment := True\<rparr>"
  let ?Alignment = "max (max AlignInBytes 1) X86_STACK_ALIGNMENT_BYTES"
  from assms obtain esp s1 TotalSize s2 where
    g: "getPhysicalRegister (Reg_esp T) ?s0 = Some (esp, s1)"
    and l: "legalize (OpConstant (ConstantInteger ty v)) Legal_All False NoRegister s1
              = Some (TotalSize, s2)"
    unfolding lowerAlloca_def Let_def
    by (auto split: Option.bind_splits if_splits)
  from legalize_ConstantInteger_All[OF l] have t: "TotalSize = OpConstant (ConstantInteger ty v)"
    and s2: "s2 = s1" by simp_all
  have l': "legalize (OpConstant (ConstantInteger ty v)) Legal_All False NoRegister s1
              = Some (OpConstant (ConstantInteger ty v), s1)"
    using l by (simp only: t s2)
  note f = getPhysicalRegister_frame(4)[OF g]
  from assms obtain Value where
    v: "applyAlignment (ucast v) ?Alignment = Some Value"
    and a': "a' = ins Mov (Some Dest) [OpVariable esp]
                   (ins Sub (Some esp) [OpConstant (ConstantInteger IceType_i32 (ucast Value))]
                      (if ?Alignment > X86_STACK_ALIGNMENT_BYTES
                       then ins And (Some esp)
                              [OpConstant (ConstantInteger IceType_i32 (ucast (- ?Alignment)))] s1
                       else s1))"
    unfolding lowerAlloca_def Let_def
    by (auto simp: g l' split: Option.bind_splits if_splits)
  have i: "Inserted a' = Inserted a
        @ (if ?Alignment > X86_STACK_ALIGNMENT_BYTES
           then [X86 And (Some esp)
                   [OpConstant (ConstantInteger IceType_i32 (ucast (- ?Alignment)))]]
           else [])
        @ [X86 Sub (Some esp) [OpConstant (ConstantInteger IceType_i32 (ucast Value))],
           X86 Mov (Some Dest) [OpVariable esp]]"
    using f by (simp add: a' ins_def Context_insert_def)
  show ?thesis
    by (intro exI conjI) (rule g v i)+
qed

lemma lowerAlloca_variable:
  assumes "lowerAlloca T Dest (OpVariable v) AlignInBytes a = Some a'"
  shows "\<exists>esp a1 T1.
      getPhysicalRegister (Reg_esp T) (a\<lparr>IsEbpBasedFrame := True, NeedsStackAlignment := True\<rparr>)
        = Some (esp, a1)
    \<and> T1 = length (Variables a1)
    \<and> Inserted a' = Inserted a
        @ (if max (max AlignInBytes 1) X86_STACK_ALIGNMENT_BYTES > X86_STACK_ALIGNMENT_BYTES
           then [X86 And (Some esp)
                   [OpConstant (ConstantInteger IceType_i32
                      (ucast (- max (max AlignInBytes 1) X86_STACK_ALIGNMENT_BYTES)))]]
           else [])
        @ [X86 Mov (Some T1) [OpVariable v],
           X86 Add (Some T1)
             [OpConstant (ConstantInteger IceType_i32
                (ucast (max (max AlignInBytes 1) X86_STACK_ALIGNMENT_BYTES - 1)))],
           X86 And (Some T1)
             [OpConstant (ConstantInteger IceType_i32
                (ucast (- max (max AlignInBytes 1) X86_STACK_ALIGNMENT_BYTES)))],
           X86 Sub (Some esp) [OpVariable T1],
           X86 Mov (Some Dest) [OpVariable esp]]"
proof -
  let ?s0 = "a\<lparr>IsEbpBasedFrame := True, NeedsStackAlignment := True\<rparr>"
  let ?Alignment = "max (max AlignInBytes 1) X86_STACK_ALIGNMENT_BYTES"
  from assms obtain esp s1 where
    g: "getPhysicalRegister (Reg_esp T) ?s0 = Some (esp, s1)"
    unfolding lowerAlloca_def Let_def
    by (auto split: Option.bind_splits if_splits)
  note f = getPhysicalRegister_frame(4)[OF g]
  let ?s2 = "(if ?Alignment > X86_STACK_ALIGNMENT_BYTES
              then ins And (Some esp)
                     [OpConstant (ConstantInteger IceType_i32 (ucast (- ?Alignment)))] s1
              else s1)"
  from assms obtain T1 s3 where
    m: "makeReg IceType_i32 NoRegister ?s2 = Some (T1, s3)"
    and a': "a' = ins Mov (Some Dest) [OpVariable esp]
                   (ins Sub (Some esp) [OpVariable T1]
                     (ins And (Some T1)
                        [OpConstant (ConstantInteger IceType_i32 (ucast (- ?Alignment)))]
                        (ins Add (Some T1)
                           [OpConstant (ConstantInteger IceType_i32 (ucast (?Alignment - 1)))]
                           (ins Mov (Some T1) [OpVariable v] s3))))"
    unfolding lowerAlloca_def Let_def
    by (auto simp: g legalize_Variable_All split: Option.bind_splits if_splits)
  have t: "T1 = length (Variables s1)"
    using makeReg_props(2)[OF m] by (simp split: if_splits)
  have i3: "Inserted s3 = Inserted ?s2" by (rule makeReg_props(8)[OF m])
  have i: "Inserted a' = Inserted a
        @ (if ?Alignment > X86_STACK_ALIGNMENT_BYTES
           then [X86 And (Some esp)
                   [OpConstant (ConstantInteger IceType_i32 (ucast (- ?Alignment)))]]
           else [])
        @ [X86 Mov (Some T1) [OpVariable v],
           X86 Add (Some T1)
             [OpConstant (ConstantInteger IceType_i32 (ucast (?Alignment - 1)))],
           X86 And (Some T1)
             [OpConstant (ConstantInteger IceType_i32 (ucast (- ?Alignment)))],
           X86 Sub (Some esp) [OpVariable T1],
           X86 Mov (Some Dest) [OpVariable esp]]"
    using f i3 by (simp add: a' ins_def Context_insert_def)
  show ?thesis
    by (intro exI conjI) (rule g t i)+
qed

text \<open>
  C10 (as amended). For every \<open>Value\<close> and every power of two \<open>Alignment\<close> other than
  zero such that \<open>Value + Alignment - 1\<close> does not overflow 32 bits,
  \<open>applyAlignment Value Alignment\<close> returns the smallest multiple of \<open>Alignment\<close> that
  is greater than or equal to \<open>Value\<close>. The paddings and sizes of the frame that are
  computed while the function is translated are rounded with this function: in
  \<open>addProlog\<close>, the start of the spill area (the return address and the preserved
  registers rounded up to the alignment of the spill area, \<open>pad\<close> being the difference),
  the end of the globals area (rounded up to the alignment of the locals) and, when the
  stack needs alignment, the size of the frame (\<open>SpillAreaSizeBytes\<close> becomes the
  difference between the rounded and the unrounded end of the frame); in
  \<open>finishArgumentLowering\<close>, the offset of a vector argument in the caller's frame; in
  \<open>lowerCall\<close>, the offset of a vector argument that goes on the stack and the size of
  the parameter area, which the stack adjustment before the call is given; in
  \<open>lowerAlloca\<close>, a size that is an integer constant, which is then subtracted from
  \<open>esp\<close>. For a size held in a variable, \<open>lowerAlloca\<close> does not use the function: it
  inserts \<open>mov T, size\<close>, \<open>add T, Alignment - 1\<close>, \<open>and T, -Alignment\<close> and
  \<open>sub esp, T\<close> on a new temporary \<open>T\<close>, which round the size when the program runs.
\<close>

theorem applyAlignment_rounds_frame_sizes:
  "(k < 32 \<and> Alignment = 2 ^ k \<and> unat Value + unat Alignment - 1 < 2 ^ 32 \<longrightarrow>
      (\<exists>r. applyAlignment Value Alignment = Some r
           \<and> unat Alignment dvd unat r \<and> unat Value \<le> unat r
           \<and> (\<forall>m. unat Alignment dvd m \<and> unat Value \<le> m \<longrightarrow> unat r \<le> m)))
   \<and> (addProlog_spillArea T CallsReturnsTwice ComputedLiveRanges s
          = Some ((P, pad, G, Sorted, Linked), s1)
        \<and> addProlog_spillSizes (\<not> CallsReturnsTwice) (s\<lparr>SpillAreaSizeBytes := 0\<rparr>) Sorted
            (0, 0, (\<lambda>NodeIndex. 0), 0, 0)
          = (SpillAreaAlignmentBytes, GlobalsSize, LocalsSize, Size, LocalsSlotsAlignmentBytes)
        \<longrightarrow>
          (if SpillAreaAlignmentBytes \<noteq> 0
           then applyAlignment (X86_RET_IP_SIZE_BYTES + of_nat P) SpillAreaAlignmentBytes
                  = Some (X86_RET_IP_SIZE_BYTES + of_nat P + pad)
           else pad = 0)
        \<and> (if LocalsSlotsAlignmentBytes \<noteq> 0
           then applyAlignment (of_nat GlobalsSize) LocalsSlotsAlignmentBytes = Some G
           else G = of_nat GlobalsSize)
        \<and> SpillAreaSizeBytes s1 = Size + GlobalsSize + unat pad + (unat G - GlobalsSize))
   \<and> (addProlog T CallsReturnsTwice ComputedLiveRanges p = Some p' \<and> NeedsStackAlignment p
        \<longrightarrow>
          (\<exists>Pp l p1 StackSize.
              addProlog_spillArea T CallsReturnsTwice ComputedLiveRanges p = Some ((Pp, l), p1)
            \<and> applyAlignment
                (of_nat (unat (X86_RET_IP_SIZE_BYTES + of_nat Pp :: uint32_t)
                         + SpillAreaSizeBytes p1))
                X86_STACK_ALIGNMENT_BYTES = Some StackSize
            \<and> SpillAreaSizeBytes p' = unat (StackSize - (X86_RET_IP_SIZE_BYTES + of_nat Pp))))
   \<and> (finishArgumentLowering Arg FramePtr BasicFrameOffset InArgsSizeBytes f
          = Some (InArgsSizeBytes', f')
        \<and> isVectorType (Ty (getVar f Arg))
        \<longrightarrow>
          (\<exists>r. applyAlignment (of_nat InArgsSizeBytes) X86_STACK_ALIGNMENT_BYTES = Some r
              \<and> InArgsSizeBytes' = unat r + unat (typeWidthInBytesOnStack (Ty (getVar f Arg)))
              \<and> (Arg < length (Variables f) \<longrightarrow>
                   StackOffset (getVar f' Arg) = int (BasicFrameOffset + unat r))))
   \<and> (classifyArgs T (CallArg # rest) (XmmArgs, StackArgs, StackArgLocations, Params) c
          = Some res
        \<and> isVectorType (getType c CallArg) \<and> \<not> length XmmArgs < X86_MAX_XMM_ARGS
        \<longrightarrow>
          (\<exists>Params' esp c1.
              applyAlignment Params X86_STACK_ALIGNMENT_BYTES = Some Params'
            \<and> getPhysicalRegister (Reg_esp T) c = Some (esp, c1)
            \<and> classifyArgs T rest
                (XmmArgs, StackArgs @ [CallArg],
                 StackArgLocations
                   @ [OpX8632Mem (getType c CallArg) (Some esp)
                        (Some (ConstantInteger IceType_i32 (ucast Params'))) None 0
                        DefaultSegment],
                 Params' + typeWidthInBytesOnStack (getType c CallArg)) c1 = Some res))
   \<and> (lowerCall T Dest CallTarget CallArgs HasSideEffects d = Some d'
        \<longrightarrow>
          (\<exists>Xs Ss Ls P0 d1 ParameterAreaSizeBytes post.
              classifyArgs T CallArgs ([], [], [], 0) (d\<lparr>NeedsStackAlignment := True\<rparr>)
                = Some ((Xs, Ss, Ls, P0), d1)
            \<and> applyAlignment P0 X86_STACK_ALIGNMENT_BYTES = Some ParameterAreaSizeBytes
            \<and> Inserted d' = Inserted d
                @ (if ParameterAreaSizeBytes \<noteq> 0 then [X86AdjustStack ParameterAreaSizeBytes]
                   else [])
                @ post))
   \<and> (lowerAlloca T ADest (OpConstant (ConstantInteger ty v)) AlignInBytes a = Some a'
        \<longrightarrow>
          (\<exists>esp a1 Rounded.
              getPhysicalRegister (Reg_esp T)
                (a\<lparr>IsEbpBasedFrame := True, NeedsStackAlignment := True\<rparr>) = Some (esp, a1)
            \<and> applyAlignment (ucast v) (max (max AlignInBytes 1) X86_STACK_ALIGNMENT_BYTES)
                = Some Rounded
            \<and> Inserted a' = Inserted a
                @ (if max (max AlignInBytes 1) X86_STACK_ALIGNMENT_BYTES
                      > X86_STACK_ALIGNMENT_BYTES
                   then [X86 And (Some esp)
                           [OpConstant (ConstantInteger IceType_i32
                              (ucast (- max (max AlignInBytes 1) X86_STACK_ALIGNMENT_BYTES)))]]
                   else [])
                @ [X86 Sub (Some esp) [OpConstant (ConstantInteger IceType_i32 (ucast Rounded))],
                   X86 Mov (Some ADest) [OpVariable esp]]))
   \<and> (lowerAlloca T VDest (OpVariable x) VAlignInBytes b = Some b'
        \<longrightarrow>
          (\<exists>esp b1 T1.
              getPhysicalRegister (Reg_esp T)
                (b\<lparr>IsEbpBasedFrame := True, NeedsStackAlignment := True\<rparr>) = Some (esp, b1)
            \<and> T1 = length (Variables b1)
            \<and> Inserted b' = Inserted b
                @ (if max (max VAlignInBytes 1) X86_STACK_ALIGNMENT_BYTES
                      > X86_STACK_ALIGNMENT_BYTES
                   then [X86 And (Some esp)
                           [OpConstant (ConstantInteger IceType_i32
                              (ucast (- max (max VAlignInBytes 1) X86_STACK_ALIGNMENT_BYTES)))]]
                   else [])
                @ [X86 Mov (Some T1) [OpVariable x],
                   X86 Add (Some T1)
                     [OpConstant (ConstantInteger IceType_i32
                        (ucast (max (max VAlignInBytes 1) X86_STACK_ALIGNMENT_BYTES - 1)))],
                   X86 And (Some T1)
                     [OpConstant (ConstantInteger IceType_i32
                        (ucast (- max (max VAlignInBytes 1) X86_STACK_ALIGNMENT_BYTES)))],
                   X86 Sub (Some esp) [OpVariable T1],
                   X86 Mov (Some VDest) [OpVariable esp]]))"
proof (intro conjI impI)
  assume h: "k < 32 \<and> Alignment = 2 ^ k \<and> unat Value + unat Alignment - 1 < 2 ^ 32"
  show "\<exists>r. applyAlignment Value Alignment = Some r
           \<and> unat Alignment dvd unat r \<and> unat Value \<le> unat r
           \<and> (\<forall>m. unat Alignment dvd m \<and> unat Value \<le> m \<longrightarrow> unat r \<le> m)"
    by (rule applyAlignment_round_up[OF h[THEN conjunct1] h[THEN conjunct2, THEN conjunct1]
              h[THEN conjunct2, THEN conjunct2]])
next
  assume h: "addProlog_spillArea T CallsReturnsTwice ComputedLiveRanges s
          = Some ((P, pad, G, Sorted, Linked), s1)
        \<and> addProlog_spillSizes (\<not> CallsReturnsTwice) (s\<lparr>SpillAreaSizeBytes := 0\<rparr>) Sorted
            (0, 0, (\<lambda>NodeIndex. 0), 0, 0)
          = (SpillAreaAlignmentBytes, GlobalsSize, LocalsSize, Size, LocalsSlotsAlignmentBytes)"
  note r = addProlog_spillArea_sizes[OF h[THEN conjunct1] h[THEN conjunct2]]
  show "if SpillAreaAlignmentBytes \<noteq> 0
           then applyAlignment (X86_RET_IP_SIZE_BYTES + of_nat P) SpillAreaAlignmentBytes
                  = Some (X86_RET_IP_SIZE_BYTES + of_nat P + pad)
           else pad = 0" by (rule r(1))
  show "if LocalsSlotsAlignmentBytes \<noteq> 0
           then applyAlignment (of_nat GlobalsSize) LocalsSlotsAlignmentBytes = Some G
           else G = of_nat GlobalsSize" by (rule r(2))
  show "SpillAreaSizeBytes s1 = Size + GlobalsSize + unat pad + (unat G - GlobalsSize)"
    by (rule r(3))
next
  assume h: "addProlog T CallsReturnsTwice ComputedLiveRanges p = Some p' \<and> NeedsStackAlignment p"
  show "\<exists>Pp l p1 StackSize.
              addProlog_spillArea T CallsReturnsTwice ComputedLiveRanges p = Some ((Pp, l), p1)
            \<and> applyAlignment
                (of_nat (unat (X86_RET_IP_SIZE_BYTES + of_nat Pp :: uint32_t)
                         + SpillAreaSizeBytes p1))
                X86_STACK_ALIGNMENT_BYTES = Some StackSize
            \<and> SpillAreaSizeBytes p' = unat (StackSize - (X86_RET_IP_SIZE_BYTES + of_nat Pp))"
    by (rule addProlog_frame_size[OF h[THEN conjunct1] h[THEN conjunct2]])
next
  assume h: "finishArgumentLowering Arg FramePtr BasicFrameOffset InArgsSizeBytes f
          = Some (InArgsSizeBytes', f')
        \<and> isVectorType (Ty (getVar f Arg))"
  show "\<exists>r. applyAlignment (of_nat InArgsSizeBytes) X86_STACK_ALIGNMENT_BYTES = Some r
              \<and> InArgsSizeBytes' = unat r + unat (typeWidthInBytesOnStack (Ty (getVar f Arg)))
              \<and> (Arg < length (Variables f) \<longrightarrow>
                   StackOffset (getVar f' Arg) = int (BasicFrameOffset + unat r))"
    by (rule finishArgumentLowering_vector[OF h[THEN conjunct1] h[THEN conjunct2]])
next
  assume h: "classifyArgs T (CallArg # rest) (XmmArgs, StackArgs, StackArgLocations, Params) c
          = Some res
        \<and> isVectorType (getType c CallArg) \<and> \<not> length XmmArgs < X86_MAX_XMM_ARGS"
  show "\<exists>Params' esp c1.
              applyAlignment Params X86_STACK_ALIGNMENT_BYTES = Some Params'
            \<and> getPhysicalRegister (Reg_esp T) c = Some (esp, c1)
            \<and> classifyArgs T rest
                (XmmArgs, StackArgs @ [CallArg],
                 StackArgLocations
                   @ [OpX8632Mem (getType c CallArg) (Some esp)
                        (Some (ConstantInteger IceType_i32 (ucast Params'))) None 0
                        DefaultSegment],
                 Params' + typeWidthInBytesOnStack (getType c CallArg)) c1 = Some res"
    by (rule classifyArgs_vector_on_stack[OF h[THEN conjunct1] h[THEN conjunct2, THEN conjunct1]
              h[THEN conjunct2, THEN conjunct2]])
next
  assume "lowerCall T Dest CallTarget CallArgs HasSideEffects d = Some d'"
  then show "\<exists>Xs Ss Ls P0 d1 ParameterAreaSizeBytes post.
              classifyArgs T CallArgs ([], [], [], 0) (d\<lparr>NeedsStackAlignment := True\<rparr>)
                = Some ((Xs, Ss, Ls, P0), d1)
            \<and> applyAlignment P0 X86_STACK_ALIGNMENT_BYTES = Some ParameterAreaSizeBytes
            \<and> Inserted d' = Inserted d
                @ (if ParameterAreaSizeBytes \<noteq> 0 then [X86AdjustStack ParameterAreaSizeBytes]
                   else [])
                @ post"
    by (rule lowerCall_parameter_area)
next
  assume "lowerAlloca T ADest (OpConstant (ConstantInteger ty v)) AlignInBytes a = Some a'"
  then show "\<exists>esp a1 Rounded.
              getPhysicalRegister (Reg_esp T)
                (a\<lparr>IsEbpBasedFrame := True, NeedsStackAlignment := True\<rparr>) = Some (esp, a1)
            \<and> applyAlignment (ucast v) (max (max AlignInBytes 1) X86_STACK_ALIGNMENT_BYTES)
                = Some Rounded
            \<and> Inserted a' = Inserted a
                @ (if max (max AlignInBytes 1) X86_STACK_ALIGNMENT_BYTES
                      > X86_STACK_ALIGNMENT_BYTES
                   then [X86 And (Some esp)
                           [OpConstant (ConstantInteger IceType_i32
                              (ucast (- max (max AlignInBytes 1) X86_STACK_ALIGNMENT_BYTES)))]]
                   else [])
                @ [X86 Sub (Some esp) [OpConstant (ConstantInteger IceType_i32 (ucast Rounded))],
                   X86 Mov (Some ADest) [OpVariable esp]]"
    by (rule lowerAlloca_constant)
next
  assume "lowerAlloca T VDest (OpVariable x) VAlignInBytes b = Some b'"
  then show "\<exists>esp b1 T1.
              getPhysicalRegister (Reg_esp T)
                (b\<lparr>IsEbpBasedFrame := True, NeedsStackAlignment := True\<rparr>) = Some (esp, b1)
            \<and> T1 = length (Variables b1)
            \<and> Inserted b' = Inserted b
                @ (if max (max VAlignInBytes 1) X86_STACK_ALIGNMENT_BYTES
                      > X86_STACK_ALIGNMENT_BYTES
                   then [X86 And (Some esp)
                           [OpConstant (ConstantInteger IceType_i32
                              (ucast (- max (max VAlignInBytes 1) X86_STACK_ALIGNMENT_BYTES)))]]
                   else [])
                @ [X86 Mov (Some T1) [OpVariable x],
                   X86 Add (Some T1)
                     [OpConstant (ConstantInteger IceType_i32
                        (ucast (max (max VAlignInBytes 1) X86_STACK_ALIGNMENT_BYTES - 1)))],
                   X86 And (Some T1)
                     [OpConstant (ConstantInteger IceType_i32
                        (ucast (- max (max VAlignInBytes 1) X86_STACK_ALIGNMENT_BYTES)))],
                   X86 Sub (Some esp) [OpVariable T1],
                   X86 Mov (Some VDest) [OpVariable esp]]"
    by (rule lowerAlloca_variable)
qed

theorem applyAlignment_rounds_frame_sizes_witness:
  "(\<exists>r. applyAlignment 20 16 = Some r \<and> 16 dvd unat r \<and> 20 \<le> unat r \<and> unat r \<le> 32)
   \<and> (\<exists>s1. addProlog_spillArea X8632 False False
               (frameExample\<lparr>Variables := take 2 (Variables frameExample)\<rparr>)
               = Some ((0, 4, 12, [1, 0], []), s1)
          \<and> applyAlignment (X86_RET_IP_SIZE_BYTES + of_nat 0) 8
               = Some (X86_RET_IP_SIZE_BYTES + of_nat 0 + 4)
          \<and> SpillAreaSizeBytes s1 = 16)
   \<and> (\<exists>p' Pp l p1 StackSize.
          addProlog X8632 False False frameExample = Some p'
        \<and> NeedsStackAlignment frameExample
        \<and> addProlog_spillArea X8632 False False frameExample = Some ((Pp, l), p1)
        \<and> applyAlignment
            (of_nat (unat (X86_RET_IP_SIZE_BYTES + of_nat Pp :: uint32_t) + SpillAreaSizeBytes p1))
            X86_STACK_ALIGNMENT_BYTES = Some StackSize
        \<and> SpillAreaSizeBytes p' = unat (StackSize - (X86_RET_IP_SIZE_BYTES + of_nat Pp))
        \<and> SpillAreaSizeBytes p' = 24)
   \<and> (\<exists>f' r. finishArgumentLowering 3 0 8 4 mulExample = Some (32, f')
        \<and> isVectorType (Ty (getVar mulExample 3))
        \<and> applyAlignment (of_nat 4) X86_STACK_ALIGNMENT_BYTES = Some r
        \<and> 32 = unat r + unat (typeWidthInBytesOnStack (Ty (getVar mulExample 3)))
        \<and> StackOffset (getVar f' 3) = int (8 + unat r))
   \<and> (\<exists>res Params' esp c1.
          classifyArgs X8632 [OpVariable 3]
            ([OpVariable 3, OpVariable 4, OpVariable 5, OpVariable 3], [], [], 4) mulExample
            = Some res
        \<and> applyAlignment 4 X86_STACK_ALIGNMENT_BYTES = Some Params'
        \<and> getPhysicalRegister (Reg_esp X8632) mulExample = Some (esp, c1)
        \<and> classifyArgs X8632 []
            ([OpVariable 3, OpVariable 4, OpVariable 5, OpVariable 3], [] @ [OpVariable 3],
             [] @ [OpX8632Mem (getType mulExample (OpVariable 3)) (Some esp)
                     (Some (ConstantInteger IceType_i32 (ucast Params'))) None 0 DefaultSegment],
             Params' + typeWidthInBytesOnStack (getType mulExample (OpVariable 3))) c1
            = Some res)
   \<and> (\<exists>d' Xs Ss Ls P0 d1 ParameterAreaSizeBytes post.
          lowerCall X8632 (Some 1) (OpConstant (ConstantRelocatable IceType_i32 0 ''f''))
            [OpVariable 0] True callExample = Some d'
        \<and> classifyArgs X8632 [OpVariable 0] ([], [], [], 0)
            (callExample\<lparr>NeedsStackAlignment := True\<rparr>) = Some ((Xs, Ss, Ls, P0), d1)
        \<and> applyAlignment P0 X86_STACK_ALIGNMENT_BYTES = Some ParameterAreaSizeBytes
        \<and> Inserted d' = Inserted callExample
            @ (if ParameterAreaSizeBytes \<noteq> 0 then [X86AdjustStack ParameterAreaSizeBytes]
               else [])
            @ post)
   \<and> (\<exists>a' esp a1 Rounded.
          lowerAlloca X8632 0 (OpConstant (ConstantInteger IceType_i32 20)) 0 frameExample
            = Some a'
        \<and> getPhysicalRegister (Reg_esp X8632)
            (frameExample\<lparr>IsEbpBasedFrame := True, NeedsStackAlignment := True\<rparr>)
            = Some (esp, a1)
        \<and> applyAlignment (ucast (20 :: uint64_t)) (max (max 0 1) X86_STACK_ALIGNMENT_BYTES)
            = Some Rounded
        \<and> Inserted a'
            = [X86 Sub (Some esp) [OpConstant (ConstantInteger IceType_i32 (ucast Rounded))],
               X86 Mov (Some 0) [OpVariable esp]])
   \<and> (\<exists>b' esp b1 T1.
          lowerAlloca X8632 0 (OpVariable 0) 32 frameExample = Some b'
        \<and> getPhysicalRegister (Reg_esp X8632)
            (frameExample\<lparr>IsEbpBasedFrame := True, NeedsStackAlignment := True\<rparr>)
            = Some (esp, b1)
        \<and> T1 = length (Variables b1)
        \<and> Inserted b'
            = [X86 And (Some esp) [OpConstant (ConstantInteger IceType_i32 (ucast (- 32 :: uint32_t)))],
               X86 Mov (Some T1) [OpVariable 0],
               X86 Add (Some T1) [OpConstant (ConstantInteger IceType_i32 31)],
               X86 And (Some T1) [OpConstant (ConstantInteger IceType_i32 (ucast (- 32 :: uint32_t)))],
               X86 Sub (Some esp) [OpVariable T1],
               X86 Mov (Some 0) [OpVariable esp]])"
proof -
  let ?fe = "frameExample\<lparr>Variables := take 2 (Variables frameExample)\<rparr>"
  let ?f = "OpConstant (ConstantRelocatable IceType_i32 0 ''f'')"
  let ?xs = "[OpVariable 3, OpVariable 4, OpVariable 5, OpVariable 3]"
  \<comment> \<open>the runs\<close>
  have "addProlog_spillArea X8632 False False ?fe \<noteq> None" by code_simp
  then obtain y where y: "addProlog_spillArea X8632 False False ?fe = Some y" by blast
  obtain r0 s1 where y': "y = (r0, s1)" by (cases y)
  have "map_option fst (addProlog_spillArea X8632 False False ?fe) = Some (0, 4, 12, [1, 0], [])"
    by code_simp
  with y y' have sa: "addProlog_spillArea X8632 False False ?fe
                        = Some ((0, 4, 12, [1, 0], []), s1)"
    by simp
  obtain SA GS LS Size LSA where
    sz0: "addProlog_spillSizes (\<not> False) (?fe\<lparr>SpillAreaSizeBytes := 0\<rparr>) [1, 0]
            (0, 0, (\<lambda>NodeIndex. 0), 0, 0) = (SA, GS, LS, Size, LSA)"
    using prod_cases5 by blast
  have "(case addProlog_spillSizes (\<not> False) (?fe\<lparr>SpillAreaSizeBytes := 0\<rparr>) [1, 0]
            (0, 0, (\<lambda>NodeIndex. 0), 0, 0) of (a, b, c, d, e) \<Rightarrow> (a, b, d, e)) = (8, 12, 0, 0)"
    by code_simp
  with sz0 have vals: "SA = 8" "GS = 12" "Size = 0" "LSA = 0" by simp_all
  have sz: "addProlog_spillSizes (\<not> False) (?fe\<lparr>SpillAreaSizeBytes := 0\<rparr>) [1, 0]
            (0, 0, (\<lambda>NodeIndex. 0), 0, 0) = (8, 12, LS, 0, 0)"
    using sz0 by (simp only: vals)
  have "addProlog X8632 False False frameExample \<noteq> None" by code_simp
  then obtain p' where p': "addProlog X8632 False False frameExample = Some p'" by blast
  have "map_option SpillAreaSizeBytes (addProlog X8632 False False frameExample) = Some 24"
    by code_simp
  with p' have p24: "SpillAreaSizeBytes p' = 24" by simp
  have n: "NeedsStackAlignment frameExample" by (simp add: frameExample_def)
  have "finishArgumentLowering 3 0 8 4 mulExample \<noteq> None" by code_simp
  then obtain z where z: "finishArgumentLowering 3 0 8 4 mulExample = Some z" by blast
  obtain n' f' where z': "z = (n', f')" by (cases z)
  have "map_option fst (finishArgumentLowering 3 0 8 4 mulExample) = Some 32" by code_simp
  with z z' have fa: "finishArgumentLowering 3 0 8 4 mulExample = Some (32, f')" by simp
  have vt: "isVectorType (Ty (getVar mulExample 3))" by code_simp
  have l3: "3 < length (Variables mulExample)" by code_simp
  have "classifyArgs X8632 (OpVariable 3 # []) (?xs, [], [], 4) mulExample \<noteq> None"
    by code_simp
  then obtain res where
    ca: "classifyArgs X8632 (OpVariable 3 # []) (?xs, [], [], 4) mulExample = Some res"
    by blast
  have vt': "isVectorType (getType mulExample (OpVariable 3))" by code_simp
  have full: "\<not> length ?xs < X86_MAX_XMM_ARGS" by code_simp
  have "lowerCall X8632 (Some 1) ?f [OpVariable 0] True callExample \<noteq> None" by code_simp
  then obtain d' where
    d': "lowerCall X8632 (Some 1) ?f [OpVariable 0] True callExample = Some d'" by blast
  have "lowerAlloca X8632 0 (OpConstant (ConstantInteger IceType_i32 20)) 0 frameExample \<noteq> None"
    by code_simp
  then obtain a' where
    a': "lowerAlloca X8632 0 (OpConstant (ConstantInteger IceType_i32 20)) 0 frameExample
           = Some a'" by blast
  have "lowerAlloca X8632 0 (OpVariable 0) 32 frameExample \<noteq> None" by code_simp
  then obtain b' where b': "lowerAlloca X8632 0 (OpVariable 0) 32 frameExample = Some b'"
    by blast
  note t = applyAlignment_rounds_frame_sizes[where k = 4 and Alignment = 16 and Value = 20
      and T = X8632 and CallsReturnsTwice = False and ComputedLiveRanges = False
      and s = ?fe and P = 0 and pad = 4 and G = 12 and Sorted = "[1, 0]" and Linked = "[]"
      and ?s1.0 = s1 and SpillAreaAlignmentBytes = 8 and GlobalsSize = 12 and LocalsSize = LS
      and Size = 0 and LocalsSlotsAlignmentBytes = 0
      and p = frameExample and p' = p'
      and Arg = 3 and FramePtr = 0 and BasicFrameOffset = 8 and InArgsSizeBytes = 4
      and f = mulExample and InArgsSizeBytes' = 32 and f' = f'
      and CallArg = "OpVariable 3" and rest = "[]" and XmmArgs = ?xs and StackArgs = "[]"
      and StackArgLocations = "[]" and Params = 4 and c = mulExample and res = res
      and Dest = "Some 1" and CallTarget = ?f and CallArgs = "[OpVariable 0]"
      and HasSideEffects = True and d = callExample and d' = d'
      and ADest = 0 and ty = IceType_i32 and v = 20 and AlignInBytes = 0
      and a = frameExample and a' = a'
      and VDest = 0 and x = 0 and VAlignInBytes = 32 and b = frameExample and b' = b']
  \<comment> \<open>rounding\<close>
  have h1: "(4::nat) < 32 \<and> (16 :: uint32_t) = 2 ^ 4
            \<and> unat (20 :: uint32_t) + unat (16 :: uint32_t) - 1 < 2 ^ 32"
    by simp
  from t[THEN conjunct1, rule_format, OF h1]
  obtain r where r: "applyAlignment 20 16 = Some r" "unat (16 :: uint32_t) dvd unat r"
      "unat (20 :: uint32_t) \<le> unat r"
      "\<And>m. unat (16 :: uint32_t) dvd m \<and> unat (20 :: uint32_t) \<le> m \<Longrightarrow> unat r \<le> m"
    by blast
  from r(4)[of 32] have "unat r \<le> 32" by simp
  with r have w1: "\<exists>r. applyAlignment 20 16 = Some r \<and> 16 dvd unat r \<and> 20 \<le> unat r
                     \<and> unat r \<le> 32"
    by auto
  \<comment> \<open>the spill area\<close>
  note t2 = t[THEN conjunct2, THEN conjunct1, rule_format, OF conjI[OF sa sz]]
  from t2 have pd: "applyAlignment (X86_RET_IP_SIZE_BYTES + of_nat 0) 8
               = Some (X86_RET_IP_SIZE_BYTES + of_nat 0 + 4)"
    by simp
  from t2 have sp: "SpillAreaSizeBytes s1 = 16" by simp
  have w2: "\<exists>s1. addProlog_spillArea X8632 False False ?fe = Some ((0, 4, 12, [1, 0], []), s1)
          \<and> applyAlignment (X86_RET_IP_SIZE_BYTES + of_nat 0) 8
               = Some (X86_RET_IP_SIZE_BYTES + of_nat 0 + 4)
          \<and> SpillAreaSizeBytes s1 = 16"
    by (intro exI conjI) (rule sa pd sp)+
  \<comment> \<open>the frame size\<close>
  from t[THEN conjunct2, THEN conjunct2, THEN conjunct1, rule_format, OF conjI[OF p' n]]
  obtain Pp l p1 StackSize where
    f1: "addProlog_spillArea X8632 False False frameExample = Some ((Pp, l), p1)"
    and f2: "applyAlignment
            (of_nat (unat (X86_RET_IP_SIZE_BYTES + of_nat Pp :: uint32_t) + SpillAreaSizeBytes p1))
            X86_STACK_ALIGNMENT_BYTES = Some StackSize"
    and f3: "SpillAreaSizeBytes p' = unat (StackSize - (X86_RET_IP_SIZE_BYTES + of_nat Pp))"
    by (elim exE conjE) (rule that)
  have w3: "\<exists>p' Pp l p1 StackSize.
          addProlog X8632 False False frameExample = Some p'
        \<and> NeedsStackAlignment frameExample
        \<and> addProlog_spillArea X8632 False False frameExample = Some ((Pp, l), p1)
        \<and> applyAlignment
            (of_nat (unat (X86_RET_IP_SIZE_BYTES + of_nat Pp :: uint32_t) + SpillAreaSizeBytes p1))
            X86_STACK_ALIGNMENT_BYTES = Some StackSize
        \<and> SpillAreaSizeBytes p' = unat (StackSize - (X86_RET_IP_SIZE_BYTES + of_nat Pp))
        \<and> SpillAreaSizeBytes p' = 24"
    by (intro exI conjI) (rule p' n f1 f2 f3 p24)+
  \<comment> \<open>a vector argument on the stack\<close>
  from t[THEN conjunct2, THEN conjunct2, THEN conjunct2, THEN conjunct1, rule_format,
         OF conjI[OF fa vt]]
  obtain r' where
    g1: "applyAlignment (of_nat 4) X86_STACK_ALIGNMENT_BYTES = Some r'"
    and g2: "32 = unat r' + unat (typeWidthInBytesOnStack (Ty (getVar mulExample 3)))"
    and g3: "3 < length (Variables mulExample) \<longrightarrow> StackOffset (getVar f' 3) = int (8 + unat r')"
    by (elim exE conjE) (rule that)
  from g3 l3 have g3': "StackOffset (getVar f' 3) = int (8 + unat r')" by simp
  have w4: "\<exists>f' r. finishArgumentLowering 3 0 8 4 mulExample = Some (32, f')
        \<and> isVectorType (Ty (getVar mulExample 3))
        \<and> applyAlignment (of_nat 4) X86_STACK_ALIGNMENT_BYTES = Some r
        \<and> 32 = unat r + unat (typeWidthInBytesOnStack (Ty (getVar mulExample 3)))
        \<and> StackOffset (getVar f' 3) = int (8 + unat r)"
    by (intro exI conjI) (rule fa vt g1 g2 g3')+
  \<comment> \<open>a vector argument of a call\<close>
  from t[THEN conjunct2, THEN conjunct2, THEN conjunct2, THEN conjunct2, THEN conjunct1,
         rule_format, OF conjI[OF ca conjI[OF vt' full]]]
  obtain Params' esp c1 where
    k1: "applyAlignment 4 X86_STACK_ALIGNMENT_BYTES = Some Params'"
    and k2: "getPhysicalRegister (Reg_esp X8632) mulExample = Some (esp, c1)"
    and k3: "classifyArgs X8632 []
            (?xs, [] @ [OpVariable 3],
             [] @ [OpX8632Mem (getType mulExample (OpVariable 3)) (Some esp)
                     (Some (ConstantInteger IceType_i32 (ucast Params'))) None 0 DefaultSegment],
             Params' + typeWidthInBytesOnStack (getType mulExample (OpVariable 3))) c1
            = Some res"
    by (elim exE conjE) (rule that)
  have w5: "\<exists>res Params' esp c1.
          classifyArgs X8632 [OpVariable 3] (?xs, [], [], 4) mulExample = Some res
        \<and> applyAlignment 4 X86_STACK_ALIGNMENT_BYTES = Some Params'
        \<and> getPhysicalRegister (Reg_esp X8632) mulExample = Some (esp, c1)
        \<and> classifyArgs X8632 []
            (?xs, [] @ [OpVariable 3],
             [] @ [OpX8632Mem (getType mulExample (OpVariable 3)) (Some esp)
                     (Some (ConstantInteger IceType_i32 (ucast Params'))) None 0 DefaultSegment],
             Params' + typeWidthInBytesOnStack (getType mulExample (OpVariable 3))) c1
            = Some res"
    by (intro exI conjI) (rule ca k1 k2 k3)+
  \<comment> \<open>the parameter area of a call\<close>
  from t[THEN conjunct2, THEN conjunct2, THEN conjunct2, THEN conjunct2, THEN conjunct2,
         THEN conjunct1, rule_format, OF d']
  obtain Xs Ss Ls P0 d1 PA post where
    m1: "classifyArgs X8632 [OpVariable 0] ([], [], [], 0)
            (callExample\<lparr>NeedsStackAlignment := True\<rparr>) = Some ((Xs, Ss, Ls, P0), d1)"
    and m2: "applyAlignment P0 X86_STACK_ALIGNMENT_BYTES = Some PA"
    and m3: "Inserted d' = Inserted callExample
            @ (if PA \<noteq> 0 then [X86AdjustStack PA] else []) @ post"
    by (elim exE conjE) (rule that)
  have w6: "\<exists>d' Xs Ss Ls P0 d1 ParameterAreaSizeBytes post.
          lowerCall X8632 (Some 1) ?f [OpVariable 0] True callExample = Some d'
        \<and> classifyArgs X8632 [OpVariable 0] ([], [], [], 0)
            (callExample\<lparr>NeedsStackAlignment := True\<rparr>) = Some ((Xs, Ss, Ls, P0), d1)
        \<and> applyAlignment P0 X86_STACK_ALIGNMENT_BYTES = Some ParameterAreaSizeBytes
        \<and> Inserted d' = Inserted callExample
            @ (if ParameterAreaSizeBytes \<noteq> 0 then [X86AdjustStack ParameterAreaSizeBytes]
               else [])
            @ post"
    by (intro exI conjI) (rule d' m1 m2 m3)+
  \<comment> \<open>an alloca of a constant size\<close>
  have cmp: "\<not> max (max 0 1) X86_STACK_ALIGNMENT_BYTES > X86_STACK_ALIGNMENT_BYTES"
    by (simp add: X86_STACK_ALIGNMENT_BYTES_def)
  have ie: "Inserted frameExample = []" by (simp add: frameExample_def emptyFunc_def)
  from t[THEN conjunct2, THEN conjunct2, THEN conjunct2, THEN conjunct2, THEN conjunct2,
         THEN conjunct2, THEN conjunct1, rule_format, OF a']
  obtain aesp a1 Rounded where
    q1: "getPhysicalRegister (Reg_esp X8632)
            (frameExample\<lparr>IsEbpBasedFrame := True, NeedsStackAlignment := True\<rparr>)
            = Some (aesp, a1)"
    and q2: "applyAlignment (ucast (20 :: uint64_t)) (max (max 0 1) X86_STACK_ALIGNMENT_BYTES)
            = Some Rounded"
    and q3: "Inserted a' = Inserted frameExample
                @ (if max (max 0 1) X86_STACK_ALIGNMENT_BYTES > X86_STACK_ALIGNMENT_BYTES
                   then [X86 And (Some aesp)
                           [OpConstant (ConstantInteger IceType_i32
                              (ucast (- max (max 0 1) X86_STACK_ALIGNMENT_BYTES)))]]
                   else [])
                @ [X86 Sub (Some aesp) [OpConstant (ConstantInteger IceType_i32 (ucast Rounded))],
                   X86 Mov (Some 0) [OpVariable aesp]]"
    by (elim exE conjE) (rule that)
  from q3 have q3': "Inserted a'
            = [X86 Sub (Some aesp) [OpConstant (ConstantInteger IceType_i32 (ucast Rounded))],
               X86 Mov (Some 0) [OpVariable aesp]]"
    by (simp only: ie cmp if_False append_Nil)
  have w7: "\<exists>a' esp a1 Rounded.
          lowerAlloca X8632 0 (OpConstant (ConstantInteger IceType_i32 20)) 0 frameExample
            = Some a'
        \<and> getPhysicalRegister (Reg_esp X8632)
            (frameExample\<lparr>IsEbpBasedFrame := True, NeedsStackAlignment := True\<rparr>)
            = Some (esp, a1)
        \<and> applyAlignment (ucast (20 :: uint64_t)) (max (max 0 1) X86_STACK_ALIGNMENT_BYTES)
            = Some Rounded
        \<and> Inserted a'
            = [X86 Sub (Some esp) [OpConstant (ConstantInteger IceType_i32 (ucast Rounded))],
               X86 Mov (Some 0) [OpVariable esp]]"
    by (intro exI conjI) (rule a' q1 q2 q3')+
  \<comment> \<open>an alloca of a variable size\<close>
  have al: "max (max 32 1) X86_STACK_ALIGNMENT_BYTES = (32 :: uint32_t)"
    by (simp add: X86_STACK_ALIGNMENT_BYTES_def)
  have cmp': "(32 :: uint32_t) > X86_STACK_ALIGNMENT_BYTES"
    by (simp add: X86_STACK_ALIGNMENT_BYTES_def)
  from t[THEN conjunct2, THEN conjunct2, THEN conjunct2, THEN conjunct2, THEN conjunct2,
         THEN conjunct2, THEN conjunct2, rule_format, OF b']
  obtain besp b1 T1 where
    u1: "getPhysicalRegister (Reg_esp X8632)
            (frameExample\<lparr>IsEbpBasedFrame := True, NeedsStackAlignment := True\<rparr>)
            = Some (besp, b1)"
    and u2: "T1 = length (Variables b1)"
    and u3: "Inserted b' = Inserted frameExample
                @ (if max (max 32 1) X86_STACK_ALIGNMENT_BYTES > X86_STACK_ALIGNMENT_BYTES
                   then [X86 And (Some besp)
                           [OpConstant (ConstantInteger IceType_i32
                              (ucast (- max (max 32 1) X86_STACK_ALIGNMENT_BYTES)))]]
                   else [])
                @ [X86 Mov (Some T1) [OpVariable 0],
                   X86 Add (Some T1)
                     [OpConstant (ConstantInteger IceType_i32
                        (ucast (max (max 32 1) X86_STACK_ALIGNMENT_BYTES - 1)))],
                   X86 And (Some T1)
                     [OpConstant (ConstantInteger IceType_i32
                        (ucast (- max (max 32 1) X86_STACK_ALIGNMENT_BYTES)))],
                   X86 Sub (Some besp) [OpVariable T1],
                   X86 Mov (Some 0) [OpVariable besp]]"
    by (elim exE conjE) (rule that)
  from u3 have u3': "Inserted b'
            = [X86 And (Some besp) [OpConstant (ConstantInteger IceType_i32 (ucast (- 32 :: uint32_t)))],
               X86 Mov (Some T1) [OpVariable 0],
               X86 Add (Some T1) [OpConstant (ConstantInteger IceType_i32 31)],
               X86 And (Some T1) [OpConstant (ConstantInteger IceType_i32 (ucast (- 32 :: uint32_t)))],
               X86 Sub (Some besp) [OpVariable T1],
               X86 Mov (Some 0) [OpVariable besp]]"
    unfolding al ie using cmp' by simp
  have w8: "\<exists>b' esp b1 T1.
          lowerAlloca X8632 0 (OpVariable 0) 32 frameExample = Some b'
        \<and> getPhysicalRegister (Reg_esp X8632)
            (frameExample\<lparr>IsEbpBasedFrame := True, NeedsStackAlignment := True\<rparr>)
            = Some (esp, b1)
        \<and> T1 = length (Variables b1)
        \<and> Inserted b'
            = [X86 And (Some esp) [OpConstant (ConstantInteger IceType_i32 (ucast (- 32 :: uint32_t)))],
               X86 Mov (Some T1) [OpVariable 0],
               X86 Add (Some T1) [OpConstant (ConstantInteger IceType_i32 31)],
               X86 And (Some T1) [OpConstant (ConstantInteger IceType_i32 (ucast (- 32 :: uint32_t)))],
               X86 Sub (Some esp) [OpVariable T1],
               X86 Mov (Some 0) [OpVariable esp]]"
    by (intro exI conjI) (rule b' u1 u2 u3')+
  show ?thesis
    by (rule conjI[OF w1 conjI[OF w2 conjI[OF w3 conjI[OF w4 conjI[OF w5 conjI[OF w6
              conjI[OF w7 w8]]]]]]])
qed

theorem lowerAlloca_variable_size_counterexample:
  "map_option Inserted (lowerAlloca X8632 0 (OpVariable 0) 32 frameExample)
     = Some [X86 And (Some 3) [OpConstant (ConstantInteger IceType_i32 4294967264)],
             X86 Mov (Some 4) [OpVariable 0],
             X86 Add (Some 4) [OpConstant (ConstantInteger IceType_i32 31)],
             X86 And (Some 4) [OpConstant (ConstantInteger IceType_i32 4294967264)],
             X86 Sub (Some 3) [OpVariable 4],
             X86 Mov (Some 0) [OpVariable 3]]"
  by code_simp

end
